(* ===== verification/Go_Base.thy ===== *)
theory Go_Base
  imports Main "HOL-Library.Sublist"
begin

text \<open>
  The prelude of the development: the parts of Go and of its standard library that the service
  uses, and the generic lemmas about them.

  Strings are byte lists (\<^typ>\<open>string\<close>, each \<^typ>\<open>char\<close> one byte of the UTF-8 text, so
  \<open>length\<close> is Go's \<open>len\<close>). An instant (\<open>time.Time\<close>) is the number of nanoseconds since
  0001-01-01T00:00:00Z, so that Go's zero time is 0 and \<open>IsZero\<close> is \<open>= 0\<close>; a
  \<open>time.Duration\<close> is a number of nanoseconds. A call that returns \<open>(value, error)\<close> returns a
  sum: \<open>Inl\<close> the error, \<open>Inr\<close> the value.
\<close>

named_theorems go_simps \<open>unfoldings of the Go library functions used by the component proofs\<close>
named_theorems store_simps \<open>facts about the stores that the component proofs rewrite with\<close>

type_synonym time = int
type_synonym duration = int

section \<open>Errors as sums\<close>

definition is_ok :: "'e + 'a \<Rightarrow> bool" where
  "is_ok r \<longleftrightarrow> (case r of Inl _ \<Rightarrow> False | Inr _ \<Rightarrow> True)"

lemma is_ok_simps [simp]: "\<not> is_ok (Inl e)" "is_ok (Inr a)"
  by (simp_all add: is_ok_def)

lemma is_ok_iff: "is_ok r \<longleftrightarrow> (\<exists>a. r = Inr a)"
  by (cases r) simp_all

section \<open>Panics and nil interfaces\<close>

text \<open>
  A call either returns or panics. A value of an interface type is nil only when it was made from
  the untyped nil: a nil pointer stored in an interface is a non-nil interface (\<open>TypedNil\<close>), and
  calling a method that reads through the pointer panics.
\<close>

datatype 'a go = Panics string | Returns 'a

datatype 'a iface = is_nil: NilIface | TypedNil | Iface 'a

definition iface_of_pointer :: "'a option \<Rightarrow> 'a iface" where
  "iface_of_pointer p = (case p of None \<Rightarrow> TypedNil | Some a \<Rightarrow> Iface a)"

definition nil_dereference :: string where
  "nil_dereference = ''invalid memory address or nil pointer dereference''"

section \<open>Machine integers\<close>

text \<open>Go's \<open>int\<close> and \<open>int64\<close> arithmetic wraps around at 64 bits, \<open>int32\<close> at 32 bits.\<close>

definition wrap64 :: "int \<Rightarrow> int" where
  "wrap64 x = (x + 2 ^ 63) mod 2 ^ 64 - 2 ^ 63"

definition wrap32 :: "int \<Rightarrow> int" where
  "wrap32 x = (x + 2 ^ 31) mod 2 ^ 32 - 2 ^ 31"

definition min_int64 :: int where "min_int64 = - (2 ^ 63)"
definition max_int64 :: int where "max_int64 = 2 ^ 63 - 1"

lemma wrap64_id [simp]: "- (2 ^ 63) \<le> x \<Longrightarrow> x < 2 ^ 63 \<Longrightarrow> wrap64 x = x"
  by (simp add: wrap64_def)

lemma wrap32_id [simp]: "- (2 ^ 31) \<le> x \<Longrightarrow> x < 2 ^ 31 \<Longrightarrow> wrap32 x = x"
  by (simp add: wrap32_def)

lemma wrap32_bounds: "- (2 ^ 31) \<le> wrap32 x" "wrap32 x < 2 ^ 31"
  by (simp_all add: wrap32_def)

section \<open>Time and durations\<close>

abbreviation millisecond :: duration where "millisecond \<equiv> 1000000"
abbreviation second :: duration where "second \<equiv> 1000000000"
abbreviation minute :: duration where "minute \<equiv> 60 * second"
abbreviation hour :: duration where "hour \<equiv> 60 * minute"

text \<open>\<open>t.Sub(u)\<close> saturates at the ends of the \<open>int64\<close> range; \<open>time.Until(t)\<close> is \<open>t.Sub(now)\<close>.\<close>

definition time_Sub :: "time \<Rightarrow> time \<Rightarrow> duration" where
  "time_Sub t u = max min_int64 (min max_int64 (t - u))"

text \<open>\<open>Duration.Round(m)\<close>: to the nearest multiple of \<open>m\<close>, halves away from zero, saturating.\<close>

definition duration_Round :: "duration \<Rightarrow> duration \<Rightarrow> duration" where
  "duration_Round d m =
     (if m \<le> 0 then d
      else if d < 0 then
        (let r = (- d) mod m in
         if r + r < m then d + r
         else if min_int64 \<le> d - m + r then d - m + r else min_int64)
      else
        (let r = d mod m in
         if r + r < m then d - r
         else if d + m - r \<le> max_int64 then d + m - r else max_int64))"

lemma time_Sub_id: "- (2 ^ 63) \<le> t - u \<Longrightarrow> t - u < 2 ^ 63 \<Longrightarrow> time_Sub t u = t - u"
  by (simp add: time_Sub_def min_int64_def max_int64_def)

lemma duration_Round_near:
  assumes "0 \<le> d" and "0 < m" and "d + m \<le> max_int64"
  shows "d - m < 2 * duration_Round d m - d" "2 * duration_Round d m - d \<le> d + m"
proof -
  have r: "0 \<le> d mod m" "d mod m < m"
    using assms(2) by simp_all
  show "d - m < 2 * duration_Round d m - d" "2 * duration_Round d m - d \<le> d + m"
    using assms r by (auto simp: duration_Round_def Let_def)
qed

section \<open>Strings\<close>

definition is_digit :: "char \<Rightarrow> bool" where
  "is_digit c \<longleftrightarrow> 48 \<le> (of_char c :: nat) \<and> of_char c \<le> (57 :: nat)"

definition digit_val :: "char \<Rightarrow> nat" where
  "digit_val c = of_char c - 48"

definition digit_char :: "nat \<Rightarrow> char" where
  "digit_char n = char_of (48 + n)"

lemma digit_char_digit [simp]: "n < 10 \<Longrightarrow> is_digit (digit_char n)"
  by (simp add: is_digit_def digit_char_def)

lemma digit_val_char [simp]: "n < 10 \<Longrightarrow> digit_val (digit_char n) = n"
  by (simp add: digit_val_def digit_char_def)

text \<open>
  \<open>strings.TrimSpace\<close>: the white space of \<open>unicode.IsSpace\<close>, as its UTF-8 encodings. A rune of
  the list at the start (at the end) of a byte string is decoded there by \<open>DecodeRune\<close>
  (\<open>DecodeLastRune\<close>) exactly when its encoding is a prefix (a suffix).
\<close>

definition space_runes :: "string list" where
  "space_runes = map (map (char_of :: nat \<Rightarrow> char))
     ([[9], [10], [11], [12], [13], [32], [194, 133], [194, 160], [225, 154, 128]]
      @ map (\<lambda>n. [226, 128, n]) [128, 129, 130, 131, 132, 133, 134, 135, 136, 137, 138, 168, 169, 175]
      @ [[226, 129, 159], [227, 128, 128]])"

fun strip_one :: "string list \<Rightarrow> string \<Rightarrow> string option" where
  "strip_one [] s = None"
| "strip_one (w # ws) s =
     (if w \<noteq> [] \<and> prefix w s then Some (drop (length w) s) else strip_one ws s)"

lemma strip_one_shorter: "strip_one ws s = Some r \<Longrightarrow> length r < length s"
  by (induction ws) (auto simp: prefix_def split: if_splits)

function strip_all :: "string list \<Rightarrow> string \<Rightarrow> string" where
  "strip_all ws s = (case strip_one ws s of None \<Rightarrow> s | Some r \<Rightarrow> strip_all ws r)"
  by pat_completeness auto
termination
  by (relation "measure (length \<circ> snd)") (auto dest: strip_one_shorter)

declare strip_all.simps [simp del]

definition TrimSpace :: "string \<Rightarrow> string" where
  "TrimSpace s = rev (strip_all (map rev space_runes) (rev (strip_all space_runes s)))"

lemma strip_one_None:
  "strip_one ws s = None \<longleftrightarrow> (\<forall>w\<in>set ws. w = [] \<or> \<not> prefix w s)"
  by (induction ws) auto

lemma strip_one_suffix: "strip_one ws s = Some r \<Longrightarrow> suffix r s"
  by (induction ws) (auto simp: suffix_drop split: if_splits)

lemma strip_all_fix: "strip_one ws s = None \<Longrightarrow> strip_all ws s = s"
  by (simp add: strip_all.simps)

lemma strip_all_stop: "strip_one ws (strip_all ws s) = None"
proof (induction ws s rule: strip_all.induct)
  case (1 ws s)
  then show ?case
    by (cases "strip_one ws s") (simp_all add: strip_all.simps [of ws s])
qed

lemma strip_all_suffix: "suffix (strip_all ws s) s"
proof (induction ws s rule: strip_all.induct)
  case (1 ws s)
  show ?case
  proof (cases "strip_one ws s")
    case None
    then show ?thesis by (simp add: strip_all.simps [of ws s])
  next
    case (Some r)
    then have "suffix (strip_all ws r) r" "suffix r s"
      using 1 by (simp_all add: strip_one_suffix)
    with Some show ?thesis
      by (simp add: strip_all.simps [of ws s])
  qed
qed

lemma TrimSpace_prefix: "prefix (TrimSpace s) (strip_all space_runes s)"
  using strip_all_suffix [of "map rev space_runes" "rev (strip_all space_runes s)"]
  by (simp add: TrimSpace_def suffix_to_prefix)

theorem TrimSpace_idem [simp]: "TrimSpace (TrimSpace s) = TrimSpace s"
proof -
  have "strip_one space_runes (TrimSpace s) = None"
    using strip_all_stop [of space_runes s] TrimSpace_prefix [of s]
    unfolding strip_one_None by (meson prefix_order.trans)
  then have "strip_all space_runes (TrimSpace s) = TrimSpace s"
    by (rule strip_all_fix)
  moreover have "strip_all (map rev space_runes) (rev (TrimSpace s)) = rev (TrimSpace s)"
    unfolding TrimSpace_def by (simp add: strip_all_fix strip_all_stop)
  ultimately show ?thesis
    by (simp add: TrimSpace_def [of "TrimSpace s"])
qed

lemma TrimSpace_Nil [simp]: "TrimSpace [] = []"
  using TrimSpace_prefix [of "[]"] strip_all_suffix [of space_runes "[]"] by simp

text \<open>A text that starts and ends with a visible ASCII character is its own trim.\<close>

definition visible :: "char \<Rightarrow> bool" where
  "visible c \<longleftrightarrow> 33 \<le> (of_char c :: nat) \<and> of_char c < (127 :: nat)"

lemma space_runes_ends: "list_all (\<lambda>w. w \<noteq> [] \<and> \<not> visible (hd w) \<and> \<not> visible (last w)) space_runes"
  by (simp add: space_runes_def visible_def)

lemma TrimSpace_visible:
  assumes "s \<noteq> []" and "visible (hd s)" and "visible (last s)"
  shows "TrimSpace s = s"
proof -
  have "hd w = hd s" if "prefix w s" "w \<noteq> []" for w using that by (auto simp: prefix_def)
  then have "strip_one space_runes s = None"
    using space_runes_ends assms(2) by (auto simp: strip_one_None list_all_iff)
  moreover have "last w = last s" if "prefix (rev w) (rev s)" "w \<noteq> []" for w
    using that by (auto simp: prefix_def rev_eq_append_conv)
  then have "strip_one (map rev space_runes) (rev s) = None"
    using space_runes_ends assms(3) by (auto simp: strip_one_None list_all_iff)
  ultimately show ?thesis by (simp add: TrimSpace_def strip_all_fix)
qed

text \<open>
  \<open>strings.ToLower\<close> on an ASCII string; on any other string Go maps the runes by the Unicode case
  tables, which are the parameter \<open>uni\<close>.
\<close>

definition is_ascii :: "char \<Rightarrow> bool" where
  "is_ascii c \<longleftrightarrow> (of_char c :: nat) < 128"

definition ascii_lower :: "char \<Rightarrow> char" where
  "ascii_lower c =
     (if 65 \<le> (of_char c :: nat) \<and> of_char c \<le> (90 :: nat) then char_of (of_char c + 32 :: nat) else c)"

definition ToLower :: "(string \<Rightarrow> string) \<Rightarrow> string \<Rightarrow> string" where
  "ToLower uni s = (if list_all is_ascii s then map ascii_lower s else uni s)"

definition HasPrefix :: "string \<Rightarrow> string \<Rightarrow> bool" where
  "HasPrefix s p \<longleftrightarrow> prefix p s"

definition TrimPrefix :: "string \<Rightarrow> string \<Rightarrow> string" where
  "TrimPrefix s p = (if prefix p s then drop (length p) s else s)"

text \<open>\<open>strings.Split\<close> by a one-byte separator, and \<open>strings.SplitN\<close> with \<open>n = 2\<close>.\<close>

fun Split :: "string \<Rightarrow> char \<Rightarrow> string list" where
  "Split [] sep = [[]]"
| "Split (c # cs) sep =
     (if c = sep then [] # Split cs sep
      else (case Split cs sep of [] \<Rightarrow> [[c]] | w # ws \<Rightarrow> (c # w) # ws))"

definition SplitN2 :: "string \<Rightarrow> char \<Rightarrow> string list" where
  "SplitN2 s sep =
     (if sep \<in> set s
      then [takeWhile (\<lambda>c. c \<noteq> sep) s, tl (dropWhile (\<lambda>c. c \<noteq> sep) s)]
      else [s])"

lemma Split_single: "sep \<notin> set s \<Longrightarrow> Split s sep = [s]"
  by (induction s) auto

lemma Split_not_Nil [simp]: "Split s sep \<noteq> []"
  by (cases s) (auto split: list.split)

section \<open>Decimal numbers\<close>

fun nat_string :: "nat \<Rightarrow> string" where
  "nat_string n = (if n < 10 then [digit_char n] else nat_string (n div 10) @ [digit_char (n mod 10)])"

declare nat_string.simps [simp del]

definition Itoa :: "int \<Rightarrow> string" where
  "Itoa i = (if i < 0 then CHR ''-'' # nat_string (nat (- i)) else nat_string (nat i))"

definition digits_val :: "string \<Rightarrow> nat" where
  "digits_val s = foldl (\<lambda>a c. 10 * a + digit_val c) 0 s"

datatype num_error = ErrSyntax | ErrRange

text \<open>
  \<open>strconv.Atoi\<close>: an optional sign and decimal digits. On a syntax error the value returned beside
  the error is 0; out of the \<open>int64\<close> range it is the nearest bound.
\<close>

definition Atoi :: "string \<Rightarrow> int \<times> num_error option" where
  "Atoi s =
     (let neg = (s \<noteq> [] \<and> hd s = CHR ''-'');
          ds = (if s \<noteq> [] \<and> (hd s = CHR ''-'' \<or> hd s = CHR ''+'') then tl s else s);
          v = (if neg then - int (digits_val ds) else int (digits_val ds))
      in if ds = [] \<or> \<not> list_all is_digit ds then (0, Some ErrSyntax)
         else if v < min_int64 then (min_int64, Some ErrRange)
         else if v > max_int64 then (max_int64, Some ErrRange)
         else (v, None))"

lemma digits_val_snoc: "digits_val (s @ [c]) = 10 * digits_val s + digit_val c"
  by (simp add: digits_val_def)

lemma digits_val_nat_string [simp]: "digits_val (nat_string n) = n"
proof (induction n rule: nat_string.induct)
  case (1 n)
  show ?case
  proof (cases "n < 10")
    case True
    then show ?thesis by (simp add: nat_string.simps [of n] digits_val_def)
  next
    case False
    with 1 have "digits_val (nat_string (n div 10)) = n div 10" by simp
    with False show ?thesis
      by (simp add: nat_string.simps [of n] digits_val_snoc)
  qed
qed

lemma nat_string_digits [simp]: "list_all is_digit (nat_string n)"
proof (induction n rule: nat_string.induct)
  case (1 n)
  then show ?case
    by (cases "n < 10") (simp_all add: nat_string.simps [of n])
qed

lemma nat_string_not_Nil [simp]: "nat_string n \<noteq> []"
  by (subst nat_string.simps) simp

lemma nat_string_hd: "is_digit (hd (nat_string n))"
  using nat_string_digits [of n] nat_string_not_Nil [of n]
  by (cases "nat_string n") auto

lemma sign_not_digit: "\<not> is_digit (CHR ''-'')" "\<not> is_digit (CHR ''+'')"
  by (simp_all add: is_digit_def)

theorem Atoi_Itoa:
  assumes "min_int64 \<le> i" and "i \<le> max_int64"
  shows "Atoi (Itoa i) = (i, None)"
proof -
  have "hd (nat_string n) \<noteq> CHR ''-''" "hd (nat_string n) \<noteq> CHR ''+''" for n
    using nat_string_hd [of n] sign_not_digit by metis+
  then show ?thesis
    using assms by (simp add: Atoi_def Itoa_def Let_def)
qed

lemma nat_string_inj: "nat_string m = nat_string n \<Longrightarrow> m = n"
  using digits_val_nat_string by metis

section \<open>Boolean flags\<close>

definition ParseBool :: "string \<Rightarrow> num_error + bool" where
  "ParseBool s =
     (if s \<in> {''1'', ''t'', ''T'', ''true'', ''TRUE'', ''True''} then Inr True
      else if s \<in> {''0'', ''f'', ''F'', ''false'', ''FALSE'', ''False''} then Inr False
      else Inl ErrSyntax)"

end
