(* ===== verification/Go_Float.thy ===== *)
theory Go_Float
  imports Go_Base Complex_Main "HOL-Library.Log_Nat"
begin

text \<open>
  Go's \<open>float64\<close> on finite values, as the rational numbers they are: \<open>fl\<close> rounds an exact result to
  53 significant bits, to nearest with ties to even, and every operation of the program is the exact
  operation followed by \<open>fl\<close>. The magnitudes of the program stay far below \<open>2 ^ 1024\<close>, where the
  format ends. \<open>time.ParseDuration\<close> needs it for its fractions.
\<close>

section \<open>Rounding\<close>

definition pow2 :: "int \<Rightarrow> rat" where
  "pow2 e = (if 0 \<le> e then 2 ^ nat e else 1 / 2 ^ nat (- e))"

definition round_even :: "rat \<Rightarrow> int" where
  "round_even q =
     (let f = \<lfloor>q\<rfloor>; r = q - of_int f in
      if r < 1 / 2 then f else if 1 / 2 < r then f + 1 else if even f then f else f + 1)"

text \<open>The binary exponent of a positive number, and the unit of its last place.\<close>

definition exponent :: "rat \<Rightarrow> int" where
  "exponent q =
     (case quotient_of q of (n, d) \<Rightarrow>
        (let e = bitlen n - bitlen d in
         if pow2 e \<le> q then e else e - 1))"

definition ulp :: "rat \<Rightarrow> rat" where
  "ulp q = pow2 (max (- 1074) (exponent q - 52))"

definition fl :: "rat \<Rightarrow> rat" where
  "fl q =
     (if q = 0 then 0
      else if q < 0 then - (of_int (round_even (- q / ulp (- q))) * ulp (- q))
      else of_int (round_even (q / ulp q)) * ulp q)"

lemma pow2_pos [simp]: "0 < pow2 e"
  by (simp add: pow2_def)

lemma ulp_pos [simp]: "0 < ulp q"
  by (simp add: ulp_def)

lemma round_even_near: "\<bar>of_int (round_even q) - q\<bar> \<le> 1 / 2"
  unfolding round_even_def Let_def abs_le_iff by (auto; linarith)

lemma round_even_of_int [simp]: "round_even (of_int n) = n"
  by (simp add: round_even_def)

lemma round_even_mono: "q \<le> r \<Longrightarrow> round_even q \<le> round_even r"
proof (cases "\<lfloor>q\<rfloor> = \<lfloor>r\<rfloor>")
  case False
  assume "q \<le> r"
  with False have "\<lfloor>q\<rfloor> + 1 \<le> \<lfloor>r\<rfloor>" by (simp add: floor_mono order_less_le zless_imp_add1_zle)
  moreover have "round_even q \<le> \<lfloor>q\<rfloor> + 1" "\<lfloor>r\<rfloor> \<le> round_even r"
    by (simp_all add: round_even_def Let_def)
  ultimately show ?thesis by linarith
qed (auto simp: round_even_def Let_def)

lemma fl_nonneg: "0 \<le> q \<Longrightarrow> 0 \<le> fl q"
proof -
  assume "0 \<le> q"
  then have "0 \<le> round_even (q / ulp q)"
    using round_even_mono [of 0 "q / ulp q"] round_even_of_int [of 0]
    by (simp add: less_imp_le)
  with \<open>0 \<le> q\<close> show ?thesis by (simp add: fl_def less_imp_le)
qed

lemma fl_near: "0 < q \<Longrightarrow> \<bar>fl q - q\<bar> \<le> ulp q / 2"
proof -
  assume q: "0 < q"
  have "fl q - q = (of_int (round_even (q / ulp q)) - q / ulp q) * ulp q"
    using q by (simp add: fl_def left_diff_distrib less_imp_neq [OF ulp_pos, symmetric])
  then have "\<bar>fl q - q\<bar> = \<bar>of_int (round_even (q / ulp q)) - q / ulp q\<bar> * ulp q"
    by (simp add: abs_mult abs_of_pos)
  also have "\<dots> \<le> 1 / 2 * ulp q"
    by (rule mult_right_mono [OF round_even_near]) (simp add: less_imp_le)
  finally show ?thesis by simp
qed

text \<open>Rounding does not pass an integer below \<open>2 ^ 52\<close>.\<close>

lemma pow2_add: "pow2 (a + b) = pow2 a * pow2 b"
  by (auto simp: pow2_def power_add [symmetric] nat_add_distrib [symmetric] field_simps simp del: power_add)

lemma pow2_mono: "a \<le> b \<Longrightarrow> pow2 a \<le> pow2 b"
proof -
  assume "a \<le> b"
  then have "1 \<le> pow2 (b - a)" by (simp add: pow2_def)
  then have "pow2 a * 1 \<le> pow2 a * pow2 (b - a)" by (rule mult_left_mono) (simp add: less_imp_le)
  then show ?thesis by (simp add: pow2_add [symmetric])
qed

lemma pow2_bitlen: "0 < n \<Longrightarrow> pow2 (bitlen n - 1) \<le> of_int n \<and> of_int n \<le> pow2 (bitlen n)"
proof -
  assume n: "0 < n"
  then have "1 \<le> bitlen n" using bitlen_eq_zero_iff [of n] bitlen_nonneg [of n] by linarith
  moreover have "of_int (2 ^ nat (bitlen n - 1)) \<le> (of_int n :: rat)" "(of_int n :: rat) \<le> of_int (2 ^ nat (bitlen n))"
    using bitlen_bounds [OF n] of_int_le_iff less_imp_le by blast+
  ultimately show ?thesis by (simp add: pow2_def)
qed

lemma pow2_exponent: "0 < q \<Longrightarrow> pow2 (exponent q) \<le> q"
proof -
  assume "0 < q"
  obtain n d where nd: "quotient_of q = (n, d)" by fastforce
  then have d: "0 < d" and q: "q = of_int n / of_int d"
    by (simp_all add: quotient_of_denom_pos quotient_of_div)
  with \<open>0 < q\<close> have n: "0 < n" by (simp add: zero_less_divide_iff)
  have "of_int d \<le> pow2 (bitlen d)" "pow2 (bitlen n - 1) \<le> of_int n"
    using pow2_bitlen [OF d] pow2_bitlen [OF n] by simp_all
  then have "pow2 (bitlen n - 1 - bitlen d) * of_int d \<le> pow2 (bitlen n - 1 - bitlen d) * pow2 (bitlen d)"
    by (intro mult_left_mono) (simp_all add: less_imp_le)
  also have "\<dots> = pow2 (bitlen n - 1)"
    by (simp add: pow2_add [symmetric])
  finally have "pow2 (bitlen n - 1 - bitlen d) * of_int d \<le> of_int n"
    using \<open>pow2 (bitlen n - 1) \<le> of_int n\<close> by simp
  then have "pow2 (bitlen n - bitlen d - 1) * of_int d \<le> of_int n"
    by (simp add: algebra_simps)
  then have "pow2 (bitlen n - bitlen d - 1) \<le> q"
    using d q by (simp add: pos_le_divide_eq)
  then show ?thesis by (simp add: exponent_def nd Let_def)
qed

lemma ulp_below:
  assumes "0 < q" and "q < 2 ^ 52"
  obtains m where "ulp q = 1 / 2 ^ m"
proof -
  have "pow2 (exponent q) < 2 ^ 52" using pow2_exponent [OF assms(1)] assms(2) by linarith
  then have "pow2 (exponent q) < pow2 52" by (simp add: pow2_def)
  then have "exponent q < 52" using pow2_mono [of 52 "exponent q"] by linarith
  then obtain m where "max (- 1074) (exponent q - 52) = - int m"
    by (intro that [of "nat (- max (- 1074) (exponent q - 52))"]) simp
  then show thesis by (intro that [of m]) (auto simp: ulp_def pow2_def)
qed

lemma fl_le_int:
  assumes "0 \<le> q" and "q \<le> of_int k" and "k < 2 ^ 52"
  shows "fl q \<le> of_int k"
proof (cases "q = 0")
  case True
  with assms(2) show ?thesis by (simp add: fl_def)
next
  case False
  with assms(1) have q: "0 < q" by simp
  have "of_int k < (of_int (2 ^ 52) :: rat)" using assms(3) of_int_less_iff by blast
  with assms(2) have "q < 2 ^ 52" by simp
  with q obtain m where u: "ulp q = 1 / 2 ^ m" by (rule ulp_below)
  have "q / ulp q \<le> of_int (k * 2 ^ m)" using assms(2) by (simp add: u)
  then have "round_even (q / ulp q) \<le> k * 2 ^ m" using round_even_mono round_even_of_int by metis
  then have "of_int (round_even (q / ulp q)) \<le> (of_int (k * 2 ^ m) :: rat)" by (rule of_int_le_iff [THEN iffD2])
  then show ?thesis using q by (simp add: fl_def u pos_divide_le_eq)
qed

lemma fl_of_int:
  assumes "0 \<le> n" and "n < 2 ^ 52"
  shows "fl (of_int n) = of_int n"
proof (cases "n = 0")
  case False
  have "of_int n < (of_int (2 ^ 52) :: rat)" using assms(2) of_int_less_iff by blast
  with False assms(1) have q: "0 < (of_int n :: rat)" "of_int n < (2 ^ 52 :: rat)" by simp_all
  then obtain m where u: "ulp (of_int n) = 1 / 2 ^ m" by (rule ulp_below)
  have "of_int n / ulp (of_int n) = of_int (n * 2 ^ m)" by (simp add: u)
  then have "round_even (of_int n / ulp (of_int n)) = n * 2 ^ m" by (simp only: round_even_of_int)
  then show ?thesis using q False assms(1) by (simp add: fl_def u)
qed (simp add: fl_def)

lemma fl_ge_int:
  assumes "0 \<le> k" and "of_int k \<le> q" and "q < 2 ^ 52"
  shows "of_int k \<le> fl q"
proof (cases "k = 0")
  case True
  with assms show ?thesis by (simp add: fl_nonneg)
next
  case False
  with assms(1) have "0 < (of_int k :: rat)" by simp
  with assms(2) have q: "0 < q" by linarith
  with assms(3) obtain m where u: "ulp q = 1 / 2 ^ m" using ulp_below by blast
  have "of_int (k * 2 ^ m) \<le> q / ulp q" using assms(2) by (simp add: u)
  then have "k * 2 ^ m \<le> round_even (q / ulp q)" using round_even_mono round_even_of_int by metis
  then have "of_int (k * 2 ^ m) \<le> (of_int (round_even (q / ulp q)) :: rat)" by (rule of_int_le_iff [THEN iffD2])
  then show ?thesis using q by (simp add: fl_def u pos_le_divide_eq)
qed

text \<open>The exponent is the one with \<open>2 ^ e \<le> q < 2 ^ (e + 1)\<close>.\<close>

lemma pow2_less_exponent: "0 < q \<Longrightarrow> q < pow2 (exponent q + 1)"
proof -
  assume "0 < q"
  obtain n d where nd: "quotient_of q = (n, d)" by fastforce
  then have d: "0 < d" and q: "q = of_int n / of_int d"
    by (simp_all add: quotient_of_denom_pos quotient_of_div)
  with \<open>0 < q\<close> have n: "0 < n" by (simp add: zero_less_divide_iff)
  have "of_int n < (of_int (2 ^ nat (bitlen n)) :: rat)" using bitlen_bounds [OF n] of_int_less_iff by blast
  then have "of_int n < pow2 (bitlen n)" by (simp add: pow2_def bitlen_nonneg)
  also have "\<dots> = pow2 (bitlen n - bitlen d + 1) * pow2 (bitlen d - 1)" by (simp add: pow2_add [symmetric])
  also have "\<dots> \<le> pow2 (bitlen n - bitlen d + 1) * of_int d"
    using pow2_bitlen [OF d] by (intro mult_left_mono) (simp_all add: less_imp_le)
  finally have "q < pow2 (bitlen n - bitlen d + 1)" using d q by (simp add: pos_divide_less_eq)
  then show ?thesis by (auto simp: exponent_def nd Let_def)
qed

lemma exponent_less: "0 < q \<Longrightarrow> q < pow2 e \<Longrightarrow> exponent q < e"
  using pow2_exponent [of q] pow2_mono [of e "exponent q"] by linarith

lemma exponent_ge: "0 < q \<Longrightarrow> pow2 e \<le> q \<Longrightarrow> e \<le> exponent q"
  using pow2_less_exponent [of q] pow2_mono [of "exponent q + 1" e] by linarith

text \<open>Just below an integer: rounded down to the next number of the format, or up to the integer.\<close>

lemma round_even_below: "q < of_int k - 1 / 2 \<Longrightarrow> round_even q < k"
  unfolding round_even_def Let_def by (auto; linarith)

lemma round_even_up: "of_int k - 1 / 2 < q \<Longrightarrow> q \<le> of_int k \<Longrightarrow> round_even q = k"
  unfolding round_even_def Let_def by (auto; linarith)

lemma fl_below_int:
  assumes "0 < q" and "q < 2 ^ 52" and "q + ulp q / 2 < of_int k"
  shows "fl q \<le> of_int k - ulp q"
proof -
  obtain m where u: "ulp q = 1 / 2 ^ m" using ulp_below [OF assms(1,2)] .
  have "q / ulp q < of_int (k * 2 ^ m) - 1 / 2" using assms(3) by (simp add: u field_simps)
  then have "round_even (q / ulp q) \<le> k * 2 ^ m - 1" using round_even_below by fastforce
  then have "of_int (round_even (q / ulp q)) \<le> (of_int (k * 2 ^ m - 1) :: rat)" by (rule of_int_le_iff [THEN iffD2])
  then show ?thesis using assms(1) by (simp add: fl_def u field_simps)
qed

lemma fl_up_int:
  assumes "0 < q" and "q < 2 ^ 52" and "of_int k < q + ulp q / 2" and "q \<le> of_int k"
  shows "fl q = of_int k"
proof -
  obtain m where u: "ulp q = 1 / 2 ^ m" using ulp_below [OF assms(1,2)] .
  have "of_int (k * 2 ^ m) - 1 / 2 < q / ulp q" "q / ulp q \<le> of_int (k * 2 ^ m)"
    using assms(3,4) by (simp_all add: u field_simps)
  then have "round_even (q / ulp q) = k * 2 ^ m" by (rule round_even_up)
  then show ?thesis using assms(1) by (simp add: fl_def u)
qed

section \<open>Durations as texts\<close>

text \<open>
  \<open>time.ParseDuration\<close>: a sign, then numbers with an optional fraction, each followed by a unit.
  The sum is kept in 64 bits without sign; every error returns the duration 0.
\<close>

definition unit_map :: "string \<Rightarrow> int option" where
  "unit_map u =
     map_of [(''ns'', 1), (''us'', 1000), ([CHR 0xC2, CHR 0xB5, CHR ''s''], 1000),
             ([CHR 0xCE, CHR 0xBC, CHR ''s''], 1000), (''ms'', 1000000), (''s'', 1000000000),
             (''m'', 60000000000), (''h'', 3600000000000)] u"

fun leadingInt :: "int \<Rightarrow> string \<Rightarrow> (int \<times> string) option" where
  "leadingInt x [] = Some (x, [])"
| "leadingInt x (c # cs) =
     (if \<not> is_digit c then Some (x, c # cs)
      else if 2 ^ 63 div 10 < x then None
      else (let y = x * 10 + int (digit_val c) in if 2 ^ 63 < y then None else leadingInt y cs))"

fun leadingFraction :: "bool \<Rightarrow> int \<Rightarrow> int \<Rightarrow> string \<Rightarrow> int \<times> int \<times> string" where
  "leadingFraction overflow x scale [] = (x, scale, [])"
| "leadingFraction overflow x scale (c # cs) =
     (if \<not> is_digit c then (x, scale, c # cs)
      else if overflow \<or> (2 ^ 63 - 1) div 10 < x \<or> 2 ^ 63 < x * 10 + int (digit_val c)
      then leadingFraction True x scale cs
      else leadingFraction False (x * 10 + int (digit_val c)) (scale * 10) cs)"

definition unit_char :: "char \<Rightarrow> bool" where
  "unit_char c \<longleftrightarrow> c \<noteq> CHR ''.'' \<and> \<not> is_digit c"

definition fraction_ns :: "int \<Rightarrow> int \<Rightarrow> int \<Rightarrow> int" where
  "fraction_ns f unit scale = \<lfloor>fl (fl (of_int f) * fl (of_int unit / of_int scale))\<rfloor>"

text \<open>One number with its unit: its value and the rest of the text.\<close>

definition duration_term :: "string \<Rightarrow> (int \<times> string) option" where
  "duration_term s =
     (if s = [] \<or> unit_char (hd s) then None
      else (case leadingInt 0 s of None \<Rightarrow> None | Some (v, s1) \<Rightarrow>
        (let dot = (s1 \<noteq> [] \<and> hd s1 = CHR ''.'');
             (f, scale, s2) = (if dot then leadingFraction False 0 1 (tl s1) else (0, 1, s1));
             pre = (length s1 \<noteq> length s);
             post = (dot \<and> length s2 \<noteq> length (tl s1));
             u = takeWhile unit_char s2
         in if \<not> pre \<and> \<not> post \<or> u = [] then None
            else (case unit_map u of None \<Rightarrow> None | Some unit \<Rightarrow>
              if 2 ^ 63 div unit < v then None
              else (let v' = v * unit + (if 0 < f then fraction_ns f unit scale else 0) in
                    if 0 < f \<and> 2 ^ 63 < v' then None
                    else Some (v', dropWhile unit_char s2))))))"

lemma leadingInt_rest: "leadingInt x s = Some (v, r) \<Longrightarrow> length r \<le> length s"
  by (induction x s rule: leadingInt.induct) (auto simp: Let_def split: if_splits)

lemma leadingFraction_rest: "leadingFraction ov x sc s = (f, sc', r) \<Longrightarrow> length r \<le> length s"
  by (induction ov x sc s rule: leadingFraction.induct) (auto split: if_splits)

lemma unit_shorter:
  "takeWhile unit_char s2 \<noteq> [] \<Longrightarrow> length s2 \<le> n \<Longrightarrow> length (dropWhile unit_char s2) < n"
  by (cases s2) (auto intro: le_less_trans [OF length_dropWhile_le] split: if_splits)

lemma duration_term_shorter:
  assumes "duration_term s = Some (v, r)"
  shows "length r < length s"
proof -
  from assms obtain w s1 where li: "leadingInt 0 s = Some (w, s1)"
    by (auto simp: duration_term_def split: if_splits option.splits)
  let ?dot = "s1 \<noteq> [] \<and> hd s1 = CHR ''.''"
  obtain f sc s2 where fr: "(if ?dot then leadingFraction False 0 1 (tl s1) else (0, 1, s1)) = (f, sc, s2)"
    by (metis prod_cases3)
  have "length s2 \<le> length s1"
    using fr leadingFraction_rest [of False 0 1 "tl s1" f sc s2] by (auto split: if_splits)
  then have s2: "length s2 \<le> length s" using leadingInt_rest [OF li] by simp
  from assms li fr have "takeWhile unit_char s2 \<noteq> []" and "r = dropWhile unit_char s2"
    by (auto simp: duration_term_def Let_def split: if_splits option.splits)
  with s2 show ?thesis using unit_shorter by simp
qed

function duration_terms :: "int \<Rightarrow> string \<Rightarrow> int option" where
  "duration_terms d s =
     (if s = [] then Some d
      else (case duration_term s of None \<Rightarrow> None
            | Some (v, r) \<Rightarrow>
                (let d' = (d + v) mod 2 ^ 64 in if 2 ^ 63 < d' then None else duration_terms d' r)))"
  by pat_completeness auto
termination
  by (relation "measure (length \<circ> snd)") (auto dest: duration_term_shorter)

declare duration_terms.simps [simp del]

definition ParseDuration :: "string \<Rightarrow> duration option" where
  "ParseDuration orig =
     (let neg = (orig \<noteq> [] \<and> hd orig = CHR ''-'');
          s = (if orig \<noteq> [] \<and> (hd orig = CHR ''-'' \<or> hd orig = CHR ''+'') then tl orig else orig)
      in if s = ''0'' then Some 0
         else if s = [] then None
         else (case duration_terms 0 s of None \<Rightarrow> None
               | Some d \<Rightarrow> if neg then Some (wrap64 (- d))
                           else if 2 ^ 63 - 1 < d then None else Some d))"

lemma fraction_of_hour: "fraction_ns 5 3600000000000 10 = 1800000000000"
  by code_simp

lemma parse_durations:
  "ParseDuration ''25s'' = Some 25000000000" "ParseDuration ''1.5h'' = Some 5400000000000"
  "ParseDuration ''25'' = None"
  by code_simp+

end
