(* ===== verification/Config.thy ===== *)
theory Config
  imports Go_Float
begin

text \<open>
  \<open>internal/shared/config\<close>: the settings read from the environment. The environment is a function
  from names to texts, the empty text where a variable is not set (\<open>os.Getenv\<close>); \<open>godotenv\<close> is the
  parameter that fills it from a file. A reader returns the value beside the error, as in Go: callers
  that ignore the error use the value.
\<close>

type_synonym env = "string \<Rightarrow> string"

section \<open>Reading variables\<close>

record env_state =
  ev_vars :: env
  ev_loaded :: bool

text \<open>\<open>loadEnv\<close> loads the file once; \<open>dotenv None\<close> is the default file.\<close>

definition loadEnv :: "(string option \<Rightarrow> env \<Rightarrow> env) \<Rightarrow> env_state \<Rightarrow> env_state" where
  "loadEnv dotenv s =
     (if ev_loaded s then s
      else (let envFile = ev_vars s ''ENV_FILE'' in
            \<lparr>ev_vars = dotenv (if envFile \<noteq> [] then Some envFile else None) (ev_vars s),
             ev_loaded = True\<rparr>))"

datatype env_error = BadNumber num_error | BadDuration

definition GetEnvDefault :: "env \<Rightarrow> string \<Rightarrow> string \<Rightarrow> string" where
  "GetEnvDefault env key fallback = (let val = env key in if val = [] then fallback else val)"

definition GetEnvBool :: "env \<Rightarrow> string \<Rightarrow> bool \<Rightarrow> bool \<times> env_error option" where
  "GetEnvBool env key fallback =
     (let val = env key in
      if val = [] then (fallback, None)
      else (case ParseBool val of Inl e \<Rightarrow> (False, Some (BadNumber e)) | Inr b \<Rightarrow> (b, None)))"

definition GetEnvInt :: "env \<Rightarrow> string \<Rightarrow> int \<Rightarrow> int \<times> env_error option" where
  "GetEnvInt env key fallback =
     (let val = env key in
      if val = [] then (fallback, None) else (let (i, err) = Atoi val in (i, map_option BadNumber err)))"

definition GetEnvDuration :: "env \<Rightarrow> string \<Rightarrow> duration \<Rightarrow> duration \<times> env_error option" where
  "GetEnvDuration env key fallback =
     (let val = env key in
      if val = [] then (fallback, None)
      else (case ParseDuration val of None \<Rightarrow> (0, Some BadDuration) | Some d \<Rightarrow> (d, None)))"

text \<open>An error names the variable, or says what a value must be.\<close>

datatype config_error =
    InvalidVar string env_error
  | ConfigIsNil
  | PrefixRequired
  | LimitNotPositive
  | BurstNotPositive
  | PeriodNotPositive

text \<open>\<open>checked key r k\<close>: the early return on the error of a reader.\<close>

definition checked :: "string \<Rightarrow> 'a \<times> env_error option \<Rightarrow> ('a \<Rightarrow> config_error + 'b) \<Rightarrow> config_error + 'b" where
  "checked key r k = (case r of (v, None) \<Rightarrow> k v | (_, Some e) \<Rightarrow> Inl (InvalidVar key e))"

text \<open>A reader whose error is replaced by the default.\<close>

definition or_default :: "'a \<times> env_error option \<Rightarrow> 'a \<Rightarrow> 'a" where
  "or_default r d = (case r of (v, None) \<Rightarrow> v | (_, Some _) \<Rightarrow> d)"

section \<open>The application\<close>

record LoggerConfig =
  LC_Level :: string
  LC_Format :: string
  LC_LogMaxSize :: int
  LC_LogMaxBackups :: int
  LC_LogMaxAge :: int
  LC_LogCompress :: bool

record SMTPConfig =
  SMTP_Host :: string
  SMTP_Port :: string
  SMTP_UseAuth :: bool
  SMTP_UseTLS :: bool
  SMTP_Username :: string
  SMTP_Password :: string
  SMTP_From :: string
  SMTP_FromName :: string

record ReportingConfig =
  RC_WorkerCount :: int
  RC_JobQueueSize :: int

record AppConfig =
  CF_GRPCPort :: string
  CF_HTTPPort :: string
  CF_DBUrl :: string
  CF_JWTSecret :: string
  CF_JWTAccessTTL :: int
  CF_RefreshTTL :: int
  CF_Env :: string
  CF_AdminEmail :: string
  CF_AdminPassword :: string
  CF_UserEmail :: string
  CF_UserPassword :: string
  CF_ApiBaseUrl :: string
  CF_FrontEndUrl :: string
  CF_Logger :: LoggerConfig
  CF_SMTP :: SMTPConfig
  CF_Reporting :: ReportingConfig

definition jwt_secret :: "env \<Rightarrow> string" where
  "jwt_secret env =
     (let jwtSecret = GetEnvDefault env ''JWT_SECRET'' [] in
      if jwtSecret = [] then GetEnvDefault env ''JWT_SECRET_KEY'' [] else jwtSecret)"

definition http_port :: "env \<Rightarrow> string" where
  "http_port env =
     (let httpPort = TrimSpace (GetEnvDefault env ''HTTP_PORT'' []) in
      if httpPort = [] then GetEnvDefault env ''PORT'' ''8000'' else httpPort)"

definition logger_config :: "env \<Rightarrow> LoggerConfig" where
  "logger_config env = \<lparr>
     LC_Level = GetEnvDefault env ''LOG_LEVEL'' ''info'',
     LC_Format = GetEnvDefault env ''LOG_FORMAT'' ''text'',
     LC_LogMaxSize = or_default (GetEnvInt env ''LOG_MAX_SIZE'' 10) 10,
     LC_LogMaxBackups = or_default (GetEnvInt env ''LOG_MAX_BACKUPS'' 3) 3,
     LC_LogMaxAge = or_default (GetEnvInt env ''LOG_MAX_AGE'' 28) 28,
     LC_LogCompress = or_default (GetEnvBool env ''LOG_COMPRESS'' True) True\<rparr>"

definition smtp_config :: "env \<Rightarrow> SMTPConfig" where
  "smtp_config env = \<lparr>
     SMTP_Host = GetEnvDefault env ''SMTP_HOST'' ''localhost'',
     SMTP_Port = GetEnvDefault env ''SMTP_PORT'' ''1025'',
     SMTP_UseAuth = (GetEnvDefault env ''SMTP_USE_AUTH'' ''false'' = ''true''),
     SMTP_UseTLS = (GetEnvDefault env ''SMTP_USE_TLS'' ''false'' = ''true''),
     SMTP_Username = GetEnvDefault env ''SMTP_USERNAME'' [],
     SMTP_Password = GetEnvDefault env ''SMTP_PASSWORD'' [],
     SMTP_From = GetEnvDefault env ''SMTP_FROM'' ''no-reply@sms.com'',
     SMTP_FromName = GetEnvDefault env ''SMTP_FROM_NAME'' ''SMS Server Management''\<rparr>"

definition Load :: "(string option \<Rightarrow> env \<Rightarrow> env) \<Rightarrow> env_state \<Rightarrow> (config_error + AppConfig) \<times> env_state" where
  "Load dotenv s =
     (let s' = loadEnv dotenv s; env = ev_vars s' in
      (checked ''JWT_ACCESS_TTL'' (GetEnvInt env ''JWT_ACCESS_TTL'' 3600) (\<lambda>accessTTL.
       checked ''JWT_REFRESH_TTL'' (GetEnvInt env ''JWT_REFRESH_TTL'' 604800) (\<lambda>refreshTTL.
         Inr \<lparr>CF_GRPCPort = GetEnvDefault env ''GRPC_PORT'' ''50051'',
              CF_HTTPPort = http_port env,
              CF_DBUrl = GetEnvDefault env ''DB_URL'' [],
              CF_JWTSecret = jwt_secret env,
              CF_JWTAccessTTL = accessTTL,
              CF_RefreshTTL = refreshTTL,
              CF_Env = GetEnvDefault env ''ENV'' ''development'',
              CF_AdminEmail = GetEnvDefault env ''ADMIN_EMAIL'' [],
              CF_AdminPassword = GetEnvDefault env ''ADMIN_PASSWORD'' [],
              CF_UserEmail = GetEnvDefault env ''USER_EMAIL'' [],
              CF_UserPassword = GetEnvDefault env ''USER_PASSWORD'' [],
              CF_ApiBaseUrl = GetEnvDefault env ''API_BASE_URL'' [],
              CF_FrontEndUrl = GetEnvDefault env ''FRONTEND_BASE_URL'' [],
              CF_Logger = logger_config env,
              CF_SMTP = smtp_config env,
              CF_Reporting = \<lparr>RC_WorkerCount = or_default (GetEnvInt env ''REPORTING_WORKER_COUNT'' 5) 5,
                RC_JobQueueSize = or_default (GetEnvInt env ''REPORTING_JOB_QUEUE_SIZE'' 100) 100\<rparr>\<rparr>)), s'))"

section \<open>Redis, Elasticsearch, the observation logger\<close>

record RedisConfig =
  RD_Enabled :: bool
  RD_Addr :: string
  RD_Password :: string
  RD_DB :: int
  RD_DialTimeout :: duration
  RD_ReadTimeout :: duration
  RD_WriteTimeout :: duration
  RD_PoolSize :: int
  RD_MinIdleConns :: int
  RD_MaxRetries :: int

definition LoadRedisConfig :: "env \<Rightarrow> config_error + RedisConfig" where
  "LoadRedisConfig env =
     checked ''REDIS_ENABLED'' (GetEnvBool env ''REDIS_ENABLED'' False) (\<lambda>enabled.
     checked ''REDIS_DB'' (GetEnvInt env ''REDIS_DB'' 0) (\<lambda>db.
     checked ''REDIS_DIAL_TIMEOUT'' (GetEnvDuration env ''REDIS_DIAL_TIMEOUT'' (5 * second)) (\<lambda>dialTimeout.
     checked ''REDIS_READ_TIMEOUT'' (GetEnvDuration env ''REDIS_READ_TIMEOUT'' (3 * second)) (\<lambda>readTimeout.
     checked ''REDIS_WRITE_TIMEOUT'' (GetEnvDuration env ''REDIS_WRITE_TIMEOUT'' (3 * second)) (\<lambda>writeTimeout.
     checked ''REDIS_POOL_SIZE'' (GetEnvInt env ''REDIS_POOL_SIZE'' 10) (\<lambda>poolSize.
     checked ''REDIS_MIN_IDLE_CONNS'' (GetEnvInt env ''REDIS_MIN_IDLE_CONNS'' 2) (\<lambda>minIdleConns.
     checked ''REDIS_MAX_RETRIES'' (GetEnvInt env ''REDIS_MAX_RETRIES'' 3) (\<lambda>maxRetries.
       Inr \<lparr>RD_Enabled = enabled,
            RD_Addr = GetEnvDefault env ''REDIS_ADDR'' [],
            RD_Password = GetEnvDefault env ''REDIS_PASSWORD'' [],
            RD_DB = db,
            RD_DialTimeout = dialTimeout,
            RD_ReadTimeout = readTimeout,
            RD_WriteTimeout = writeTimeout,
            RD_PoolSize = poolSize,
            RD_MinIdleConns = minIdleConns,
            RD_MaxRetries = maxRetries\<rparr>))))))))"

record ElasticsearchConfig =
  ES_URL :: string
  ES_ServerIndex :: string

definition LoadElasticsearchConfig :: "env \<Rightarrow> ElasticsearchConfig" where
  "LoadElasticsearchConfig env =
     (let url = env ''ELASTICSEARCH_URL'';
          url = (if url = [] then ''http://elasticsearch:9200'' else url);
          serverIndex = env ''ELASTICSEARCH_SERVER_INDEX'';
          serverIndex = (if serverIndex = [] then ''sms_observation_logs'' else serverIndex)
      in \<lparr>ES_URL = url, ES_ServerIndex = serverIndex\<rparr>)"

record ObservationLoggerConfig =
  OL_ChannelSize :: int
  OL_BatchSize :: int
  OL_FlushMs :: int
  OL_RetryMax :: int
  OL_RetryDelayMs :: int

definition LoadObservationLoggerConfig :: "env \<Rightarrow> ObservationLoggerConfig" where
  "LoadObservationLoggerConfig env = \<lparr>
     OL_ChannelSize = fst (GetEnvInt env ''ES_OBSERVATION_CHANNEL_SIZE'' 10000),
     OL_BatchSize = fst (GetEnvInt env ''ES_OBSERVATION_BATCH_SIZE'' 500),
     OL_FlushMs = fst (GetEnvInt env ''ES_OBSERVATION_FLUSH_MS'' 2000),
     OL_RetryMax = fst (GetEnvInt env ''ES_OBSERVATION_RETRY_MAX'' 3),
     OL_RetryDelayMs = fst (GetEnvInt env ''ES_OBSERVATION_RETRY_DELAY_MS'' 500)\<rparr>"

section \<open>Rate limits\<close>

record RateLimitConfig =
  RL_Enabled :: bool
  RL_Prefix :: string
  RL_DefaultLimit :: int
  RL_DefaultBurst :: int
  RL_DefaultPeriod :: duration
  RL_FailOpen :: bool

definition Validate :: "RateLimitConfig option \<Rightarrow> config_error option" where
  "Validate c =
     (case c of
        None \<Rightarrow> Some ConfigIsNil
      | Some cfg \<Rightarrow>
          if \<not> RL_Enabled cfg then None
          else if RL_Prefix cfg = [] then Some PrefixRequired
          else if RL_DefaultLimit cfg \<le> 0 then Some LimitNotPositive
          else if RL_DefaultBurst cfg \<le> 0 then Some BurstNotPositive
          else if RL_DefaultPeriod cfg \<le> 0 then Some PeriodNotPositive
          else None)"

definition LoadRateLimitConfig :: "env \<Rightarrow> config_error + RateLimitConfig" where
  "LoadRateLimitConfig env =
     checked ''RATE_LIMIT_ENABLED'' (GetEnvBool env ''RATE_LIMIT_ENABLED'' False) (\<lambda>enabled.
     checked ''RATE_LIMIT_DEFAULT_LIMIT'' (GetEnvInt env ''RATE_LIMIT_DEFAULT_LIMIT'' 300) (\<lambda>defaultLimit.
     checked ''RATE_LIMIT_DEFAULT_BURST'' (GetEnvInt env ''RATE_LIMIT_DEFAULT_BURST'' defaultLimit) (\<lambda>defaultBurst.
     checked ''RATE_LIMIT_DEFAULT_PERIOD'' (GetEnvDuration env ''RATE_LIMIT_DEFAULT_PERIOD'' minute) (\<lambda>defaultPeriod.
     checked ''RATE_LIMIT_FAIL_OPEN'' (GetEnvBool env ''RATE_LIMIT_FAIL_OPEN'' True) (\<lambda>failOpen.
       (let cfg = \<lparr>RL_Enabled = enabled,
                   RL_Prefix = TrimSpace (GetEnvDefault env ''RATE_LIMIT_PREFIX'' ''portal:rl''),
                   RL_DefaultLimit = defaultLimit,
                   RL_DefaultBurst = defaultBurst,
                   RL_DefaultPeriod = defaultPeriod,
                   RL_FailOpen = failOpen\<rparr>
        in case Validate (Some cfg) of Some e \<Rightarrow> Inl e | None \<Rightarrow> Inr cfg))))))"

section \<open>What the readers return\<close>

lemma checked_simps [simp]:
  "checked key (v, None) k = k v" "checked key (v, Some e) k = Inl (InvalidVar key e)"
  by (simp_all add: checked_def)

lemma checked_ok: "checked key r k = Inr c \<longleftrightarrow> snd r = None \<and> k (fst r) = Inr c"
  by (cases r; cases "snd r") (auto simp: checked_def)

lemma checked_err:
  "checked key r k = Inl x \<longleftrightarrow>
     (case snd r of None \<Rightarrow> k (fst r) = Inl x | Some e \<Rightarrow> x = InvalidVar key e)"
  by (cases r; cases "snd r") (auto simp: checked_def)

lemma env_unset [simp]:
  "env key = [] \<Longrightarrow> GetEnvInt env key i = (i, None)"
  "env key = [] \<Longrightarrow> GetEnvBool env key b = (b, None)"
  "env key = [] \<Longrightarrow> GetEnvDuration env key d = (d, None)"
  "env key = [] \<Longrightarrow> GetEnvDefault env key v = v"
  by (simp_all add: GetEnvInt_def GetEnvBool_def GetEnvDuration_def GetEnvDefault_def)

lemma Atoi_bounds: "min_int64 \<le> fst (Atoi s)" "fst (Atoi s) \<le> max_int64"
  by (simp_all add: Atoi_def Let_def min_int64_def max_int64_def)

lemma GetEnvInt_bounds:
  assumes "min_int64 \<le> d" and "d \<le> max_int64"
  shows "min_int64 \<le> fst (GetEnvInt env key d)" "fst (GetEnvInt env key d) \<le> max_int64"
  using assms Atoi_bounds [of "env key"] by (auto simp: GetEnvInt_def Let_def split: prod.split)

lemma GetEnvInt_garbage:
  assumes "env key \<noteq> []" and "snd (Atoi (env key)) = Some ErrSyntax"
  shows "GetEnvInt env key d = (0, Some (BadNumber ErrSyntax))"
  using assms by (auto simp: GetEnvInt_def Atoi_def Let_def split: if_splits)

section \<open>Durations written as whole numbers\<close>

definition number_from :: "nat \<Rightarrow> string \<Rightarrow> nat" where
  "number_from x s = foldl (\<lambda>a c. 10 * a + digit_val c) x s"

lemma number_from_simps [simp]:
  "number_from x [] = x" "number_from x (c # s) = number_from (10 * x + digit_val c) s"
  by (simp_all add: number_from_def)

lemma number_from_ge: "x \<le> number_from x s"
proof (induction s arbitrary: x)
  case (Cons c s)
  have "x \<le> 10 * x + digit_val c" by simp
  also have "\<dots> \<le> number_from (10 * x + digit_val c) s" by (rule Cons)
  finally show ?case by simp
qed simp

lemma leadingInt_number:
  assumes "list_all is_digit ds" and "number_from x ds \<le> 2 ^ 63" and "r = [] \<or> \<not> is_digit (hd r)"
  shows "leadingInt (int x) (ds @ r) = Some (int (number_from x ds), r)"
  using assms
proof (induction ds arbitrary: x)
  case Nil
  then show ?case by (cases r) auto
next
  case (Cons c ds)
  let ?y = "10 * x + digit_val c"
  have y: "?y \<le> 2 ^ 63" using Cons.prems(2) number_from_ge [of ?y ds] by simp
  then have "\<not> 2 ^ 63 div 10 < int x" "\<not> 2 ^ 63 < int x * 10 + int (digit_val c)" by auto
  moreover have "leadingInt (int ?y) (ds @ r) = Some (int (number_from ?y ds), r)"
    using Cons.IH [of ?y] Cons.prems by (simp del: of_nat_add of_nat_mult)
  ultimately show ?case
    using Cons.prems(1) by (simp add: Let_def mult.commute)
qed

lemma nat_string_number: "number_from 0 (nat_string n) = n"
  using digits_val_nat_string [of n] by (simp add: digits_val_def number_from_def)

lemma parse_whole:
  assumes "u \<noteq> []" and "list_all unit_char u" and "unit_map u = Some k" and "0 < k"
    and "int n * k \<le> 2 ^ 63 - 1"
  shows "ParseDuration (nat_string n @ u) = Some (int n * k)"
proof -
  let ?s = "nat_string n @ u"
  have hd: "is_digit (hd ?s)" "?s \<noteq> []" using nat_string_hd [of n] by simp_all
  then have sign: "hd ?s \<noteq> CHR ''-''" "hd ?s \<noteq> CHR ''+''" using sign_not_digit by metis+
  have u: "\<not> is_digit (hd u)" "hd u \<noteq> CHR ''.''" using assms(1,2) by (cases u; simp add: unit_char_def)+
  have "int n * 1 \<le> int n * k" using assms(4) by (intro mult_left_mono) simp_all
  with assms(5) have n: "number_from 0 (nat_string n) \<le> 2 ^ 63" by (simp add: nat_string_number)
  have li: "leadingInt 0 ?s = Some (int n, u)"
    using leadingInt_number [OF nat_string_digits n, of u] u(1) by (simp add: nat_string_number)
  have tw: "takeWhile unit_char u = u" "dropWhile unit_char u = []"
    using assms(2) by (simp_all add: takeWhile_eq_all_conv dropWhile_eq_Nil_conv list_all_iff)
  have "\<not> 2 ^ 63 div k < int n"
    using assms(4,5) zdiv_mono1 [of "int n * k" "2 ^ 63" k] by simp
  moreover have "\<not> unit_char (hd ?s)" using hd by (simp add: unit_char_def)
  ultimately have "duration_term ?s = Some (int n * k, [])"
    using li u(2) hd(2) assms(1,3) by (simp add: duration_term_def Let_def tw)
  moreover have "(int n * k) mod 2 ^ 64 = int n * k" using assms(4,5) by simp
  ultimately have "duration_terms 0 ?s = Some (int n * k)"
    using assms(5) hd by (simp add: duration_terms.simps)
  moreover have "?s \<noteq> ''0''" using assms(1) nat_string_not_Nil [of n] by (cases "nat_string n") auto
  ultimately show ?thesis using sign hd assms(5) by (simp add: ParseDuration_def Let_def)
qed

lemma parse_bare_number:
  assumes "0 < n"
  shows "ParseDuration (nat_string n) = None"
proof -
  let ?s = "nat_string n"
  have hd: "is_digit (hd ?s)" using nat_string_hd [of n] by simp
  then have sign: "hd ?s \<noteq> CHR ''-''" "hd ?s \<noteq> CHR ''+''" using sign_not_digit by metis+
  have "duration_term ?s = None"
  proof (cases "leadingInt 0 ?s")
    case (Some p)
    obtain v r where p: "p = (v, r)" by fastforce
    have "leadingInt x ds = Some (v, r) \<Longrightarrow> list_all is_digit ds \<Longrightarrow> r = []" for x ds
      by (induction x ds rule: leadingInt.induct) (auto simp: Let_def split: if_splits)
    then have "r = []" using Some p by (metis nat_string_digits)
    with Some p show ?thesis by (simp add: duration_term_def)
  qed (simp add: duration_term_def)
  then have "duration_terms 0 ?s = None" by (simp add: duration_terms.simps)
  moreover have "?s \<noteq> ''0''"
  proof
    assume "?s = ''0''"
    then have "n = digits_val ''0''" using digits_val_nat_string [of n] by simp
    with assms show False by (simp add: digits_val_def digit_val_def)
  qed
  ultimately show ?thesis using sign by (simp add: ParseDuration_def Let_def)
qed

text \<open>
  A whole number with a unit is read as that duration; a bare positive number is not a duration, and
  a caller that ignores the error gets 0.
\<close>

lemma duration_settings:
  assumes "0 < n" and "int n * second \<le> max_int64"
  shows "GetEnvDuration (env(key := nat_string n @ ''s'')) key d = (int n * second, None)"
    and "GetEnvDuration (env(key := nat_string n)) key d = (0, Some BadDuration)"
proof -
  have "ParseDuration (nat_string n @ ''s'') = Some (int n * second)"
    using assms(2)
    by (intro parse_whole) (simp_all add: unit_char_def is_digit_def unit_map_def max_int64_def)
  then show "GetEnvDuration (env(key := nat_string n @ ''s'')) key d = (int n * second, None)"
    by (simp add: GetEnvDuration_def)
  show "GetEnvDuration (env(key := nat_string n)) key d = (0, Some BadDuration)"
    using parse_bare_number [OF assms(1)] by (simp add: GetEnvDuration_def)
qed

end
