(* ===== verification/Stores.thy ===== *)
theory Stores
  imports Go_Base "HOL-Library.Multiset" "HOL-Library.AList"
begin

text \<open>
  The stores the service talks to through third-party clients: tables of a relational database
  through \<open>gorm\<close>, and a Redis server through \<open>go-redis\<close>.

  What a store holds is data of the model: the rows of a table are the repository's own domain
  structs, a Redis database is hashes, sets and strings with an expiry. What executes a statement
  is not under \<open>src/\<close> and is a parameter: a record of functions (\<open>gorm\<close>, \<open>redis\<close>) that every
  repository operation takes. Each store carries an environment counter, so that an engine may
  answer the same statement differently at different moments (transient failures).

  The locales \<open>gorm_table\<close> and \<open>redis_client\<close> state what the code relies on: a statement that
  reports success did what it says, one that reports an error changed nothing, and a table keeps
  its unique indexes. \<open>mem_gorm\<close> and \<open>mem_redis\<close> are reference engines with an arbitrary schedule
  of transient failures; they satisfy the laws, which shows that the laws are consistent.
\<close>

section \<open>Tables\<close>

datatype gorm_error = ErrRecordNotFound | DBError string

record 'row tbl =
  rows :: "'row list"
  tenv :: nat

record 'row gorm =
  g_first :: "('row \<Rightarrow> bool) \<Rightarrow> 'row tbl \<Rightarrow> (gorm_error + 'row) \<times> 'row tbl"
  g_find :: "('row \<Rightarrow> bool) \<Rightarrow> 'row tbl \<Rightarrow> (gorm_error + 'row list) \<times> 'row tbl"
  g_count :: "('row \<Rightarrow> bool) \<Rightarrow> 'row tbl \<Rightarrow> (gorm_error + nat) \<times> 'row tbl"
  g_page :: "('row \<Rightarrow> bool) \<Rightarrow> string \<Rightarrow> int \<Rightarrow> int \<Rightarrow> 'row tbl \<Rightarrow> (gorm_error + 'row list) \<times> 'row tbl"
  g_create :: "'row \<Rightarrow> 'row tbl \<Rightarrow> (gorm_error + 'row) \<times> 'row tbl"
  g_create_all :: "'row list \<Rightarrow> 'row tbl \<Rightarrow> (gorm_error + 'row list) \<times> 'row tbl"
  g_update :: "('row \<Rightarrow> bool) \<Rightarrow> ('row \<Rightarrow> 'row) \<Rightarrow> 'row tbl \<Rightarrow> (gorm_error + nat) \<times> 'row tbl"
  g_delete :: "('row \<Rightarrow> bool) \<Rightarrow> 'row tbl \<Rightarrow> (gorm_error + nat) \<times> 'row tbl"

text \<open>
  The contract of a table. \<open>filled x y\<close>: inserting \<open>x\<close> may store \<open>y\<close> (generated key, defaults,
  timestamps); \<open>uniq\<close>: the unique indexes hold. A page is a window of some ordering of the matching
  rows.
\<close>

locale gorm_table =
  fixes g :: "'row gorm"
    and filled :: "'row \<Rightarrow> 'row \<Rightarrow> bool"
    and uniq :: "'row list \<Rightarrow> bool"
  assumes first_keeps: "g_first g p t = (r, t') \<Longrightarrow> rows t' = rows t"
    and first_found: "g_first g p t = (Inr x, t') \<Longrightarrow> x \<in> set (rows t) \<and> p x"
    and first_missing: "g_first g p t = (Inl ErrRecordNotFound, t') \<Longrightarrow> x \<in> set (rows t) \<Longrightarrow> \<not> p x"
    and find_keeps: "g_find g p t = (rs, t') \<Longrightarrow> rows t' = rows t"
    and find_found: "g_find g p t = (Inr xs, t') \<Longrightarrow> mset xs = mset (filter p (rows t))"
    and count_keeps: "g_count g p t = (c, t') \<Longrightarrow> rows t' = rows t"
    and count_found: "g_count g p t = (Inr n, t') \<Longrightarrow> n = length (filter p (rows t))"
    and page_keeps: "g_page g p ord off lim t = (rs, t') \<Longrightarrow> rows t' = rows t"
    and page_found: "g_page g p ord off lim t = (Inr xs, t') \<Longrightarrow> 0 < lim \<Longrightarrow>
      \<exists>ys. mset ys = mset (filter p (rows t)) \<and> xs = take (nat lim) (drop (nat off) ys)"
    and create_ok: "g_create g x t = (Inr y, t') \<Longrightarrow> rows t' = rows t @ [y] \<and> filled x y"
    and create_wf: "g_create g x t = (Inr y, t') \<Longrightarrow> uniq (rows t) \<Longrightarrow> uniq (rows t')"
    and create_err: "g_create g x t = (Inl e, t') \<Longrightarrow> rows t' = rows t"
    and create_all_ok: "g_create_all g xs t = (Inr ys, t') \<Longrightarrow>
      rows t' = rows t @ ys \<and> list_all2 filled xs ys"
    and create_all_wf: "g_create_all g xs t = (Inr ys, t') \<Longrightarrow> uniq (rows t) \<Longrightarrow> uniq (rows t')"
    and create_all_err: "g_create_all g xs t = (Inl e, t') \<Longrightarrow> rows t' = rows t"
    and update_ok: "g_update g p f t = (Inr n, t') \<Longrightarrow>
      rows t' = map (\<lambda>x. if p x then f x else x) (rows t) \<and> n = length (filter p (rows t))"
    and update_wf: "g_update g p f t = (Inr n, t') \<Longrightarrow> uniq (rows t) \<Longrightarrow> uniq (rows t')"
    and update_err: "g_update g p f t = (Inl e, t') \<Longrightarrow> rows t' = rows t"
    and delete_ok: "g_delete g p t = (Inr n, t') \<Longrightarrow>
      rows t' = filter (\<lambda>x. \<not> p x) (rows t) \<and> n = length (filter p (rows t))"
    and delete_wf: "g_delete g p t = (Inr n, t') \<Longrightarrow> uniq (rows t) \<Longrightarrow> uniq (rows t')"
    and delete_err: "g_delete g p t = (Inl e, t') \<Longrightarrow> rows t' = rows t"
begin

lemma update_cases:
  assumes "g_update g p f t = (r, t')"
  shows "rows t' = rows t \<or> rows t' = map (\<lambda>x. if p x then f x else x) (rows t)"
  using assms by (cases r) (auto dest: update_ok update_err)

lemma update_inv:
  assumes "g_update g p f t = (r, t')" and "uniq (rows t)"
  shows "uniq (rows t')"
  using assms by (cases r) (auto dest: update_wf update_err)

lemma create_inv:
  assumes "g_create g x t = (r, t')" and "uniq (rows t)"
  shows "uniq (rows t')"
  using assms by (cases r) (auto dest: create_wf create_err)

lemma create_all_inv:
  assumes "g_create_all g xs t = (r, t')" and "uniq (rows t)"
  shows "uniq (rows t')"
  using assms by (cases r) (auto dest: create_all_wf create_all_err)

lemma delete_inv:
  assumes "g_delete g p t = (r, t')" and "uniq (rows t)"
  shows "uniq (rows t')"
  using assms by (cases r) (auto dest: delete_wf delete_err)

lemma create_prefix:
  assumes "g_create g x t = (r, t')"
  shows "set (rows t) \<subseteq> set (rows t')"
  using assms by (cases r) (auto dest: create_ok create_err)

lemma page_rows:
  assumes "g_page g p ord off lim t = (Inr xs, t')" and "0 < lim"
  shows "length xs \<le> nat lim" and "x \<in> set xs \<Longrightarrow> x \<in> set (rows t) \<and> p x"
proof -
  from page_found [OF assms] obtain ys
    where ys: "mset ys = mset (filter p (rows t))" and xs: "xs = take (nat lim) (drop (nat off) ys)"
    by blast
  from ys have "set ys = set (filter p (rows t))" by (metis set_mset_mset)
  with xs show "x \<in> set xs \<Longrightarrow> x \<in> set (rows t) \<and> p x"
    by (auto dest!: in_set_takeD in_set_dropD)
  from xs show "length xs \<le> nat lim" by simp
qed

end

subsection \<open>The reference engine\<close>

definition tick :: "'row tbl \<Rightarrow> 'row tbl" where
  "tick t = t\<lparr>tenv := Suc (tenv t)\<rparr>"

lemma tick_simps [simp]: "rows (tick t) = rows t" "tenv (tick t) = Suc (tenv t)"
  by (simp_all add: tick_def)

definition attempt ::
  "(nat \<Rightarrow> string option) \<Rightarrow> 'row tbl \<Rightarrow> (gorm_error + 'a) \<times> 'row tbl \<Rightarrow> (gorm_error + 'a) \<times> 'row tbl"
where
  "attempt fault t done =
     (case fault (tenv t) of Some msg \<Rightarrow> (Inl (DBError msg), tick t) | None \<Rightarrow> done)"

definition commit ::
  "('row list \<Rightarrow> bool) \<Rightarrow> 'row list \<Rightarrow> 'a \<Rightarrow> 'row tbl \<Rightarrow> (gorm_error + 'a) \<times> 'row tbl" where
  "commit uniq rs a t =
     (if uniq rs then (Inr a, (tick t)\<lparr>rows := rs\<rparr>)
      else (Inl (DBError ''unique constraint''), tick t))"

fun fill_all :: "(nat \<Rightarrow> 'row \<Rightarrow> 'row) \<Rightarrow> nat \<Rightarrow> 'row list \<Rightarrow> 'row list" where
  "fill_all fill n [] = []"
| "fill_all fill n (x # xs) = fill n x # fill_all fill (Suc n) xs"

definition mem_gorm ::
  "(nat \<Rightarrow> string option) \<Rightarrow> (nat \<Rightarrow> 'row \<Rightarrow> 'row) \<Rightarrow> ('row list \<Rightarrow> bool) \<Rightarrow> 'row gorm" where
  "mem_gorm fault fill uniq = \<lparr>
     g_first = (\<lambda>p t. attempt fault t
       (case filter p (rows t) of [] \<Rightarrow> (Inl ErrRecordNotFound, tick t) | x # _ \<Rightarrow> (Inr x, tick t))),
     g_find = (\<lambda>p t. attempt fault t (Inr (filter p (rows t)), tick t)),
     g_count = (\<lambda>p t. attempt fault t (Inr (length (filter p (rows t))), tick t)),
     g_page = (\<lambda>p ord off lim t. attempt fault t
       (Inr (take (nat lim) (drop (nat off) (filter p (rows t)))), tick t)),
     g_create = (\<lambda>x t. attempt fault t
       (let y = fill (length (rows t)) x in commit uniq (rows t @ [y]) y t)),
     g_create_all = (\<lambda>xs t. attempt fault t
       (let ys = fill_all fill (length (rows t)) xs in commit uniq (rows t @ ys) ys t)),
     g_update = (\<lambda>p f t. attempt fault t
       (commit uniq (map (\<lambda>x. if p x then f x else x) (rows t)) (length (filter p (rows t))) t)),
     g_delete = (\<lambda>p t. attempt fault t
       (commit uniq (filter (\<lambda>x. \<not> p x) (rows t)) (length (filter p (rows t))) t)) \<rparr>"

lemmas mem_engine = mem_gorm_def attempt_def commit_def Let_def

lemma fill_all_filled:
  "(\<And>n x. filled x (fill n x)) \<Longrightarrow> list_all2 filled xs (fill_all fill n xs)"
  by (induction xs arbitrary: n) simp_all

lemma mem_gorm_table:
  assumes fill: "\<And>n x. filled x (fill n x)"
  shows "gorm_table (mem_gorm fault fill uniq) filled uniq"
proof (unfold_locales, goal_cases)
  case (2 p t x t')
  then obtain zs where "filter p (rows t) = x # zs"
    by (auto simp: mem_engine split: option.splits list.splits)
  then have "x \<in> set (filter p (rows t))" by (metis list.set_intros(1))
  then show ?case by simp
next
  case (3 p t t' x)
  then have "filter p (rows t) = []"
    by (auto simp: mem_engine split: option.splits list.splits)
  then show ?case using 3(2) by (auto simp: filter_empty_conv)
next
  case (9 p ord off lim t xs t')
  then show ?case
    by (auto simp: mem_engine intro!: exI [of _ "filter p (rows t)"] split: option.splits)
qed (auto simp: mem_engine fill fill_all_filled split: option.splits list.splits if_splits)

subsection \<open>Engines that do not fail\<close>

text \<open>Hypotheses of the liveness statements: the statement is executed and breaks no index.\<close>

definition firsts_succeed :: "'row gorm \<Rightarrow> bool" where
  "firsts_succeed g \<longleftrightarrow>
     (\<forall>p t. (\<exists>x\<in>set (rows t). p x) \<longrightarrow> is_ok (fst (g_first g p t)))"

definition lookups_succeed :: "'row gorm \<Rightarrow> bool" where
  "lookups_succeed g \<longleftrightarrow> (\<forall>p t m. fst (g_first g p t) \<noteq> Inl (DBError m))"

definition finds_succeed :: "'row gorm \<Rightarrow> bool" where
  "finds_succeed g \<longleftrightarrow> (\<forall>p t. is_ok (fst (g_find g p t)))"

definition updates_succeed :: "'row gorm \<Rightarrow> ('row list \<Rightarrow> bool) \<Rightarrow> bool" where
  "updates_succeed g uniq \<longleftrightarrow>
     (\<forall>p f t. uniq (map (\<lambda>x. if p x then f x else x) (rows t)) \<longrightarrow> is_ok (fst (g_update g p f t)))"

lemma mem_gorm_succeeds [simp]:
  "firsts_succeed (mem_gorm (\<lambda>_. None) fill uniq)"
  "finds_succeed (mem_gorm (\<lambda>_. None) fill uniq)"
  "updates_succeed (mem_gorm (\<lambda>_. None) fill uniq) uniq"
  "lookups_succeed (mem_gorm (\<lambda>_. None) fill uniq)"
  by (auto simp: lookups_succeed_def firsts_succeed_def finds_succeed_def updates_succeed_def mem_engine filter_empty_conv
      split: list.splits)

context gorm_table
begin

lemma first_succeeds:
  assumes "firsts_succeed g" and "x \<in> set (rows t)" and "p x"
    and "\<And>y. y \<in> set (rows t) \<Longrightarrow> p y \<Longrightarrow> y = x"
  obtains t' where "g_first g p t = (Inr x, t')" and "rows t' = rows t"
proof -
  obtain r t' where f: "g_first g p t = (r, t')" by fastforce
  have "is_ok (fst (g_first g p t))"
    using assms(1-3) unfolding firsts_succeed_def by blast
  with f obtain z where z: "r = Inr z" by (auto simp: is_ok_iff)
  with f have "z = x" using first_found assms(4) by blast
  with f z show thesis using that first_keeps by blast
qed

lemma find_succeeds:
  assumes "finds_succeed g"
  obtains xs t' where "g_find g p t = (Inr xs, t')" and "rows t' = rows t"
    and "mset xs = mset (filter p (rows t))"
proof -
  obtain r t' where f: "g_find g p t = (r, t')" by fastforce
  have "is_ok (fst (g_find g p t))"
    using assms unfolding finds_succeed_def by blast
  with f obtain xs where "r = Inr xs" by (auto simp: is_ok_iff)
  with f show thesis using that find_keeps find_found by blast
qed

lemma update_succeeds:
  assumes "updates_succeed g uniq" and "uniq (map (\<lambda>x. if p x then f x else x) (rows t))"
  obtains n t' where "g_update g p f t = (Inr n, t')"
    and "rows t' = map (\<lambda>x. if p x then f x else x) (rows t)"
proof -
  obtain r t' where f: "g_update g p f t = (r, t')" by fastforce
  have "is_ok (fst (g_update g p f t))"
    using assms unfolding updates_succeed_def by (elim allE impE) assumption
  with f obtain n where "r = Inr n" by (auto simp: is_ok_iff)
  with f show thesis using that update_ok by blast
qed

end

section \<open>Redis\<close>

datatype redis_error = RedisNil | RedisErr string

text \<open>
  A hash is an association list of fields, a set a list without duplicates; a string key has a
  value and, with a time to live, the instant at which it expires.
\<close>

record redis_data =
  hashes :: "string \<Rightarrow> (string \<times> string) list"
  rsets :: "string \<Rightarrow> string list"
  rstrs :: "string \<Rightarrow> (string \<times> time option) option"

record redis_db =
  rdata :: redis_data
  renv :: nat

datatype rcmd = CmdHSet string "(string \<times> string) list" | CmdSAdd string string

definition put_fields :: "(string \<times> string) list \<Rightarrow> (string \<times> string) list \<Rightarrow> (string \<times> string) list" where
  "put_fields fvs h = foldl (\<lambda>h (f, v). AList.update f v h) h fvs"

definition do_hset :: "string \<Rightarrow> (string \<times> string) list \<Rightarrow> redis_data \<Rightarrow> redis_data" where
  "do_hset k fvs d = d\<lparr>hashes := (hashes d)(k := put_fields fvs (hashes d k))\<rparr>"

definition do_sadd :: "string \<Rightarrow> string \<Rightarrow> redis_data \<Rightarrow> redis_data" where
  "do_sadd k m d = d\<lparr>rsets := (rsets d)(k := List.insert m (rsets d k))\<rparr>"

definition do_srem :: "string \<Rightarrow> string \<Rightarrow> redis_data \<Rightarrow> redis_data" where
  "do_srem k m d = d\<lparr>rsets := (rsets d)(k := filter (\<lambda>x. x \<noteq> m) (rsets d k))\<rparr>"

definition do_del :: "string \<Rightarrow> redis_data \<Rightarrow> redis_data" where
  "do_del k d = d\<lparr>hashes := (hashes d)(k := []), rsets := (rsets d)(k := []), rstrs := (rstrs d)(k := None)\<rparr>"

text \<open>
  \<open>SET key value EX ttl\<close>: \<open>go-redis\<close> sets no expiry for a time to live that is not positive
  (\<open>SetNX\<close> reports an error for most negative ones).
\<close>

definition do_set :: "time \<Rightarrow> string \<Rightarrow> string \<Rightarrow> duration \<Rightarrow> redis_data \<Rightarrow> redis_data" where
  "do_set now k v ttl d =
     d\<lparr>rstrs := (rstrs d)(k := Some (v, if ttl \<le> 0 then None else Some (now + ttl)))\<rparr>"

definition str_live :: "time \<Rightarrow> string \<Rightarrow> redis_data \<Rightarrow> bool" where
  "str_live now k d \<longleftrightarrow>
     (case rstrs d k of None \<Rightarrow> False
      | Some (_, None) \<Rightarrow> True
      | Some (_, Some e) \<Rightarrow> now < e)"

fun do_cmd :: "rcmd \<Rightarrow> redis_data \<Rightarrow> redis_data" where
  "do_cmd (CmdHSet k fvs) d = do_hset k fvs d"
| "do_cmd (CmdSAdd k m) d = do_sadd k m d"

definition do_cmds :: "rcmd list \<Rightarrow> redis_data \<Rightarrow> redis_data" where
  "do_cmds cs d = foldl (\<lambda>d c. do_cmd c d) d cs"

record redis =
  r_hset :: "string \<Rightarrow> (string \<times> string) list \<Rightarrow> redis_db \<Rightarrow> (redis_error + unit) \<times> redis_db"
  r_hget :: "string \<Rightarrow> string \<Rightarrow> redis_db \<Rightarrow> (redis_error + string) \<times> redis_db"
  r_hgetall :: "string \<Rightarrow> redis_db \<Rightarrow> (redis_error + (string \<times> string) list) \<times> redis_db"
  r_sadd :: "string \<Rightarrow> string \<Rightarrow> redis_db \<Rightarrow> (redis_error + unit) \<times> redis_db"
  r_srem :: "string \<Rightarrow> string \<Rightarrow> redis_db \<Rightarrow> (redis_error + unit) \<times> redis_db"
  r_smembers :: "string \<Rightarrow> redis_db \<Rightarrow> (redis_error + string list) \<times> redis_db"
  r_del :: "string \<Rightarrow> redis_db \<Rightarrow> (redis_error + unit) \<times> redis_db"
  r_set :: "time \<Rightarrow> string \<Rightarrow> string \<Rightarrow> duration \<Rightarrow> redis_db \<Rightarrow> (redis_error + unit) \<times> redis_db"
  r_setnx :: "time \<Rightarrow> string \<Rightarrow> string \<Rightarrow> duration \<Rightarrow> redis_db \<Rightarrow> (redis_error + bool) \<times> redis_db"
  r_exists :: "time \<Rightarrow> string \<Rightarrow> redis_db \<Rightarrow> (redis_error + nat) \<times> redis_db"
  r_exec :: "rcmd list \<Rightarrow> redis_db \<Rightarrow> (redis_error + unit) \<times> redis_db"

text \<open>
  The contract of the client. A pipeline that reports an error may have executed some of its
  commands, in their order.
\<close>

locale redis_client =
  fixes c :: redis
  assumes hset_ok: "r_hset c k fvs s = (Inr (), s') \<Longrightarrow> rdata s' = do_hset k fvs (rdata s)"
    and hset_err: "r_hset c k fvs s = (Inl e, s') \<Longrightarrow> rdata s' = rdata s"
    and hget_keeps: "r_hget c k f s = (gr, s') \<Longrightarrow> rdata s' = rdata s"
    and hget_found: "r_hget c k f s = (Inr x, s') \<Longrightarrow> map_of (hashes (rdata s) k) f = Some x"
    and hgetall_keeps: "r_hgetall c k s = (hr, s') \<Longrightarrow> rdata s' = rdata s"
    and hgetall_found: "r_hgetall c k s = (Inr h, s') \<Longrightarrow> h = hashes (rdata s) k"
    and sadd_ok: "r_sadd c k m s = (Inr (), s') \<Longrightarrow> rdata s' = do_sadd k m (rdata s)"
    and sadd_err: "r_sadd c k m s = (Inl e, s') \<Longrightarrow> rdata s' = rdata s"
    and srem_ok: "r_srem c k m s = (Inr (), s') \<Longrightarrow> rdata s' = do_srem k m (rdata s)"
    and srem_err: "r_srem c k m s = (Inl e, s') \<Longrightarrow> rdata s' = rdata s"
    and smembers_keeps: "r_smembers c k s = (ms, s') \<Longrightarrow> rdata s' = rdata s"
    and smembers_found: "r_smembers c k s = (Inr xs, s') \<Longrightarrow> mset xs = mset (rsets (rdata s) k)"
    and del_ok: "r_del c k s = (Inr (), s') \<Longrightarrow> rdata s' = do_del k (rdata s)"
    and del_err: "r_del c k s = (Inl e, s') \<Longrightarrow> rdata s' = rdata s"
    and set_ok: "r_set c now k v ttl s = (Inr (), s') \<Longrightarrow> rdata s' = do_set now k v ttl (rdata s)"
    and set_err: "r_set c now k v ttl s = (Inl e, s') \<Longrightarrow> rdata s' = rdata s"
    and setnx_ok: "r_setnx c now k v ttl s = (Inr b, s') \<Longrightarrow>
      b = (\<not> str_live now k (rdata s)) \<and>
      rdata s' = (if b then do_set now k v ttl (rdata s) else rdata s)"
    and setnx_err: "r_setnx c now k v ttl s = (Inl e, s') \<Longrightarrow> rdata s' = rdata s"
    and exists_keeps: "r_exists c now k s = (er, s') \<Longrightarrow> rdata s' = rdata s"
    and exists_found: "r_exists c now k s = (Inr n, s') \<Longrightarrow> 0 < n \<longleftrightarrow> str_live now k (rdata s)"
    and exec_ok: "r_exec c cs s = (Inr (), s') \<Longrightarrow> rdata s' = do_cmds cs (rdata s)"
    and exec_err: "r_exec c cs s = (Inl e, s') \<Longrightarrow>
      \<exists>done. subseq done cs \<and> rdata s' = do_cmds done (rdata s)"

definition rtick :: "redis_db \<Rightarrow> redis_db" where
  "rtick s = s\<lparr>renv := Suc (renv s)\<rparr>"

definition rattempt ::
  "(nat \<Rightarrow> string option) \<Rightarrow> redis_db \<Rightarrow> (redis_error + 'a) \<Rightarrow> (redis_data \<Rightarrow> redis_data)
   \<Rightarrow> (redis_error + 'a) \<times> redis_db" where
  "rattempt fault s r eff =
     (case fault (renv s) of
        Some msg \<Rightarrow> (Inl (RedisErr msg), rtick s)
      | None \<Rightarrow> (r, (rtick s)\<lparr>rdata := eff (rdata s)\<rparr>))"

definition mem_redis :: "(nat \<Rightarrow> string option) \<Rightarrow> redis" where
  "mem_redis fault = \<lparr>
     r_hset = (\<lambda>k fvs s. rattempt fault s (Inr ()) (do_hset k fvs)),
     r_hget = (\<lambda>k f s. rattempt fault s
       (case map_of (hashes (rdata s) k) f of None \<Rightarrow> Inl RedisNil | Some v \<Rightarrow> Inr v) id),
     r_hgetall = (\<lambda>k s. rattempt fault s (Inr (hashes (rdata s) k)) id),
     r_sadd = (\<lambda>k m s. rattempt fault s (Inr ()) (do_sadd k m)),
     r_srem = (\<lambda>k m s. rattempt fault s (Inr ()) (do_srem k m)),
     r_smembers = (\<lambda>k s. rattempt fault s (Inr (rsets (rdata s) k)) id),
     r_del = (\<lambda>k s. rattempt fault s (Inr ()) (do_del k)),
     r_set = (\<lambda>now k v ttl s. rattempt fault s (Inr ()) (do_set now k v ttl)),
     r_setnx = (\<lambda>now k v ttl s. rattempt fault s (Inr (\<not> str_live now k (rdata s)))
       (if str_live now k (rdata s) then id else do_set now k v ttl)),
     r_exists = (\<lambda>now k s. rattempt fault s (Inr (if str_live now k (rdata s) then 1 else 0)) id),
     r_exec = (\<lambda>cs s. rattempt fault s (Inr ()) (do_cmds cs)) \<rparr>"

lemmas mem_redis_engine = mem_redis_def rattempt_def rtick_def

interpretation mr: redis_client "mem_redis fault" for fault
proof (unfold_locales, goal_cases)
  case (22 cs s e s')
  then have "subseq [] cs \<and> rdata s' = do_cmds [] (rdata s)"
    by (auto simp: mem_redis_engine do_cmds_def split: option.splits)
  then show ?case by blast
qed (auto simp: mem_redis_engine split: option.splits if_splits)

definition sets_succeed :: "redis \<Rightarrow> bool" where
  "sets_succeed c \<longleftrightarrow> (\<forall>now k v ttl s. is_ok (fst (r_set c now k v ttl s)))"

definition exists_succeed :: "redis \<Rightarrow> bool" where
  "exists_succeed c \<longleftrightarrow> (\<forall>now k s. is_ok (fst (r_exists c now k s)))"

definition writes_succeed :: "redis \<Rightarrow> bool" where
  "writes_succeed c \<longleftrightarrow>
     (\<forall>k fvs s. is_ok (fst (r_hset c k fvs s))) \<and> (\<forall>k m s. is_ok (fst (r_sadd c k m s))) \<and>
     (\<forall>k m s. is_ok (fst (r_srem c k m s))) \<and> (\<forall>k s. is_ok (fst (r_del c k s))) \<and>
     (\<forall>cs s. is_ok (fst (r_exec c cs s)))"

definition reads_succeed :: "redis \<Rightarrow> bool" where
  "reads_succeed c \<longleftrightarrow>
     (\<forall>k s. is_ok (fst (r_hgetall c k s))) \<and> (\<forall>k s. is_ok (fst (r_smembers c k s))) \<and>
     (\<forall>k f s. map_of (hashes (rdata s) k) f \<noteq> None \<longrightarrow> is_ok (fst (r_hget c k f s)))"

lemma mem_redis_succeeds [simp]:
  "sets_succeed (mem_redis (\<lambda>_. None))" "exists_succeed (mem_redis (\<lambda>_. None))"
  "writes_succeed (mem_redis (\<lambda>_. None))" "reads_succeed (mem_redis (\<lambda>_. None))"
  by (auto simp: sets_succeed_def exists_succeed_def writes_succeed_def reads_succeed_def mem_redis_engine)

context redis_client
begin

lemma hset_succeeds:
  assumes "writes_succeed c"
  obtains s' where "r_hset c k fvs s = (Inr (), s')" and "rdata s' = do_hset k fvs (rdata s)"
proof -
  obtain r s' where f: "r_hset c k fvs s = (r, s')" by fastforce
  have "is_ok (fst (r_hset c k fvs s))" using assms unfolding writes_succeed_def by blast
  with f have "r = Inr ()" by (auto simp: is_ok_iff)
  with f show thesis using that hset_ok by blast
qed

lemma hgetall_succeeds:
  assumes "reads_succeed c"
  obtains s' where "r_hgetall c k s = (Inr (hashes (rdata s) k), s')" and "rdata s' = rdata s"
proof -
  obtain r s' where f: "r_hgetall c k s = (r, s')" by fastforce
  have "is_ok (fst (r_hgetall c k s))" using assms unfolding reads_succeed_def by blast
  with f obtain h where "r = Inr h" by (auto simp: is_ok_iff)
  with f show thesis using that hgetall_found hgetall_keeps by blast
qed

lemma hget_succeeds:
  assumes "reads_succeed c" and "map_of (hashes (rdata s) k) f = Some v"
  obtains s' where "r_hget c k f s = (Inr v, s')" and "rdata s' = rdata s"
proof -
  obtain r s' where g: "r_hget c k f s = (r, s')" by fastforce
  have "is_ok (fst (r_hget c k f s))" using assms unfolding reads_succeed_def by auto
  with g obtain x where r: "r = Inr x" by (auto simp: is_ok_iff)
  with g have "map_of (hashes (rdata s) k) f = Some x" by (auto dest: hget_found)
  with g r assms(2) show thesis using that hget_keeps by auto
qed

end

subsection \<open>What the effects do to one key\<close>

lemma do_hset_hash [store_simps]:
  "hashes (do_hset k fvs d) k' = (if k' = k then put_fields fvs (hashes d k) else hashes d k')"
  by (simp add: do_hset_def)

lemma do_hset_other [store_simps]:
  "rsets (do_hset k fvs d) = rsets d" "rstrs (do_hset k fvs d) = rstrs d"
  by (simp_all add: do_hset_def)

lemma do_sadd_simps [store_simps]:
  "hashes (do_sadd k m d) = hashes d" "rstrs (do_sadd k m d) = rstrs d"
  "set (rsets (do_sadd k m d) k') = (if k' = k then insert m (set (rsets d k)) else set (rsets d k'))"
  by (simp_all add: do_sadd_def)

lemma do_srem_simps [store_simps]:
  "hashes (do_srem k m d) = hashes d" "rstrs (do_srem k m d) = rstrs d"
  "set (rsets (do_srem k m d) k') = (if k' = k then set (rsets d k) - {m} else set (rsets d k'))"
  by (auto simp: do_srem_def)

lemma do_del_simps [store_simps]:
  "hashes (do_del k d) k' = (if k' = k then [] else hashes d k')"
  "rsets (do_del k d) k' = (if k' = k then [] else rsets d k')"
  "rstrs (do_del k d) k' = (if k' = k then None else rstrs d k')"
  by (simp_all add: do_del_def)

lemma do_set_simps [store_simps]:
  "hashes (do_set now k v ttl d) = hashes d" "rsets (do_set now k v ttl d) = rsets d"
  by (simp_all add: do_set_def)

lemma str_live_set [store_simps]:
  "str_live now' k' (do_set now k v ttl d) =
     (if k' = k then ttl \<le> 0 \<or> now' < now + ttl else str_live now' k' d)"
  by (simp add: str_live_def do_set_def)

lemma put_fields_Nil [simp]: "put_fields [] h = h"
  by (simp add: put_fields_def)

lemma put_fields_Cons [simp]: "put_fields ((f, v) # fvs) h = put_fields fvs (AList.update f v h)"
  by (simp add: put_fields_def)

end
