(* ===== verification/Server_Cache.thy ===== *)
theory Server_Cache
  imports Stores
begin

text \<open>
  What the service keeps about servers in Redis: the hash \<open>server:info:<sid>\<close> (fields \<open>ipv4\<close>,
  \<open>status\<close>, \<open>retry_count\<close>) and the set \<open>server:all_ids\<close>. \<open>internal/infrastructure/redis/server_cache.go\<close>
  writes them for the API; \<open>internal/modules/monitoring/repository/impl/redis_server_state_store.go\<close>
  reads and writes the state the monitoring worker keeps there.

  The two components share the hashes. \<open>server_state\<close> is the contract of the state store: what is
  set is what is got, and other servers are not touched; it is interpreted on the effects of the
  store's own commands.
\<close>

section \<open>Keys\<close>

definition ServerAllIDsKey :: string where
  "ServerAllIDsKey = ''server:all_ids''"

definition ServerInfoKey :: "string \<Rightarrow> string" where
  "ServerInfoKey sid = ''server:info:'' @ sid"

lemma ServerInfoKey_inj [simp]: "ServerInfoKey a = ServerInfoKey b \<longleftrightarrow> a = b"
  by (simp add: ServerInfoKey_def)

lemma ServerInfoKey_not_all [simp]: "ServerInfoKey a \<noteq> ServerAllIDsKey" "ServerAllIDsKey \<noteq> ServerInfoKey a"
  by (simp_all add: ServerInfoKey_def ServerAllIDsKey_def)

section \<open>The cache\<close>

datatype cache_error = HSetFailed redis_error | SAddFailed redis_error | DelFailed redis_error
  | SRemFailed redis_error | PipelineFailed redis_error

record CacheUpsertItem =
  CI_ID :: string
  CI_IPv4 :: string
  CI_Status :: string
  CI_RetryCount :: int

definition info_fields :: "string \<Rightarrow> string \<Rightarrow> int \<Rightarrow> (string \<times> string) list" where
  "info_fields ipv4 status retryCount =
     [(''ipv4'', ipv4), (''status'', status), (''retry_count'', Itoa retryCount)]"

definition Upsert ::
  "redis iface \<Rightarrow> string \<Rightarrow> string \<Rightarrow> string \<Rightarrow> int \<Rightarrow> redis_db \<Rightarrow> (cache_error + unit) go \<times> redis_db" where
  "Upsert client sid ipv4 status retryCount s =
     (case client of
        NilIface \<Rightarrow> (Returns (Inr ()), s)
      | TypedNil \<Rightarrow> (Panics nil_dereference, s)
      | Iface c \<Rightarrow>
          (case r_hset c (ServerInfoKey sid) (info_fields ipv4 status retryCount) s of
             (Inl e, s1) \<Rightarrow> (Returns (Inl (HSetFailed e)), s1)
           | (Inr _, s1) \<Rightarrow>
               (case r_sadd c ServerAllIDsKey sid s1 of
                  (Inl e, s2) \<Rightarrow> (Returns (Inl (SAddFailed e)), s2)
                | (Inr _, s2) \<Rightarrow> (Returns (Inr ()), s2))))"

fun upsert_cmds :: "CacheUpsertItem list \<Rightarrow> rcmd list" where
  "upsert_cmds [] = []"
| "upsert_cmds (item # items) =
     CmdHSet (ServerInfoKey (CI_ID item)) (info_fields (CI_IPv4 item) (CI_Status item) (CI_RetryCount item))
     # CmdSAdd ServerAllIDsKey (CI_ID item) # upsert_cmds items"

definition BatchUpsert ::
  "redis iface \<Rightarrow> CacheUpsertItem list \<Rightarrow> redis_db \<Rightarrow> (cache_error + unit) go \<times> redis_db" where
  "BatchUpsert client items s =
     (if is_nil client \<or> items = [] then (Returns (Inr ()), s)
      else (case client of
          Iface c \<Rightarrow>
            (case r_exec c (upsert_cmds items) s of
               (Inl e, s') \<Rightarrow> (Returns (Inl (PipelineFailed e)), s')
             | (Inr _, s') \<Rightarrow> (Returns (Inr ()), s'))
        | _ \<Rightarrow> (Panics nil_dereference, s)))"

definition CacheDelete ::
  "redis iface \<Rightarrow> string \<Rightarrow> redis_db \<Rightarrow> (cache_error + unit) go \<times> redis_db" where
  "CacheDelete client sid s =
     (case client of
        NilIface \<Rightarrow> (Returns (Inr ()), s)
      | TypedNil \<Rightarrow> (Panics nil_dereference, s)
      | Iface c \<Rightarrow>
          (case r_del c (ServerInfoKey sid) s of
             (Inl e, s1) \<Rightarrow> (Returns (Inl (DelFailed e)), s1)
           | (Inr _, s1) \<Rightarrow>
               (case r_srem c ServerAllIDsKey sid s1 of
                  (Inl e, s2) \<Rightarrow> (Returns (Inl (SRemFailed e)), s2)
                | (Inr _, s2) \<Rightarrow> (Returns (Inr ()), s2))))"

section \<open>The state of the monitoring worker\<close>

record ServerState =
  SS_Status :: string
  SS_RetryCount :: int

datatype state_error = ErrServerStateNotFound | GetStateFailed redis_error | SetStateFailed redis_error

definition hash_field :: "(string \<times> string) list \<Rightarrow> string \<Rightarrow> string" where
  "hash_field h f = (case map_of h f of None \<Rightarrow> [] | Some v \<Rightarrow> v)"

definition GetServerState :: "redis \<Rightarrow> string \<Rightarrow> redis_db \<Rightarrow> (state_error + ServerState) \<times> redis_db" where
  "GetServerState c serverID s =
     (case r_hgetall c (ServerInfoKey serverID) s of
        (Inl e, s') \<Rightarrow> (Inl (GetStateFailed e), s')
      | (Inr vals, s') \<Rightarrow>
          (if vals = [] then (Inl ErrServerStateNotFound, s')
           else (let (retryCount, _) = Atoi (hash_field vals ''retry_count'')
                 in (Inr \<lparr>SS_Status = hash_field vals ''status'', SS_RetryCount = retryCount\<rparr>, s'))))"

definition state_fields :: "string \<Rightarrow> int \<Rightarrow> (string \<times> string) list" where
  "state_fields status retryCount = [(''status'', status), (''retry_count'', Itoa retryCount)]"

definition SetServerState ::
  "redis \<Rightarrow> string \<Rightarrow> string \<Rightarrow> int \<Rightarrow> redis_db \<Rightarrow> (state_error + unit) \<times> redis_db" where
  "SetServerState c serverID status retryCount s =
     (case r_hset c (ServerInfoKey serverID) (state_fields status retryCount) s of
        (Inl e, s') \<Rightarrow> (Inl (SetStateFailed e), s')
      | (Inr _, s') \<Rightarrow> (Inr (), s'))"

section \<open>What the keys hold\<close>

text \<open>The server data a database holds: a server is known when its hash is not empty.\<close>

definition info_of :: "redis_data \<Rightarrow> string \<Rightarrow> string \<Rightarrow> string option" where
  "info_of d sid f = map_of (hashes d (ServerInfoKey sid)) f"

definition state_of :: "redis_data \<Rightarrow> string \<Rightarrow> ServerState option" where
  "state_of d sid =
     (let h = hashes d (ServerInfoKey sid) in
      if h = [] then None
      else Some \<lparr>SS_Status = hash_field h ''status'', SS_RetryCount = fst (Atoi (hash_field h ''retry_count''))\<rparr>)"

definition cached_ids :: "redis_data \<Rightarrow> string set" where
  "cached_ids d = set (rsets d ServerAllIDsKey)"

lemma map_of_put_fields:
  "map_of (put_fields fvs h) f = (case map_of (rev fvs) f of None \<Rightarrow> map_of h f | Some v \<Rightarrow> Some v)"
proof (induction fvs arbitrary: h)
  case (Cons p fvs)
  obtain a b where "p = (a, b)" by fastforce
  then show ?case
    using Cons by (simp add: update_conv' map_add_def split: option.split)
qed simp

lemma put_fields_not_Nil [simp]: "fvs \<noteq> [] \<Longrightarrow> put_fields fvs h \<noteq> []"
proof (induction fvs arbitrary: h)
  case (Cons p fvs)
  have "AList.update a b h \<noteq> []" for a b by (cases h) auto
  with Cons show ?case by (cases p; cases fvs) simp_all
qed simp

lemmas field_defs = info_fields_def state_fields_def hash_field_def

lemma state_after_fields:
  assumes "min_int64 \<le> n" "n \<le> max_int64"
  shows "state_of (do_hset (ServerInfoKey sid) (state_fields st n) d) sid' =
      (if sid' = sid then Some \<lparr>SS_Status = st, SS_RetryCount = n\<rparr> else state_of d sid')"
    and "state_of (do_hset (ServerInfoKey sid) (info_fields ip st n) d) sid' =
      (if sid' = sid then Some \<lparr>SS_Status = st, SS_RetryCount = n\<rparr> else state_of d sid')"
  using assms
  by (simp_all add: state_of_def store_simps Let_def field_defs update_conv Atoi_Itoa)

lemma info_after_fields:
  "info_of (do_hset (ServerInfoKey sid) (state_fields st n) d) sid' ''ipv4'' = info_of d sid' ''ipv4''"
  "info_of (do_hset (ServerInfoKey sid) (info_fields ip st n) d) sid' ''ipv4'' =
     (if sid' = sid then Some ip else info_of d sid' ''ipv4'')"
  by (auto simp: info_of_def store_simps field_defs update_conv)

lemma cached_ids_simps [store_simps]:
  "cached_ids (do_hset k fvs d) = cached_ids d"
  "cached_ids (do_sadd ServerAllIDsKey sid d) = insert sid (cached_ids d)"
  "cached_ids (do_srem ServerAllIDsKey sid d) = cached_ids d - {sid}"
  "cached_ids (do_del (ServerInfoKey sid) d) = cached_ids d"
  by (simp_all add: cached_ids_def store_simps)

lemma state_of_frame [store_simps]:
  "state_of (do_sadd k m d) = state_of d" "state_of (do_srem k m d) = state_of d"
  "state_of (do_del (ServerInfoKey sid) d) sid' = (if sid' = sid then None else state_of d sid')"
  by (auto simp: state_of_def store_simps Let_def fun_eq_iff)

lemma info_of_frame [store_simps]:
  "info_of (do_sadd k m d) = info_of d" "info_of (do_srem k m d) = info_of d"
  "info_of (do_del (ServerInfoKey sid) d) sid' = (if sid' = sid then (\<lambda>_. None) else info_of d sid')"
  by (auto simp: info_of_def store_simps fun_eq_iff)

section \<open>The contract of the state store\<close>

text \<open>
  The interface \<open>ServerStateStore\<close> of the monitoring module: \<open>get\<close> and \<open>set\<close> over an abstract state
  of the store, seen through \<open>view\<close>.
\<close>

locale server_state_store =
  fixes get :: "string \<Rightarrow> 's \<Rightarrow> (state_error + ServerState) \<times> 's"
    and set_state :: "string \<Rightarrow> string \<Rightarrow> int \<Rightarrow> 's \<Rightarrow> (state_error + unit) \<times> 's"
    and view :: "'s \<Rightarrow> string \<Rightarrow> ServerState option"
  assumes get_keeps: "get sid s = (r, s') \<Longrightarrow> view s' = view s"
    and get_found: "get sid s = (Inr x, s') \<Longrightarrow> view s sid = Some x"
    and get_missing: "get sid s = (Inl ErrServerStateNotFound, s') \<Longrightarrow> view s sid = None"
    and set_ok: "set_state sid st n s = (Inr (), s') \<Longrightarrow> min_int64 \<le> n \<Longrightarrow> n \<le> max_int64 \<Longrightarrow>
      view s' = (view s)(sid \<mapsto> \<lparr>SS_Status = st, SS_RetryCount = n\<rparr>)"
    and set_err: "set_state sid st n s = (Inl e, s') \<Longrightarrow> view s' = view s"
begin

lemma get_after_set:
  assumes "set_state sid st n s = (Inr (), s1)" "min_int64 \<le> n" "n \<le> max_int64" "get sid s1 = (Inr st', s2)"
  shows "st' = \<lparr>SS_Status = st, SS_RetryCount = n\<rparr>"
  using set_ok [OF assms(1-3)] get_found [OF assms(4)] by simp

end

context redis_client
begin

lemma get_state:
  assumes "GetServerState c sid s = (r, s')"
  shows "rdata s' = rdata s"
    and "r = Inr st \<Longrightarrow> state_of (rdata s) sid = Some st"
    and "r = Inl ErrServerStateNotFound \<Longrightarrow> state_of (rdata s) sid = None"
  using assms unfolding GetServerState_def
  by (auto simp: state_of_def Let_def split: sum.splits prod.splits if_splits
      dest: hgetall_keeps hgetall_found)

lemma set_state_ok:
  assumes "SetServerState c sid st n s = (Inr (), s')"
  shows "rdata s' = do_hset (ServerInfoKey sid) (state_fields st n) (rdata s)"
  using assms unfolding SetServerState_def
  by (auto split: sum.splits prod.splits dest: hset_ok)

lemma set_state_err:
  assumes "SetServerState c sid st n s = (Inl e, s')"
  shows "rdata s' = rdata s"
  using assms unfolding SetServerState_def
  by (auto split: sum.splits prod.splits dest: hset_err)

end

sublocale redis_client \<subseteq> state_store: server_state_store "GetServerState c" "SetServerState c" "\<lambda>s. state_of (rdata s)"
  by unfold_locales
    (auto simp: fun_eq_iff state_after_fields(1) dest: get_state set_state_ok set_state_err)

section \<open>What the cache operations do\<close>

context redis_client
begin

lemma upsert_ok:
  assumes "Upsert (Iface c) sid ip st n s = (Returns (Inr ()), s')"
  shows "rdata s' = do_sadd ServerAllIDsKey sid (do_hset (ServerInfoKey sid) (info_fields ip st n) (rdata s))"
  using assms unfolding Upsert_def
  by (auto split: sum.splits prod.splits dest!: hset_ok sadd_ok)

lemma upsert_returns: "\<exists>r s'. Upsert (Iface c) sid ip st n s = (Returns r, s')"
  unfolding Upsert_def by (auto split: sum.split prod.split)

lemma batch_upsert_returns: "\<exists>r s'. BatchUpsert (Iface c) items s = (Returns r, s')"
  unfolding BatchUpsert_def by (auto split: sum.split prod.split)

lemma cache_delete_returns: "\<exists>r s'. CacheDelete (Iface c) sid s = (Returns r, s')"
  unfolding CacheDelete_def by (auto split: sum.split prod.split)

lemma cache_delete_ok:
  assumes "CacheDelete (Iface c) sid s = (Returns (Inr ()), s')"
  shows "rdata s' = do_srem ServerAllIDsKey sid (do_del (ServerInfoKey sid) (rdata s))"
  using assms unfolding CacheDelete_def
  by (auto split: sum.splits prod.splits dest!: del_ok srem_ok)

lemma batch_upsert_ok:
  assumes "BatchUpsert (Iface c) items s = (Returns (Inr ()), s')"
  shows "rdata s' = do_cmds (upsert_cmds items) (rdata s)"
  using assms unfolding BatchUpsert_def
  by (auto simp: do_cmds_def split: sum.splits prod.splits if_splits dest!: exec_ok)

end

text \<open>A pipeline of upserts leaves what the single upserts would.\<close>

lemma do_cmds_upsert:
  "do_cmds (upsert_cmds (item # items)) d =
     do_cmds (upsert_cmds items) (do_sadd ServerAllIDsKey (CI_ID item)
       (do_hset (ServerInfoKey (CI_ID item)) (info_fields (CI_IPv4 item) (CI_Status item) (CI_RetryCount item)) d))"
  by (simp add: do_cmds_def)

end
