(* ===== verification/Server_Mgmt.thy ===== *)
theory Server_Mgmt
  imports Server_Cache
begin

text \<open>
  The server management module: \<open>internal/modules/server_management/domain\<close>, its repository
  \<open>repository/impl/server_repository_impl.go\<close> and the operations of \<open>service/server_service.go\<close>.

  The service works on the server table and on the Redis database; its collaborators are the
  record \<open>server_service\<close>: the engine of the table, the cache (none, or a cache made from a Redis
  client), Postgres' \<open>ILIKE\<close> and the case tables of \<open>strings.ToLower\<close>.
\<close>

section \<open>Domain\<close>

type_synonym ServerStatus = string

definition ServerStatusOnline :: ServerStatus where "ServerStatusOnline = ''ONLINE''"
definition ServerStatusOffline :: ServerStatus where "ServerStatusOffline = ''OFFLINE''"

lemmas status_defs = ServerStatusOnline_def ServerStatusOffline_def

definition IsValid :: "ServerStatus \<Rightarrow> bool" where
  "IsValid st \<longleftrightarrow> st = ServerStatusOnline \<or> st = ServerStatusOffline"

record Server =
  S_ServerID :: string
  S_ServerName :: string
  S_IPv4 :: string
  S_CurrentStatus :: ServerStatus
  S_ConsecutiveFailures :: int
  S_CreatedAt :: time
  S_UpdatedAt :: time

text \<open>A \<open>Server\<close> value as a composite literal makes it: the fields not named are zero.\<close>

definition zero_server :: Server where
  "zero_server = \<lparr>S_ServerID = [], S_ServerName = [], S_IPv4 = [], S_CurrentStatus = [],
     S_ConsecutiveFailures = 0, S_CreatedAt = 0, S_UpdatedAt = 0\<rparr>"

section \<open>Repository\<close>

datatype repo_error = ErrNotFound | RepoErr gorm_error

record ServerListFilter =
  F_Page :: int
  F_PageSize :: int
  F_Status :: string
  F_Name :: string
  F_CreatedFrom :: time
  F_CreatedTo :: time
  F_SortBy :: string
  F_SortDirection :: string

definition trim_server :: "Server \<Rightarrow> Server" where
  "trim_server x = x\<lparr>S_ServerName := TrimSpace (S_ServerName x), S_IPv4 := TrimSpace (S_IPv4 x)\<rparr>"

definition RepoCreate :: "Server gorm \<Rightarrow> Server \<Rightarrow> Server tbl \<Rightarrow> (repo_error + Server) \<times> Server tbl" where
  "RepoCreate g server t =
     (case g_create g (trim_server server) t of
        (Inl e, t') \<Rightarrow> (Inl (RepoErr e), t')
      | (Inr y, t') \<Rightarrow> (Inr y, t'))"

definition first_or_not_found ::
  "Server gorm \<Rightarrow> (Server \<Rightarrow> bool) \<Rightarrow> Server tbl \<Rightarrow> (repo_error + Server) \<times> Server tbl" where
  "first_or_not_found g p t =
     (case g_first g p t of
        (Inl e, t') \<Rightarrow> (if e = ErrRecordNotFound then (Inl ErrNotFound, t') else (Inl (RepoErr e), t'))
      | (Inr x, t') \<Rightarrow> (Inr x, t'))"

definition GetByID :: "Server gorm \<Rightarrow> string \<Rightarrow> Server tbl \<Rightarrow> (repo_error + Server) \<times> Server tbl" where
  "GetByID g i t = first_or_not_found g (\<lambda>x. S_ServerID x = i) t"

definition GetByIPv4 :: "Server gorm \<Rightarrow> string \<Rightarrow> Server tbl \<Rightarrow> (repo_error + Server) \<times> Server tbl" where
  "GetByIPv4 g ipv4 t = first_or_not_found g (\<lambda>x. S_IPv4 x = TrimSpace ipv4) t"

definition GetByName :: "Server gorm \<Rightarrow> string \<Rightarrow> Server tbl \<Rightarrow> (repo_error + Server) \<times> Server tbl" where
  "GetByName g name t = first_or_not_found g (\<lambda>x. S_ServerName x = TrimSpace name) t"

definition FindByNamesOrIPv4s ::
  "Server gorm \<Rightarrow> string list \<Rightarrow> string list \<Rightarrow> Server tbl \<Rightarrow> (gorm_error + Server list) \<times> Server tbl" where
  "FindByNamesOrIPv4s g names ipv4s t =
     (if names = [] \<and> ipv4s = [] then (Inr [], t)
      else g_find g (\<lambda>x. S_ServerName x \<in> set names \<or> S_IPv4 x \<in> set ipv4s) t)"

text \<open>\<open>Updates\<close> with a selection writes the selected columns and the update time.\<close>

definition updated_from :: "time \<Rightarrow> Server \<Rightarrow> Server \<Rightarrow> Server" where
  "updated_from now server x =
     x\<lparr>S_ServerName := S_ServerName server, S_IPv4 := S_IPv4 server,
       S_CurrentStatus := S_CurrentStatus server, S_ConsecutiveFailures := S_ConsecutiveFailures server,
       S_UpdatedAt := now\<rparr>"

definition RepoUpdate :: "Server gorm \<Rightarrow> time \<Rightarrow> Server \<Rightarrow> Server tbl \<Rightarrow> (repo_error + Server) \<times> Server tbl" where
  "RepoUpdate g now server t =
     (let srv = trim_server server in
      case g_update g (\<lambda>x. S_ServerID x = S_ServerID srv) (updated_from now srv) t of
        (Inl e, t') \<Rightarrow> (Inl (RepoErr e), t')
      | (Inr n, t') \<Rightarrow> if n = 0 then (Inl ErrNotFound, t') else (Inr (srv\<lparr>S_UpdatedAt := now\<rparr>), t'))"

definition RepoDelete :: "Server gorm \<Rightarrow> string \<Rightarrow> Server tbl \<Rightarrow> (repo_error + unit) \<times> Server tbl" where
  "RepoDelete g i t =
     (case g_delete g (\<lambda>x. S_ServerID x = i) t of
        (Inl e, t') \<Rightarrow> (Inl (RepoErr e), t')
      | (Inr n, t') \<Rightarrow> if n = 0 then (Inl ErrNotFound, t') else (Inr (), t'))"

definition BatchCreate :: "Server gorm \<Rightarrow> Server list \<Rightarrow> Server tbl \<Rightarrow> (gorm_error + Server list) \<times> Server tbl" where
  "BatchCreate g servers t = (if servers = [] then (Inr [], t) else g_create_all g servers t)"

text \<open>The conditions \<open>Search\<close> adds to its query.\<close>

definition search_where :: "(string \<Rightarrow> string \<Rightarrow> bool) \<Rightarrow> ServerListFilter \<Rightarrow> Server \<Rightarrow> bool" where
  "search_where ilike f x \<longleftrightarrow>
     (F_Status f \<noteq> [] \<longrightarrow> S_CurrentStatus x = F_Status f) \<and>
     (F_Name f \<noteq> [] \<longrightarrow>
        (let term = ''%'' @ TrimSpace (F_Name f) @ ''%''
         in ilike (S_ServerName x) term \<or> ilike (S_IPv4 x) term)) \<and>
     (F_CreatedFrom f \<noteq> 0 \<longrightarrow> F_CreatedFrom f \<le> S_CreatedAt x) \<and>
     (F_CreatedTo f \<noteq> 0 \<longrightarrow> S_CreatedAt x < F_CreatedTo f)"

definition search_order :: "(string \<Rightarrow> string) \<Rightarrow> ServerListFilter \<Rightarrow> string" where
  "search_order uni f =
     (if F_SortBy f \<noteq> [] then
        (let direction = (if ToLower uni (F_SortDirection f) = ''desc'' then ''desc'' else ''asc'')
         in F_SortBy f @ '' '' @ direction)
      else ''created_at desc'')"

definition search_offset :: "ServerListFilter \<Rightarrow> int" where
  "search_offset f = wrap64 (wrap64 (F_Page f - 1) * F_PageSize f)"

definition Search ::
  "Server gorm \<Rightarrow> (string \<Rightarrow> string \<Rightarrow> bool) \<Rightarrow> (string \<Rightarrow> string) \<Rightarrow> ServerListFilter \<Rightarrow> Server tbl
   \<Rightarrow> (gorm_error + Server list \<times> int) \<times> Server tbl" where
  "Search g ilike uni flt t =
     (case g_count g (search_where ilike flt) t of
        (Inl e, t1) \<Rightarrow> (Inl e, t1)
      | (Inr totalCount, t1) \<Rightarrow>
          (case g_page g (search_where ilike flt) (search_order uni flt) (search_offset flt)
                  (F_PageSize flt) t1 of
             (Inl e, t2) \<Rightarrow> (Inl e, t2)
           | (Inr servers, t2) \<Rightarrow> (Inr (servers, wrap32 (int totalCount)), t2)))"

section \<open>Service\<close>

datatype service_error =
    ErrServerNotFound
  | ErrIPv4Exists
  | ErrNameExists
  | ErrFileTooLarge
  | ErrInvalidFormat
  | ErrNoSheets
  | ErrEmptyFile
  | ErrMissingCols
  | ErrReadRows string
  | ErrInvalidStatusFilter
  | ErrRepo gorm_error
  | ErrRepoNotFound
  | ErrCheckExisting gorm_error
  | ErrBatchCreate gorm_error
  | ErrExportFetch gorm_error
  | ErrExcel string

fun of_repo :: "repo_error \<Rightarrow> service_error" where
  "of_repo ErrNotFound = ErrRepoNotFound"
| "of_repo (RepoErr e) = ErrRepo e"

record CreateServerInput =
  CS_ServerName :: string
  CS_IPv4 :: string

record UpdateServerInput =
  US_ServerName :: string
  US_IPv4 :: string

record server_service =
  sv_repo :: "Server gorm"
  sv_cache :: "redis iface option"
  sv_ilike :: "string \<Rightarrow> string \<Rightarrow> bool"
  sv_uni :: "string \<Rightarrow> string"

record server_state =
  st_servers :: "Server tbl"
  st_cache :: redis_db

text \<open>
  The second write: the cache is written after the table, its errors are logged and dropped, and
  only a panic of the client ends the request.
\<close>

definition dual_write ::
  "server_service \<Rightarrow> (redis iface \<Rightarrow> redis_db \<Rightarrow> (cache_error + unit) go \<times> redis_db) \<Rightarrow> 'a
   \<Rightarrow> server_state \<Rightarrow> (service_error + 'a) go \<times> server_state" where
  "dual_write d op result s =
     (case sv_cache d of
        None \<Rightarrow> (Returns (Inr result), s)
      | Some client \<Rightarrow>
          (case op client (st_cache s) of
             (Panics m, r) \<Rightarrow> (Panics m, s\<lparr>st_cache := r\<rparr>)
           | (Returns _, r) \<Rightarrow> (Returns (Inr result), s\<lparr>st_cache := r\<rparr>)))"

definition CreateServer ::
  "server_service \<Rightarrow> CreateServerInput \<Rightarrow> server_state \<Rightarrow> (service_error + Server) go \<times> server_state" where
  "CreateServer d input s =
     (case GetByName (sv_repo d) (CS_ServerName input) (st_servers s) of
        (Inl (RepoErr e), t) \<Rightarrow> (Returns (Inl (ErrRepo e)), s\<lparr>st_servers := t\<rparr>)
      | (Inr _, t) \<Rightarrow> (Returns (Inl ErrNameExists), s\<lparr>st_servers := t\<rparr>)
      | (Inl ErrNotFound, t) \<Rightarrow>
          (case GetByIPv4 (sv_repo d) (CS_IPv4 input) t of
             (Inl (RepoErr e), t1) \<Rightarrow> (Returns (Inl (ErrRepo e)), s\<lparr>st_servers := t1\<rparr>)
           | (Inr _, t1) \<Rightarrow> (Returns (Inl ErrIPv4Exists), s\<lparr>st_servers := t1\<rparr>)
           | (Inl ErrNotFound, t1) \<Rightarrow>
               (case RepoCreate (sv_repo d)
                       (zero_server\<lparr>S_ServerName := CS_ServerName input, S_IPv4 := CS_IPv4 input\<rparr>) t1 of
                  (Inl e, t2) \<Rightarrow> (Returns (Inl (of_repo e)), s\<lparr>st_servers := t2\<rparr>)
                | (Inr server, t2) \<Rightarrow>
                    dual_write d
                      (\<lambda>client. Upsert client (S_ServerID server) (S_IPv4 server) (S_CurrentStatus server) 0)
                      server (s\<lparr>st_servers := t2\<rparr>))))"

text \<open>The two look-ups of \<open>UpdateServer\<close>: a changed name (address) must not belong to another server.\<close>

definition check_name ::
  "server_service \<Rightarrow> string \<Rightarrow> string \<Rightarrow> Server \<Rightarrow> Server tbl \<Rightarrow> (service_error + Server) \<times> Server tbl" where
  "check_name d i name server t =
     (if name \<noteq> S_ServerName server then
        (case GetByName (sv_repo d) name t of
           (Inl (RepoErr e), t') \<Rightarrow> (Inl (ErrRepo e), t')
         | (Inl ErrNotFound, t') \<Rightarrow> (Inr (server\<lparr>S_ServerName := name\<rparr>), t')
         | (Inr other, t') \<Rightarrow>
             if S_ServerID other \<noteq> i then (Inl ErrNameExists, t')
             else (Inr (server\<lparr>S_ServerName := name\<rparr>), t'))
      else (Inr server, t))"

definition check_ipv4 ::
  "server_service \<Rightarrow> string \<Rightarrow> string \<Rightarrow> Server \<Rightarrow> Server tbl \<Rightarrow> (service_error + Server) \<times> Server tbl" where
  "check_ipv4 d i ipv4 server t =
     (if ipv4 \<noteq> S_IPv4 server then
        (case GetByIPv4 (sv_repo d) ipv4 t of
           (Inl (RepoErr e), t') \<Rightarrow> (Inl (ErrRepo e), t')
         | (Inl ErrNotFound, t') \<Rightarrow> (Inr (server\<lparr>S_IPv4 := ipv4\<rparr>), t')
         | (Inr other, t') \<Rightarrow>
             if S_ServerID other \<noteq> i then (Inl ErrIPv4Exists, t')
             else (Inr (server\<lparr>S_IPv4 := ipv4\<rparr>), t'))
      else (Inr server, t))"

definition UpdateServer ::
  "server_service \<Rightarrow> time \<Rightarrow> string \<Rightarrow> UpdateServerInput \<Rightarrow> server_state
   \<Rightarrow> (service_error + Server) go \<times> server_state" where
  "UpdateServer d now i input s =
     (case GetByID (sv_repo d) i (st_servers s) of
        (Inl ErrNotFound, t) \<Rightarrow> (Returns (Inl ErrServerNotFound), s\<lparr>st_servers := t\<rparr>)
      | (Inl (RepoErr e), t) \<Rightarrow> (Returns (Inl (ErrRepo e)), s\<lparr>st_servers := t\<rparr>)
      | (Inr server, t) \<Rightarrow>
          (case check_name d i (US_ServerName input) server t of
             (Inl e, t1) \<Rightarrow> (Returns (Inl e), s\<lparr>st_servers := t1\<rparr>)
           | (Inr server1, t1) \<Rightarrow>
               (case check_ipv4 d i (US_IPv4 input) server1 t1 of
                  (Inl e, t2) \<Rightarrow> (Returns (Inl e), s\<lparr>st_servers := t2\<rparr>)
                | (Inr server2, t2) \<Rightarrow>
                    (case RepoUpdate (sv_repo d) now server2 t2 of
                       (Inl e, t3) \<Rightarrow> (Returns (Inl (of_repo e)), s\<lparr>st_servers := t3\<rparr>)
                     | (Inr srv, t3) \<Rightarrow>
                         dual_write d
                           (\<lambda>client. Upsert client (S_ServerID srv) (S_IPv4 srv) (S_CurrentStatus srv)
                              (S_ConsecutiveFailures srv))
                           srv (s\<lparr>st_servers := t3\<rparr>)))))"

definition DeleteServer ::
  "server_service \<Rightarrow> string \<Rightarrow> server_state \<Rightarrow> (service_error + unit) go \<times> server_state" where
  "DeleteServer d i s =
     (case GetByID (sv_repo d) i (st_servers s) of
        (Inl ErrNotFound, t) \<Rightarrow> (Returns (Inl ErrServerNotFound), s\<lparr>st_servers := t\<rparr>)
      | (Inl (RepoErr e), t) \<Rightarrow> (Returns (Inl (ErrRepo e)), s\<lparr>st_servers := t\<rparr>)
      | (Inr _, t) \<Rightarrow>
          (case RepoDelete (sv_repo d) i t of
             (Inl ErrNotFound, t1) \<Rightarrow> (Returns (Inl ErrServerNotFound), s\<lparr>st_servers := t1\<rparr>)
           | (Inl (RepoErr e), t1) \<Rightarrow> (Returns (Inl (ErrRepo e)), s\<lparr>st_servers := t1\<rparr>)
           | (Inr _, t1) \<Rightarrow> dual_write d (\<lambda>client. CacheDelete client i) () (s\<lparr>st_servers := t1\<rparr>)))"

definition clamp_filter :: "ServerListFilter \<Rightarrow> ServerListFilter" where
  "clamp_filter f =
     f\<lparr>F_Page := (if F_Page f < 1 then 1 else F_Page f),
       F_PageSize := (if F_PageSize f < 1 \<or> F_PageSize f > 100 then 20 else F_PageSize f)\<rparr>"

definition SearchServers ::
  "server_service \<Rightarrow> ServerListFilter \<Rightarrow> server_state \<Rightarrow> (service_error + Server list \<times> int) \<times> server_state" where
  "SearchServers d flt s =
     (let f = clamp_filter flt in
      if F_Status f \<noteq> [] \<and> \<not> IsValid (F_Status f) then (Inl ErrInvalidStatusFilter, s)
      else (case Search (sv_repo d) (sv_ilike d) (sv_uni d) f (st_servers s) of
              (Inl e, t) \<Rightarrow> (Inl (ErrRepo e), s\<lparr>st_servers := t\<rparr>)
            | (Inr r, t) \<Rightarrow> (Inr r, s\<lparr>st_servers := t\<rparr>)))"

end
