(* ===== verification/Go_Time.thy ===== *)
theory Go_Time
  imports Go_Base
begin

text \<open>
  Calendar dates as Go's \<open>time\<close> package has them: the proleptic Gregorian calendar, counted in days
  from 0001-01-01; \<open>time.Parse("2006-01-02", s)\<close> and the layouts the service prints.
\<close>

abbreviation day :: duration where "day \<equiv> 24 * hour"

section \<open>The calendar\<close>

definition is_leap :: "int \<Rightarrow> bool" where
  "is_leap y \<longleftrightarrow> y mod 4 = 0 \<and> (y mod 100 \<noteq> 0 \<or> y mod 400 = 0)"

definition days_in :: "int \<Rightarrow> nat \<Rightarrow> int" where
  "days_in y m =
     (if m = 2 \<and> is_leap y then 29
      else [31, 28, 31, 30, 31, 30, 31, 31, 30, 31, 30, 31] ! (m - 1))"

definition days_before_year :: "int \<Rightarrow> int" where
  "days_before_year y = 365 * (y - 1) + (y - 1) div 4 - (y - 1) div 100 + (y - 1) div 400"

fun days_before_month :: "int \<Rightarrow> nat \<Rightarrow> int" where
  "days_before_month y 0 = 0"
| "days_before_month y (Suc 0) = 0"
| "days_before_month y (Suc (Suc m)) = days_before_month y (Suc m) + days_in y (Suc m)"

definition days_of :: "int \<Rightarrow> nat \<Rightarrow> nat \<Rightarrow> int" where
  "days_of y m d = days_before_year y + days_before_month y m + int d - 1"

text \<open>The year of a day: whole 400-year cycles, then centuries, 4-year cycles and years.\<close>

definition year_of :: "int \<Rightarrow> int" where
  "year_of n =
     (let q = n div 146097; r = n mod 146097;
          c = min 3 (r div 36524); r1 = r - 36524 * c;
          f = r1 div 1461; r2 = r1 mod 1461;
          a = min 3 (r2 div 365)
      in 400 * q + 100 * c + 4 * f + a + 1)"

text \<open>The month and day of a day of the year.\<close>

fun month_from :: "int \<Rightarrow> nat \<Rightarrow> nat \<Rightarrow> int \<Rightarrow> nat \<times> int" where
  "month_from y 0 m r = (m, r + 1)"
| "month_from y (Suc fuel) m r =
     (if r < days_in y m then (m, r + 1) else month_from y fuel (Suc m) (r - days_in y m))"

definition date_of :: "int \<Rightarrow> int \<times> nat \<times> int" where
  "date_of n = (let y = year_of n; (m, d) = month_from y 11 1 (n - days_before_year y) in (y, m, d))"

section \<open>Parsing a date\<close>

definition num2 :: "string \<Rightarrow> nat option" where
  "num2 s = (if length s = 2 \<and> list_all is_digit s then Some (digits_val s) else None)"

definition parse_date :: "string \<Rightarrow> time option" where
  "parse_date s =
     (if length s = 10 \<and> list_all is_digit (take 4 s) \<and> s ! 4 = CHR ''-'' \<and> s ! 7 = CHR ''-'' then
        (case (num2 (take 2 (drop 5 s)), num2 (drop 8 s)) of
           (Some m, Some d) \<Rightarrow>
             (let y = int (digits_val (take 4 s)) in
              if 1 \<le> m \<and> m \<le> 12 \<and> 1 \<le> d \<and> int d \<le> days_in y m then Some (days_of y m d * day) else None)
         | _ \<Rightarrow> None)
      else None)"

text \<open>A parsed date is midnight UTC.\<close>

lemma parse_date_day: "parse_date s = Some t \<Longrightarrow> t mod day = 0"
  by (auto simp: parse_date_def Let_def split: if_splits option.splits)

section \<open>Printing\<close>

definition pad :: "nat \<Rightarrow> int \<Rightarrow> string" where
  "pad w n = (let s = nat_string (nat n) in replicate (w - length s) (CHR ''0'') @ s)"

text \<open>A fraction without its trailing zeros.\<close>

fun drop_zeros :: "string \<Rightarrow> string" where
  "drop_zeros [] = []"
| "drop_zeros (c # cs) = (let r = drop_zeros cs in if r = [] \<and> c = CHR ''0'' then [] else c # r)"

text \<open>\<open>local\<close> time: the offset in seconds of the location of the value, as \<open>loc\<close> gives it.\<close>

definition civil :: "(time \<Rightarrow> int) \<Rightarrow> time \<Rightarrow> int \<times> nat \<times> int \<times> int \<times> int \<times> int" where
  "civil loc t =
     (let u = t div second + loc t; (y, m, d) = date_of (u div 86400); r = u mod 86400
      in (y, m, d, r div 3600, r mod 3600 div 60, r mod 60))"

definition Format_date :: "(time \<Rightarrow> int) \<Rightarrow> time \<Rightarrow> string" where
  "Format_date loc t =
     (case civil loc t of (y, m, d, _) \<Rightarrow> pad 4 y @ ''-'' @ pad 2 (int m) @ ''-'' @ pad 2 d)"

definition Format_datetime :: "(time \<Rightarrow> int) \<Rightarrow> time \<Rightarrow> string" where
  "Format_datetime loc t =
     (case civil loc t of (y, m, d, h, mi, s) \<Rightarrow>
        pad 4 y @ ''-'' @ pad 2 (int m) @ ''-'' @ pad 2 d @ '' ''
        @ pad 2 h @ '':'' @ pad 2 mi @ '':'' @ pad 2 s)"

definition Format_stamp :: "(time \<Rightarrow> int) \<Rightarrow> time \<Rightarrow> string" where
  "Format_stamp loc t =
     (case civil loc t of (y, m, d, h, mi, s) \<Rightarrow>
        pad 4 y @ pad 2 (int m) @ pad 2 d @ ''_'' @ pad 2 h @ pad 2 mi @ pad 2 s)"

definition Format_RFC3339 :: "(time \<Rightarrow> int) \<Rightarrow> time \<Rightarrow> string" where
  "Format_RFC3339 loc t =
     (case civil loc t of (y, m, d, h, mi, s) \<Rightarrow>
        pad 4 y @ ''-'' @ pad 2 (int m) @ ''-'' @ pad 2 d @ ''T''
        @ pad 2 h @ '':'' @ pad 2 mi @ '':'' @ pad 2 s
        @ (let z = loc t in
           if z = 0 then ''Z''
           else (if z < 0 then ''-'' else ''+'') @ pad 2 (\<bar>z\<bar> div 3600) @ '':'' @ pad 2 (\<bar>z\<bar> mod 3600 div 60)))"

section \<open>Parsing what was printed\<close>

lemma length_pad: "length (nat_string (nat n)) \<le> w \<Longrightarrow> length (pad w n) = w"
  by (simp add: pad_def Let_def)

lemma digits_val_zeros: "digits_val (replicate k (CHR ''0'') @ s) = digits_val s"
  by (induction k) (simp_all add: digits_val_def digit_val_def)

lemma digits_val_pad [simp]: "0 \<le> n \<Longrightarrow> digits_val (pad w n) = nat n"
  by (simp add: pad_def Let_def digits_val_zeros)

lemma pad_digits [simp]: "list_all is_digit (pad w n)"
  using nat_string_digits [of "nat n"] by (auto simp: pad_def Let_def list_all_iff is_digit_def)

lemma nat_string_length: "n < 10 ^ w \<Longrightarrow> 0 < w \<Longrightarrow> length (nat_string n) \<le> w"
proof (induction w arbitrary: n)
  case (Suc w)
  show ?case
  proof (cases "n < 10")
    case True
    then show ?thesis by (simp add: nat_string.simps [of n])
  next
    case False
    with Suc.prems have "n div 10 < 10 ^ w" "0 < w" by (cases w; auto)+
    with Suc.IH have "length (nat_string (n div 10)) \<le> w" by blast
    with False show ?thesis by (simp add: nat_string.simps [of n])
  qed
qed simp

lemma pad_length: "0 \<le> n \<Longrightarrow> n < 10 ^ w \<Longrightarrow> 0 < w \<Longrightarrow> length (pad w n) = w"
proof (rule length_pad, rule nat_string_length)
  assume "0 \<le> n" "n < 10 ^ w"
  then have "int (nat n) < int (10 ^ w)" by simp
  then show "nat n < 10 ^ w" by (simp only: of_nat_less_iff)
qed

theorem parse_printed_date:
  assumes "0 \<le> y" "y \<le> 9999" "1 \<le> m" "m \<le> 12" "1 \<le> d" "d \<le> days_in y m"
  shows "parse_date (pad 4 y @ ''-'' @ pad 2 (int m) @ ''-'' @ pad 2 d) = Some (days_of y m (nat d) * day)"
proof -
  have "days_in y m \<le> 31"
  proof -
    let ?l = "[31, 28, 31, 30, 31, 30, 31, 31, 30, 31, 30, 31] :: int list"
    have "?l ! (m - 1) \<in> set ?l" using assms(3,4) by (intro nth_mem) simp
    then have "?l ! (m - 1) \<le> 31" by auto
    then show ?thesis by (simp add: days_in_def)
  qed
  with assms have l: "length (pad 4 y) = 4" "length (pad 2 (int m)) = 2" "length (pad 2 d) = 2"
    by (auto intro!: pad_length)
  let ?s = "pad 4 y @ ''-'' @ pad 2 (int m) @ ''-'' @ pad 2 d"
  have "take 4 ?s = pad 4 y" "?s ! 4 = CHR ''-''" "?s ! 7 = CHR ''-''" "length ?s = 10"
    "take 2 (drop 5 ?s) = pad 2 (int m)" "drop 8 ?s = pad 2 d"
    using l by (simp_all add: nth_append)
  then show ?thesis
    using assms l by (simp add: parse_date_def num2_def Let_def)
qed

section \<open>The calendar and the count of days are inverse\<close>

lemma days_before_year_split:
  assumes "0 \<le> c" "c \<le> 3" "0 \<le> f" "f \<le> 24" "0 \<le> a" "a \<le> 3"
  shows "days_before_year (400 * q + 100 * c + 4 * f + a + 1) = 146097 * q + 36524 * c + 1461 * f + 365 * a"
proof -
  let ?x = "400 * q + 100 * c + 4 * f + a"
  have "?x div 4 = 100 * q + 25 * c + f" by (rule int_div_pos_eq [where r = a]) (use assms in simp_all)
  moreover have "?x div 100 = 4 * q + c" by (rule int_div_pos_eq [where r = "4 * f + a"]) (use assms in simp_all)
  moreover have "?x div 400 = q" by (rule int_div_pos_eq [where r = "100 * c + 4 * f + a"]) (use assms in simp_all)
  ultimately show ?thesis by (simp add: days_before_year_def algebra_simps)
qed

lemma is_leap_split:
  assumes "0 \<le> c" "c \<le> 3" "0 \<le> f" "f \<le> 24"
  shows "is_leap (400 * q + 100 * c + 4 * f + 3 + 1) \<longleftrightarrow> f \<noteq> 24 \<or> c = 3"
proof -
  let ?x = "400 * q + 100 * c + 4 * f + 3 + 1"
  have "?x mod 4 = 0" by (rule int_mod_pos_eq [where q = "100 * q + 25 * c + f + 1"]) simp_all
  moreover have "?x mod 100 = 4 * f + 4" if "f \<noteq> 24"
    by (rule int_mod_pos_eq [where q = "4 * q + c"]) (use assms that in simp_all)
  moreover have "?x mod 100 = 0" if "f = 24"
    by (rule int_mod_pos_eq [where q = "4 * q + c + 1"]) (use that in simp_all)
  moreover have "?x mod 400 = 100 * c + 100" if "f = 24" "c \<noteq> 3"
    by (rule int_mod_pos_eq [where q = q]) (use assms that in simp_all)
  moreover have "?x mod 400 = 0" if "f = 24" "c = 3"
    by (rule int_mod_pos_eq [where q = "q + 1"]) (use that in simp_all)
  ultimately show ?thesis
    unfolding is_leap_def using assms by (cases "f = 24"; cases "c = 3") simp_all
qed

lemma year_of_bounds:
  "days_before_year (year_of n) \<le> n \<and> n < days_before_year (year_of n) + (if is_leap (year_of n) then 366 else 365)"
proof -
  define q where "q = n div 146097"
  define r where "r = n mod 146097"
  define c where "c = min 3 (r div 36524)"
  define r1 where "r1 = r - 36524 * c"
  define f where "f = r1 div 1461"
  define r2 where "r2 = r1 mod 1461"
  define a where "a = min 3 (r2 div 365)"
  have n: "n = 146097 * q + r" by (simp add: q_def r_def)
  have r: "0 \<le> r" "r < 146097" by (simp_all add: r_def)
  have c: "0 \<le> c" "c \<le> 3" "36524 * c \<le> r" "c < 3 \<Longrightarrow> r < 36524 * c + 36524" using r unfolding c_def by linarith+
  have r1: "0 \<le> r1" "r1 \<le> 36524" "c < 3 \<Longrightarrow> r1 < 36524" using c r unfolding r1_def by linarith+
  have f: "0 \<le> f" "f \<le> 24" "r1 = 1461 * f + r2" using r1 by (simp_all add: f_def r2_def)
  have r2: "0 \<le> r2" "r2 < 1461" by (simp_all add: r2_def)
  have a: "0 \<le> a" "a \<le> 3" "365 * a \<le> r2" "a < 3 \<Longrightarrow> r2 < 365 * a + 365" using r2 unfolding a_def by linarith+
  have y: "year_of n = 400 * q + 100 * c + 4 * f + a + 1"
    by (simp add: year_of_def q_def r_def c_def r1_def f_def r2_def a_def Let_def)
  have d: "days_before_year (year_of n) = 146097 * q + 36524 * c + 1461 * f + 365 * a"
    unfolding y by (rule days_before_year_split) (use c f a in simp_all)
  have nn: "n = 146097 * q + 36524 * c + 1461 * f + r2" using n f(3) by (simp add: r1_def)
  show ?thesis
  proof (cases "a = 3")
    case True
    have "is_leap (year_of n) \<longleftrightarrow> f \<noteq> 24 \<or> c = 3" unfolding y True by (rule is_leap_split) (use c f in simp_all)
    moreover have "f = 24 \<Longrightarrow> c \<noteq> 3 \<Longrightarrow> r2 < 1460" using f(3) r1(3) c(2) by linarith
    ultimately show ?thesis using nn d a True r2 by auto
  next
    case False
    with a nn d show ?thesis by auto
  qed
qed

lemma days_in_pos: "1 \<le> m \<Longrightarrow> m \<le> 12 \<Longrightarrow> 28 \<le> days_in y m"
proof -
  let ?l = "[31, 28, 31, 30, 31, 30, 31, 31, 30, 31, 30, 31] :: int list"
  assume "1 \<le> m" "m \<le> 12"
  then have "?l ! (m - 1) \<in> set ?l" by (intro nth_mem) simp
  then have "28 \<le> ?l ! (m - 1)" by auto
  then show ?thesis by (simp add: days_in_def)
qed

lemma month_from_inverse:
  assumes "1 \<le> m" and "m + fuel \<le> 12" and "0 \<le> r"
    and "days_before_month y m + r < days_before_month y (Suc (m + fuel))"
    and "month_from y fuel m r = (m', d)"
  shows "m \<le> m' \<and> m' \<le> m + fuel \<and> 1 \<le> d \<and> d \<le> days_in y m' \<and> days_before_month y m' + d - 1 = days_before_month y m + r"
  using assms
proof (induction fuel arbitrary: m r)
  case 0
  then obtain k where "m = Suc k" by (cases m) auto
  with 0 show ?case by auto
next
  case (Suc fuel)
  from Suc.prems(1) obtain k where k: "m = Suc k" by (cases m) auto
  show ?case
  proof (cases "r < days_in y m")
    case True
    with Suc.prems show ?thesis by auto
  next
    case False
    have s: "days_before_month y (Suc m) = days_before_month y m + days_in y m" by (simp add: k)
    have "month_from y fuel (Suc m) (r - days_in y m) = (m', d)" using False Suc.prems(5) by simp
    with Suc.IH [of "Suc m" "r - days_in y m"] Suc.prems(1-4) False s show ?thesis by fastforce
  qed
qed

lemma year_length: "days_before_month y 13 = (if is_leap y then 366 else 365)"
  by (simp add: eval_nat_numeral days_in_def)

theorem date_of_inverse:
  assumes "date_of n = (y, m, d)"
  shows "y = year_of n \<and> 1 \<le> m \<and> m \<le> 12 \<and> 1 \<le> d \<and> d \<le> days_in y m \<and> days_of y m (nat d) = n"
proof -
  from assms have y: "y = year_of n" and md: "month_from y 11 1 (n - days_before_year y) = (m, d)"
    by (auto simp: date_of_def Let_def split: prod.splits)
  have "0 \<le> n - days_before_year y" "days_before_month y 1 + (n - days_before_year y) < days_before_month y (Suc (1 + 11))"
    using year_of_bounds [of n] year_length [of y] y by (simp_all split: if_splits)
  from month_from_inverse [OF _ _ this md]
  have "1 \<le> m" "m \<le> 12" "1 \<le> d" "d \<le> days_in y m" "days_before_month y m + d - 1 = n - days_before_year y" by simp_all
  with y show ?thesis by (simp add: days_of_def)
qed

end
