(* ===== verification/Observation.thy ===== *)
theory Observation
  imports Go_Time
begin

text \<open>
  \<open>internal/infrastructure/elasticsearch/observation_logger.go\<close>: the buffered logger between the
  monitoring service and Elasticsearch. The callers and the flusher goroutine share the channel;
  the state is the channel, the batch of the flusher and the index, and the step relation
  \<open>log_step\<close> interleaves callers, the flusher, its ticker and the shutdown in any order.

  Two fields are for the proofs only: \<open>lg_accepted\<close>, the observations the channel took, and
  \<open>lg_flushed\<close>, the batches handed to \<open>flush\<close>. The Elasticsearch client is the parameter \<open>es_client\<close>
  with the contract \<open>es_bulk\<close>.
\<close>

section \<open>Documents\<close>

record ObservationLog =
  OB_ServerID :: string
  OB_IsSuccess :: bool
  OB_Timestamp :: time

text \<open>\<open>json.Marshal\<close> of a string: the escapes of Go's encoder for bytes below 128.\<close>

definition json_char :: "char \<Rightarrow> string" where
  "json_char c =
     (let n = of_char c :: nat;
          hex = (\<lambda>k. ''0123456789abcdef'' ! k);
          u = [char_of (92 :: nat), CHR ''u'', CHR ''0'', CHR ''0'', hex (n div 16), hex (n mod 16)]
      in if n = 34 \<or> n = 92 then [char_of (92 :: nat), c]
         else if n = 8 then [char_of (92 :: nat), CHR ''b'']
         else if n = 12 then [char_of (92 :: nat), CHR ''f'']
         else if n = 10 then [char_of (92 :: nat), CHR ''n'']
         else if n = 13 then [char_of (92 :: nat), CHR ''r'']
         else if n = 9 then [char_of (92 :: nat), CHR ''t'']
         else if n < 32 \<or> n = 60 \<or> n = 62 \<or> n = 38 then u
         else [c])"

definition json_string :: "string \<Rightarrow> string" where
  "json_string s = [CHR 0x22] @ concat (map json_char s) @ [CHR 0x22]"

text \<open>The time stamp in UTC, with the fraction of a second without trailing zeros.\<close>

definition json_time :: "time \<Rightarrow> string" where
  "json_time t =
     (case civil (\<lambda>_. 0) t of (y, m, d, h, mi, s) \<Rightarrow>
        (let frac = drop_zeros (pad 9 (t mod second)) in
         [CHR 0x22] @ pad 4 y @ ''-'' @ pad 2 (int m) @ ''-'' @ pad 2 d @ ''T'' @ pad 2 h @ '':'' @ pad 2 mi @ '':''
         @ pad 2 s @ (if frac = [] then [] else ''.'' @ frac) @ ''Z'' @ [CHR 0x22]))"

text \<open>\<open>json.Marshal\<close> of a log entry; a year outside 0 to 9999 is an error.\<close>

definition marshal :: "ObservationLog \<Rightarrow> string option" where
  "marshal obs =
     (case civil (\<lambda>_. 0) (OB_Timestamp obs) of (y, _) \<Rightarrow>
        if y < 0 \<or> 9999 < y then None
        else Some (''{'' @ json_string ''server_id'' @ '':'' @ json_string (OB_ServerID obs)
               @ '','' @ json_string ''is_success'' @ '':'' @ (if OB_IsSuccess obs then ''true'' else ''false'')
               @ '','' @ json_string ''timestamp'' @ '':'' @ json_time (OB_Timestamp obs) @ ''}''))"

section \<open>The client\<close>

text \<open>What the index holds, as documents; the counter lets a client answer differently over time.\<close>

record es_state =
  es_docs :: "string list"
  es_env :: nat

text \<open>A bulk request of lines: an error, or the flag \<open>Errors\<close> of the response.\<close>

type_synonym es_client = "string list \<Rightarrow> es_state \<Rightarrow> (string + bool) \<times> es_state"

fun doc_lines :: "string list \<Rightarrow> string list" where
  "doc_lines (action # doc # rest) = doc # doc_lines rest"
| "doc_lines _ = []"

locale es_bulk =
  fixes bulk :: es_client
  assumes bulk_ok: "bulk ls s = (Inr False, s') \<Longrightarrow> es_docs s' = es_docs s @ doc_lines ls"
    and bulk_part: "bulk ls s = (r, s') \<Longrightarrow> \<exists>got. subseq got (doc_lines ls) \<and> es_docs s' = es_docs s @ got"

text \<open>A reference client with a schedule of failures; a failing request may store all it got.\<close>

definition mem_es :: "(nat \<Rightarrow> (string + bool) option) \<Rightarrow> es_client" where
  "mem_es fault ls s =
     (case fault (es_env s) of
        None \<Rightarrow> (Inr False, s\<lparr>es_docs := es_docs s @ doc_lines ls, es_env := Suc (es_env s)\<rparr>)
      | Some (Inl e) \<Rightarrow> (Inl e, s\<lparr>es_env := Suc (es_env s)\<rparr>)
      | Some (Inr _) \<Rightarrow> (Inr True, s\<lparr>es_docs := es_docs s @ doc_lines ls, es_env := Suc (es_env s)\<rparr>))"

interpretation mem_bulk: es_bulk "mem_es fault" for fault
proof
  show "mem_es fault ls s = (Inr False, s') \<Longrightarrow> es_docs s' = es_docs s @ doc_lines ls" for ls s s'
    by (auto simp: mem_es_def split: option.splits sum.splits)
  show "mem_es fault ls s = (r, s') \<Longrightarrow> \<exists>got. subseq got (doc_lines ls) \<and> es_docs s' = es_docs s @ got" for ls s r s'
    by (auto simp: mem_es_def split: option.splits sum.splits intro: exI [of _ "[]"] exI [of _ "doc_lines ls"])
qed

section \<open>The logger\<close>

record bufferedLogger =
  bl_client :: "es_client option"
  bl_index :: string
  bl_cap :: int
  bl_batchSize :: int
  bl_flushInterval :: duration
  bl_retryMax :: int

record log_state =
  lg_ch :: "ObservationLog list"
  lg_closed :: bool
  lg_batch :: "ObservationLog list"
  lg_stopped :: bool
  lg_es :: es_state
  lg_accepted :: "ObservationLog list"
  lg_flushed :: "ObservationLog list list"

text \<open>
  \<open>NewObservationLogger\<close> makes the channel and starts the flusher: a negative capacity panics in
  the caller, an interval that is not positive panics in the flusher.
\<close>

definition NewObservationLogger :: "bufferedLogger \<Rightarrow> es_state \<Rightarrow> log_state go" where
  "NewObservationLogger l es =
     (if bl_cap l < 0 then Panics ''makechan: size out of range''
      else if bl_flushInterval l \<le> 0 then Panics ''non-positive interval for NewTicker''
      else Returns \<lparr>lg_ch = [], lg_closed = False, lg_batch = [], lg_stopped = False, lg_es = es,
                    lg_accepted = [], lg_flushed = []\<rparr>)"

definition bulk_lines :: "string \<Rightarrow> ObservationLog list \<Rightarrow> string list" where
  "bulk_lines index batch =
     concat (map (\<lambda>obs.
       (''{'' @ json_string ''index'' @ '':{'' @ json_string ''_index'' @ '':'' @ [CHR 0x22] @ index @ [CHR 0x22] @ ''}}'')
       # (case marshal obs of None \<Rightarrow> [] | Some doc \<Rightarrow> [doc])) batch)"

text \<open>The retry loop: at most \<open>n\<close> requests with the same body, until one reports no error.\<close>

fun bulk_retry :: "es_client \<Rightarrow> nat \<Rightarrow> string list \<Rightarrow> es_state \<Rightarrow> bool \<times> es_state" where
  "bulk_retry bulk 0 ls es = (False, es)"
| "bulk_retry bulk (Suc n) ls es =
     (case bulk ls es of
        (Inr False, es') \<Rightarrow> (True, es')
      | (_, es') \<Rightarrow> bulk_retry bulk n ls es')"

definition flush :: "bufferedLogger \<Rightarrow> ObservationLog list \<Rightarrow> es_state \<Rightarrow> bool \<times> es_state" where
  "flush l batch es =
     (case bl_client l of
        None \<Rightarrow> (False, es)
      | Some bulk \<Rightarrow> bulk_retry bulk (nat (bl_retryMax l)) (bulk_lines (bl_index l) batch) es)"

definition flush_batch :: "bufferedLogger \<Rightarrow> ObservationLog list \<Rightarrow> log_state \<Rightarrow> log_state" where
  "flush_batch l batch st =
     st\<lparr>lg_es := snd (flush l batch (lg_es st)), lg_flushed := lg_flushed st @ [batch], lg_batch := []\<rparr>"

text \<open>The flusher takes one observation.\<close>

definition receive_obs :: "bufferedLogger \<Rightarrow> ObservationLog \<Rightarrow> log_state \<Rightarrow> log_state" where
  "receive_obs l obs st =
     (let batch = lg_batch st @ [obs] in
      if int (length batch) \<ge> bl_batchSize l then flush_batch l batch st
      else st\<lparr>lg_batch := batch\<rparr>)"

text \<open>
  \<open>LogObservation\<close>: a send that does not block. \<open>ready\<close> says whether the flusher waits at the
  channel, which matters when the channel has no buffer. Sending on a closed channel panics.
\<close>

definition LogObservation ::
  "bufferedLogger \<Rightarrow> bool \<Rightarrow> time \<Rightarrow> string \<Rightarrow> bool \<Rightarrow> log_state \<Rightarrow> unit go \<times> log_state" where
  "LogObservation l ready now serverID isSuccess st =
     (let obs = \<lparr>OB_ServerID = serverID, OB_IsSuccess = isSuccess, OB_Timestamp = now\<rparr> in
      if lg_closed st then (Panics ''send on closed channel'', st)
      else if int (length (lg_ch st)) < bl_cap l
      then (Returns (), st\<lparr>lg_ch := lg_ch st @ [obs], lg_accepted := lg_accepted st @ [obs]\<rparr>)
      else if bl_cap l = 0 \<and> ready
      then (Returns (), receive_obs l obs (st\<lparr>lg_accepted := lg_accepted st @ [obs]\<rparr>))
      else (Returns (), st))"

definition flusher_receive :: "bufferedLogger \<Rightarrow> log_state \<Rightarrow> log_state" where
  "flusher_receive l st =
     (case lg_ch st of
        [] \<Rightarrow> (if lg_closed st
               then (if lg_batch st \<noteq> [] then (flush_batch l (lg_batch st) st)\<lparr>lg_stopped := True\<rparr>
                     else st\<lparr>lg_stopped := True\<rparr>)
               else st)
      | obs # rest \<Rightarrow> receive_obs l obs (st\<lparr>lg_ch := rest\<rparr>))"

definition flusher_tick :: "bufferedLogger \<Rightarrow> log_state \<Rightarrow> log_state" where
  "flusher_tick l st = (if lg_batch st \<noteq> [] then flush_batch l (lg_batch st) st else st)"

definition close_channel :: "log_state \<Rightarrow> unit go \<times> log_state" where
  "close_channel st =
     (if lg_closed st then (Panics ''close of closed channel'', st) else (Returns (), st\<lparr>lg_closed := True\<rparr>))"

text \<open>Callers, flusher, ticker and shutdown in any order, until the flusher has stopped.\<close>

inductive log_step :: "bufferedLogger \<Rightarrow> log_state \<Rightarrow> log_state \<Rightarrow> bool" for l where
  step_log: "\<not> lg_stopped st \<Longrightarrow> LogObservation l ready now sid ok st = (r, st') \<Longrightarrow> log_step l st st'"
| step_receive: "\<not> lg_stopped st \<Longrightarrow> log_step l st (flusher_receive l st)"
| step_tick: "\<not> lg_stopped st \<Longrightarrow> log_step l st (flusher_tick l st)"
| step_close: "\<not> lg_stopped st \<Longrightarrow> close_channel st = (r, st') \<Longrightarrow> log_step l st st'"

inductive_cases log_stepE: "log_step l st st'"

section \<open>What is accepted is flushed, in order\<close>

definition log_inv :: "bufferedLogger \<Rightarrow> log_state \<Rightarrow> bool" where
  "log_inv l st \<longleftrightarrow>
     lg_accepted st = concat (lg_flushed st) @ lg_batch st @ lg_ch st \<and>
     int (length (lg_ch st)) \<le> max 0 (bl_cap l) \<and>
     int (length (lg_batch st)) < max 1 (bl_batchSize l) \<and>
     (\<forall>b\<in>set (lg_flushed st). b \<noteq> [] \<and> int (length b) \<le> max 1 (bl_batchSize l)) \<and>
     (lg_stopped st \<longrightarrow> lg_closed st \<and> lg_ch st = [] \<and> lg_batch st = [])"

lemma receive_obs_inv:
  assumes "log_inv l st" and "\<not> lg_stopped st" and "lg_ch st = obs # rest"
  shows "log_inv l (receive_obs l obs (st\<lparr>lg_ch := rest\<rparr>))"
  using assms by (auto simp: log_inv_def receive_obs_def flush_batch_def Let_def max_def split: if_splits)

lemma handoff_inv:
  assumes "log_inv l st" and "\<not> lg_stopped st" and "bl_cap l = 0"
  shows "log_inv l (receive_obs l obs (st\<lparr>lg_accepted := lg_accepted st @ [obs]\<rparr>))"
  using assms by (auto simp: log_inv_def receive_obs_def flush_batch_def Let_def max_def split: if_splits)

lemma enqueue_inv:
  assumes "log_inv l st" and "\<not> lg_stopped st" and "int (length (lg_ch st)) < bl_cap l"
  shows "log_inv l (st\<lparr>lg_ch := lg_ch st @ [obs], lg_accepted := lg_accepted st @ [obs]\<rparr>)"
  using assms by (simp add: log_inv_def)

lemma log_observation_inv:
  assumes "log_inv l st" and "\<not> lg_stopped st" and "LogObservation l ready now sid ok st = (r, st')"
  shows "log_inv l st'"
proof -
  let ?obs = "\<lparr>OB_ServerID = sid, OB_IsSuccess = ok, OB_Timestamp = now\<rparr>"
  have "st' = st \<or> int (length (lg_ch st)) < bl_cap l \<and> st' = st\<lparr>lg_ch := lg_ch st @ [?obs], lg_accepted := lg_accepted st @ [?obs]\<rparr>
      \<or> bl_cap l = 0 \<and> st' = receive_obs l ?obs (st\<lparr>lg_accepted := lg_accepted st @ [?obs]\<rparr>)"
    using assms(3) by (simp add: LogObservation_def Let_def split: if_splits)
  then show ?thesis using assms(1,2) enqueue_inv handoff_inv by (elim disjE) simp_all
qed

lemma flush_batch_inv:
  assumes "log_inv l st" and "lg_batch st \<noteq> []"
  shows "log_inv l (flush_batch l (lg_batch st) st)"
  using assms by (auto simp: log_inv_def flush_batch_def)

lemma stop_inv:
  assumes "log_inv l st" and "lg_closed st" and "lg_ch st = []" and "lg_batch st = []"
  shows "log_inv l (st\<lparr>lg_stopped := True\<rparr>)"
  using assms by (simp add: log_inv_def)

lemma flusher_receive_inv:
  assumes "log_inv l st" and "\<not> lg_stopped st"
  shows "log_inv l (flusher_receive l st)"
proof (cases "lg_ch st")
  case Nil
  have "log_inv l ((flush_batch l (lg_batch st) st)\<lparr>lg_stopped := True\<rparr>)" if "lg_closed st" "lg_batch st \<noteq> []"
    using flush_batch_inv [OF assms(1) that(2)] that(1) Nil by (intro stop_inv) (simp_all add: flush_batch_def)
  with Nil stop_inv [OF assms(1)] assms(1) show ?thesis by (simp add: flusher_receive_def)
next
  case (Cons obs rest)
  with receive_obs_inv [OF assms Cons] show ?thesis by (simp add: flusher_receive_def)
qed

lemma log_step_inv:
  assumes "log_step l st st'" and "log_inv l st"
  shows "log_inv l st'"
  using assms(1)
proof cases
  case (step_log ready now sid ok r)
  then show ?thesis using assms(2) log_observation_inv by blast
next
  case step_receive
  then show ?thesis using assms(2) flusher_receive_inv by simp
next
  case step_tick
  then show ?thesis using assms(2) flush_batch_inv by (simp add: flusher_tick_def)
next
  case (step_close r)
  then show ?thesis
    using assms(2) by (auto simp: close_channel_def log_inv_def split: if_splits)
qed

lemma log_steps_inv: "rtranclp (log_step l) st st' \<Longrightarrow> log_inv l st \<Longrightarrow> log_inv l st'"
  by (induction rule: rtranclp_induct) (blast intro: log_step_inv)+

section \<open>Delivery\<close>

lemma doc_lines_bulk:
  assumes "\<forall>obs\<in>set batch. marshal obs \<noteq> None"
  shows "doc_lines (bulk_lines index batch) = map (the \<circ> marshal) batch"
  using assms by (induction batch) (auto simp: bulk_lines_def)

lemma subseq_set_mono: "subseq xs ys \<Longrightarrow> set xs \<subseteq> set ys"
  by (auto dest: list_emb_set)

context es_bulk
begin

text \<open>A flush that reports success stored every document of the batch at least once, in order.\<close>

lemma retry_delivers:
  assumes "bulk_retry bulk n ls es = (True, es')"
  shows "\<exists>extra. es_docs es' = es_docs es @ extra @ doc_lines ls \<and> set extra \<subseteq> set (doc_lines ls)"
  using assms
proof (induction n arbitrary: es)
  case (Suc n)
  obtain r es1 where b: "bulk ls es = (r, es1)" by fastforce
  show ?case
  proof (cases "r = Inr False")
    case True
    with Suc.prems b show ?thesis by (intro exI [of _ "[]"]) (auto dest: bulk_ok)
  next
    case False
    with Suc.prems b have "bulk_retry bulk n ls es1 = (True, es')" by (auto split: sum.splits bool.splits)
    with Suc.IH obtain extra where e: "es_docs es' = es_docs es1 @ extra @ doc_lines ls" "set extra \<subseteq> set (doc_lines ls)"
      by blast
    from bulk_part [OF b] obtain got where d: "subseq got (doc_lines ls)" "es_docs es1 = es_docs es @ got" by blast
    from d(1) have "set got \<subseteq> set (doc_lines ls)" by (rule subseq_set_mono)
    with e d(2) show ?thesis by (intro exI [of _ "got @ extra"]) auto
  qed
qed simp

lemma retry_only_docs:
  assumes "bulk_retry bulk n ls es = (r, es')"
  shows "set (es_docs es') \<subseteq> set (es_docs es) \<union> set (doc_lines ls)"
  using assms
proof (induction n arbitrary: es)
  case (Suc n)
  obtain q es1 where b: "bulk ls es = (q, es1)" by fastforce
  from bulk_part [OF b] obtain got where d: "subseq got (doc_lines ls)" "es_docs es1 = es_docs es @ got" by blast
  then have s: "set (es_docs es1) \<subseteq> set (es_docs es) \<union> set (doc_lines ls)"
    using subseq_set_mono by fastforce
  from Suc.prems b have "es' = es1 \<or> bulk_retry bulk n ls es1 = (r, es')" by (auto split: sum.splits bool.splits)
  with Suc.IH s show ?case by blast
qed simp

end

section \<open>Properties\<close>

text \<open>C31: whatever the interleaving of callers, flusher, ticker and shutdown, no accepted observation is
  lost, duplicated or reordered between the channel and the flushes: the accepted observations are
  the flushed batches, the current batch and the channel, in this order; no batch is empty or larger
  than the batch size, and when the flusher has stopped everything accepted was flushed.\<close>

theorem observations_conserved:
  assumes "NewObservationLogger l es = Returns st0" and "rtranclp (log_step l) st0 st"
  shows "lg_accepted st = concat (lg_flushed st) @ lg_batch st @ lg_ch st
    \<and> (\<forall>b\<in>set (lg_flushed st). b \<noteq> [] \<and> int (length b) \<le> max 1 (bl_batchSize l))
    \<and> int (length (lg_ch st)) \<le> bl_cap l
    \<and> (lg_stopped st \<longrightarrow> concat (lg_flushed st) = lg_accepted st)"
proof -
  have "log_inv l st0" "0 \<le> bl_cap l" using assms(1) by (auto simp: NewObservationLogger_def log_inv_def split: if_splits)
  with log_steps_inv [OF assms(2)] have "log_inv l st" by blast
  with \<open>0 \<le> bl_cap l\<close> show ?thesis by (simp add: log_inv_def)
qed

lemma receive_obs_keeps [simp]:
  "lg_ch (receive_obs l obs st) = lg_ch st" "lg_closed (receive_obs l obs st) = lg_closed st"
  "lg_stopped (receive_obs l obs st) = lg_stopped st" "lg_accepted (receive_obs l obs st) = lg_accepted st"
  by (simp_all add: receive_obs_def flush_batch_def Let_def)

text \<open>A shutdown ends: once the channel is closed, the flusher stops after one receive for each
  observation left in the channel and one more, and by then it flushed all it had accepted.\<close>

theorem shutdown_flushes_all:
  assumes "log_inv l st" and "lg_closed st" and "\<not> lg_stopped st"
  shows "lg_stopped ((flusher_receive l ^^ Suc (length (lg_ch st))) st)
    \<and> concat (lg_flushed ((flusher_receive l ^^ Suc (length (lg_ch st))) st)) = lg_accepted st"
  using assms
proof (induction "length (lg_ch st)" arbitrary: st)
  case 0
  then have "lg_stopped (flusher_receive l st)" "lg_accepted (flusher_receive l st) = lg_accepted st"
    by (auto simp: flusher_receive_def flush_batch_def)
  moreover have "log_inv l (flusher_receive l st)" using 0 flusher_receive_inv by blast
  ultimately have "lg_stopped (flusher_receive l st) \<and> concat (lg_flushed (flusher_receive l st)) = lg_accepted st"
    unfolding log_inv_def by simp
  then show ?case using 0(1) [symmetric] by (simp only: funpow.simps comp_apply id_apply)
next
  case (Suc n)
  then obtain obs rest where ch: "lg_ch st = obs # rest" "length rest = n" by (cases "lg_ch st") auto
  let ?st = "flusher_receive l st"
  have st: "?st = receive_obs l obs (st\<lparr>lg_ch := rest\<rparr>)" using ch by (simp add: flusher_receive_def)
  have "log_inv l ?st" using Suc.prems flusher_receive_inv by blast
  moreover have "lg_closed ?st" "\<not> lg_stopped ?st" "lg_ch ?st = rest" "lg_accepted ?st = lg_accepted st"
    using Suc.prems by (simp_all add: st)
  ultimately have "lg_stopped ((flusher_receive l ^^ Suc n) ?st)
      \<and> concat (lg_flushed ((flusher_receive l ^^ Suc n) ?st)) = lg_accepted st"
    using Suc.hyps(1) [of ?st] ch(2) by simp
  then show ?case using Suc.hyps(2) by (simp only: funpow_Suc_right comp_apply)
qed

text \<open>C32: a flush that reports success stored every document of the batch, in order; documents of earlier
  attempts that failed half-way are stored as well, so that a retry may store a document twice, and
  no attempt stores anything else. With no retries configured nothing is sent at all.\<close>

theorem flush_delivers:
  assumes "es_bulk bulk" and "bl_client l = Some bulk" and "\<forall>obs\<in>set batch. marshal obs \<noteq> None"
    and "flush l batch es = (ok, es')"
  shows "(ok \<longrightarrow> (\<exists>extra. es_docs es' = es_docs es @ extra @ map (the \<circ> marshal) batch
        \<and> set extra \<subseteq> set (map (the \<circ> marshal) batch)))
    \<and> set (es_docs es') \<subseteq> set (es_docs es) \<union> set (map (the \<circ> marshal) batch)
    \<and> (bl_retryMax l \<le> 0 \<longrightarrow> \<not> ok \<and> es' = es)"
proof -
  have f: "bulk_retry bulk (nat (bl_retryMax l)) (bulk_lines (bl_index l) batch) es = (ok, es')"
    using assms(2,4) by (simp add: flush_def)
  have docs: "doc_lines (bulk_lines (bl_index l) batch) = map (the \<circ> marshal) batch"
    by (rule doc_lines_bulk [OF assms(3)])
  have "\<exists>extra. es_docs es' = es_docs es @ extra @ map (the \<circ> marshal) batch \<and> set extra \<subseteq> set (map (the \<circ> marshal) batch)"
    if "ok" using es_bulk.retry_delivers [OF assms(1) f [unfolded eqTrueI [OF that]]] unfolding docs .
  moreover have "set (es_docs es') \<subseteq> set (es_docs es) \<union> set (map (the \<circ> marshal) batch)"
    using es_bulk.retry_only_docs [OF assms(1) f] unfolding docs .
  moreover have "\<not> ok \<and> es' = es" if "bl_retryMax l \<le> 0" using f that by simp
  ultimately show ?thesis by blast
qed

section \<open>The properties at a concrete logger\<close>

text \<open>The first request stores its document and reports an error, the second one succeeds.\<close>

definition demo_logger :: bufferedLogger where
  "demo_logger = \<lparr>bl_client = Some (mem_es (\<lambda>n. if n = 0 then Some (Inr True) else None)), bl_index = ''obs'',
     bl_cap = 1, bl_batchSize = 2, bl_flushInterval = second, bl_retryMax = 3\<rparr>"

definition demo_log :: log_state where
  "demo_log = \<lparr>lg_ch = [], lg_closed = False, lg_batch = [], lg_stopped = False,
     lg_es = \<lparr>es_docs = [], es_env = 0\<rparr>, lg_accepted = [], lg_flushed = []\<rparr>"

definition demo_obs :: ObservationLog where
  "demo_obs = \<lparr>OB_ServerID = ''7'', OB_IsSuccess = True, OB_Timestamp = 0\<rparr>"

lemma demo_logger_new: "NewObservationLogger demo_logger \<lparr>es_docs = [], es_env = 0\<rparr> = Returns demo_log"
  by (simp add: NewObservationLogger_def demo_logger_def demo_log_def)

lemma demo_logged: "LogObservation demo_logger False 0 ''7'' True demo_log =
    (Returns (), demo_log\<lparr>lg_ch := [demo_obs], lg_accepted := [demo_obs]\<rparr>)"
  by (simp add: LogObservation_def Let_def demo_logger_def demo_log_def demo_obs_def)

theorem observations_conserved_witness:
  "rtranclp (log_step demo_logger) demo_log (demo_log\<lparr>lg_ch := [demo_obs], lg_accepted := [demo_obs]\<rparr>)
   \<and> int (length (lg_ch (demo_log\<lparr>lg_ch := [demo_obs], lg_accepted := [demo_obs]\<rparr>))) \<le> bl_cap demo_logger"
proof -
  have "log_step demo_logger demo_log (demo_log\<lparr>lg_ch := [demo_obs], lg_accepted := [demo_obs]\<rparr>)"
    using demo_logged by (rule step_log [rotated]) (simp add: demo_log_def)
  then have *: "rtranclp (log_step demo_logger) demo_log (demo_log\<lparr>lg_ch := [demo_obs], lg_accepted := [demo_obs]\<rparr>)" ..
  show ?thesis using * observations_conserved [OF demo_logger_new *] by blast
qed

theorem shutdown_flushes_all_witness:
  "concat (lg_flushed ((flusher_receive demo_logger ^^ 2)
     (demo_log\<lparr>lg_ch := [demo_obs], lg_accepted := [demo_obs], lg_closed := True\<rparr>))) = [demo_obs]"
proof -
  let ?st = "demo_log\<lparr>lg_ch := [demo_obs], lg_accepted := [demo_obs], lg_closed := True\<rparr>"
  have "log_inv demo_logger ?st" "lg_closed ?st" "\<not> lg_stopped ?st" "lg_accepted ?st = [demo_obs]"
    "Suc (length (lg_ch ?st)) = 2"
    by (simp_all add: log_inv_def demo_log_def demo_logger_def)
  with shutdown_flushes_all [of demo_logger ?st] show ?thesis by metis
qed

lemma demo_marshal: "marshal demo_obs \<noteq> None"
  by code_simp

theorem flush_delivers_witness:
  "\<exists>extra. es_docs (snd (flush demo_logger [demo_obs] \<lparr>es_docs = [], es_env = 0\<rparr>)) = extra @ [the (marshal demo_obs)]
     \<and> extra = [the (marshal demo_obs)]"
proof -
  have lines: "doc_lines (bulk_lines ''obs'' [demo_obs]) = [the (marshal demo_obs)]"
    using doc_lines_bulk [of "[demo_obs]"] demo_marshal by simp
  have f: "flush demo_logger [demo_obs] \<lparr>es_docs = [], es_env = 0\<rparr> =
      (True, \<lparr>es_docs = [the (marshal demo_obs), the (marshal demo_obs)], es_env = 2\<rparr>)"
    by (simp add: flush_def demo_logger_def mem_es_def lines numeral_eq_Suc)
  have "es_bulk (mem_es (\<lambda>n. if n = 0 then Some (Inr True) else None))" by (rule mem_bulk.es_bulk_axioms)
  moreover have "bl_client demo_logger = Some (mem_es (\<lambda>n. if n = 0 then Some (Inr True) else None))"
    by (simp add: demo_logger_def)
  ultimately show ?thesis
    using flush_delivers [of _ demo_logger "[demo_obs]", OF _ _ _ f] demo_marshal f by auto
qed

end
