(* ===== verification/Monitoring.thy ===== *)
theory Monitoring
  imports Config Server_Mgmt Observation
begin

text \<open>
  The monitoring worker: \<open>internal/modules/monitoring\<close> (the health state machine of a server, the
  ICMP pinger, the pool of workers), the lock of \<open>internal/shared/database/redis.go\<close> and the cycle of
  \<open>internal/app/monitoring/app.go\<close>.

  The state is the table of servers, the Redis database, the observation logger and a counter for
  the network. \<open>Evaluate\<close> and \<open>processServer\<close> are the code's functions; \<open>pool_step\<close> interleaves the
  tasks of a pool at the granularity of their calls to Redis, Postgres, the logger and the network.
\<close>

record mon_state =
  ms_servers :: "Server tbl"
  ms_redis :: redis_db
  ms_log :: log_state
  ms_net :: nat

section \<open>The state machine of one server\<close>

record monitoringServiceImpl =
  mo_repo :: "Server gorm"
  mo_stateStore :: redis
  mo_esLogger :: bufferedLogger
  mo_failureThreshold :: int

datatype eval_error = EvState state_error | EvStatusUpdate gorm_error | EvFailureUpdate gorm_error

definition with_status :: "ServerStatus \<Rightarrow> int \<Rightarrow> time \<Rightarrow> Server \<Rightarrow> Server" where
  "with_status newStatus consecutiveFailures now x =
     x\<lparr>S_CurrentStatus := newStatus, S_ConsecutiveFailures := consecutiveFailures, S_UpdatedAt := now\<rparr>"

definition UpdateServerStatus ::
  "Server gorm \<Rightarrow> time \<Rightarrow> string \<Rightarrow> ServerStatus \<Rightarrow> int \<Rightarrow> Server tbl \<Rightarrow> (gorm_error + unit) \<times> Server tbl" where
  "UpdateServerStatus g now serverID newStatus consecutiveFailures t =
     (case g_update g (\<lambda>x. S_ServerID x = serverID) (with_status newStatus consecutiveFailures now) t of
        (Inl e, t') \<Rightarrow> (Inl e, t')
      | (Inr _, t') \<Rightarrow> (Inr (), t'))"

text \<open>What the state machine decides: the status and the count to store, and whether the status changed.\<close>

record decision =
  dc_current :: ServerStatus
  dc_status :: ServerStatus
  dc_count :: int
  dc_changed :: bool

definition decide :: "int \<Rightarrow> bool \<Rightarrow> ServerState \<Rightarrow> decision" where
  "decide failureThreshold pingSuccess state =
     (let currentStatus = (if SS_Status state = [] then ServerStatusOnline else SS_Status state);
          retryCount = SS_RetryCount state
      in if pingSuccess then
           (if currentStatus = ServerStatusOffline
            then \<lparr>dc_current = currentStatus, dc_status = ServerStatusOnline, dc_count = 0, dc_changed = True\<rparr>
            else \<lparr>dc_current = currentStatus, dc_status = currentStatus, dc_count = 0, dc_changed = False\<rparr>)
         else if currentStatus = ServerStatusOnline then
           (let retryCount = wrap64 (retryCount + 1) in
            if retryCount \<ge> failureThreshold
            then \<lparr>dc_current = currentStatus, dc_status = ServerStatusOffline, dc_count = 0, dc_changed = True\<rparr>
            else \<lparr>dc_current = currentStatus, dc_status = currentStatus, dc_count = retryCount, dc_changed = False\<rparr>)
         else \<lparr>dc_current = currentStatus, dc_status = currentStatus, dc_count = wrap64 (retryCount + 1), dc_changed = False\<rparr>)"

text \<open>Postgres is written when the status changes, or when a failure is counted while online.\<close>

definition writes_row :: "bool \<Rightarrow> decision \<Rightarrow> bool" where
  "writes_row pingSuccess d \<longleftrightarrow>
     dc_changed d \<or> dc_count d > 0 \<and> \<not> pingSuccess \<and> dc_current d = ServerStatusOnline"

definition Evaluate ::
  "monitoringServiceImpl \<Rightarrow> bool \<Rightarrow> time \<Rightarrow> string \<Rightarrow> string \<Rightarrow> bool \<Rightarrow> mon_state
   \<Rightarrow> (eval_error + unit) go \<times> mon_state" where
  "Evaluate m ready now serverID ip pingSuccess s =
     (case LogObservation (mo_esLogger m) ready now serverID pingSuccess (ms_log s) of
        (Panics p, lg) \<Rightarrow> (Panics p, s\<lparr>ms_log := lg\<rparr>)
      | (Returns _, lg) \<Rightarrow>
          (case GetServerState (mo_stateStore m) serverID (ms_redis s) of
             (Inl e, r) \<Rightarrow> (Returns (Inl (EvState e)), s\<lparr>ms_log := lg, ms_redis := r\<rparr>)
           | (Inr state, r) \<Rightarrow>
               (let d = decide (mo_failureThreshold m) pingSuccess state in
                case SetServerState (mo_stateStore m) serverID (dc_status d) (dc_count d) r of
                  (Inl e, r') \<Rightarrow> (Returns (Inl (EvState e)), s\<lparr>ms_log := lg, ms_redis := r'\<rparr>)
                | (Inr _, r') \<Rightarrow>
                    (if writes_row pingSuccess d then
                       (case UpdateServerStatus (mo_repo m) now serverID (dc_status d) (dc_count d) (ms_servers s) of
                          (Inl e, t) \<Rightarrow>
                            (Returns (Inl (if dc_changed d then EvStatusUpdate e else EvFailureUpdate e)),
                             s\<lparr>ms_log := lg, ms_redis := r', ms_servers := t\<rparr>)
                        | (Inr _, t) \<Rightarrow> (Returns (Inr ()), s\<lparr>ms_log := lg, ms_redis := r', ms_servers := t\<rparr>))
                     else (Returns (Inr ()), s\<lparr>ms_log := lg, ms_redis := r'\<rparr>)))))"

section \<open>The pinger\<close>

text \<open>
  \<open>pro-bing\<close> is a parameter: resolving an address, and a run of \<open>Count\<close> echo requests, which reports
  the packets received. The last argument is the moment on the network.
\<close>

record probing =
  pb_NewPinger :: "string \<Rightarrow> string + string"
  pb_Run :: "bool \<Rightarrow> nat \<Rightarrow> duration \<Rightarrow> string \<Rightarrow> nat \<Rightarrow> string + nat"

definition Ping :: "probing \<Rightarrow> bool \<Rightarrow> string \<Rightarrow> duration \<Rightarrow> nat \<Rightarrow> bool" where
  "Ping pb privileged ip timeout net =
     (case pb_NewPinger pb ip of
        Inl _ \<Rightarrow> False
      | Inr pinger \<Rightarrow>
          (case pb_Run pb privileged 1 timeout pinger net of
             Inl _ \<Rightarrow> False
           | Inr packetsRecv \<Rightarrow> packetsRecv > 0))"

section \<open>The pool\<close>

record workerPool =
  wp_rdb :: redis
  wp_monService :: monitoringServiceImpl
  wp_probing :: probing
  wp_privileged :: bool
  wp_concurrency :: int
  wp_timeout :: duration

definition processServer ::
  "workerPool \<Rightarrow> bool \<Rightarrow> time \<Rightarrow> string \<Rightarrow> mon_state \<Rightarrow> unit go \<times> mon_state" where
  "processServer w ready now serverID s =
     (case r_hget (wp_rdb w) (ServerInfoKey serverID) ''ipv4'' (ms_redis s) of
        (Inl _, r) \<Rightarrow> (Returns (), s\<lparr>ms_redis := r\<rparr>)
      | (Inr ipv4, r) \<Rightarrow>
          (if ipv4 = [] then (Returns (), s\<lparr>ms_redis := r\<rparr>)
           else (let success = Ping (wp_probing w) (wp_privileged w) ipv4 (wp_timeout w) (ms_net s) in
                 case Evaluate (wp_monService w) ready now serverID ipv4 success
                        (s\<lparr>ms_redis := r, ms_net := Suc (ms_net s)\<rparr>) of
                   (Panics p, s') \<Rightarrow> (Panics p, s')
                 | (Returns _, s') \<Rightarrow> (Returns (), s'))))"

text \<open>
  The tasks of the workers between two calls. A task starts with the \<open>HGet\<close> of its worker and ends
  with \<open>None\<close>; a panic of a goroutine ends the process.
\<close>

datatype phase =
    PingPhase string
  | LogPhase bool
  | GetPhase bool
  | SetPhase bool decision
  | UpdatePhase decision

definition task_start :: "workerPool \<Rightarrow> string \<Rightarrow> mon_state \<Rightarrow> phase option \<times> mon_state" where
  "task_start w serverID s =
     (case r_hget (wp_rdb w) (ServerInfoKey serverID) ''ipv4'' (ms_redis s) of
        (Inl _, r) \<Rightarrow> (None, s\<lparr>ms_redis := r\<rparr>)
      | (Inr ipv4, r) \<Rightarrow> (if ipv4 = [] then None else Some (PingPhase ipv4), s\<lparr>ms_redis := r\<rparr>))"

fun task_step ::
  "workerPool \<Rightarrow> bool \<Rightarrow> time \<Rightarrow> string \<Rightarrow> phase \<Rightarrow> mon_state \<Rightarrow> phase option go \<times> mon_state" where
  "task_step w ready now sid (PingPhase ip) s =
     (Returns (Some (LogPhase (Ping (wp_probing w) (wp_privileged w) ip (wp_timeout w) (ms_net s)))),
      s\<lparr>ms_net := Suc (ms_net s)\<rparr>)"
| "task_step w ready now sid (LogPhase ok) s =
     (case LogObservation (mo_esLogger (wp_monService w)) ready now sid ok (ms_log s) of
        (Panics p, lg) \<Rightarrow> (Panics p, s\<lparr>ms_log := lg\<rparr>)
      | (Returns _, lg) \<Rightarrow> (Returns (Some (GetPhase ok)), s\<lparr>ms_log := lg\<rparr>))"
| "task_step w ready now sid (GetPhase ok) s =
     (case GetServerState (mo_stateStore (wp_monService w)) sid (ms_redis s) of
        (Inl _, r) \<Rightarrow> (Returns None, s\<lparr>ms_redis := r\<rparr>)
      | (Inr state, r) \<Rightarrow>
          (Returns (Some (SetPhase ok (decide (mo_failureThreshold (wp_monService w)) ok state))), s\<lparr>ms_redis := r\<rparr>))"
| "task_step w ready now sid (SetPhase ok d) s =
     (case SetServerState (mo_stateStore (wp_monService w)) sid (dc_status d) (dc_count d) (ms_redis s) of
        (Inl _, r) \<Rightarrow> (Returns None, s\<lparr>ms_redis := r\<rparr>)
      | (Inr _, r) \<Rightarrow> (Returns (if writes_row ok d then Some (UpdatePhase d) else None), s\<lparr>ms_redis := r\<rparr>))"
| "task_step w ready now sid (UpdatePhase d) s =
     (case UpdateServerStatus (mo_repo (wp_monService w)) now sid (dc_status d) (dc_count d) (ms_servers s) of
        (_, t) \<Rightarrow> (Returns None, s\<lparr>ms_servers := t\<rparr>))"

record pool_state =
  pc_queue :: "string list"
  pc_running :: "(string \<times> phase) list"
  pc_crashed :: bool
  pc_state :: mon_state

definition keep_task :: "string \<Rightarrow> phase option \<Rightarrow> (string \<times> phase) list" where
  "keep_task sid ph = (case ph of None \<Rightarrow> [] | Some p \<Rightarrow> [(sid, p)])"

text \<open>
  \<open>Run\<close>: the members of the set, in the order Redis returns them, go into a channel that holds them
  all; \<open>concurrency\<close> workers take them from there. The flusher of the logger runs beside them.
\<close>

inductive pool_step :: "workerPool \<Rightarrow> pool_state \<Rightarrow> pool_state \<Rightarrow> bool" for w where
  take_task: "\<not> pc_crashed p \<Longrightarrow> pc_queue p = sid # q \<Longrightarrow> int (length (pc_running p)) < wp_concurrency w \<Longrightarrow>
     task_start w sid (pc_state p) = (ph, s') \<Longrightarrow>
     pool_step w p (p\<lparr>pc_queue := q, pc_running := pc_running p @ keep_task sid ph, pc_state := s'\<rparr>)"
| task_call: "\<not> pc_crashed p \<Longrightarrow> pc_running p = xs @ (sid, ph) # ys \<Longrightarrow>
     task_step w ready now sid ph (pc_state p) = (Returns ph', s') \<Longrightarrow>
     pool_step w p (p\<lparr>pc_running := xs @ keep_task sid ph' @ ys, pc_state := s'\<rparr>)"
| task_panic: "\<not> pc_crashed p \<Longrightarrow> pc_running p = xs @ (sid, ph) # ys \<Longrightarrow>
     task_step w ready now sid ph (pc_state p) = (Panics msg, s') \<Longrightarrow>
     pool_step w p (p\<lparr>pc_crashed := True, pc_state := s'\<rparr>)"

inductive pool_move :: "workerPool \<Rightarrow> pool_state \<Rightarrow> pool_state \<Rightarrow> bool" for w where
  move_task: "pool_step w p p' \<Longrightarrow> pool_move w p p'"
| move_flusher: "\<not> pc_crashed p \<Longrightarrow>
     lg' = flusher_receive (mo_esLogger (wp_monService w)) (ms_log (pc_state p)) \<or>
     lg' = flusher_tick (mo_esLogger (wp_monService w)) (ms_log (pc_state p)) \<Longrightarrow>
     pool_move w p (p\<lparr>pc_state := (pc_state p)\<lparr>ms_log := lg'\<rparr>\<rparr>)"

inductive_cases pool_stepE: "pool_step w p p'"
inductive_cases pool_moveE: "pool_move w p p'"

definition pool_done :: "workerPool \<Rightarrow> pool_state \<Rightarrow> bool" where
  "pool_done w p \<longleftrightarrow> pc_running p = [] \<and> (pc_queue p = [] \<or> wp_concurrency w \<le> 0)"

definition pool_init :: "string list \<Rightarrow> mon_state \<Rightarrow> pool_state" where
  "pool_init serverIDs s = \<lparr>pc_queue = serverIDs, pc_running = [], pc_crashed = False, pc_state = s\<rparr>"

inductive pool_Run :: "workerPool \<Rightarrow> mon_state \<Rightarrow> redis_error + unit \<Rightarrow> mon_state \<Rightarrow> bool" for w where
  run_error: "r_smembers (wp_rdb w) ServerAllIDsKey (ms_redis s) = (Inl e, r) \<Longrightarrow>
     pool_Run w s (Inl e) (s\<lparr>ms_redis := r\<rparr>)"
| run_ids: "r_smembers (wp_rdb w) ServerAllIDsKey (ms_redis s) = (Inr serverIDs, r) \<Longrightarrow>
     (pool_move w)\<^sup>*\<^sup>* (pool_init serverIDs (s\<lparr>ms_redis := r\<rparr>)) p \<Longrightarrow> \<not> pc_crashed p \<Longrightarrow> pool_done w p \<Longrightarrow>
     pool_Run w s (Inr ()) (pc_state p)"

section \<open>The lock and the cycle\<close>

definition AcquireLock ::
  "redis iface \<Rightarrow> time \<Rightarrow> string \<Rightarrow> duration \<Rightarrow> redis_db \<Rightarrow> (redis_error + bool) go \<times> redis_db" where
  "AcquireLock rdb now key expiration s =
     (case rdb of
        NilIface \<Rightarrow> (Returns (Inr False), s)
      | TypedNil \<Rightarrow> (Panics nil_dereference, s)
      | Iface c \<Rightarrow> (case r_setnx c now key ''locked'' expiration s of (r, s') \<Rightarrow> (Returns r, s')))"

definition lock_key :: "env \<Rightarrow> string" where
  "lock_key env = GetEnvDefault env ''MONITORING_WORKER_LOCK_KEY'' ''lock:monitoring_worker''"

definition lock_expiration :: "env \<Rightarrow> duration" where
  "lock_expiration env = fst (GetEnvDuration env ''MONITORING_WORKER_LOCK_EXPIRATION'' (25 * second))"

text \<open>A cycle runs the pool only when the lock is acquired.\<close>

datatype cycle_outcome = LockFailed | NotAcquired | CycleRan "redis_error + unit"

inductive runCycle :: "env \<Rightarrow> workerPool \<Rightarrow> time \<Rightarrow> mon_state \<Rightarrow> cycle_outcome \<Rightarrow> mon_state \<Rightarrow> bool"
  for env w where
  cycle_error: "AcquireLock (Iface (wp_rdb w)) now (lock_key env) (lock_expiration env) (ms_redis s) = (Returns (Inl e), r) \<Longrightarrow>
     runCycle env w now s LockFailed (s\<lparr>ms_redis := r\<rparr>)"
| cycle_taken: "AcquireLock (Iface (wp_rdb w)) now (lock_key env) (lock_expiration env) (ms_redis s) = (Returns (Inr False), r) \<Longrightarrow>
     runCycle env w now s NotAcquired (s\<lparr>ms_redis := r\<rparr>)"
| cycle_runs: "AcquireLock (Iface (wp_rdb w)) now (lock_key env) (lock_expiration env) (ms_redis s) = (Returns (Inr True), r) \<Longrightarrow>
     pool_Run w (s\<lparr>ms_redis := r\<rparr>) res s' \<Longrightarrow>
     runCycle env w now s (CycleRan res) s'"

inductive_cases pool_RunE: "pool_Run w s res s'"
inductive_cases runCycleE: "runCycle env w now s out s'"

section \<open>Starting the worker\<close>

text \<open>
  \<open>NewApp\<close>: the clients come from third-party packages and are parameters; \<open>NewRedisClient\<close> returns
  nil when Redis is disabled or its configuration did not load.
\<close>

definition NewRedisClient :: "(RedisConfig \<Rightarrow> redis) \<Rightarrow> RedisConfig option \<Rightarrow> redis option" where
  "NewRedisClient dial cfg =
     (case cfg of None \<Rightarrow> None | Some c \<Rightarrow> if \<not> RD_Enabled c then None else Some (dial c))"

definition PingRedis :: "(redis \<Rightarrow> string option) \<Rightarrow> redis iface \<Rightarrow> string option go" where
  "PingRedis ping rdb =
     (case rdb of NilIface \<Rightarrow> Returns None | TypedNil \<Rightarrow> Panics nil_dereference | Iface c \<Rightarrow> Returns (ping c))"

record world =
  wd_dotenv :: "string option \<Rightarrow> env \<Rightarrow> env"
  wd_database :: "string \<Rightarrow> string + Server gorm"
  wd_redis :: "RedisConfig \<Rightarrow> redis"
  wd_redis_ping :: "redis \<Rightarrow> string option"
  wd_elastic :: "string \<Rightarrow> string + es_client"
  wd_probing :: probing

datatype start_error = DatabaseFailed string | RedisRequired | RedisPingFailed string | ElasticFailed string

definition observation_logger :: "es_client \<Rightarrow> string \<Rightarrow> ObservationLoggerConfig \<Rightarrow> bufferedLogger" where
  "observation_logger es index cfg = \<lparr>bl_client = Some es, bl_index = index, bl_cap = OL_ChannelSize cfg,
     bl_batchSize = OL_BatchSize cfg, bl_flushInterval = wrap64 (OL_FlushMs cfg * millisecond),
     bl_retryMax = OL_RetryMax cfg\<rparr>"

definition app_redis_config :: "env \<Rightarrow> RedisConfig option" where
  "app_redis_config env = (case LoadRedisConfig env of Inl _ \<Rightarrow> None | Inr c \<Rightarrow> Some c)"

definition app_pool :: "world \<Rightarrow> env \<Rightarrow> Server gorm \<Rightarrow> redis \<Rightarrow> bufferedLogger \<Rightarrow> workerPool" where
  "app_pool wd env db rdb lg = \<lparr>
     wp_rdb = rdb,
     wp_monService = \<lparr>mo_repo = db, mo_stateStore = rdb, mo_esLogger = lg,
        mo_failureThreshold = fst (GetEnvInt env ''MONITORING_FAILURE_THRESHOLD'' 2)\<rparr>,
     wp_probing = wd_probing wd,
     wp_privileged = (case ParseBool (env ''ICMP_PRIVILEGED'') of Inl _ \<Rightarrow> False | Inr b \<Rightarrow> b),
     wp_concurrency = fst (GetEnvInt env ''MONITORING_WORKER_CONCURRENCY'' 100),
     wp_timeout = fst (GetEnvDuration env ''MONITORING_WORKER_PING_TIMEOUT'' (3 * second))\<rparr>"

definition default_dsn :: string where
  "default_dsn = ''host=localhost user=postgres password=postgres dbname=postgres port=5432 sslmode=disable''"

definition NewMonitoringApp :: "world \<Rightarrow> env_state \<Rightarrow> es_state \<Rightarrow> (start_error + workerPool \<times> log_state) go \<times> env_state" where
  "NewMonitoringApp wd ev es =
     (let ev' = snd (Load (wd_dotenv wd) ev); env = ev_vars ev';
          dbDSN = (if env ''DATABASE_URL'' = [] then default_dsn else env ''DATABASE_URL'')
      in (case wd_database wd dbDSN of
            Inl e \<Rightarrow> Returns (Inl (DatabaseFailed e))
          | Inr db \<Rightarrow>
              (case NewRedisClient (wd_redis wd) (app_redis_config env) of
                 None \<Rightarrow> Returns (Inl RedisRequired)
               | Some rdb \<Rightarrow>
                   (case PingRedis (wd_redis_ping wd) (iface_of_pointer (Some rdb)) of
                      Panics m \<Rightarrow> Panics m
                    | Returns (Some e) \<Rightarrow> Returns (Inl (RedisPingFailed e))
                    | Returns None \<Rightarrow>
                        (let esCfg = LoadElasticsearchConfig env in
                         case wd_elastic wd (ES_URL esCfg) of
                           Inl e \<Rightarrow> Returns (Inl (ElasticFailed e))
                         | Inr esClient \<Rightarrow>
                             (let lg = observation_logger esClient (ES_ServerIndex esCfg) (LoadObservationLoggerConfig env) in
                              case NewObservationLogger lg es of
                                Panics m \<Rightarrow> Panics m
                              | Returns st \<Rightarrow> Returns (Inr (app_pool wd env db rdb lg, st)))))), ev'))"

end
