(* ===== verification/Go_Net.thy ===== *)
theory Go_Net
  imports Go_Base
begin

text \<open>
  The parts of Go's \<open>net\<close> and \<open>net/netip\<close> packages that the service uses: \<open>ParseIP\<close>, \<open>IP.To4\<close> and
  \<open>SplitHostPort\<close>. A parsed address is a list of 16 bytes, an IPv4 address in its
  IPv4-in-IPv6 form.
\<close>

section \<open>IPv4\<close>

text \<open>
  The loop of \<open>parseIPv4Fields\<close>: the rest of the text, the value and number of digits of the
  current octet, and the octets that are complete. A dot needs a digit before and a byte after it.
\<close>

fun v4_fields :: "string \<Rightarrow> nat \<Rightarrow> nat \<Rightarrow> nat list \<Rightarrow> nat list option" where
  "v4_fields [] val digLen fs = (if length fs < 3 then None else Some (fs @ [val]))"
| "v4_fields (c # cs) val digLen fs =
     (if is_digit c then
        (if digLen = 1 \<and> val = 0 then None
         else let v = val * 10 + digit_val c in
              if v > 255 then None else v4_fields cs v (Suc digLen) fs)
      else if c = CHR ''.'' then
        (if digLen = 0 \<or> cs = [] then None
         else if length fs = 3 then None
         else v4_fields cs 0 0 (fs @ [val]))
      else None)"

section \<open>IPv6\<close>

definition hex_val :: "char \<Rightarrow> nat option" where
  "hex_val c =
     (let n = of_char c :: nat in
      if 48 \<le> n \<and> n \<le> 57 then Some (n - 48)
      else if 97 \<le> n \<and> n \<le> 102 then Some (n - 97 + 10)
      else if 65 \<le> n \<and> n \<le> 70 then Some (n - 65 + 10)
      else None)"

text \<open>One hexadecimal group: its value, the number of digits and the rest, or too many digits.\<close>

fun hex_group :: "string \<Rightarrow> nat \<Rightarrow> nat \<Rightarrow> (nat \<times> nat \<times> string) option" where
  "hex_group [] acc off = Some (acc, off, [])"
| "hex_group (c # cs) acc off =
     (case hex_val c of
        None \<Rightarrow> Some (acc, off, c # cs)
      | Some v \<Rightarrow> if off > 3 then None
                  else let acc' = acc * 16 + v in
                       if acc' > 65535 then None else hex_group cs acc' (Suc off))"

text \<open>
  The loop of \<open>parseIPv6\<close> over at most eight groups: the rest of the text, the bytes so far and the
  position of the ellipsis. It returns the bytes, the ellipsis and the text that was not used.
\<close>

fun v6_groups :: "nat \<Rightarrow> string \<Rightarrow> nat list \<Rightarrow> nat option \<Rightarrow> (nat list \<times> nat option \<times> string) option" where
  "v6_groups 0 s ip ell = Some (ip, ell, s)"
| "v6_groups (Suc n) s ip ell =
     (case hex_group s 0 0 of
        None \<Rightarrow> None
      | Some (acc, off, r) \<Rightarrow>
          if off = 0 then None
          else if r \<noteq> [] \<and> hd r = CHR ''.'' then
            (if ell = None \<and> length ip \<noteq> 12 then None
             else if length ip + 4 > 16 then None
             else (case v4_fields s 0 0 [] of None \<Rightarrow> None | Some fs \<Rightarrow> Some (ip @ fs, ell, [])))
          else
            let ip' = ip @ [acc div 256, acc mod 256] in
            (case r of
               [] \<Rightarrow> Some (ip', ell, [])
             | c # r1 \<Rightarrow>
                 if c \<noteq> CHR '':'' then None
                 else (case r1 of
                         [] \<Rightarrow> None
                       | c1 # r2 \<Rightarrow>
                           if c1 = CHR '':'' then
                             (if ell \<noteq> None then None
                              else if r2 = [] then Some (ip', Some (length ip'), [])
                              else v6_groups n r2 ip' (Some (length ip')))
                           else v6_groups n r1 ip' ell)))"

definition expand_ellipsis :: "nat list \<Rightarrow> nat option \<Rightarrow> nat list option" where
  "expand_ellipsis ip ell =
     (if length ip < 16 then
        (case ell of None \<Rightarrow> None
         | Some e \<Rightarrow> Some (take e ip @ replicate (16 - length ip) 0 @ drop e ip))
      else if ell \<noteq> None then None
      else Some ip)"

text \<open>An address without a zone; \<open>ParseIP\<close> refuses an address with one.\<close>

definition parse_v6 :: "string \<Rightarrow> nat list option" where
  "parse_v6 s =
     (let lead = (length s \<ge> 2 \<and> s ! 0 = CHR '':'' \<and> s ! 1 = CHR '':'');
          s1 = (if lead then drop 2 s else s)
      in if lead \<and> s1 = [] then Some (replicate 16 0)
         else (case v6_groups 8 s1 [] (if lead then Some 0 else None) of
                 None \<Rightarrow> None
               | Some (ip, ell, r) \<Rightarrow> if r \<noteq> [] then None else expand_ellipsis ip ell))"

section \<open>ParseIP and To4\<close>

definition v4_mapped :: "nat list \<Rightarrow> nat list" where
  "v4_mapped fs = replicate 10 0 @ [255, 255] @ fs"

text \<open>\<open>netip.ParseAddr\<close> looks at the first of the bytes \<open>.\<close>, \<open>:\<close> and \<open>%\<close>.\<close>

definition ParseIP :: "string \<Rightarrow> nat list option" where
  "ParseIP s =
     (if CHR ''%'' \<in> set s then None
      else (case dropWhile (\<lambda>c. c \<noteq> CHR ''.'' \<and> c \<noteq> CHR '':'') s of
              [] \<Rightarrow> None
            | c # _ \<Rightarrow> if c = CHR ''.'' then map_option v4_mapped (v4_fields s 0 0 []) else parse_v6 s))"

definition To4 :: "nat list \<Rightarrow> nat list option" where
  "To4 ip =
     (if length ip = 4 then Some ip
      else if length ip = 16 \<and> list_all (\<lambda>b. b = 0) (take 10 ip) \<and> ip ! 10 = 255 \<and> ip ! 11 = 255
      then Some (drop 12 ip)
      else None)"

section \<open>Printing and parsing IPv4\<close>

definition dotted :: "nat list \<Rightarrow> string" where
  "dotted fs = concat (map nat_string (take 1 fs)) @ concat (map (\<lambda>n. CHR ''.'' # nat_string n) (drop 1 fs))"

lemma dot_not_digit [simp]: "\<not> is_digit (CHR ''.'')"
  by (simp add: is_digit_def)

lemma digit_val_lt: "is_digit c \<Longrightarrow> digit_val c < 10"
  by (auto simp: is_digit_def digit_val_def)

lemma v4_fields_length: "v4_fields s val n fs = Some r \<Longrightarrow> length fs \<le> 3 \<Longrightarrow> length r = 4"
proof (induction s val n fs rule: v4_fields.induct)
  case (1 val digLen fs)
  then show ?case by (auto split: if_split_asm)
qed (simp add: Let_def split: if_split_asm)

lemma v4_fields_chars:
  "v4_fields s val n fs = Some r \<Longrightarrow> \<forall>c\<in>set s. is_digit c \<or> c = CHR ''.''"
  by (induction s val n fs rule: v4_fields.induct) (simp_all add: Let_def split: if_split_asm)

text \<open>Reading the decimal form of a byte.\<close>

lemma byte_cases: "n < 256 \<Longrightarrow> n < 10 \<or> (\<exists>a b. n = 10 * a + b \<and> 0 < a \<and> a < 10 \<and> b < 10)
    \<or> (\<exists>a b c. n = 100 * a + 10 * b + c \<and> 0 < a \<and> a < 10 \<and> b < 10 \<and> c < 10)" for n :: nat
proof -
  assume n: "n < 256"
  consider "n < 10" | "10 \<le> n" "n < 100" | "100 \<le> n" by linarith
  then show ?thesis
  proof cases
    case 2
    then have "n = 10 * (n div 10) + n mod 10 \<and> 0 < n div 10 \<and> n div 10 < 10 \<and> n mod 10 < 10" by auto
    then show ?thesis by blast
  next
    case 3
    define m where "m = n div 10"
    have n': "n = 10 * m + n mod 10" and m: "m = 10 * (m div 10) + m mod 10" by (simp_all add: m_def)
    have "10 \<le> m" "m < 26" using 3 n by (simp_all add: m_def)
    then have "0 < m div 10" "m div 10 < 10" by auto
    moreover have "n = 100 * (m div 10) + 10 * (m mod 10) + n mod 10" using n' m by linarith
    moreover have "m mod 10 < 10" "n mod 10 < 10" by simp_all
    ultimately show ?thesis by blast
  qed simp
qed

lemma nat_string_byte:
  "n < 10 \<Longrightarrow> nat_string n = [digit_char n]"
  "0 < a \<Longrightarrow> a < 10 \<Longrightarrow> b < 10 \<Longrightarrow> nat_string (10 * a + b) = [digit_char a, digit_char b]"
  "0 < a \<Longrightarrow> a < 10 \<Longrightarrow> b < 10 \<Longrightarrow> e < 10 \<Longrightarrow>
     nat_string (100 * a + 10 * b + e) = [digit_char a, digit_char b, digit_char e]"
proof -
  show one: "n < 10 \<Longrightarrow> nat_string n = [digit_char n]" for n by (simp add: nat_string.simps [of n])
  show two: "0 < a \<Longrightarrow> a < 10 \<Longrightarrow> b < 10 \<Longrightarrow> nat_string (10 * a + b) = [digit_char a, digit_char b]" for a b
    by (simp add: nat_string.simps [of "10 * a + b"] one)
  assume *: "0 < a" "a < 10" "b < 10" "e < 10"
  have d: "(100 * a + 10 * b + e) div 10 = 10 * a + b"
    by (rule div_nat_eqI) (use *(4) in simp_all)
  moreover have "(100 * a + 10 * b + e) mod 10 = e"
    using minus_mult_div_eq_mod [of "100 * a + 10 * b + e" 10] unfolding d by simp
  moreover have "\<not> 100 * a + 10 * b + e < 10" using * by simp
  ultimately show "nat_string (100 * a + 10 * b + e) = [digit_char a, digit_char b, digit_char e]"
    using two [OF *(1-3)] by (simp add: nat_string.simps [of "100 * a + 10 * b + e"])
qed

lemma v4_fields_byte:
  assumes "n < 256"
  shows "\<exists>k. 0 < k \<and> v4_fields (nat_string n @ s) 0 0 fs = v4_fields s n k fs"
  using byte_cases [OF assms]
proof (elim disjE exE conjE)
  assume "n < 10"
  then show ?thesis by (intro exI [of _ 1]) (simp add: nat_string_byte)
next
  fix a b assume *: "n = 10 * a + b" "0 < a" "a < 10" "b < 10"
  then have "nat_string n = [digit_char a, digit_char b]" "a * 10 + b = n"
    by (simp_all add: nat_string_byte)
  then show ?thesis using assms *(2-4) by (intro exI [of _ "Suc (Suc 0)"]) simp
next
  fix a b e assume *: "n = 100 * a + 10 * b + e" "0 < a" "a < 10" "b < 10" "e < 10"
  then have "nat_string n = [digit_char a, digit_char b, digit_char e]" "\<not> 255 < a * 10 + b" "(a * 10 + b) * 10 + e = n"
    by (simp_all add: nat_string_byte)
  then show ?thesis using assms *(2-5) by (intro exI [of _ "Suc (Suc (Suc 0))"]) simp
qed

theorem ParseIP_dotted:
  assumes "a < 256" "b < 256" "e < 256" "f < 256"
  shows "ParseIP (dotted [a, b, e, f]) = Some (v4_mapped [a, b, e, f])"
proof -
  have dots: "dotted [a, b, e, f] = nat_string a @ CHR ''.'' # nat_string b @ CHR ''.'' # nat_string e @ CHR ''.'' # nat_string f"
    by (simp add: dotted_def)
  have step: "v4_fields (nat_string n @ CHR ''.'' # s) 0 0 fs = v4_fields s 0 0 (fs @ [n])"
    if "n < 256" "s \<noteq> []" "length fs < 3" for n s fs
    using v4_fields_byte [OF that(1), of "CHR ''.'' # s" fs] that(2,3) by auto
  obtain k where "v4_fields (nat_string f @ []) 0 0 [a, b, e] = v4_fields [] f k [a, b, e]"
    using v4_fields_byte [OF assms(4)] by blast
  then have v4: "v4_fields (dotted [a, b, e, f]) 0 0 [] = Some [a, b, e, f]"
    using assms by (simp add: dots step)
  have no: "c \<noteq> CHR ''.'' \<and> c \<noteq> CHR '':'' \<and> c \<noteq> CHR ''%''" if "c \<in> set (nat_string n)" for c n
    using that nat_string_digits [of n] by (auto simp: list_all_iff is_digit_def)
  then have "dropWhile (\<lambda>c. c \<noteq> CHR ''.'' \<and> c \<noteq> CHR '':'') (dotted [a, b, e, f])
      = CHR ''.'' # nat_string b @ CHR ''.'' # nat_string e @ CHR ''.'' # nat_string f"
    unfolding dots by (simp add: dropWhile_append2)
  moreover have "CHR ''%'' \<notin> set (dotted [a, b, e, f])" unfolding dots using no by auto
  ultimately show ?thesis using v4 by (simp add: ParseIP_def)
qed

lemma To4_mapped [simp]: "length fs = 4 \<Longrightarrow> To4 (v4_mapped fs) = Some fs"
  by (simp add: To4_def v4_mapped_def nth_append list_all_length)

section \<open>SplitHostPort\<close>

datatype addr_error = MissingPort | TooManyColons | MissingBracket | UnexpectedBracket

text \<open>\<open>last_index c s\<close>: the position of the last \<open>c\<close>; \<open>index c s\<close>: of the first.\<close>

definition index_of :: "char \<Rightarrow> string \<Rightarrow> nat option" where
  "index_of c s = (let n = length (takeWhile (\<lambda>x. x \<noteq> c) s) in if n < length s then Some n else None)"

definition last_index_of :: "char \<Rightarrow> string \<Rightarrow> nat option" where
  "last_index_of c s = map_option (\<lambda>n. length s - Suc n) (index_of c (rev s))"

definition SplitHostPort :: "string \<Rightarrow> addr_error + string \<times> string" where
  "SplitHostPort hostport =
     (case last_index_of (CHR '':'') hostport of
        None \<Rightarrow> Inl MissingPort
      | Some i \<Rightarrow>
          if hostport ! 0 = CHR ''['' then
            (case index_of (CHR '']'') hostport of
               None \<Rightarrow> Inl MissingBracket
             | Some e \<Rightarrow>
                 if e + 1 = length hostport then Inl MissingPort
                 else if e + 1 = i then
                   (let host = take (e - 1) (drop 1 hostport) in
                    if CHR ''['' \<in> set (drop 1 hostport) then Inl UnexpectedBracket
                    else if CHR '']'' \<in> set (drop (e + 1) hostport) then Inl UnexpectedBracket
                    else Inr (host, drop (i + 1) hostport))
                 else if hostport ! (e + 1) = CHR '':'' then Inl TooManyColons
                 else Inl MissingPort)
          else
            (let host = take i hostport in
             if CHR '':'' \<in> set host then Inl TooManyColons
             else if CHR ''['' \<in> set hostport then Inl UnexpectedBracket
             else if CHR '']'' \<in> set hostport then Inl UnexpectedBracket
             else Inr (host, drop (i + 1) hostport)))"

end
