(* ===== verification/Import_Export.thy ===== *)
theory Import_Export
  imports Server_Mgmt Go_Net Go_Time
begin

text \<open>
  \<open>internal/modules/server_management/service/import_export.go\<close>: the import of servers from a
  spreadsheet and the export to one. The spreadsheet library \<open>excelize\<close> is the parameter \<open>excelize\<close>:
  how it opens a file (the name of the first sheet and its rows, a row that cannot be read being
  empty) and which errors its writer reports.
\<close>

record workbook =
  wb_sheet :: string
  wb_rows :: "string + string list list"

record excelize =
  xl_open :: "string \<Rightarrow> workbook option"
  xl_stream :: "string option"
  xl_style :: "string option"
  xl_cell :: "nat \<Rightarrow> string"
  xl_set_row :: "string \<Rightarrow> string list \<Rightarrow> string option"
  xl_flush :: "string option"
  xl_write :: "(string \<times> string list) list \<Rightarrow> string + string"

definition maxFileSize :: nat where "maxFileSize = 2 * 1024 * 1024"
definition batchSize :: nat where "batchSize = 100"

record ImportResult =
  IR_SuccessCount :: int
  IR_SuccessfulServers :: "string list"
  IR_FailCount :: int
  IR_FailedServers :: "string list"

definition no_result :: ImportResult where
  "no_result = \<lparr>IR_SuccessCount = 0, IR_SuccessfulServers = [], IR_FailCount = 0, IR_FailedServers = []\<rparr>"

definition add_success :: "string \<Rightarrow> ImportResult \<Rightarrow> ImportResult" where
  "add_success name r = r\<lparr>IR_SuccessCount := wrap32 (IR_SuccessCount r + 1),
     IR_SuccessfulServers := IR_SuccessfulServers r @ [name]\<rparr>"

definition add_failure :: "string \<Rightarrow> ImportResult \<Rightarrow> ImportResult" where
  "add_failure what r = r\<lparr>IR_FailCount := wrap32 (IR_FailCount r + 1),
     IR_FailedServers := IR_FailedServers r @ [what]\<rparr>"

section \<open>The header\<close>

definition header_step :: "(string \<Rightarrow> string) \<Rightarrow> nat \<Rightarrow> string \<Rightarrow> int \<times> int \<Rightarrow> int \<times> int" where
  "header_step uni i h ix =
     (let hLower = TrimSpace (ToLower uni h) in
      if hLower \<in> {''server name'', ''server_name'', ''name''} then (int i, snd ix)
      else if hLower \<in> {''ipv4'', ''ip''} then (fst ix, int i)
      else ix)"

fun header_cols :: "(string \<Rightarrow> string) \<Rightarrow> nat \<Rightarrow> string list \<Rightarrow> int \<times> int \<Rightarrow> int \<times> int" where
  "header_cols uni i [] ix = ix"
| "header_cols uni i (h # hs) ix = header_cols uni (Suc i) hs (header_step uni i h ix)"

section \<open>One batch\<close>

text \<open>
  Rows whose name or address is taken, in the table or by an earlier row of the batch, fail; the
  others succeed and take theirs. \<open>ns\<close> and \<open>ips\<close> are the maps of taken names and addresses.
\<close>

fun split_batch ::
  "string list \<Rightarrow> string list \<Rightarrow> Server list \<Rightarrow> ImportResult \<Rightarrow> ImportResult \<times> Server list" where
  "split_batch ns ips [] r = (r, [])"
| "split_batch ns ips (srv # rest) r =
     (if S_ServerName srv \<in> set ns \<or> S_IPv4 srv \<in> set ips then
        split_batch ns ips rest (add_failure (S_ServerName srv @ '' ('' @ S_IPv4 srv @ '')'') r)
      else
        (let (r', valid) = split_batch (S_ServerName srv # ns) (S_IPv4 srv # ips) rest
                             (add_success (S_ServerName srv) r)
         in (r', srv # valid)))"

definition cache_item :: "Server \<Rightarrow> CacheUpsertItem" where
  "cache_item srv = \<lparr>CI_ID = S_ServerID srv, CI_IPv4 = S_IPv4 srv, CI_Status = S_CurrentStatus srv,
     CI_RetryCount = 0\<rparr>"

definition processBatch ::
  "server_service \<Rightarrow> ImportResult \<Rightarrow> Server list \<Rightarrow> server_state
   \<Rightarrow> (service_error + ImportResult) go \<times> server_state" where
  "processBatch d result batch s =
     (if batch = [] then (Returns (Inr result), s)
      else
        (case FindByNamesOrIPv4s (sv_repo d) (map S_ServerName batch) (map S_IPv4 batch) (st_servers s) of
           (Inl e, t) \<Rightarrow> (Returns (Inl (ErrCheckExisting e)), s\<lparr>st_servers := t\<rparr>)
         | (Inr existing, t) \<Rightarrow>
             (let (result', valid) = split_batch (map S_ServerName existing) (map S_IPv4 existing) batch result
              in if valid = [] then (Returns (Inr result'), s\<lparr>st_servers := t\<rparr>)
                 else
                   (case BatchCreate (sv_repo d) valid t of
                      (Inl e, t1) \<Rightarrow> (Returns (Inl (ErrBatchCreate e)), s\<lparr>st_servers := t1\<rparr>)
                    | (Inr created, t1) \<Rightarrow>
                        dual_write d (\<lambda>client. BatchUpsert client (map cache_item created)) result'
                          (s\<lparr>st_servers := t1\<rparr>)))))"

section \<open>The rows\<close>

definition column :: "int \<Rightarrow> string list \<Rightarrow> string" where
  "column i cols = (if i < int (length cols) then TrimSpace (cols ! nat i) else [])"

definition valid_row :: "string \<Rightarrow> string \<Rightarrow> bool" where
  "valid_row name ipv4 \<longleftrightarrow>
     \<not> (name = [] \<or> ipv4 = [] \<or> length name > 255 \<or>
        (case ParseIP ipv4 of None \<Rightarrow> True | Some ip \<Rightarrow> To4 ip = None))"

definition imported :: "string \<Rightarrow> string \<Rightarrow> Server" where
  "imported name ipv4 =
     zero_server\<lparr>S_ServerName := name, S_IPv4 := ipv4, S_CurrentStatus := ServerStatusOnline\<rparr>"

fun import_rows ::
  "server_service \<Rightarrow> int \<Rightarrow> int \<Rightarrow> string list list \<Rightarrow> ImportResult \<Rightarrow> Server list \<Rightarrow> server_state
   \<Rightarrow> (service_error + ImportResult) go \<times> server_state" where
  "import_rows d nameIdx ipIdx [] result batch s = processBatch d result batch s"
| "import_rows d nameIdx ipIdx (cols # rest) result batch s =
     (let name = column nameIdx cols; ipv4 = column ipIdx cols in
      if name = [] \<and> ipv4 = [] then import_rows d nameIdx ipIdx rest result batch s
      else if \<not> valid_row name ipv4 then
        import_rows d nameIdx ipIdx rest
          (add_failure (name @ '' ('' @ ipv4 @ '') - Invalid Format'') result) batch s
      else
        (let batch' = batch @ [imported name ipv4] in
         if length batch' \<ge> batchSize then
           (case processBatch d result batch' s of
              (Panics m, s') \<Rightarrow> (Panics m, s')
            | (Returns (Inl e), s') \<Rightarrow> (Returns (Inl e), s')
            | (Returns (Inr result'), s') \<Rightarrow> import_rows d nameIdx ipIdx rest result' [] s')
         else import_rows d nameIdx ipIdx rest result batch' s))"

definition ImportServers ::
  "server_service \<Rightarrow> excelize \<Rightarrow> string \<Rightarrow> server_state
   \<Rightarrow> (service_error + ImportResult) go \<times> server_state" where
  "ImportServers d xl fileBytes s =
     (if length fileBytes > maxFileSize then (Returns (Inl ErrFileTooLarge), s)
      else
        (case xl_open xl fileBytes of
           None \<Rightarrow> (Returns (Inl ErrInvalidFormat), s)
         | Some f \<Rightarrow>
             if wb_sheet f = [] then (Returns (Inl ErrNoSheets), s)
             else
               (case wb_rows f of
                  Inl e \<Rightarrow> (Returns (Inl (ErrReadRows e)), s)
                | Inr [] \<Rightarrow> (Returns (Inl ErrEmptyFile), s)
                | Inr (header # rest) \<Rightarrow>
                    (let (nameIdx, ipIdx) = header_cols (sv_uni d) 0 header (- 1, - 1) in
                     if nameIdx = - 1 \<or> ipIdx = - 1 then (Returns (Inl ErrMissingCols), s)
                     else import_rows d nameIdx ipIdx rest no_result [] s))))"

section \<open>Export\<close>

definition export_header :: "string list" where
  "export_header = [''Server Name'', ''IPv4 Address'', ''Status'', ''Created At'', ''Last Updated'']"

definition export_row :: "(time \<Rightarrow> int) \<Rightarrow> Server \<Rightarrow> string list" where
  "export_row loc srv =
     [S_ServerName srv, S_IPv4 srv, S_CurrentStatus srv, Format_datetime loc (S_CreatedAt srv),
      Format_datetime loc (S_UpdatedAt srv)]"

fun export_rows ::
  "excelize \<Rightarrow> (time \<Rightarrow> int) \<Rightarrow> nat \<Rightarrow> Server list \<Rightarrow> string + (string \<times> string list) list" where
  "export_rows xl loc rowIdx [] = Inr []"
| "export_rows xl loc rowIdx (srv # rest) =
     (case xl_set_row xl (xl_cell xl rowIdx) (export_row loc srv) of
        Some e \<Rightarrow> Inl (''failed to write row '' @ nat_string rowIdx @ '': '' @ e)
      | None \<Rightarrow>
          (case export_rows xl loc (Suc rowIdx) rest of
             Inl e \<Rightarrow> Inl e
           | Inr out \<Rightarrow> Inr ((xl_cell xl rowIdx, export_row loc srv) # out)))"

definition generateServerExcel :: "excelize \<Rightarrow> (time \<Rightarrow> int) \<Rightarrow> Server list \<Rightarrow> string + string" where
  "generateServerExcel xl loc servers =
     (case xl_stream xl of Some e \<Rightarrow> Inl (''failed to init stream writer: '' @ e)
      | None \<Rightarrow>
     (case xl_style xl of Some e \<Rightarrow> Inl (''failed to create style: '' @ e)
      | None \<Rightarrow>
     (case xl_set_row xl ''A1'' export_header of Some e \<Rightarrow> Inl (''failed to write header: '' @ e)
      | None \<Rightarrow>
     (case export_rows xl loc 2 servers of Inl e \<Rightarrow> Inl e
      | Inr out \<Rightarrow>
     (case xl_flush xl of Some e \<Rightarrow> Inl (''failed to flush stream: '' @ e)
      | None \<Rightarrow>
     (case xl_write xl ((''A1'', export_header) # out) of
        Inl e \<Rightarrow> Inl (''failed to write excel to buffer: '' @ e)
      | Inr buf \<Rightarrow> Inr buf))))))"

definition ExportServers ::
  "server_service \<Rightarrow> excelize \<Rightarrow> (time \<Rightarrow> int) \<Rightarrow> time \<Rightarrow> ServerListFilter \<Rightarrow> server_state
   \<Rightarrow> (service_error + string \<times> string) \<times> server_state" where
  "ExportServers d xl loc now flt s =
     (case Search (sv_repo d) (sv_ilike d) (sv_uni d) flt (st_servers s) of
        (Inl e, t) \<Rightarrow> (Inl (ErrExportFetch e), s\<lparr>st_servers := t\<rparr>)
      | (Inr (servers, _), t) \<Rightarrow>
          (case generateServerExcel xl loc servers of
             Inl e \<Rightarrow> (Inl (ErrExcel e), s\<lparr>st_servers := t\<rparr>)
           | Inr buf \<Rightarrow>
               (Inr (buf, ''servers_export_'' @ Format_stamp loc now @ ''.xlsx''), s\<lparr>st_servers := t\<rparr>)))"

end
