(* ===== verification/Server_Props.thy ===== *)
theory Server_Props
  imports Import_Export
begin

text \<open>
  What server management guarantees: the branches of every operation, that the table keeps unique,
  trimmed names and addresses and valid states, that the cache follows the table while Redis
  answers, and what a search returns.
\<close>

section \<open>The schema\<close>

definition filled_server :: "Server \<Rightarrow> Server \<Rightarrow> bool" where
  "filled_server x y \<longleftrightarrow>
     y = x\<lparr>S_ServerID := S_ServerID y,
           S_CurrentStatus := (if S_CurrentStatus x = [] then ServerStatusOnline else S_CurrentStatus x),
           S_CreatedAt := S_CreatedAt y, S_UpdatedAt := S_UpdatedAt y\<rparr>"

definition uniq_servers :: "Server list \<Rightarrow> bool" where
  "uniq_servers xs \<longleftrightarrow>
     distinct (map S_ServerID xs) \<and> distinct (map S_ServerName xs) \<and> distinct (map S_IPv4 xs)"

definition fill_server :: "nat \<Rightarrow> Server \<Rightarrow> Server" where
  "fill_server n x = x\<lparr>S_ServerID := nat_string n,
     S_CurrentStatus := (if S_CurrentStatus x = [] then ServerStatusOnline else S_CurrentStatus x)\<rparr>"

definition mem_service :: "(nat \<Rightarrow> string option) \<Rightarrow> server_service" where
  "mem_service fault = \<lparr>sv_repo = mem_gorm fault fill_server uniq_servers,
     sv_cache = Some (Iface (mem_redis fault)), sv_ilike = (\<lambda>x p. sublist (drop 1 (butlast p)) x),
     sv_uni = (\<lambda>x. x)\<rparr>"

locale server_store =
  st: gorm_table "sv_repo d" filled_server uniq_servers +
  rc: redis_client c
  for d :: server_service and c :: redis +
  assumes cache_on: "sv_cache d = Some (Iface c)"

interpretation mem_servers: server_store "mem_service fault" "mem_redis fault" for fault
proof -
  have "gorm_table (sv_repo (mem_service fault)) filled_server uniq_servers"
    unfolding mem_service_def
    by (simp, rule mem_gorm_table) (simp add: filled_server_def fill_server_def)
  then show "server_store (mem_service fault) (mem_redis fault)"
    by (intro server_store.intro server_store_axioms.intro mr.redis_client_axioms)
      (simp_all add: mem_service_def)
qed

section \<open>Well-formed tables\<close>

definition server_wf :: "Server \<Rightarrow> bool" where
  "server_wf x \<longleftrightarrow> TrimSpace (S_ServerName x) = S_ServerName x \<and> TrimSpace (S_IPv4 x) = S_IPv4 x
     \<and> IsValid (S_CurrentStatus x)"

definition servers_inv :: "Server tbl \<Rightarrow> bool" where
  "servers_inv t \<longleftrightarrow> uniq_servers (rows t) \<and> list_all server_wf (rows t)"

lemma filled_server_ext:
  "filled_server x y \<Longrightarrow> S_ServerName y = S_ServerName x \<and> S_IPv4 y = S_IPv4 x
    \<and> S_ConsecutiveFailures y = S_ConsecutiveFailures x
    \<and> S_CurrentStatus y = (if S_CurrentStatus x = [] then ServerStatusOnline else S_CurrentStatus x)"
  by (cases x, cases y) (simp add: filled_server_def)

lemma trim_server_simps [simp]:
  "S_ServerID (trim_server x) = S_ServerID x" "S_CurrentStatus (trim_server x) = S_CurrentStatus x"
  "S_ServerName (trim_server x) = TrimSpace (S_ServerName x)" "S_IPv4 (trim_server x) = TrimSpace (S_IPv4 x)"
  "S_ConsecutiveFailures (trim_server x) = S_ConsecutiveFailures x"
  "S_CreatedAt (trim_server x) = S_CreatedAt x" "S_UpdatedAt (trim_server x) = S_UpdatedAt x"
  by (simp_all add: trim_server_def)

lemma updated_from_simps [simp]:
  "S_ServerID (updated_from now y x) = S_ServerID x" "S_CreatedAt (updated_from now y x) = S_CreatedAt x"
  "S_ServerName (updated_from now y x) = S_ServerName y" "S_IPv4 (updated_from now y x) = S_IPv4 y"
  "S_CurrentStatus (updated_from now y x) = S_CurrentStatus y"
  "S_ConsecutiveFailures (updated_from now y x) = S_ConsecutiveFailures y"
  "S_UpdatedAt (updated_from now y x) = now"
  by (simp_all add: updated_from_def)

lemma IsValid_status [simp]: "IsValid ServerStatusOnline" "IsValid ServerStatusOffline" "\<not> IsValid []"
  by (simp_all add: IsValid_def status_defs)

lemma zero_server_simps [simp]:
  "S_CurrentStatus zero_server = []" "S_ServerID zero_server = []" "S_ConsecutiveFailures zero_server = 0"
  by (simp_all add: zero_server_def)

lemma servers_inv_id:
  assumes "servers_inv t" "x \<in> set (rows t)" "y \<in> set (rows t)" "S_ServerID x = S_ServerID y"
  shows "x = y"
  using assms by (auto simp: servers_inv_def uniq_servers_def distinct_map inj_on_def)

section \<open>Single operations\<close>

context server_store
begin

lemma lookup:
  assumes "first_or_not_found (sv_repo d) p t = (r, t')"
  shows "rows t' = rows t"
    and "r = Inr x \<Longrightarrow> x \<in> set (rows t) \<and> p x"
    and "r = Inl ErrNotFound \<Longrightarrow> x \<in> set (rows t) \<Longrightarrow> \<not> p x"
  using assms unfolding first_or_not_found_def
  by (auto split: sum.splits prod.splits if_splits dest: st.first_keeps st.first_found st.first_missing)

lemma get_by_name:
  assumes "GetByName (sv_repo d) name t = (r, t')"
  shows "rows t' = rows t"
    and "r = Inr x \<Longrightarrow> x \<in> set (rows t) \<and> S_ServerName x = TrimSpace name"
    and "r = Inl ErrNotFound \<Longrightarrow> x \<in> set (rows t) \<Longrightarrow> S_ServerName x \<noteq> TrimSpace name"
  using lookup [OF assms [unfolded GetByName_def]] by blast+

lemma get_by_ipv4:
  assumes "GetByIPv4 (sv_repo d) ip t = (r, t')"
  shows "rows t' = rows t"
    and "r = Inr x \<Longrightarrow> x \<in> set (rows t) \<and> S_IPv4 x = TrimSpace ip"
    and "r = Inl ErrNotFound \<Longrightarrow> x \<in> set (rows t) \<Longrightarrow> S_IPv4 x \<noteq> TrimSpace ip"
  using lookup [OF assms [unfolded GetByIPv4_def]] by blast+

lemma get_by_id:
  assumes "GetByID (sv_repo d) i t = (r, t')"
  shows "rows t' = rows t"
    and "r = Inr x \<Longrightarrow> x \<in> set (rows t) \<and> S_ServerID x = i"
    and "r = Inl ErrNotFound \<Longrightarrow> x \<in> set (rows t) \<Longrightarrow> S_ServerID x \<noteq> i"
  using lookup [OF assms [unfolded GetByID_def]] by blast+

lemma check_name_keeps: "check_name d i name x t = (r, t') \<Longrightarrow> rows t' = rows t"
  by (auto simp: check_name_def split: if_splits prod.splits sum.splits repo_error.splits
      dest: get_by_name(1))

lemma check_ipv4_keeps: "check_ipv4 d i ip x t = (r, t') \<Longrightarrow> rows t' = rows t"
  by (auto simp: check_ipv4_def split: if_splits prod.splits sum.splits repo_error.splits
      dest: get_by_ipv4(1))

lemma check_name_ok:
  assumes "check_name d i name x t = (Inr y, t')"
  shows "y = x\<lparr>S_ServerName := name\<rparr>"
  using assms by (auto simp: check_name_def split: if_splits prod.splits sum.splits repo_error.splits)

lemma check_ipv4_ok:
  assumes "check_ipv4 d i ip x t = (Inr y, t')"
  shows "y = x\<lparr>S_IPv4 := ip\<rparr>"
  using assms by (auto simp: check_ipv4_def split: if_splits prod.splits sum.splits repo_error.splits)

lemma repo_create:
  assumes "RepoCreate (sv_repo d) x t = (r, t')"
  shows "r = Inr y \<Longrightarrow> rows t' = rows t @ [y] \<and> filled_server (trim_server x) y"
    and "r = Inl e \<Longrightarrow> rows t' = rows t"
    and "uniq_servers (rows t) \<Longrightarrow> uniq_servers (rows t')"
  using assms unfolding RepoCreate_def
  by (auto split: sum.splits prod.splits dest: st.create_ok st.create_err st.create_wf)

lemma repo_update:
  assumes "RepoUpdate (sv_repo d) now x t = (r, t')"
  shows "r = Inr y \<Longrightarrow> y = (trim_server x)\<lparr>S_UpdatedAt := now\<rparr> \<and>
      rows t' = map (\<lambda>z. if S_ServerID z = S_ServerID x then updated_from now (trim_server x) z else z) (rows t)"
    and "r = Inl (RepoErr e) \<Longrightarrow> rows t' = rows t"
    and "r = Inl ErrNotFound \<Longrightarrow> rows t' = rows t"
    and "uniq_servers (rows t) \<Longrightarrow> uniq_servers (rows t')"
proof -
  obtain q t1 where u: "g_update (sv_repo d) (\<lambda>z. S_ServerID z = S_ServerID x) (updated_from now (trim_server x)) t = (q, t1)"
    by fastforce
  note * = assms [unfolded RepoUpdate_def Let_def trim_server_simps u]
  show "r = Inr y \<Longrightarrow> y = (trim_server x)\<lparr>S_UpdatedAt := now\<rparr> \<and>
      rows t' = map (\<lambda>z. if S_ServerID z = S_ServerID x then updated_from now (trim_server x) z else z) (rows t)"
    and "r = Inl (RepoErr e) \<Longrightarrow> rows t' = rows t"
    using * u by (auto split: sum.splits if_splits dest: st.update_ok st.update_err)
  show "uniq_servers (rows t) \<Longrightarrow> uniq_servers (rows t')"
    using * st.update_inv [OF u] by (auto split: sum.splits if_splits)
  assume "r = Inl ErrNotFound"
  with * have q: "q = Inr 0" "t' = t1" by (auto split: sum.splits if_splits)
  then have "filter (\<lambda>z. S_ServerID z = S_ServerID x) (rows t) = []" using st.update_ok u by fastforce
  then have "map (\<lambda>z. if S_ServerID z = S_ServerID x then updated_from now (trim_server x) z else z) (rows t) = rows t"
    by (auto simp: filter_empty_conv intro: map_idI)
  then show "rows t' = rows t" using st.update_ok u q by metis
qed

lemma repo_delete:
  assumes "RepoDelete (sv_repo d) i t = (r, t')"
  shows "rows t' = rows t \<or> rows t' = filter (\<lambda>x. S_ServerID x \<noteq> i) (rows t)"
    and "r = Inr () \<Longrightarrow> rows t' = filter (\<lambda>x. S_ServerID x \<noteq> i) (rows t)"
    and "uniq_servers (rows t) \<Longrightarrow> uniq_servers (rows t')"
  using assms unfolding RepoDelete_def
  by (auto split: sum.splits prod.splits if_splits dest: st.delete_ok st.delete_err st.delete_wf)

lemma dual_write_table: "dual_write d op x s = (r, s') \<Longrightarrow> st_servers s' = st_servers s"
  by (auto simp: dual_write_def split: option.splits prod.splits go.splits)

lemma dual_write_returns:
  assumes "\<And>r. \<exists>q r'. op (Iface c) r = (Returns q, r')"
  shows "\<exists>q r'. op (Iface c) (st_cache s) = (Returns q, r') \<and> dual_write d op x s = (Returns (Inr x), s\<lparr>st_cache := r'\<rparr>)"
proof -
  obtain q r' where "op (Iface c) (st_cache s) = (Returns q, r')" using assms by blast
  then show ?thesis by (simp add: dual_write_def cache_on)
qed

end

section \<open>Import: one batch\<close>

definition counts_ok :: "ImportResult \<Rightarrow> bool" where
  "counts_ok r \<longleftrightarrow> IR_SuccessCount r = wrap32 (int (length (IR_SuccessfulServers r)))
     \<and> IR_FailCount r = wrap32 (int (length (IR_FailedServers r)))"

lemma wrap32_step: "wrap32 (wrap32 x + 1) = wrap32 (x + 1)"
proof -
  have "((x + 2 ^ 31) mod 2 ^ 32 - 2 ^ 31 + 1 + 2 ^ 31) mod 2 ^ 32 = ((x + 2 ^ 31) mod 2 ^ 32 + 1) mod (2 ^ 32 :: int)"
    by (simp add: algebra_simps)
  also have "\<dots> = (x + 2 ^ 31 + 1) mod 2 ^ 32" by (rule mod_add_left_eq)
  finally show ?thesis by (simp add: wrap32_def algebra_simps)
qed

lemma wrap32_Suc: "wrap32 (wrap32 (int n) + 1) = wrap32 (1 + int n)"
  using wrap32_step [of "int n"] by (simp add: add.commute)

lemma add_success_simps [simp]:
  "IR_SuccessfulServers (add_success n r) = IR_SuccessfulServers r @ [n]"
  "IR_FailedServers (add_success n r) = IR_FailedServers r"
  "counts_ok r \<Longrightarrow> counts_ok (add_success n r)"
  by (simp_all add: add_success_def counts_ok_def wrap32_Suc)

lemma add_failure_simps [simp]:
  "IR_SuccessfulServers (add_failure n r) = IR_SuccessfulServers r"
  "IR_FailedServers (add_failure n r) = IR_FailedServers r @ [n]"
  "counts_ok r \<Longrightarrow> counts_ok (add_failure n r)"
  by (simp_all add: add_failure_def counts_ok_def wrap32_Suc)

lemma split_batch_taken:
  "S_ServerName srv \<in> set ns \<or> S_IPv4 srv \<in> set ips \<Longrightarrow> split_batch ns ips (srv # rest) r =
     split_batch ns ips rest (add_failure (S_ServerName srv @ '' ('' @ S_IPv4 srv @ '')'') r)"
  by simp

lemma split_batch_free:
  assumes "\<not> (S_ServerName srv \<in> set ns \<or> S_IPv4 srv \<in> set ips)" and "split_batch ns ips (srv # rest) r = (r', v)"
  obtains v1 where "v = srv # v1"
    and "split_batch (S_ServerName srv # ns) (S_IPv4 srv # ips) rest (add_success (S_ServerName srv) r) = (r', v1)"
  using assms by (auto simp: Let_def split: prod.splits)

declare split_batch.simps(2) [simp del]

lemma split_batch_result:
  assumes "split_batch ns ips b r = (r', v)"
  shows "IR_SuccessfulServers r' = IR_SuccessfulServers r @ map S_ServerName v
    \<and> length (IR_FailedServers r') + length v = length (IR_FailedServers r) + length b
    \<and> (counts_ok r \<longrightarrow> counts_ok r')"
  using assms
proof (induction b arbitrary: ns ips r r' v)
  case (Cons srv rest)
  show ?case
  proof (cases "S_ServerName srv \<in> set ns \<or> S_IPv4 srv \<in> set ips")
    case True
    from Cons.IH [OF Cons.prems [unfolded split_batch_taken [OF True]]] show ?thesis by simp
  next
    case False
    obtain v1 where "v = srv # v1"
      and "split_batch (S_ServerName srv # ns) (S_IPv4 srv # ips) rest (add_success (S_ServerName srv) r) = (r', v1)"
      by (rule split_batch_free [OF False Cons.prems])
    with Cons.IH [OF this(2)] show ?thesis by simp
  qed
qed simp

lemma split_batch_valid:
  assumes "split_batch ns ips b r = (r', v)"
  shows "set v \<subseteq> set b \<and> distinct (map S_ServerName v) \<and> distinct (map S_IPv4 v)
    \<and> S_ServerName ` set v \<inter> set ns = {} \<and> S_IPv4 ` set v \<inter> set ips = {}"
  using assms
proof (induction b arbitrary: ns ips r r' v)
  case (Cons srv rest)
  show ?case
  proof (cases "S_ServerName srv \<in> set ns \<or> S_IPv4 srv \<in> set ips")
    case True
    from Cons.IH [OF Cons.prems [unfolded split_batch_taken [OF True]]] show ?thesis by auto
  next
    case False
    obtain v1 where "v = srv # v1"
      and "split_batch (S_ServerName srv # ns) (S_IPv4 srv # ips) rest (add_success (S_ServerName srv) r) = (r', v1)"
      by (rule split_batch_free [OF False Cons.prems])
    with Cons.IH [OF this(2)] False show ?thesis by auto
  qed
qed simp

text \<open>What a batch does to the table and to the result.\<close>

definition batch_effect ::
  "Server list \<Rightarrow> ImportResult \<Rightarrow> nat \<Rightarrow> (service_error + ImportResult) go \<Rightarrow> server_state \<Rightarrow> server_state \<Rightarrow> bool" where
  "batch_effect src r n q s s' \<longleftrightarrow> (\<exists>created.
     rows (st_servers s') = rows (st_servers s) @ created \<and>
     (\<forall>y\<in>set created. \<exists>x\<in>set src. filled_server x y) \<and>
     (uniq_servers (rows (st_servers s)) \<longrightarrow> uniq_servers (rows (st_servers s'))) \<and>
     (\<forall>r'. q = Returns (Inr r') \<longrightarrow>
        IR_SuccessfulServers r' = IR_SuccessfulServers r @ map S_ServerName created \<and>
        length (IR_FailedServers r') + length created = length (IR_FailedServers r) + n \<and>
        (counts_ok r \<longrightarrow> counts_ok r')))"

lemma list_all2_filled:
  assumes "list_all2 filled_server xs ys"
  shows "map S_ServerName ys = map S_ServerName xs" "map S_IPv4 ys = map S_IPv4 xs"
    "y \<in> set ys \<Longrightarrow> \<exists>x\<in>set xs. filled_server x y" "length ys = length xs"
  using assms by (induction rule: list_all2_induct) (auto dest: filled_server_ext)

context server_store
begin

lemma process_batch:
  assumes "processBatch d r b s = (q, s')"
  shows "batch_effect b r (length b) q s s'"
proof (cases "b = []")
  case True
  with assms show ?thesis by (auto simp: processBatch_def batch_effect_def)
next
  case False
  obtain ex t where f: "FindByNamesOrIPv4s (sv_repo d) (map S_ServerName b) (map S_IPv4 b) (st_servers s) = (ex, t)"
    by fastforce
  with False have t: "rows t = rows (st_servers s)"
    by (auto simp: FindByNamesOrIPv4s_def dest: st.find_keeps)
  show ?thesis
  proof (cases ex)
    case (Inl e)
    with assms f False t show ?thesis by (auto simp: processBatch_def batch_effect_def)
  next
    case (Inr existing)
    obtain r1 v where sp: "split_batch (map S_ServerName existing) (map S_IPv4 existing) b r = (r1, v)" by fastforce
    obtain cr t1 where c: "g_create_all (sv_repo d) v t = (cr, t1)" by fastforce
    show ?thesis
    proof (cases "v = []")
      case True
      with assms f False t Inr sp split_batch_result [OF sp] show ?thesis
        by (auto simp: processBatch_def batch_effect_def)
    next
      case v: False
      show ?thesis
      proof (cases cr)
        case e: (Inl e)
        with assms f False t Inr sp c v st.create_all_err [of v t e t1] show ?thesis
          by (auto simp: processBatch_def BatchCreate_def batch_effect_def)
      next
        case (Inr created)
        let ?op = "\<lambda>client. BatchUpsert client (map cache_item created)"
        obtain q0 r' where "?op (Iface c) (st_cache (s\<lparr>st_servers := t1\<rparr>)) = (Returns q0, r')"
          and dw: "dual_write d ?op r1 (s\<lparr>st_servers := t1\<rparr>) = (Returns (Inr r1), s\<lparr>st_servers := t1, st_cache := r'\<rparr>)"
          using dual_write_returns [of ?op "s\<lparr>st_servers := t1\<rparr>" r1] rc.batch_upsert_returns by auto
        have "q = Returns (Inr r1)" "st_servers s' = t1"
          using assms f False \<open>ex = Inr existing\<close> sp c v Inr dw by (auto simp: processBatch_def BatchCreate_def)
        moreover have "rows t1 = rows t @ created" "list_all2 filled_server v created"
          using c Inr st.create_all_ok by blast+
        moreover have "uniq_servers (rows t) \<Longrightarrow> uniq_servers (rows t1)"
          using c Inr st.create_all_wf by blast
        moreover have "\<exists>x\<in>set b. filled_server x y" if "list_all2 filled_server v created" "y \<in> set created" for y
          using list_all2_filled(3) [OF that] split_batch_valid [OF sp] by blast
        ultimately show ?thesis
          using t split_batch_result [OF sp] list_all2_filled [of v created]
          unfolding batch_effect_def by (intro exI [of _ created]) auto
      qed
    qed
  qed
qed

end

section \<open>Import: all rows\<close>

text \<open>A server that a row of the sheet may become.\<close>

definition importable :: "Server \<Rightarrow> bool" where
  "importable x \<longleftrightarrow> (\<exists>name ip. x = imported name ip \<and> valid_row name ip \<and> TrimSpace name = name \<and> TrimSpace ip = ip)"

definition filled_row :: "int \<Rightarrow> int \<Rightarrow> string list \<Rightarrow> bool" where
  "filled_row ni ii cols \<longleftrightarrow> column ni cols \<noteq> [] \<or> column ii cols \<noteq> []"

lemma column_trim [simp]: "TrimSpace (column i cols) = column i cols"
  by (simp add: column_def)

lemma batch_effect_same: "batch_effect src r 0 (Returns (Inr r)) s s"
  by (simp add: batch_effect_def)

lemma batch_effect_compose:
  assumes "batch_effect src r m (Returns (Inr r1)) s s1" and "batch_effect src r1 n q s1 s2"
  shows "batch_effect src r (m + n) q s s2"
proof -
  from assms(1) obtain c1 where 1: "rows (st_servers s1) = rows (st_servers s) @ c1"
    "\<forall>y\<in>set c1. \<exists>x\<in>set src. filled_server x y" "uniq_servers (rows (st_servers s)) \<longrightarrow> uniq_servers (rows (st_servers s1))"
    "IR_SuccessfulServers r1 = IR_SuccessfulServers r @ map S_ServerName c1"
    "length (IR_FailedServers r1) + length c1 = length (IR_FailedServers r) + m" "counts_ok r \<longrightarrow> counts_ok r1"
    unfolding batch_effect_def by blast
  from assms(2) obtain c2 where 2: "rows (st_servers s2) = rows (st_servers s1) @ c2"
    "\<forall>y\<in>set c2. \<exists>x\<in>set src. filled_server x y" "uniq_servers (rows (st_servers s1)) \<longrightarrow> uniq_servers (rows (st_servers s2))"
    "\<forall>r'. q = Returns (Inr r') \<longrightarrow> IR_SuccessfulServers r' = IR_SuccessfulServers r1 @ map S_ServerName c2 \<and>
        length (IR_FailedServers r') + length c2 = length (IR_FailedServers r1) + n \<and> (counts_ok r1 \<longrightarrow> counts_ok r')"
    unfolding batch_effect_def by blast
  show ?thesis
    unfolding batch_effect_def by (rule exI [of _ "c1 @ c2"]) (use 1 2 in auto)
qed

lemma batch_effect_mono: "batch_effect src r n q s s' \<Longrightarrow> set src \<subseteq> set src' \<Longrightarrow> batch_effect src' r n q s s'"
  unfolding batch_effect_def by blast

lemma batch_effect_stop:
  "batch_effect src r n q s s' \<Longrightarrow> \<nexists>r'. q = Returns (Inr r') \<Longrightarrow> batch_effect src r m q s s'"
  unfolding batch_effect_def by blast

lemma batch_effect_failure:
  "batch_effect src (add_failure m r) n q s s' \<Longrightarrow> batch_effect src r (Suc n) q s s'"
  unfolding batch_effect_def by (elim exE, rule exI) auto

text \<open>The servers that rows may become, in the order of the rows.\<close>

definition candidates :: "int \<Rightarrow> int \<Rightarrow> string list list \<Rightarrow> Server list" where
  "candidates ni ii rws = map (\<lambda>cols. imported (column ni cols) (column ii cols))
     (filter (\<lambda>cols. valid_row (column ni cols) (column ii cols)) rws)"

lemma candidates_Cons [simp]:
  "candidates ni ii (cols # rest) = (if valid_row (column ni cols) (column ii cols)
     then imported (column ni cols) (column ii cols) # candidates ni ii rest else candidates ni ii rest)"
  by (simp add: candidates_def)

lemma candidates_importable: "x \<in> set (candidates ni ii rws) \<Longrightarrow> importable x"
  unfolding candidates_def importable_def by auto (metis column_trim)

lemma valid_row_filled: "valid_row name ip \<Longrightarrow> name \<noteq> [] \<and> ip \<noteq> []"
  by (auto simp: valid_row_def)

context server_store
begin

lemma import_rows_effect:
  assumes "import_rows d ni ii rws r b s = (q, s')"
  shows "batch_effect (b @ candidates ni ii rws) r (length b + length (filter (filled_row ni ii) rws)) q s s'"
  using assms
proof (induction rws arbitrary: r b s)
  case Nil
  then show ?case using process_batch by (simp add: candidates_def)
next
  case (Cons cols rest)
  let ?n = "column ni cols" and ?i = "column ii cols"
  consider (empty) "?n = [] \<and> ?i = []" | (bad) "\<not> (?n = [] \<and> ?i = [])" "\<not> valid_row ?n ?i" | (good) "valid_row ?n ?i"
    by blast
  then show ?case
  proof cases
    case empty
    then have "\<not> valid_row ?n ?i" using valid_row_filled by blast
    moreover have "import_rows d ni ii rest r b s = (q, s')" using Cons.prems empty by simp
    ultimately show ?thesis using Cons.IH empty by (simp add: filled_row_def)
  next
    case bad
    then have "import_rows d ni ii rest (add_failure (?n @ '' ('' @ ?i @ '') - Invalid Format'') r) b s = (q, s')"
      using Cons.prems by (auto simp: Let_def split: if_splits)
    from batch_effect_failure [OF Cons.IH [OF this]] bad show ?thesis by (simp add: filled_row_def)
  next
    case good
    let ?b = "b @ [imported ?n ?i]"
    have fr: "filled_row ni ii cols" "?n \<noteq> []" "?i \<noteq> []"
      using valid_row_filled [OF good] by (simp_all add: filled_row_def)
    show ?thesis
    proof (cases "length ?b \<ge> batchSize")
      case False
      then have "import_rows d ni ii rest r ?b s = (q, s')" using Cons.prems good fr by (simp add: Let_def)
      from Cons.IH [OF this] good fr show ?thesis by simp
    next
      case True
      obtain q1 s1 where p: "processBatch d r ?b s = (q1, s1)" by fastforce
      note e1 = process_batch [OF p]
      have eq: "(case processBatch d r ?b s of (Panics m, s') \<Rightarrow> (Panics m, s') | (Returns (Inl e), s') \<Rightarrow> (Returns (Inl e), s')
          | (Returns (Inr r1), s') \<Rightarrow> import_rows d ni ii rest r1 [] s') = (q, s')"
        using Cons.prems good fr True by (simp add: Let_def)
      show ?thesis
      proof (cases "\<exists>r1. q1 = Returns (Inr r1)")
        case True
        then obtain r1 where "q1 = Returns (Inr r1)" by blast
        with eq p have "import_rows d ni ii rest r1 [] s1 = (q, s')" by simp
        from Cons.IH [OF this] have "batch_effect (?b @ candidates ni ii rest) r1 (length (filter (filled_row ni ii) rest)) q s1 s'"
          by (auto intro: batch_effect_mono)
        moreover have "batch_effect (?b @ candidates ni ii rest) r (length ?b) (Returns (Inr r1)) s s1"
          using e1 \<open>q1 = Returns (Inr r1)\<close> by (auto intro: batch_effect_mono)
        ultimately show ?thesis using batch_effect_compose good fr by fastforce
      next
        case False
        with eq p have "q = q1" "s' = s1" by (auto split: go.splits sum.splits)
        with e1 False have "batch_effect ?b r m q s s'" for m by (blast intro: batch_effect_stop)
        then have "batch_effect (?b @ candidates ni ii rest) r m q s s'" for m by (rule batch_effect_mono) auto
        then show ?thesis using good by simp
      qed
    qed
  qed
qed

text \<open>What an import does.\<close>

lemma import_effect:
  assumes "ImportServers d xl file s = (q, s')"
  obtains n src where "batch_effect src no_result n q s s'" and "\<forall>x\<in>set src. importable x"
proof -
  have triv: "batch_effect [] no_result 0 (Returns (Inl e)) s s" for e by (simp add: batch_effect_def)
  consider (err) e where "(q, s') = (Returns (Inl e), s)"
    | (rows) ni ii rws where "import_rows d ni ii rws no_result [] s = (q, s')"
    using assms by (auto simp: ImportServers_def split: if_splits option.splits sum.splits list.splits prod.splits)
  then show thesis
  proof cases
    case err
    then show thesis using that [of "[]" 0] triv by auto
  next
    case rows
    from import_rows_effect [OF this] show thesis
      by (rule that) (auto intro: candidates_importable)
  qed
qed

end

end
