(* ===== verification/Monitoring_Props.thy ===== *)
theory Monitoring_Props
  imports Monitoring Server_Props
begin

text \<open>
  What monitoring guarantees. \<open>monitor_stores\<close> is the contract of the stores a service runs on; the
  lemmas about single calls, evaluations and pools are proved in it. \<open>server_view\<close> is what the stores
  know of one server, \<open>observe\<close> the effect of one observation on it, and \<open>health\<close> the abstract machine
  the whole implements.
\<close>

section \<open>What is known of a server\<close>

type_synonym server_view = "ServerState option \<times> (ServerStatus \<times> int) list"

definition server_view :: "mon_state \<Rightarrow> string \<Rightarrow> server_view" where
  "server_view s sid =
     (state_of (rdata (ms_redis s)) sid,
      map (\<lambda>x. (S_CurrentStatus x, S_ConsecutiveFailures x))
        (filter (\<lambda>x. S_ServerID x = sid) (rows (ms_servers s))))"

definition apply_decision :: "bool \<Rightarrow> decision \<Rightarrow> server_view \<Rightarrow> server_view" where
  "apply_decision ok d v =
     (Some \<lparr>SS_Status = dc_status d, SS_RetryCount = dc_count d\<rparr>,
      if writes_row ok d then map (\<lambda>_. (dc_status d, dc_count d)) (snd v) else snd v)"

definition observe :: "int \<Rightarrow> bool \<Rightarrow> server_view \<Rightarrow> server_view" where
  "observe threshold ok v =
     (case fst v of None \<Rightarrow> v | Some st \<Rightarrow> apply_decision ok (decide threshold ok st) v)"

definition server_ip :: "mon_state \<Rightarrow> string \<Rightarrow> string option" where
  "server_ip s sid = info_of (rdata (ms_redis s)) sid ''ipv4''"

text \<open>The states a pool runs in: the channel is open and the table keeps its indexes.\<close>

definition mon_ok :: "mon_state \<Rightarrow> bool" where
  "mon_ok s \<longleftrightarrow> \<not> lg_closed (ms_log s) \<and> uniq_servers (rows (ms_servers s))"

lemma wrap64_bounds: "min_int64 \<le> wrap64 x" "wrap64 x \<le> max_int64"
proof -
  have "0 \<le> (x + 2 ^ 63) mod 2 ^ 64" "(x + 2 ^ 63) mod 2 ^ 64 < 2 ^ 64" by simp_all
  then show "min_int64 \<le> wrap64 x" "wrap64 x \<le> max_int64"
    by (simp_all add: wrap64_def min_int64_def max_int64_def)
qed

lemma decide_bounds: "min_int64 \<le> dc_count (decide t ok st)" "dc_count (decide t ok st) \<le> max_int64"
proof -
  have "min_int64 \<le> (0 :: int)" "(0 :: int) \<le> max_int64" by (simp_all add: min_int64_def max_int64_def)
  then show "min_int64 \<le> dc_count (decide t ok st)" "dc_count (decide t ok st) \<le> max_int64"
    using wrap64_bounds [of "SS_RetryCount st + 1"] by (simp_all add: decide_def Let_def)
qed

lemma decide_valid: "writes_row ok (decide t ok st) \<Longrightarrow> IsValid (dc_status (decide t ok st))"
  by (auto simp: decide_def writes_row_def IsValid_def Let_def split: if_splits)

lemma log_observation_open:
  assumes "\<not> lg_closed st"
  obtains st' where "LogObservation l ready now sid ok st = (Returns (), st')" and "\<not> lg_closed st'"
proof -
  have "\<not> lg_closed (receive_obs l obs (st\<lparr>lg_accepted := a\<rparr>))" for obs a
    using assms by (simp add: receive_obs_def flush_batch_def Let_def)
  then have "\<exists>st'. LogObservation l ready now sid ok st = (Returns (), st') \<and> \<not> lg_closed st'"
    using assms by (simp add: LogObservation_def Let_def)
  then show thesis using that by blast
qed

lemma flusher_open:
  assumes "\<not> lg_closed st"
  shows "\<not> lg_closed (flusher_receive l st)" "\<not> lg_closed (flusher_tick l st)"
  using assms by (auto simp: flusher_receive_def flusher_tick_def flush_batch_def receive_obs_def Let_def split: list.split)

definition row_status :: "string \<Rightarrow> ServerStatus \<Rightarrow> int \<Rightarrow> time \<Rightarrow> Server \<Rightarrow> Server" where
  "row_status sid st n now = (\<lambda>x. if S_ServerID x = sid then with_status st n now x else x)"

lemma row_status_keys:
  "S_ServerID \<circ> row_status sid st n now = S_ServerID" "S_ServerName \<circ> row_status sid st n now = S_ServerName"
  "S_IPv4 \<circ> row_status sid st n now = S_IPv4"
  by (simp_all add: fun_eq_iff row_status_def with_status_def)

lemma uniq_row_status: "uniq_servers (map (row_status sid st n now) xs) \<longleftrightarrow> uniq_servers xs"
  by (simp add: uniq_servers_def row_status_keys)

lemma view_row_status:
  "map (\<lambda>x. (S_CurrentStatus x, S_ConsecutiveFailures x)) (filter (\<lambda>x. S_ServerID x = i) (map (row_status sid st n now) xs)) =
   map (\<lambda>x. if i = sid then (st, n) else (S_CurrentStatus x, S_ConsecutiveFailures x)) (filter (\<lambda>x. S_ServerID x = i) xs)"
  by (induction xs) (auto simp: row_status_def with_status_def)

section \<open>The contract of the stores\<close>

locale monitor_stores =
  tbl: gorm_table "mo_repo m" filled_server uniq_servers +
  rc: redis_client "mo_stateStore m"
  for m :: monitoringServiceImpl +
  assumes reads: "reads_succeed (mo_stateStore m)"
    and writes: "writes_succeed (mo_stateStore m)"
    and updates: "updates_succeed (mo_repo m) uniq_servers"
begin

lemma get_state_succeeds:
  obtains s' where "GetServerState (mo_stateStore m) sid s =
      ((case state_of (rdata s) sid of None \<Rightarrow> Inl ErrServerStateNotFound | Some st \<Rightarrow> Inr st), s')"
    and "rdata s' = rdata s"
proof -
  obtain s' where "r_hgetall (mo_stateStore m) (ServerInfoKey sid) s = (Inr (hashes (rdata s) (ServerInfoKey sid)), s')"
    and keeps: "rdata s' = rdata s"
    using rc.hgetall_succeeds [OF reads] .
  then have "GetServerState (mo_stateStore m) sid s =
      ((case state_of (rdata s) sid of None \<Rightarrow> Inl ErrServerStateNotFound | Some st \<Rightarrow> Inr st), s')"
    by (simp add: GetServerState_def state_of_def Let_def split: prod.split)
  then show thesis using that keeps by blast
qed

lemma set_state_succeeds:
  obtains s' where "SetServerState (mo_stateStore m) sid st n s = (Inr (), s')"
    and "rdata s' = do_hset (ServerInfoKey sid) (state_fields st n) (rdata s)"
proof -
  obtain s' where "r_hset (mo_stateStore m) (ServerInfoKey sid) (state_fields st n) s = (Inr (), s')"
    and d: "rdata s' = do_hset (ServerInfoKey sid) (state_fields st n) (rdata s)"
    using rc.hset_succeeds [OF writes] .
  then have "SetServerState (mo_stateStore m) sid st n s = (Inr (), s')" by (simp add: SetServerState_def)
  then show thesis using that d by blast
qed

lemma update_status_succeeds:
  assumes "uniq_servers (rows t)"
  obtains t' where "UpdateServerStatus (mo_repo m) now sid st n t = (Inr (), t')"
    and "rows t' = map (row_status sid st n now) (rows t)"
proof -
  have "uniq_servers (map (row_status sid st n now) (rows t))"
    using assms by (simp add: uniq_row_status)
  then obtain k t' where "g_update (mo_repo m) (\<lambda>x. S_ServerID x = sid) (with_status st n now) t = (Inr k, t')"
    and r: "rows t' = map (row_status sid st n now) (rows t)"
    unfolding row_status_def
    by (rule tbl.update_succeeds [OF updates])
  then have "UpdateServerStatus (mo_repo m) now sid st n t = (Inr (), t')" by (simp add: UpdateServerStatus_def)
  then show thesis using that r by blast
qed

end

interpretation mem_monitor: monitor_stores
  "\<lparr>mo_repo = mem_gorm (\<lambda>_. None) fill_server uniq_servers, mo_stateStore = mem_redis (\<lambda>_. None),
    mo_esLogger = lg, mo_failureThreshold = t\<rparr>" for lg t
proof -
  have "gorm_table (mem_gorm (\<lambda>_. None) fill_server uniq_servers) filled_server uniq_servers"
    by (rule mem_gorm_table) (simp add: filled_server_def fill_server_def)
  then show "monitor_stores \<lparr>mo_repo = mem_gorm (\<lambda>_. None) fill_server uniq_servers,
      mo_stateStore = mem_redis (\<lambda>_. None), mo_esLogger = lg, mo_failureThreshold = t\<rparr>"
    by (intro monitor_stores.intro monitor_stores_axioms.intro) (simp_all add: mr.redis_client_axioms)
qed

section \<open>Views after a call\<close>

lemma view_set_state:
  assumes "rdata r = do_hset (ServerInfoKey sid) (state_fields st n) (rdata (ms_redis s))"
    and "min_int64 \<le> n" "n \<le> max_int64"
  shows "server_view (s\<lparr>ms_redis := r\<rparr>) =
      (server_view s)(sid := (Some \<lparr>SS_Status = st, SS_RetryCount = n\<rparr>, snd (server_view s sid)))"
    and "server_ip (s\<lparr>ms_redis := r\<rparr>) = server_ip s"
  using assms by (auto simp: server_view_def server_ip_def fun_eq_iff state_after_fields info_after_fields)

lemma view_keep_redis:
  assumes "rdata r = rdata (ms_redis s)"
  shows "server_view (s\<lparr>ms_redis := r\<rparr>) = server_view s" "server_ip (s\<lparr>ms_redis := r\<rparr>) = server_ip s"
  using assms by (simp_all add: server_view_def server_ip_def fun_eq_iff)

lemma view_log_net [simp]:
  "server_view (s\<lparr>ms_log := lg\<rparr>) = server_view s" "server_ip (s\<lparr>ms_log := lg\<rparr>) = server_ip s"
  "server_view (s\<lparr>ms_net := n\<rparr>) = server_view s" "server_ip (s\<lparr>ms_net := n\<rparr>) = server_ip s"
  "server_ip (s\<lparr>ms_servers := t\<rparr>) = server_ip s"
  by (simp_all add: server_view_def server_ip_def fun_eq_iff)

lemma view_update_rows:
  assumes "rows t = map (row_status sid st n now) (rows (ms_servers s))"
  shows "server_view (s\<lparr>ms_servers := t\<rparr>) =
      (server_view s)(sid := (fst (server_view s sid), map (\<lambda>_. (st, n)) (snd (server_view s sid))))"
    and "uniq_servers (rows t) \<longleftrightarrow> uniq_servers (rows (ms_servers s))"
  using assms by (auto simp: server_view_def fun_eq_iff view_row_status uniq_row_status)

section \<open>One evaluation\<close>

context monitor_stores
begin

lemma evaluate_view:
  assumes ok: "mon_ok s" and ev: "Evaluate m ready now sid ip b s = (r, s')"
  shows "r = Returns (if fst (server_view s sid) = None then Inl (EvState ErrServerStateNotFound) else Inr ())"
    and "server_view s' = (server_view s)(sid := observe (mo_failureThreshold m) b (server_view s sid))"
    and "server_ip s' = server_ip s" and "mon_ok s'"
proof -
  from ok have open': "\<not> lg_closed (ms_log s)" and uniq: "uniq_servers (rows (ms_servers s))"
    by (simp_all add: mon_ok_def)
  obtain lg where lg: "LogObservation (mo_esLogger m) ready now sid b (ms_log s) = (Returns (), lg)" "\<not> lg_closed lg"
    by (rule log_observation_open [OF open'])
  obtain r1 where get: "GetServerState (mo_stateStore m) sid (ms_redis s) =
      ((case state_of (rdata (ms_redis s)) sid of None \<Rightarrow> Inl ErrServerStateNotFound | Some st \<Rightarrow> Inr st), r1)"
    and r1: "rdata r1 = rdata (ms_redis s)"
    by (rule get_state_succeeds)
  have st: "fst (server_view s sid) = state_of (rdata (ms_redis s)) sid" by (simp add: server_view_def)
  have "r = Returns (if fst (server_view s sid) = None then Inl (EvState ErrServerStateNotFound) else Inr ()) \<and>
     server_view s' = (server_view s)(sid := observe (mo_failureThreshold m) b (server_view s sid)) \<and>
     server_ip s' = server_ip s \<and> mon_ok s'"
  proof (cases "state_of (rdata (ms_redis s)) sid")
    case None
    with ev lg get have "r = Returns (Inl (EvState ErrServerStateNotFound))" "s' = s\<lparr>ms_log := lg, ms_redis := r1\<rparr>"
      by (simp_all add: Evaluate_def)
    moreover have "server_view s' = server_view s" "server_ip s' = server_ip s"
      using r1 by (simp_all add: calculation view_keep_redis)
    ultimately show ?thesis using None st lg uniq by (simp add: observe_def mon_ok_def)
  next
    case (Some x)
    let ?d = "decide (mo_failureThreshold m) b x"
    obtain r2 where set: "SetServerState (mo_stateStore m) sid (dc_status ?d) (dc_count ?d) r1 = (Inr (), r2)"
      and r2: "rdata r2 = do_hset (ServerInfoKey sid) (state_fields (dc_status ?d) (dc_count ?d)) (rdata r1)"
      by (rule set_state_succeeds)
    obtain t where upd: "UpdateServerStatus (mo_repo m) now sid (dc_status ?d) (dc_count ?d) (ms_servers s) = (Inr (), t)"
      and t: "rows t = map (row_status sid (dc_status ?d) (dc_count ?d) now) (rows (ms_servers s))"
      by (rule update_status_succeeds [OF uniq])
    define s1 where "s1 = s\<lparr>ms_log := lg, ms_redis := r2\<rparr>"
    have v1: "server_view s1 = (server_view s)(sid := (Some \<lparr>SS_Status = dc_status ?d, SS_RetryCount = dc_count ?d\<rparr>,
        snd (server_view s sid)))" "server_ip s1 = server_ip s"
      using view_set_state [of r2 sid "dc_status ?d" "dc_count ?d" "s\<lparr>ms_log := lg\<rparr>"] r1 r2 decide_bounds
      by (simp_all add: s1_def)
    have s': "s' = (if writes_row b ?d then s1\<lparr>ms_servers := t\<rparr> else s1)" "r = Returns (Inr ())"
      using ev lg get set upd Some by (auto simp: Evaluate_def Let_def s1_def split: if_splits)
    have t1: "rows t = map (row_status sid (dc_status ?d) (dc_count ?d) now) (rows (ms_servers s1))"
      using t by (simp add: s1_def)
    have "server_view s' = (server_view s)(sid := apply_decision b ?d (server_view s sid))"
      using v1 view_update_rows(1) [OF t1] by (simp add: s' apply_decision_def)
    moreover have "mon_ok s'" using lg uniq view_update_rows(2) [OF t1] by (simp add: s' mon_ok_def s1_def)
    ultimately show ?thesis using Some st s' v1(2) by (simp add: observe_def)
  qed
  then show "r = Returns (if fst (server_view s sid) = None then Inl (EvState ErrServerStateNotFound) else Inr ())"
    "server_view s' = (server_view s)(sid := observe (mo_failureThreshold m) b (server_view s sid))"
    "server_ip s' = server_ip s" "mon_ok s'" by blast+
qed

end

section \<open>The health of a server as a function of its observations\<close>

text \<open>
  The specification: the number of failures since the last success. A server is offline when they
  reach the threshold (a threshold below one acts as one).
\<close>

definition failing :: "bool list \<Rightarrow> nat" where
  "failing obs = length (takeWhile Not (rev obs))"

definition health :: "int \<Rightarrow> bool list \<Rightarrow> ServerState" where
  "health threshold obs =
     (let n = int (failing obs); t = max 1 threshold in
      if t \<le> n then \<lparr>SS_Status = ServerStatusOffline, SS_RetryCount = n - t\<rparr>
      else \<lparr>SS_Status = ServerStatusOnline, SS_RetryCount = n\<rparr>)"

lemma failing_simps [simp]:
  "failing [] = 0" "failing (obs @ [True]) = 0" "failing (obs @ [False]) = Suc (failing obs)"
  by (simp_all add: failing_def)

lemma failing_length: "failing obs \<le> length obs"
  unfolding failing_def by (metis length_rev length_takeWhile_le)

lemma status_distinct [simp]:
  "ServerStatusOnline \<noteq> ServerStatusOffline" "ServerStatusOffline \<noteq> ServerStatusOnline"
  "ServerStatusOnline \<noteq> []" "ServerStatusOffline \<noteq> []"
  by (simp_all add: status_defs)

lemma observe_length: "length (snd (observe t b v)) = length (snd v)"
  by (simp add: observe_def apply_decision_def split: option.split)

lemma health_step:
  assumes "int (length obs) < max_int64" and "fst v = Some (health t obs)"
    and "list_all (\<lambda>(st, _). st = SS_Status (health t obs)) (snd v)"
  shows "fst (observe t b v) = Some (health t (obs @ [b]))"
    and "list_all (\<lambda>(st, _). st = SS_Status (health t (obs @ [b]))) (snd (observe t b v))"
proof -
  have "int (failing obs) < 2 ^ 63 - 1" using assms(1) failing_length [of obs] by (simp add: max_int64_def)
  then have w: "wrap64 (int (failing obs) + 1) = int (failing obs) + 1"
    "wrap64 (int (failing obs) - max 1 t + 1) = int (failing obs) - max 1 t + 1" if "max 1 t \<le> int (failing obs)"
    using that by simp_all
  have w1: "wrap64 (int (failing obs) + 1) = int (failing obs) + 1"
    using \<open>int (failing obs) < 2 ^ 63 - 1\<close> by simp
  have *: "fst (observe t b v) = Some (health t (obs @ [b])) \<and>
     list_all (\<lambda>(st, _). st = SS_Status (health t (obs @ [b]))) (snd (observe t b v))"
  proof (cases b)
    case True
    with assms(2,3) show ?thesis
      by (auto simp: observe_def decide_def health_def apply_decision_def writes_row_def Let_def list_all_iff)
  next
    case False
    with assms(2,3) w w1 show ?thesis
      by (auto simp: observe_def decide_def health_def apply_decision_def writes_row_def Let_def list_all_iff
          max_def split: if_splits)
  qed
  then show "fst (observe t b v) = Some (health t (obs @ [b]))"
    "list_all (\<lambda>(st, _). st = SS_Status (health t (obs @ [b]))) (snd (observe t b v))" by blast+
qed

text \<open>A sequence of evaluations of one server: the arguments of each call, the result of the ping last.\<close>

type_synonym eval_call = "bool \<times> time \<times> string \<times> bool"

definition evaluate_call :: "monitoringServiceImpl \<Rightarrow> string \<Rightarrow> mon_state \<Rightarrow> eval_call \<Rightarrow> mon_state" where
  "evaluate_call m sid s c = (case c of (ready, now, ip, ok) \<Rightarrow> snd (Evaluate m ready now sid ip ok s))"

definition evaluations :: "monitoringServiceImpl \<Rightarrow> string \<Rightarrow> eval_call list \<Rightarrow> mon_state \<Rightarrow> mon_state" where
  "evaluations m sid calls s = foldl (evaluate_call m sid) s calls"

definition results :: "eval_call list \<Rightarrow> bool list" where
  "results calls = map (snd \<circ> snd \<circ> snd) calls"

context monitor_stores
begin

lemma evaluations_view:
  assumes "mon_ok s" and "int (length calls) \<le> max_int64"
    and "fst (server_view s sid) = Some (health (mo_failureThreshold m) [])"
    and "list_all (\<lambda>(st, _). st = ServerStatusOnline) (snd (server_view s sid))"
  shows "mon_ok (evaluations m sid calls s) \<and>
     fst (server_view (evaluations m sid calls s) sid) = Some (health (mo_failureThreshold m) (results calls)) \<and>
     list_all (\<lambda>(st, _). st = SS_Status (health (mo_failureThreshold m) (results calls)))
       (snd (server_view (evaluations m sid calls s) sid)) \<and>
     length (snd (server_view (evaluations m sid calls s) sid)) = length (snd (server_view s sid)) \<and>
     (\<forall>i. i \<noteq> sid \<longrightarrow> server_view (evaluations m sid calls s) i = server_view s i)"
  using assms(2)
proof (induction calls rule: rev_induct)
  case Nil
  then show ?case using assms by (simp add: evaluations_def results_def health_def Let_def)
next
  case (snoc c calls)
  let ?s = "evaluations m sid calls s"
  obtain ready now ip b where c: "c = (ready, now, ip, b)" by (metis prod_cases4)
  have IH: "mon_ok ?s" "fst (server_view ?s sid) = Some (health (mo_failureThreshold m) (results calls))"
    "list_all (\<lambda>(st, _). st = SS_Status (health (mo_failureThreshold m) (results calls))) (snd (server_view ?s sid))"
    "length (snd (server_view ?s sid)) = length (snd (server_view s sid))"
    "\<forall>i. i \<noteq> sid \<longrightarrow> server_view ?s i = server_view s i"
    using snoc by simp_all
  obtain r s' where ev: "Evaluate m ready now sid ip b ?s = (r, s')" by fastforce
  then have s': "evaluations m sid (calls @ [c]) s = s'" by (simp add: evaluations_def evaluate_call_def c)
  have l: "int (length (results calls)) < max_int64" using snoc.prems by (simp add: results_def)
  have r: "results (calls @ [c]) = results calls @ [b]" by (simp add: results_def c)
  show ?case
    unfolding s' r evaluate_view(2) [OF IH(1) ev]
    using evaluate_view(4) [OF IH(1) ev] health_step [OF l IH(2,3)] IH(4,5) by (simp add: observe_length)
qed

end

text \<open>C1: While the stores answer, monitoring refines its specification: after any sequence of evaluations
  of a newly registered server (online, no failures), the state kept in Redis is the one the
  specification computes from the observations alone. The server is offline exactly when at least
  \<open>max 1 threshold\<close> failures followed the last success, otherwise it is online with that many failures
  counted; the row in Postgres shows the same status, and no other server is touched.\<close>

theorem monitoring_refines_health:
  assumes "monitor_stores m" and "mon_ok s" and "int (length calls) \<le> max_int64"
    and "fst (server_view s sid) = Some \<lparr>SS_Status = ServerStatusOnline, SS_RetryCount = 0\<rparr>"
    and "map fst (snd (server_view s sid)) = [ServerStatusOnline]"
  shows "fst (server_view (evaluations m sid calls s) sid) = Some (health (mo_failureThreshold m) (results calls)) \<and>
     map fst (snd (server_view (evaluations m sid calls s) sid)) = [SS_Status (health (mo_failureThreshold m) (results calls))] \<and>
     (SS_Status (health (mo_failureThreshold m) (results calls)) = ServerStatusOffline \<longleftrightarrow>
        max 1 (mo_failureThreshold m) \<le> int (failing (results calls))) \<and>
     (\<forall>i. i \<noteq> sid \<longrightarrow> server_view (evaluations m sid calls s) i = server_view s i)"
proof -
  from assms(4) have h: "fst (server_view s sid) = Some (health (mo_failureThreshold m) [])"
    by (simp add: health_def Let_def)
  from assms(5) have l: "list_all (\<lambda>(st, _). st = ServerStatusOnline) (snd (server_view s sid))"
    "length (snd (server_view s sid)) = 1" by auto
  note * = monitor_stores.evaluations_view [OF assms(1-3) h l(1)]
  then have "length (snd (server_view (evaluations m sid calls s) sid)) = 1" using l(2) by simp
  then obtain p where "snd (server_view (evaluations m sid calls s) sid) = [p]"
    by (auto simp: length_Suc_conv)
  with * show ?thesis by (auto simp: health_def Let_def)
qed

definition demo_monitor :: monitoringServiceImpl where
  "demo_monitor = \<lparr>mo_repo = mem_gorm (\<lambda>_. None) fill_server uniq_servers, mo_stateStore = mem_redis (\<lambda>_. None),
     mo_esLogger = \<lparr>bl_client = None, bl_index = ''logs'', bl_cap = 10, bl_batchSize = 5, bl_flushInterval = second, bl_retryMax = 3\<rparr>,
     mo_failureThreshold = 2\<rparr>"

definition demo_mon_state :: mon_state where
  "demo_mon_state = \<lparr>ms_servers = \<lparr>rows = [zero_server\<lparr>S_ServerID := ''7'', S_ServerName := ''web'', S_IPv4 := ''10.0.0.1'',
       S_CurrentStatus := ServerStatusOnline\<rparr>], tenv = 0\<rparr>,
     ms_redis = \<lparr>rdata = do_sadd ServerAllIDsKey ''7'' (do_hset (ServerInfoKey ''7'') (info_fields ''10.0.0.1'' ServerStatusOnline 0)
       \<lparr>hashes = (\<lambda>_. []), rsets = (\<lambda>_. []), rstrs = (\<lambda>_. None)\<rparr>), renv = 0\<rparr>,
     ms_log = \<lparr>lg_ch = [], lg_closed = False, lg_batch = [], lg_stopped = False, lg_es = \<lparr>es_docs = [], es_env = 0\<rparr>,
       lg_accepted = [], lg_flushed = []\<rparr>,
     ms_net = 0\<rparr>"

lemma demo_monitor_stores: "monitor_stores demo_monitor"
  unfolding demo_monitor_def by (rule mem_monitor.monitor_stores_axioms)

lemma demo_mon_ok: "mon_ok demo_mon_state"
  by (simp add: mon_ok_def demo_mon_state_def uniq_servers_def)

lemma demo_view:
  "server_view demo_mon_state ''7'' =
     (Some \<lparr>SS_Status = ServerStatusOnline, SS_RetryCount = 0\<rparr>, [(ServerStatusOnline, 0)])"
  by (simp add: server_view_def demo_mon_state_def store_simps state_after_fields(2) min_int64_def max_int64_def
      zero_server_def)

theorem monitoring_refines_health_witness:
  "fst (server_view (evaluations demo_monitor ''7''
       [(True, 1, ''10.0.0.1'', False), (True, 2, ''10.0.0.1'', False)] demo_mon_state) ''7'') =
     Some \<lparr>SS_Status = ServerStatusOffline, SS_RetryCount = 0\<rparr>"
  using monitoring_refines_health [OF demo_monitor_stores demo_mon_ok,
      where calls = "[(True, 1, ''10.0.0.1'', False), (True, 2, ''10.0.0.1'', False)]" and sid = "''7''"]
  by (simp add: demo_view health_def failing_def results_def demo_monitor_def max_int64_def Let_def)

end
