(* ===== verification/Monitoring_Pool.thy ===== *)
theory Monitoring_Pool
  imports Monitoring_Props
begin

text \<open>
  The pool of the monitoring worker: that it ends, that splitting a task into its calls does not
  change it, and that the result of a cycle does not depend on how the workers interleave.
\<close>

section \<open>A task alone\<close>

fun phase_rank :: "phase \<Rightarrow> nat" where
  "phase_rank (PingPhase ip) = 5"
| "phase_rank (LogPhase ok) = 4"
| "phase_rank (GetPhase ok) = 3"
| "phase_rank (SetPhase ok d) = 2"
| "phase_rank (UpdatePhase d) = 1"

lemma task_step_rank:
  "task_step w ready now sid ph s = (Returns (Some ph'), s') \<Longrightarrow> phase_rank ph' < phase_rank ph"
  by (cases ph) (auto split: prod.splits sum.splits go.splits if_splits)

function run_task :: "workerPool \<Rightarrow> bool \<Rightarrow> time \<Rightarrow> string \<Rightarrow> phase \<Rightarrow> mon_state \<Rightarrow> unit go \<times> mon_state" where
  "run_task w ready now sid ph s =
     (case task_step w ready now sid ph s of
        (Panics p, s') \<Rightarrow> (Panics p, s')
      | (Returns None, s') \<Rightarrow> (Returns (), s')
      | (Returns (Some ph'), s') \<Rightarrow> run_task w ready now sid ph' s')"
  by pat_completeness auto
termination
  by (relation "measure (\<lambda>(w, ready, now, sid, ph, s). phase_rank ph)") (auto dest: task_step_rank [OF sym])

declare run_task.simps [simp del]

lemma run_update: "run_task w ready now sid (UpdatePhase d) s =
    (Returns (), s\<lparr>ms_servers := snd (UpdateServerStatus (mo_repo (wp_monService w)) now sid (dc_status d) (dc_count d) (ms_servers s))\<rparr>)"
  by (simp add: run_task.simps split: prod.split)

lemma run_get:
  "run_task w ready now sid (GetPhase ok) s =
     (case GetServerState (mo_stateStore (wp_monService w)) sid (ms_redis s) of
        (Inl e, r) \<Rightarrow> (Returns (), s\<lparr>ms_redis := r\<rparr>)
      | (Inr state, r) \<Rightarrow>
          run_task w ready now sid (SetPhase ok (decide (mo_failureThreshold (wp_monService w)) ok state)) (s\<lparr>ms_redis := r\<rparr>))"
  by (simp add: run_task.simps [of _ _ _ _ "GetPhase ok"] split: prod.split sum.split)

lemma run_set:
  "run_task w ready now sid (SetPhase ok d) s =
     (case SetServerState (mo_stateStore (wp_monService w)) sid (dc_status d) (dc_count d) (ms_redis s) of
        (Inl e, r) \<Rightarrow> (Returns (), s\<lparr>ms_redis := r\<rparr>)
      | (Inr _, r) \<Rightarrow>
          if writes_row ok d
          then (Returns (), s\<lparr>ms_redis := r, ms_servers := snd (UpdateServerStatus (mo_repo (wp_monService w)) now sid
                  (dc_status d) (dc_count d) (ms_servers s))\<rparr>)
          else (Returns (), s\<lparr>ms_redis := r\<rparr>))"
  by (simp add: run_task.simps [of _ _ _ _ "SetPhase ok d"] run_update split: prod.split sum.split)

definition forget_error :: "'a go \<times> mon_state \<Rightarrow> unit go \<times> mon_state" where
  "forget_error r = (case r of (Panics p, s) \<Rightarrow> (Panics p, s) | (Returns _, s) \<Rightarrow> (Returns (), s))"

lemma run_evaluate:
  "run_task w ready now sid (LogPhase ok) s = forget_error (Evaluate (wp_monService w) ready now sid ip ok s)"
proof (cases "LogObservation (mo_esLogger (wp_monService w)) ready now sid ok (ms_log s)")
  case (Pair a lg)
  show ?thesis
  proof (cases a)
    case (Returns u)
    have "run_task w ready now sid (LogPhase ok) s = run_task w ready now sid (GetPhase ok) (s\<lparr>ms_log := lg\<rparr>)"
      using Pair Returns by (simp add: run_task.simps [of _ _ _ _ "LogPhase ok"])
    then show ?thesis
      using Pair Returns
      by (simp add: run_get run_set Evaluate_def forget_error_def Let_def split: prod.split sum.split)
  qed (use Pair in \<open>simp add: run_task.simps [of _ _ _ _ "LogPhase ok"] Evaluate_def forget_error_def\<close>)
qed

text \<open>Splitting the work on one server into its calls changes nothing: \<open>processServer\<close> is the task that
  starts with the \<open>HGet\<close> and is run to its end without interruption, in every branch and for any
  behaviour of the stores, the logger and the network.\<close>

theorem process_server_phases:
  "processServer w ready now sid s =
     (case task_start w sid s of
        (None, s') \<Rightarrow> (Returns (), s')
      | (Some ph, s') \<Rightarrow> run_task w ready now sid ph s')"
proof -
  have "run_task w ready now sid (PingPhase ip) s1 =
      forget_error (Evaluate (wp_monService w) ready now sid ip
        (Ping (wp_probing w) (wp_privileged w) ip (wp_timeout w) (ms_net s1)) (s1\<lparr>ms_net := Suc (ms_net s1)\<rparr>))" for ip s1
    by (simp add: run_task.simps [of _ _ _ _ "PingPhase ip"] run_evaluate)
  then show ?thesis
    by (simp add: processServer_def task_start_def forget_error_def Let_def split: prod.split sum.split)
qed

section \<open>Every run ends\<close>

definition pool_work :: "pool_state \<Rightarrow> nat" where
  "pool_work p = (if pc_crashed p then 0
     else Suc (6 * length (pc_queue p) + sum_list (map (phase_rank \<circ> snd) (pc_running p))))"

lemma task_start_phase: "task_start w sid s = (Some ph, s') \<Longrightarrow> phase_rank ph = 5"
  by (auto simp: task_start_def split: prod.splits sum.splits if_splits)

lemma pool_step_work: "pool_step w p p' \<Longrightarrow> pool_work p' < pool_work p"
proof (induction rule: pool_step.induct)
  case (take_task p sid q ph s')
  then show ?case using task_start_phase [of w sid "pc_state p"]
    by (cases ph) (auto simp: pool_work_def keep_task_def)
next
  case (task_call p xs sid ph ys ready now ph' s')
  have "1 \<le> phase_rank ph" by (cases ph) simp_all
  with task_call show ?case
    by (cases ph') (auto simp: pool_work_def keep_task_def dest: task_step_rank)
next
  case (task_panic p xs sid ph ys ready now msg s')
  then show ?case by (simp add: pool_work_def)
qed

lemma pool_progress:
  assumes "\<not> pc_crashed p" and "\<not> pool_done w p"
  shows "\<exists>p'. pool_step w p p'"
proof (cases "pc_running p")
  case Nil
  with assms(2) obtain sid q where q: "pc_queue p = sid # q" "0 < wp_concurrency w"
    by (cases "pc_queue p") (auto simp: pool_done_def)
  obtain ph s' where "task_start w sid (pc_state p) = (ph, s')" by fastforce
  then show ?thesis using pool_step.take_task [OF assms(1) q(1)] q(2) Nil by auto
next
  case (Cons t ts)
  obtain sid ph where t: "t = (sid, ph)" by fastforce
  then have r: "pc_running p = [] @ (sid, ph) # ts" using Cons by simp
  obtain a s' where "task_step w True 0 sid ph (pc_state p) = (a, s')" by fastforce
  then show ?thesis
    using pool_step.task_call [OF assms(1) r] pool_step.task_panic [OF assms(1) r] by (cases a) blast+
qed

lemma pool_step_wf: "wfp (\<lambda>p' p. pool_step w p p')"
  by (rule wfp_if_convertible_to_nat [of _ pool_work]) (rule pool_step_work)

lemma pool_ends: "\<exists>p'. (pool_step w)\<^sup>*\<^sup>* p p' \<and> (pc_crashed p' \<or> pool_done w p')"
proof (induction p rule: wfp_induct_rule [OF pool_step_wf [of w]])
  case (1 p)
  show ?case
  proof (cases "pc_crashed p \<or> pool_done w p")
    case False
    then obtain p1 where p1: "pool_step w p p1" using pool_progress by blast
    with 1 obtain p' where "(pool_step w)\<^sup>*\<^sup>* p1 p'" "pc_crashed p' \<or> pool_done w p'" by blast
    with p1 show ?thesis by (meson converse_rtranclp_into_rtranclp)
  qed blast
qed


section \<open>The result does not depend on the interleaving\<close>

text \<open>The effect of what is left of a task on the view of its server.\<close>

fun remaining :: "int \<Rightarrow> (string \<Rightarrow> bool) \<Rightarrow> phase \<Rightarrow> server_view \<Rightarrow> server_view" where
  "remaining t ping (PingPhase ip) v = observe t (ping ip) v"
| "remaining t ping (LogPhase ok) v = observe t ok v"
| "remaining t ping (GetPhase ok) v = observe t ok v"
| "remaining t ping (SetPhase ok d) v = apply_decision ok d v"
| "remaining t ping (UpdatePhase d) v = (fst v, map (\<lambda>_. (dc_status d, dc_count d)) (snd v))"

fun phase_ok :: "phase \<Rightarrow> bool" where
  "phase_ok (SetPhase ok d) \<longleftrightarrow> min_int64 \<le> dc_count d \<and> dc_count d \<le> max_int64"
| "phase_ok _ \<longleftrightarrow> True"

text \<open>What a cycle makes of the view of a server it visits.\<close>

definition visited :: "int \<Rightarrow> (string \<Rightarrow> bool) \<Rightarrow> mon_state \<Rightarrow> string \<Rightarrow> server_view" where
  "visited t ping s sid =
     (case server_ip s sid of
        None \<Rightarrow> server_view s sid
      | Some ip \<Rightarrow> if ip = [] then server_view s sid else observe t (ping ip) (server_view s sid))"

lemma visited_cong:
  "server_ip s sid = server_ip s' sid \<Longrightarrow> server_view s sid = server_view s' sid \<Longrightarrow>
   visited t ping s sid = visited t ping s' sid"
  by (simp add: visited_def split: option.split)

locale pool_stores =
  monitor_stores "wp_monService w" for w :: workerPool +
  fixes ping :: "string \<Rightarrow> bool"
  assumes same_client: "wp_rdb w = mo_stateStore (wp_monService w)"
    and steady: "Ping (wp_probing w) (wp_privileged w) ip (wp_timeout w) n = ping ip"
begin

abbreviation "threshold \<equiv> mo_failureThreshold (wp_monService w)"

lemma task_start_view:
  assumes "mon_ok s" and "task_start w sid s = (ph, s')"
  shows "mon_ok s' \<and> server_ip s' = server_ip s \<and> server_view s' = server_view s \<and>
    (case ph of None \<Rightarrow> visited threshold ping s sid = server_view s sid
     | Some q \<Rightarrow> phase_ok q \<and> remaining threshold ping q (server_view s sid) = visited threshold ping s sid)"
proof (cases "server_ip s sid")
  case None
  then have no: "map_of (hashes (rdata (ms_redis s)) (ServerInfoKey sid)) ''ipv4'' = None"
    by (simp add: server_ip_def info_of_def)
  obtain g r where g: "r_hget (wp_rdb w) (ServerInfoKey sid) ''ipv4'' (ms_redis s) = (g, r)" by fastforce
  then have "\<And>x. g \<noteq> Inr x" and r: "rdata r = rdata (ms_redis s)"
    using no same_client rc.hget_found rc.hget_keeps by fastforce+
  then obtain e where "g = Inl e" by (cases g) auto
  with g assms(2) have "ph = None" "s' = s\<lparr>ms_redis := r\<rparr>" by (simp_all add: task_start_def)
  with None r assms(1) show ?thesis by (simp add: visited_def view_keep_redis mon_ok_def)
next
  case (Some ip)
  then have "map_of (hashes (rdata (ms_redis s)) (ServerInfoKey sid)) ''ipv4'' = Some ip"
    by (simp add: server_ip_def info_of_def)
  then obtain r where "r_hget (wp_rdb w) (ServerInfoKey sid) ''ipv4'' (ms_redis s) = (Inr ip, r)"
    and r: "rdata r = rdata (ms_redis s)"
    unfolding same_client by (rule rc.hget_succeeds [OF reads])
  with assms(2) have "ph = (if ip = [] then None else Some (PingPhase ip))" "s' = s\<lparr>ms_redis := r\<rparr>"
    by (simp_all add: task_start_def)
  with Some r assms(1) show ?thesis by (simp add: visited_def view_keep_redis mon_ok_def)
qed

lemma task_step_view:
  assumes ok: "mon_ok s" and ph: "phase_ok ph" and st: "task_step w ready now sid ph s = (r, s')"
  shows "\<exists>ph'. r = Returns ph' \<and> mon_ok s' \<and> server_ip s' = server_ip s \<and>
    (\<forall>i. i \<noteq> sid \<longrightarrow> server_view s' i = server_view s i) \<and>
    (case ph' of None \<Rightarrow> server_view s' sid = remaining threshold ping ph (server_view s sid)
     | Some q \<Rightarrow> phase_ok q \<and> remaining threshold ping q (server_view s' sid) = remaining threshold ping ph (server_view s sid))"
proof (cases ph)
  case (PingPhase ip)
  with st ok show ?thesis by (auto simp: steady mon_ok_def)
next
  case (LogPhase b)
  from ok have "\<not> lg_closed (ms_log s)" by (simp add: mon_ok_def)
  then obtain lg where "LogObservation (mo_esLogger (wp_monService w)) ready now sid b (ms_log s) = (Returns (), lg)" "\<not> lg_closed lg"
    by (rule log_observation_open)
  with LogPhase st ok show ?thesis by (auto simp: mon_ok_def)
next
  case (GetPhase b)
  obtain r1 where get: "GetServerState (mo_stateStore (wp_monService w)) sid (ms_redis s) =
      ((case state_of (rdata (ms_redis s)) sid of None \<Rightarrow> Inl ErrServerStateNotFound | Some st \<Rightarrow> Inr st), r1)"
    and r1: "rdata r1 = rdata (ms_redis s)"
    by (rule get_state_succeeds)
  have v: "fst (server_view s sid) = state_of (rdata (ms_redis s)) sid" by (simp add: server_view_def)
  from GetPhase st get have s': "s' = s\<lparr>ms_redis := r1\<rparr>" by (auto split: option.splits)
  with r1 have keep: "server_view s' = server_view s" "server_ip s' = server_ip s" "mon_ok s'"
    using ok by (simp_all add: view_keep_redis mon_ok_def)
  from GetPhase st get v keep show ?thesis
    by (cases "state_of (rdata (ms_redis s)) sid") (auto simp: observe_def decide_bounds)
next
  case (SetPhase b d)
  obtain r2 where set: "SetServerState (mo_stateStore (wp_monService w)) sid (dc_status d) (dc_count d) (ms_redis s) = (Inr (), r2)"
    and r2: "rdata r2 = do_hset (ServerInfoKey sid) (state_fields (dc_status d) (dc_count d)) (rdata (ms_redis s))"
    by (rule set_state_succeeds)
  from SetPhase st set have s': "s' = s\<lparr>ms_redis := r2\<rparr>" "r = Returns (if writes_row b d then Some (UpdatePhase d) else None)"
    by auto
  have "server_view s' = (server_view s)(sid := (Some \<lparr>SS_Status = dc_status d, SS_RetryCount = dc_count d\<rparr>, snd (server_view s sid)))"
    "server_ip s' = server_ip s"
    using view_set_state [OF r2] ph SetPhase s' by simp_all
  moreover have "mon_ok s'" using ok s' by (simp add: mon_ok_def)
  ultimately show ?thesis using s' SetPhase by (auto simp: apply_decision_def)
next
  case (UpdatePhase d)
  from ok have "uniq_servers (rows (ms_servers s))" by (simp add: mon_ok_def)
  then obtain t where upd: "UpdateServerStatus (mo_repo (wp_monService w)) now sid (dc_status d) (dc_count d) (ms_servers s) = (Inr (), t)"
    and t: "rows t = map (row_status sid (dc_status d) (dc_count d) now) (rows (ms_servers s))"
    by (rule update_status_succeeds)
  from UpdatePhase st upd have s': "s' = s\<lparr>ms_servers := t\<rparr>" "r = Returns None" by auto
  with view_update_rows [OF t] ok UpdatePhase show ?thesis by (simp add: mon_ok_def)
qed

definition pool_inv :: "string set \<Rightarrow> mon_state \<Rightarrow> pool_state \<Rightarrow> bool" where
  "pool_inv ids s0 p \<longleftrightarrow>
     \<not> pc_crashed p \<and> mon_ok (pc_state p) \<and> server_ip (pc_state p) = server_ip s0 \<and>
     distinct (pc_queue p @ map fst (pc_running p)) \<and>
     set (pc_queue p) \<union> fst ` set (pc_running p) \<subseteq> ids \<and>
     (\<forall>(sid, ph)\<in>set (pc_running p). phase_ok ph \<and>
        remaining threshold ping ph (server_view (pc_state p) sid) = visited threshold ping s0 sid) \<and>
     (\<forall>sid. sid \<notin> fst ` set (pc_running p) \<longrightarrow> server_view (pc_state p) sid =
        (if sid \<in> ids - set (pc_queue p) then visited threshold ping s0 sid else server_view s0 sid))"

lemma pool_inv_init:
  assumes "mon_ok s0" and "distinct ids"
  shows "pool_inv (set ids) s0 (pool_init ids s0)"
  using assms by (simp add: pool_inv_def pool_init_def)

lemma pool_inv_step:
  assumes "pool_inv ids s0 p" and "pool_step w p p'"
  shows "pool_inv ids s0 p'"
  using assms(2,1)
proof (induction rule: pool_step.induct)
  case (take_task p sid q ph s')
  let ?v = "server_view (pc_state p)"
  have sid: "sid \<notin> fst ` set (pc_running p)" "sid \<notin> set q" "sid \<in> ids"
    using take_task(2,5) by (auto simp: pool_inv_def)
  have ok: "mon_ok (pc_state p)" and ip: "server_ip (pc_state p) = server_ip s0"
    using take_task(5) by (simp_all add: pool_inv_def)
  have v0: "?v sid = server_view s0 sid" using take_task(2,5) sid by (simp add: pool_inv_def)
  then have "visited threshold ping (pc_state p) sid = visited threshold ping s0 sid"
    by (intro visited_cong) (simp_all add: ip)
  with task_start_view [OF ok take_task(4)] have
    st: "mon_ok s'" "server_ip s' = server_ip s0" "server_view s' = ?v" and
    q: "case ph of None \<Rightarrow> visited threshold ping s0 sid = ?v sid
        | Some q \<Rightarrow> phase_ok q \<and> remaining threshold ping q (?v sid) = visited threshold ping s0 sid"
    by (simp_all add: ip split: option.splits)
  then show ?case
    using take_task(1,2,5) sid
    by (cases ph) (auto simp: pool_inv_def keep_task_def)
next
  case (task_call p xs sid ph ys ready now ph' s')
  let ?v = "server_view (pc_state p)"
  have sid: "sid \<notin> fst ` set xs" "sid \<notin> fst ` set ys" "sid \<notin> set (pc_queue p)" "sid \<in> ids"
    using task_call(2,4) by (auto simp: pool_inv_def)
  have ok: "mon_ok (pc_state p)" "phase_ok ph" "remaining threshold ping ph (?v sid) = visited threshold ping s0 sid"
    using task_call(2,4) by (auto simp: pool_inv_def)
  with task_step_view [OF ok(1,2) task_call(3)] have
    st: "mon_ok s'" "server_ip s' = server_ip (pc_state p)" "\<And>i. i \<noteq> sid \<Longrightarrow> server_view s' i = ?v i" and
    q: "case ph' of None \<Rightarrow> server_view s' sid = visited threshold ping s0 sid
        | Some q \<Rightarrow> phase_ok q \<and> remaining threshold ping q (server_view s' sid) = visited threshold ping s0 sid"
    by (simp_all split: option.splits)
  have run: "\<forall>(i, q)\<in>set xs \<union> set ys. phase_ok q \<and> remaining threshold ping q (?v i) = visited threshold ping s0 i"
    and rest: "\<forall>i. i \<notin> fst ` set xs \<union> fst ` set ys \<union> {sid} \<longrightarrow>
      ?v i = (if i \<in> ids - set (pc_queue p) then visited threshold ping s0 i else server_view s0 i)"
    using task_call(2,4) by (auto simp: pool_inv_def)
  have "i \<noteq> sid" if "(i, q) \<in> set xs \<union> set ys" for i q using that sid(1,2) by force
  then have run': "\<forall>(i, q)\<in>set xs \<union> set ys. phase_ok q \<and> remaining threshold ping q (server_view s' i) = visited threshold ping s0 i"
    using run st(3) by fastforce
  have rest': "\<forall>i. i \<notin> fst ` set xs \<union> fst ` set ys \<union> {sid} \<longrightarrow>
      server_view s' i = (if i \<in> ids - set (pc_queue p) then visited threshold ping s0 i else server_view s0 i)"
    using rest st(3) by simp
  have base: "mon_ok s'" "server_ip s' = server_ip s0" "distinct (pc_queue p @ map fst (xs @ keep_task sid ph' @ ys))"
    "set (pc_queue p) \<union> fst ` set (xs @ keep_task sid ph' @ ys) \<subseteq> ids"
    using task_call(2,4) st(1,2) by (cases ph'; auto simp: pool_inv_def keep_task_def)+
  show ?case
  proof (cases ph')
    case None
    have "server_view s' i = (if i \<in> ids - set (pc_queue p) then visited threshold ping s0 i else server_view s0 i)"
      if "i \<notin> fst ` set xs \<union> fst ` set ys" for i
      using that rest' q None sid(3,4) by (cases "i = sid") simp_all
    with None task_call(1) base run' show ?thesis
      by (simp add: pool_inv_def keep_task_def image_Un ball_Un)
  next
    case (Some q1)
    with task_call(1) base run' rest' q sid show ?thesis
      by (simp add: pool_inv_def keep_task_def image_Un ball_Un)
  qed
next
  case (task_panic p xs sid ph ys ready now msg s')
  have "mon_ok (pc_state p)" "phase_ok ph" using task_panic(2,4) by (auto simp: pool_inv_def)
  with task_step_view [OF this task_panic(3)] show ?case by simp
qed

lemma pool_inv_move:
  assumes "pool_inv ids s0 p" and "pool_move w p p'"
  shows "pool_inv ids s0 p'"
  using assms(2)
proof cases
  case (move_flusher lg')
  have "\<not> lg_closed (ms_log (pc_state p))" using assms(1) by (simp add: pool_inv_def mon_ok_def)
  then have "\<not> lg_closed lg'" using move_flusher flusher_open by auto
  with assms(1) move_flusher show ?thesis by (auto simp: pool_inv_def mon_ok_def)
qed (use assms(1) pool_inv_step in blast)

lemma pool_result:
  assumes "pool_Run w s res s'" and "mon_ok s" and "distinct (rsets (rdata (ms_redis s)) ServerAllIDsKey)"
    and "0 < wp_concurrency w"
  shows "res = Inr () \<and> mon_ok s' \<and>
    server_view s' sid = (if sid \<in> cached_ids (rdata (ms_redis s)) then visited threshold ping s sid else server_view s sid)"
  using assms(1)
proof cases
  case (run_error e r)
  have "is_ok (fst (r_smembers (wp_rdb w) ServerAllIDsKey (ms_redis s)))"
    using reads unfolding same_client reads_succeed_def by blast
  with run_error show ?thesis by simp
next
  case (run_ids ids r p)
  have m: "mset ids = mset (rsets (rdata (ms_redis s)) ServerAllIDsKey)" and r: "rdata r = rdata (ms_redis s)"
    using run_ids(3) unfolding same_client by (auto dest: rc.smembers_found rc.smembers_keeps)
  have set: "set ids = cached_ids (rdata (ms_redis s))" using m by (metis cached_ids_def set_mset_mset)
  have d: "distinct ids" using m assms(3) mset_eq_imp_distinct_iff by blast
  let ?s = "s\<lparr>ms_redis := r\<rparr>"
  have v: "server_view ?s = server_view s" "server_ip ?s = server_ip s" and ok: "mon_ok ?s"
    using view_keep_redis [OF r] assms(2) by (simp_all add: mon_ok_def)
  have "pool_inv (set ids) ?s p"
    using run_ids(4) by induction (use pool_inv_init [OF ok d] pool_inv_move in blast)+
  then have "mon_ok (pc_state p)" "server_view (pc_state p) sid =
      (if sid \<in> set ids then visited threshold ping ?s sid else server_view ?s sid)"
    using run_ids(6) assms(4) by (auto simp: pool_inv_def pool_done_def)
  moreover have "visited threshold ping ?s sid = visited threshold ping s sid"
    by (intro visited_cong) (simp_all add: v)
  ultimately show ?thesis using run_ids(1,2) set v by simp
qed

end

interpretation mem_pool: pool_stores
  "\<lparr>wp_rdb = mem_redis (\<lambda>_. None), wp_monService = demo_monitor, wp_probing = \<lparr>pb_NewPinger = Inr, pb_Run = (\<lambda>_ _ _ ip _. Inr (if up ip then 1 else 0))\<rparr>,
    wp_privileged = False, wp_concurrency = k, wp_timeout = t\<rparr>" up for up k t
proof -
  have "monitor_stores demo_monitor" by (rule demo_monitor_stores)
  then show "pool_stores \<lparr>wp_rdb = mem_redis (\<lambda>_. None), wp_monService = demo_monitor,
      wp_probing = \<lparr>pb_NewPinger = Inr, pb_Run = (\<lambda>_ _ _ ip _. Inr (if up ip then 1 else 0))\<rparr>,
      wp_privileged = False, wp_concurrency = k, wp_timeout = t\<rparr> up"
    by (intro pool_stores.intro pool_stores_axioms.intro) (simp_all add: demo_monitor_def Ping_def)
qed

text \<open>C2: The result of a pool does not depend on how its workers interleave. While the stores answer and
  the network gives each address one answer, every complete run of the pool with at least one worker
  succeeds, makes the same state in Redis and the same row in Postgres for every server in the set of
  all servers, namely what one observation of it makes of what was known before, and touches no other
  server.\<close>

theorem pool_result_deterministic:
  assumes "pool_stores w ping" and "pool_Run w s res s'" and "mon_ok s"
    and "distinct (rsets (rdata (ms_redis s)) ServerAllIDsKey)" and "0 < wp_concurrency w"
  shows "res = Inr () \<and>
    server_view s' sid =
      (if sid \<in> cached_ids (rdata (ms_redis s))
       then visited (mo_failureThreshold (wp_monService w)) ping s sid else server_view s sid)"
  using pool_stores.pool_result [OF assms] by blast

definition demo_pool :: workerPool where
  "demo_pool = \<lparr>wp_rdb = mem_redis (\<lambda>_. None), wp_monService = demo_monitor,
     wp_probing = \<lparr>pb_NewPinger = Inr, pb_Run = (\<lambda>_ _ _ ip _. Inr (if ip = ''10.0.0.9'' then 1 else 0))\<rparr>,
     wp_privileged = False, wp_concurrency = 2, wp_timeout = 3 * second\<rparr>"

lemma demo_pool_stores: "pool_stores demo_pool (\<lambda>ip. ip = ''10.0.0.9'')"
  unfolding demo_pool_def by (rule mem_pool.pool_stores_axioms)

text \<open>Every pool has a complete run, so that the theorem speaks about something.\<close>

lemma pool_run_exists:
  assumes "pool_stores w ping" and "mon_ok s" and "distinct (rsets (rdata (ms_redis s)) ServerAllIDsKey)"
  shows "\<exists>s'. pool_Run w s (Inr ()) s'"
proof -
  have c: "redis_client (mo_stateStore (wp_monService w))" "reads_succeed (mo_stateStore (wp_monService w))"
    and same: "wp_rdb w = mo_stateStore (wp_monService w)"
    using assms(1) by (auto simp: pool_stores_def pool_stores_axioms_def monitor_stores_def monitor_stores_axioms_def)
  have "is_ok (fst (r_smembers (wp_rdb w) ServerAllIDsKey (ms_redis s)))"
    using c(2) unfolding same reads_succeed_def by blast
  then obtain ids r where ids: "r_smembers (wp_rdb w) ServerAllIDsKey (ms_redis s) = (Inr ids, r)"
    by (cases "r_smembers (wp_rdb w) ServerAllIDsKey (ms_redis s)") (auto simp: is_ok_iff)
  let ?s = "s\<lparr>ms_redis := r\<rparr>"
  have "mset ids = mset (rsets (rdata (ms_redis s)) ServerAllIDsKey)"
    using redis_client.smembers_found [OF c(1)] ids unfolding same by blast
  then have d: "distinct ids" using assms(3) mset_eq_imp_distinct_iff by blast
  have ok: "mon_ok ?s" using assms(2) by (simp add: mon_ok_def)
  obtain p where p: "(pool_step w)\<^sup>*\<^sup>* (pool_init ids ?s) p" "pc_crashed p \<or> pool_done w p"
    using pool_ends by blast
  have "pool_stores.pool_inv w ping (set ids) ?s p"
    using p(1) by induction
      (use pool_stores.pool_inv_init [OF assms(1) ok d] pool_stores.pool_inv_step [OF assms(1)] in blast)+
  then have "\<not> pc_crashed p" by (simp add: pool_stores.pool_inv_def [OF assms(1)])
  moreover have "(pool_move w)\<^sup>*\<^sup>* (pool_init ids ?s) p"
    using p(1) by induction (auto intro: move_task rtranclp.rtrancl_into_rtrancl)
  ultimately show ?thesis using run_ids [OF ids] p(2) by blast
qed

theorem pool_result_deterministic_witness:
  "\<exists>s'. pool_Run demo_pool demo_mon_state (Inr ()) s' \<and>
     server_view s' ''7'' = (Some \<lparr>SS_Status = ServerStatusOnline, SS_RetryCount = 1\<rparr>, [(ServerStatusOnline, 1)])"
proof -
  have d: "distinct (rsets (rdata (ms_redis demo_mon_state)) ServerAllIDsKey)"
    "cached_ids (rdata (ms_redis demo_mon_state)) = {''7''}"
    by (simp_all add: demo_mon_state_def cached_ids_def do_sadd_def do_hset_def)
  obtain s' where s': "pool_Run demo_pool demo_mon_state (Inr ()) s'"
    using pool_run_exists [OF demo_pool_stores demo_mon_ok d(1)] by blast
  have "server_ip demo_mon_state ''7'' = Some ''10.0.0.1''"
    by (simp add: server_ip_def demo_mon_state_def store_simps info_after_fields)
  then have "server_view s' ''7'' = (Some \<lparr>SS_Status = ServerStatusOnline, SS_RetryCount = 1\<rparr>, [(ServerStatusOnline, 1)])"
    using pool_result_deterministic [OF demo_pool_stores s' demo_mon_ok d(1), of "''7''"] d(2)
    by (simp add: demo_pool_def demo_monitor_def visited_def demo_view observe_def decide_def apply_decision_def writes_row_def)
  with s' show ?thesis by blast
qed

end
