(* ===== verification/Server_Spec.thy ===== *)
theory Server_Spec
  imports Server_Props
begin

text \<open>
  The properties of server management: the outcome of every operation, the invariants over any
  sequence of operations, and the agreement of the table with the cache.
\<close>

section \<open>The cache follows the table\<close>

text \<open>The set of cached identifiers is the set of stored ones, and the cached addresses are the stored ones.\<close>

definition cache_synced :: "Server list \<Rightarrow> redis_data \<Rightarrow> bool" where
  "cache_synced xs r \<longleftrightarrow> cached_ids r = S_ServerID ` set xs
     \<and> (\<forall>x\<in>set xs. info_of r (S_ServerID x) ''ipv4'' = Some (S_IPv4 x))"

lemma synced_insert:
  assumes "cache_synced xs r" and "S_ServerID y \<notin> S_ServerID ` set xs"
  shows "cache_synced (xs @ [y]) (do_sadd ServerAllIDsKey (S_ServerID y)
    (do_hset (ServerInfoKey (S_ServerID y)) (info_fields (S_IPv4 y) st n) r))"
  using assms by (auto simp: cache_synced_def store_simps info_after_fields) (metis imageI)

lemma synced_update:
  assumes "cache_synced xs r" and "i \<in> S_ServerID ` set xs"
    and "\<And>x. S_ServerID (f x) = S_ServerID x" and "\<And>x. S_IPv4 (f x) = ip"
  shows "cache_synced (map (\<lambda>x. if S_ServerID x = i then f x else x) xs)
    (do_sadd ServerAllIDsKey i (do_hset (ServerInfoKey i) (info_fields ip st n) r))"
proof -
  let ?ys = "map (\<lambda>x. if S_ServerID x = i then f x else x) xs"
  have "map S_ServerID ?ys = map S_ServerID xs" using assms(3) by simp
  then have "S_ServerID ` set ?ys = S_ServerID ` set xs" by (metis set_map)
  moreover have "info_of r (S_ServerID x) ''ipv4'' = Some (S_IPv4 x)" if "x \<in> set ?ys" "S_ServerID x \<noteq> i" for x
    using that assms(1,3) by (auto simp: cache_synced_def split: if_splits)
  moreover have "S_IPv4 x = ip" if "x \<in> set ?ys" "S_ServerID x = i" for x
    using that assms(3,4) by (auto split: if_splits)
  ultimately show ?thesis
    using assms(1,2) unfolding cache_synced_def by (auto simp only: store_simps info_after_fields split: if_splits)
qed

lemma synced_delete:
  assumes "cache_synced xs r"
  shows "cache_synced (filter (\<lambda>x. S_ServerID x \<noteq> i) xs) (do_srem ServerAllIDsKey i (do_del (ServerInfoKey i) r))"
  using assms by (auto simp: cache_synced_def store_simps)

lemma synced_batch:
  assumes "cache_synced xs r" and "distinct (map S_ServerID (xs @ ys))"
  shows "cache_synced (xs @ ys) (do_cmds (upsert_cmds (map cache_item ys)) r)"
  using assms
proof (induction ys arbitrary: xs r)
  case Nil
  then show ?case by (simp add: do_cmds_def)
next
  case (Cons y ys)
  then have "S_ServerID y \<notin> S_ServerID ` set xs" by auto
  from synced_insert [OF Cons.prems(1) this, of "S_CurrentStatus y" 0] Cons.IH [of "xs @ [y]"] Cons.prems(2)
  show ?case by (simp add: do_cmds_upsert cache_item_def del: upsert_cmds.simps)
qed

context redis_client
begin

lemma upsert_done:
  assumes "writes_succeed c"
  shows "\<exists>s'. Upsert (Iface c) i ip st n s = (Returns (Inr ()), s') \<and>
    rdata s' = do_sadd ServerAllIDsKey i (do_hset (ServerInfoKey i) (info_fields ip st n) (rdata s))"
proof -
  let ?h = "r_hset c (ServerInfoKey i) (info_fields ip st n) s"
  have "is_ok (fst ?h)" using assms unfolding writes_succeed_def by blast
  then obtain s1 where h: "?h = (Inr (), s1)" by (cases ?h) (auto simp: is_ok_iff)
  have "is_ok (fst (r_sadd c ServerAllIDsKey i s1))" using assms unfolding writes_succeed_def by blast
  then obtain s2 where "r_sadd c ServerAllIDsKey i s1 = (Inr (), s2)"
    by (cases "r_sadd c ServerAllIDsKey i s1") (auto simp: is_ok_iff)
  with h have "Upsert (Iface c) i ip st n s = (Returns (Inr ()), s2)" by (simp add: Upsert_def)
  then show ?thesis using upsert_ok by blast
qed

lemma cache_delete_done:
  assumes "writes_succeed c"
  shows "\<exists>s'. CacheDelete (Iface c) i s = (Returns (Inr ()), s') \<and>
    rdata s' = do_srem ServerAllIDsKey i (do_del (ServerInfoKey i) (rdata s))"
proof -
  have "is_ok (fst (r_del c (ServerInfoKey i) s))" using assms unfolding writes_succeed_def by blast
  then obtain s1 where h: "r_del c (ServerInfoKey i) s = (Inr (), s1)"
    by (cases "r_del c (ServerInfoKey i) s") (auto simp: is_ok_iff)
  have "is_ok (fst (r_srem c ServerAllIDsKey i s1))" using assms unfolding writes_succeed_def by blast
  then obtain s2 where "r_srem c ServerAllIDsKey i s1 = (Inr (), s2)"
    by (cases "r_srem c ServerAllIDsKey i s1") (auto simp: is_ok_iff)
  with h have "CacheDelete (Iface c) i s = (Returns (Inr ()), s2)" by (simp add: CacheDelete_def)
  then show ?thesis using cache_delete_ok by blast
qed

lemma batch_upsert_done:
  assumes "writes_succeed c"
  shows "\<exists>s'. BatchUpsert (Iface c) items s = (Returns (Inr ()), s') \<and>
    rdata s' = do_cmds (upsert_cmds items) (rdata s)"
proof -
  have "is_ok (fst (r_exec c (upsert_cmds items) s))" using assms unfolding writes_succeed_def by blast
  then obtain s1 where "r_exec c (upsert_cmds items) s = (Inr (), s1)"
    by (cases "r_exec c (upsert_cmds items) s") (auto simp: is_ok_iff)
  then have "\<exists>s'. BatchUpsert (Iface c) items s = (Returns (Inr ()), s')" by (simp add: BatchUpsert_def)
  then show ?thesis using batch_upsert_ok by blast
qed

end

section \<open>How each operation ends\<close>

context server_store
begin

lemma create_server_cases:
  assumes "CreateServer d input s = (r, s')"
  obtains (failed) e where "r = Returns (Inl e)" "rows (st_servers s') = rows (st_servers s)" "st_cache s' = st_cache s"
  | (stored) srv r0 where "r = Returns (Inr srv)" "rows (st_servers s') = rows (st_servers s) @ [srv]"
      "filled_server (trim_server (zero_server\<lparr>S_ServerName := CS_ServerName input, S_IPv4 := CS_IPv4 input\<rparr>)) srv"
      "uniq_servers (rows (st_servers s)) \<Longrightarrow> uniq_servers (rows (st_servers s'))"
      "\<forall>x\<in>set (rows (st_servers s)). S_ServerName x \<noteq> TrimSpace (CS_ServerName input) \<and> S_IPv4 x \<noteq> TrimSpace (CS_IPv4 input)"
      "Upsert (Iface c) (S_ServerID srv) (S_IPv4 srv) (S_CurrentStatus srv) 0 (st_cache s) = (Returns r0, st_cache s')"
proof -
  let ?new = "zero_server\<lparr>S_ServerName := CS_ServerName input, S_IPv4 := CS_IPv4 input\<rparr>"
  obtain n t where n: "GetByName (sv_repo d) (CS_ServerName input) (st_servers s) = (n, t)" by fastforce
  obtain i t1 where i: "GetByIPv4 (sv_repo d) (CS_IPv4 input) t = (i, t1)" by fastforce
  obtain cr t2 where cr: "RepoCreate (sv_repo d) ?new t1 = (cr, t2)" by fastforce
  have keep: "rows t = rows (st_servers s)" "rows t1 = rows (st_servers s)"
    using get_by_name(1) [OF n] get_by_ipv4(1) [OF i] by simp_all
  show thesis
  proof (cases "n = Inl ErrNotFound \<and> i = Inl ErrNotFound \<and> is_ok cr")
    case False
    with assms n i cr keep repo_create(2) [OF cr] have
      "\<exists>e. r = Returns (Inl e) \<and> rows (st_servers s') = rows (st_servers s) \<and> st_cache s' = st_cache s"
      by (auto simp: CreateServer_def split: sum.splits repo_error.splits)
    then show thesis using failed by blast
  next
    case True
    then obtain srv where srv: "cr = Inr srv" by (auto simp: is_ok_iff)
    let ?op = "\<lambda>client. Upsert client (S_ServerID srv) (S_IPv4 srv) (S_CurrentStatus srv) 0"
    obtain r0 r1 where op: "?op (Iface c) (st_cache (s\<lparr>st_servers := t2\<rparr>)) = (Returns r0, r1)"
      and dw: "dual_write d ?op srv (s\<lparr>st_servers := t2\<rparr>) = (Returns (Inr srv), s\<lparr>st_servers := t2, st_cache := r1\<rparr>)"
      using dual_write_returns [of ?op "s\<lparr>st_servers := t2\<rparr>" srv] rc.upsert_returns by auto
    have "r = Returns (Inr srv)" "s' = s\<lparr>st_servers := t2, st_cache := r1\<rparr>"
      using assms n i cr True srv dw by (simp_all add: CreateServer_def)
    with op srv True show thesis
      using repo_create [OF cr] keep get_by_name(3) [OF n] get_by_ipv4(3) [OF i] by (intro stored) auto
  qed
qed

lemma update_server_cases:
  assumes "UpdateServer d now i input s = (r, s')"
  obtains (failed) e where "r = Returns (Inl e)" "rows (st_servers s') = rows (st_servers s)" "st_cache s' = st_cache s"
  | (stored) x srv r0 where "r = Returns (Inr srv)" "x \<in> set (rows (st_servers s))" "S_ServerID x = i"
      "srv = (trim_server (x\<lparr>S_ServerName := US_ServerName input, S_IPv4 := US_IPv4 input\<rparr>))\<lparr>S_UpdatedAt := now\<rparr>"
      "rows (st_servers s') = map (\<lambda>z. if S_ServerID z = i then updated_from now srv z else z) (rows (st_servers s))"
      "uniq_servers (rows (st_servers s)) \<Longrightarrow> uniq_servers (rows (st_servers s'))"
      "Upsert (Iface c) i (S_IPv4 srv) (S_CurrentStatus srv) (S_ConsecutiveFailures srv) (st_cache s)
         = (Returns r0, st_cache s')"
proof -
  obtain g t where g: "GetByID (sv_repo d) i (st_servers s) = (g, t)" by fastforce
  note keep = get_by_id [OF g]
  show thesis
  proof (cases g)
    case (Inl e)
    with assms g keep have
      "\<exists>e. r = Returns (Inl e) \<and> rows (st_servers s') = rows (st_servers s) \<and> st_cache s' = st_cache s"
      by (auto simp: UpdateServer_def split: repo_error.splits)
    then show thesis using failed by blast
  next
    case (Inr x)
    obtain n t1 where n: "check_name d i (US_ServerName input) x t = (n, t1)" by fastforce
    show thesis
    proof (cases n)
      case (Inl e)
      with assms g \<open>g = Inr x\<close> n keep check_name_keeps [OF n] have
        "\<exists>e. r = Returns (Inl e) \<and> rows (st_servers s') = rows (st_servers s) \<and> st_cache s' = st_cache s"
        by (auto simp: UpdateServer_def)
      then show thesis using failed by blast
    next
      case x1: (Inr x1)
      obtain a t2 where a: "check_ipv4 d i (US_IPv4 input) x1 t1 = (a, t2)" by fastforce
      show thesis
      proof (cases a)
        case (Inl e)
        with assms g \<open>g = Inr x\<close> n x1 a keep check_name_keeps [OF n] check_ipv4_keeps [OF a] have
          "\<exists>e. r = Returns (Inl e) \<and> rows (st_servers s') = rows (st_servers s) \<and> st_cache s' = st_cache s"
          by (auto simp: UpdateServer_def)
        then show thesis using failed by blast
      next
        case x2: (Inr x2)
        have x2eq: "x2 = x\<lparr>S_ServerName := US_ServerName input, S_IPv4 := US_IPv4 input\<rparr>"
          using check_name_ok n x1 check_ipv4_ok a x2 by fastforce
        have t2: "rows t2 = rows (st_servers s)"
          using keep(1) check_name_keeps [OF n] check_ipv4_keeps [OF a] by simp
        obtain u t3 where u: "RepoUpdate (sv_repo d) now x2 t2 = (u, t3)" by fastforce
        show thesis
        proof (cases u)
          case (Inl e)
          with assms g \<open>g = Inr x\<close> n x1 a x2 u t2 repo_update(2,3) [OF u] have
            "\<exists>e. r = Returns (Inl e) \<and> rows (st_servers s') = rows (st_servers s) \<and> st_cache s' = st_cache s"
            by (cases e; auto simp: UpdateServer_def)+
          then show thesis using failed by blast
        next
          case (Inr srv)
          let ?op = "\<lambda>client. Upsert client (S_ServerID srv) (S_IPv4 srv) (S_CurrentStatus srv) (S_ConsecutiveFailures srv)"
          obtain r0 r1 where op: "?op (Iface c) (st_cache (s\<lparr>st_servers := t3\<rparr>)) = (Returns r0, r1)"
            and dw: "dual_write d ?op srv (s\<lparr>st_servers := t3\<rparr>) = (Returns (Inr srv), s\<lparr>st_servers := t3, st_cache := r1\<rparr>)"
            using dual_write_returns [of ?op "s\<lparr>st_servers := t3\<rparr>" srv] rc.upsert_returns by auto
          have rs: "r = Returns (Inr srv)" "s' = s\<lparr>st_servers := t3, st_cache := r1\<rparr>"
            using assms g \<open>g = Inr x\<close> n x1 a x2 u Inr dw by (simp_all add: UpdateServer_def)
          have id: "S_ServerID x = i" "x \<in> set (rows (st_servers s))" using keep(2) \<open>g = Inr x\<close> by auto
          note up = repo_update(1) [OF u Inr]
          have "updated_from now (trim_server x2) = updated_from now srv"
            using up by (auto simp: updated_from_def fun_eq_iff)
          then show thesis
            using up rs id op x2eq t2 repo_update(4) [OF u] by (intro stored [of srv x]) auto
        qed
      qed
    qed
  qed
qed

lemma delete_server_cases:
  assumes "DeleteServer d i s = (r, s')"
  obtains (failed) e where "r = Returns (Inl e)" "rows (st_servers s') = rows (st_servers s)" "st_cache s' = st_cache s"
  | (removed) r0 where "r = Returns (Inr ())" "i \<in> S_ServerID ` set (rows (st_servers s))"
      "rows (st_servers s') = filter (\<lambda>x. S_ServerID x \<noteq> i) (rows (st_servers s))"
      "uniq_servers (rows (st_servers s)) \<Longrightarrow> uniq_servers (rows (st_servers s'))"
      "CacheDelete (Iface c) i (st_cache s) = (Returns r0, st_cache s')"
proof -
  obtain g t where g: "GetByID (sv_repo d) i (st_servers s) = (g, t)" by fastforce
  note keep = get_by_id [OF g]
  obtain u t1 where u: "RepoDelete (sv_repo d) i t = (u, t1)" by fastforce
  have del: "rows t1 = rows t" if err: "u = Inl e" for e
  proof -
    obtain q where q: "g_delete (sv_repo d) (\<lambda>x. S_ServerID x = i) t = (q, t1)" "q = Inr 0 \<or> (\<exists>e. q = Inl e)"
      using u err by (auto simp: RepoDelete_def split: sum.splits prod.splits if_splits)
    then show ?thesis
    proof (elim disjE exE)
      assume "q = Inr 0"
      with q(1) have "rows t1 = filter (\<lambda>x. S_ServerID x \<noteq> i) (rows t)" "filter (\<lambda>x. S_ServerID x = i) (rows t) = []"
        using st.delete_ok by fastforce+
      then show ?thesis by (simp add: filter_empty_conv)
    qed (use st.delete_err in blast)
  qed
  show thesis
  proof (cases "is_ok g \<and> is_ok u")
    case False
    with assms g u keep(1) del have
      "\<exists>e. r = Returns (Inl e) \<and> rows (st_servers s') = rows (st_servers s) \<and> st_cache s' = st_cache s"
      by (auto simp: DeleteServer_def is_ok_def split: sum.splits repo_error.splits)
    then show thesis using failed by blast
  next
    case True
    then obtain x where x: "g = Inr x" "u = Inr ()" by (auto simp: is_ok_iff)
    let ?op = "\<lambda>client. CacheDelete client i"
    obtain r0 r1 where op: "?op (Iface c) (st_cache (s\<lparr>st_servers := t1\<rparr>)) = (Returns r0, r1)"
      and dw: "dual_write d ?op () (s\<lparr>st_servers := t1\<rparr>) = (Returns (Inr ()), s\<lparr>st_servers := t1, st_cache := r1\<rparr>)"
      using dual_write_returns [of ?op "s\<lparr>st_servers := t1\<rparr>" "()"] rc.cache_delete_returns by auto
    have "r = Returns (Inr ())" "s' = s\<lparr>st_servers := t1, st_cache := r1\<rparr>"
      using assms g u x dw by (simp_all add: DeleteServer_def)
    with op keep x repo_delete(2,3) [OF u] show thesis by (intro removed) auto
  qed
qed

end

section \<open>Invariants of any sequence of operations\<close>

inductive server_step :: "server_service \<Rightarrow> server_state \<Rightarrow> server_state \<Rightarrow> bool" for d where
  step_create: "CreateServer d input s = (cr, s') \<Longrightarrow> server_step d s s'"
| step_update: "UpdateServer d now i inp s = (ur, s') \<Longrightarrow> server_step d s s'"
| step_delete: "DeleteServer d i s = (dr, s') \<Longrightarrow> server_step d s s'"
| step_import: "ImportServers d xl content s = (ir, s') \<Longrightarrow> server_step d s s'"
| step_search: "SearchServers d flt s = (sr, s') \<Longrightarrow> server_step d s s'"
| step_export: "ExportServers d xl loc now flt s = (er, s') \<Longrightarrow> server_step d s s'"

text \<open>The table is well formed and the cache follows it.\<close>

definition synced :: "server_state \<Rightarrow> bool" where
  "synced s \<longleftrightarrow> cache_synced (rows (st_servers s)) (rdata (st_cache s))"

lemma importable_wf: "importable x \<Longrightarrow> filled_server x y \<Longrightarrow> server_wf y"
  by (auto simp: importable_def server_wf_def imported_def IsValid_def status_defs dest!: filled_server_ext)

lemma servers_inv_uniq: "servers_inv t \<Longrightarrow> uniq_servers (rows t)"
  by (simp add: servers_inv_def)

context server_store
begin

lemma search_keeps:
  assumes "Search (sv_repo d) il un f t = (r, t')"
  shows "rows t' = rows t"
proof -
  obtain n t1 where c: "g_count (sv_repo d) (search_where il f) t = (n, t1)" by fastforce
  obtain p t2 where p: "g_page (sv_repo d) (search_where il f) (search_order un f) (search_offset f) (F_PageSize f) t1 = (p, t2)"
    by fastforce
  show ?thesis
    using assms c p st.count_keeps [OF c] st.page_keeps [OF p]
    by (auto simp: Search_def split: sum.splits)
qed

lemma search_servers_keeps:
  "SearchServers d f s = (r, s') \<Longrightarrow> rows (st_servers s') = rows (st_servers s) \<and> st_cache s' = st_cache s"
  by (auto simp: SearchServers_def Let_def split: if_splits sum.splits prod.splits dest: search_keeps)

lemma export_servers_keeps:
  "ExportServers d xl loc now f s = (r, s') \<Longrightarrow> rows (st_servers s') = rows (st_servers s) \<and> st_cache s' = st_cache s"
  by (auto simp: ExportServers_def split: sum.splits prod.splits dest: search_keeps)

lemma create_inv:
  assumes "CreateServer d input s = (r, s')" and "servers_inv (st_servers s)"
  shows "servers_inv (st_servers s')"
  using assms(1)
proof (cases rule: create_server_cases)
  case failed
  with assms(2) show ?thesis by (simp add: servers_inv_def)
next
  case (stored srv r0)
  have "server_wf srv"
    using filled_server_ext [OF stored(3)] by (simp add: server_wf_def)
  with stored(2,4) assms(2) show ?thesis by (simp add: servers_inv_def)
qed

lemma update_inv:
  assumes "UpdateServer d now i input s = (r, s')" and "servers_inv (st_servers s)"
  shows "servers_inv (st_servers s')"
  using assms(1)
proof (cases rule: update_server_cases)
  case failed
  with assms(2) show ?thesis by (simp add: servers_inv_def)
next
  case (stored x srv r0)
  have "server_wf x" using stored(2) assms(2) by (auto simp: servers_inv_def list_all_iff)
  then have "server_wf (updated_from now srv z)" for z using stored(4) by (simp add: server_wf_def)
  with stored(5,6) assms(2) show ?thesis by (auto simp: servers_inv_def list_all_iff)
qed

lemma delete_inv:
  assumes "DeleteServer d i s = (r, s')" and "servers_inv (st_servers s)"
  shows "servers_inv (st_servers s')"
  using assms(1)
  by (cases rule: delete_server_cases) (use assms(2) in \<open>auto simp: servers_inv_def list_all_iff\<close>)

lemma batch_inv:
  assumes "batch_effect src r n q s s'" and "\<forall>x\<in>set src. importable x" and "servers_inv (st_servers s)"
  shows "servers_inv (st_servers s')"
proof -
  from assms(1) obtain created where "rows (st_servers s') = rows (st_servers s) @ created"
    "\<forall>y\<in>set created. \<exists>x\<in>set src. filled_server x y"
    "uniq_servers (rows (st_servers s)) \<longrightarrow> uniq_servers (rows (st_servers s'))"
    unfolding batch_effect_def by blast
  with assms(2,3) importable_wf show ?thesis by (auto simp: servers_inv_def list_all_iff) blast
qed

lemma step_inv: "server_step d s s' \<Longrightarrow> servers_inv (st_servers s) \<Longrightarrow> servers_inv (st_servers s')"
proof (induction rule: server_step.induct)
  case (step_import xl content s ir s')
  from import_effect [OF step_import(1)] batch_inv step_import(2) show ?case by metis
next
  case (step_search flt s sr s')
  then show ?case using search_servers_keeps by (metis servers_inv_def)
next
  case (step_export xl loc now flt s er s')
  then show ?case using export_servers_keeps by (metis servers_inv_def)
qed (blast intro: create_inv update_inv delete_inv)+

lemma create_sync:
  assumes "CreateServer d input s = (r, s')" and "writes_succeed c" and "servers_inv (st_servers s)" and "synced s"
  shows "synced s'"
  using assms(1)
proof (cases rule: create_server_cases)
  case failed
  with assms(4) show ?thesis by (simp add: synced_def)
next
  case (stored srv r0)
  have "uniq_servers (rows (st_servers s'))" using stored(4) assms(3) servers_inv_uniq by blast
  then have "S_ServerID srv \<notin> S_ServerID ` set (rows (st_servers s))"
    using stored(2) by (auto simp: uniq_servers_def)
  from synced_insert [OF assms(4) [unfolded synced_def] this, of "S_CurrentStatus srv" 0]
  show ?thesis
    using rc.upsert_done [OF assms(2), of "S_ServerID srv" "S_IPv4 srv" "S_CurrentStatus srv" 0 "st_cache s"]
      stored(2,6) by (auto simp: synced_def)
qed

lemma update_sync:
  assumes "UpdateServer d now i input s = (r, s')" and "writes_succeed c" and "synced s"
  shows "synced s'"
  using assms(1)
proof (cases rule: update_server_cases)
  case failed
  with assms(3) show ?thesis by (simp add: synced_def)
next
  case (stored x srv r0)
  have "i \<in> S_ServerID ` set (rows (st_servers s))" using stored(2,3) by auto
  from synced_update [OF assms(3) [unfolded synced_def] this, of "updated_from now srv" "S_IPv4 srv"
      "S_CurrentStatus srv" "S_ConsecutiveFailures srv"]
  show ?thesis
    using rc.upsert_done [OF assms(2), of i "S_IPv4 srv" "S_CurrentStatus srv" "S_ConsecutiveFailures srv" "st_cache s"]
      stored(5,7) by (auto simp: synced_def)
qed

lemma delete_sync:
  assumes "DeleteServer d i s = (r, s')" and "writes_succeed c" and "synced s"
  shows "synced s'"
  using assms(1)
proof (cases rule: delete_server_cases)
  case failed
  with assms(3) show ?thesis by (simp add: synced_def)
next
  case (removed r0)
  from synced_delete [OF assms(3) [unfolded synced_def], of i] rc.cache_delete_done [OF assms(2), of i "st_cache s"]
    removed(3,5)
  show ?thesis by (auto simp: synced_def)
qed

lemma process_batch_sync:
  assumes "processBatch d r b s = (q, s')" and "writes_succeed c"
    and "uniq_servers (rows (st_servers s))" and "synced s"
  shows "synced s'"
proof -
  obtain ex t where f: "FindByNamesOrIPv4s (sv_repo d) (map S_ServerName b) (map S_IPv4 b) (st_servers s) = (ex, t)"
    by fastforce
  then have t: "rows t = rows (st_servers s)"
    by (auto simp: FindByNamesOrIPv4s_def split: if_splits dest: st.find_keeps)
  show ?thesis
  proof (cases "b = [] \<or> \<not> is_ok ex")
    case True
    with assms(1,4) f t show ?thesis by (auto simp: processBatch_def synced_def is_ok_def split: sum.splits if_splits)
  next
    case False
    then obtain existing where ex: "ex = Inr existing" "b \<noteq> []" by (auto simp: is_ok_iff)
    obtain r1 v where sp: "split_batch (map S_ServerName existing) (map S_IPv4 existing) b r = (r1, v)" by fastforce
    obtain cr t1 where c: "g_create_all (sv_repo d) v t = (cr, t1)" by fastforce
    show ?thesis
    proof (cases "v = [] \<or> \<not> is_ok cr")
      case True
      with assms(1,4) f t ex sp c st.create_all_err [of v t _ t1] show ?thesis
        by (auto simp: processBatch_def BatchCreate_def synced_def is_ok_def split: sum.splits if_splits)
    next
      case False
      then obtain created where cr: "cr = Inr created" "v \<noteq> []" by (auto simp: is_ok_iff)
      obtain r' where "BatchUpsert (Iface c) (map cache_item created) (st_cache s) = (Returns (Inr ()), r')"
        and r': "rdata r' = do_cmds (upsert_cmds (map cache_item created)) (rdata (st_cache s))"
        using rc.batch_upsert_done [OF assms(2)] by blast
      then have "s' = s\<lparr>st_servers := t1, st_cache := r'\<rparr>"
        using assms(1) f ex sp c cr by (simp add: processBatch_def BatchCreate_def dual_write_def cache_on)
      moreover have "rows t1 = rows (st_servers s) @ created" "uniq_servers (rows t1)"
        using st.create_all_ok [of v t created t1] st.create_all_wf [of v t created t1] c cr t assms(3) by simp_all
      ultimately show ?thesis
        using synced_batch [OF assms(4) [unfolded synced_def], of created] r'
        by (simp add: synced_def uniq_servers_def)
    qed
  qed
qed

lemma import_rows_sync:
  assumes "import_rows d ni ii rws r b s = (q, s')" and "writes_succeed c"
    and "uniq_servers (rows (st_servers s))" and "synced s"
  shows "synced s'"
  using assms(1,3,4)
proof (induction rws arbitrary: r b s)
  case Nil
  then show ?case using process_batch_sync assms(2) by simp
next
  case (Cons cols rest)
  let ?b = "b @ [imported (column ni cols) (column ii cols)]"
  show ?case
  proof (cases "valid_row (column ni cols) (column ii cols) \<and> batchSize \<le> length ?b")
    case False
    then have "\<exists>r1 b1. import_rows d ni ii rest r1 b1 s = (q, s')"
      using Cons.prems(1) by (auto simp: Let_def split: if_splits)
    with Cons show ?thesis by blast
  next
    case True
    obtain q1 s1 where p: "processBatch d r ?b s = (q1, s1)" by fastforce
    have s1: "synced s1" "uniq_servers (rows (st_servers s1))"
      using process_batch_sync [OF p assms(2)] process_batch [OF p] Cons.prems(2,3)
      by (auto simp: batch_effect_def)
    have "s' = s1 \<or> (\<exists>r1. import_rows d ni ii rest r1 [] s1 = (q, s'))"
      using Cons.prems(1) True p valid_row_filled [of "column ni cols" "column ii cols"]
      by (auto simp: Let_def split: go.splits sum.splits)
    then show ?thesis using s1 Cons.IH by blast
  qed
qed

lemma import_sync:
  assumes "ImportServers d xl content s = (q, s')" and "writes_succeed c"
    and "servers_inv (st_servers s)" and "synced s"
  shows "synced s'"
proof -
  have "s' = s \<or> (\<exists>ni ii rws. import_rows d ni ii rws no_result [] s = (q, s'))"
    using assms(1) by (auto simp: ImportServers_def split: if_splits option.splits sum.splits list.splits prod.splits)
  then show ?thesis using assms import_rows_sync servers_inv_uniq by blast
qed

lemma step_sync:
  "server_step d s s' \<Longrightarrow> writes_succeed c \<Longrightarrow> servers_inv (st_servers s) \<Longrightarrow> synced s \<Longrightarrow> synced s'"
proof (induction rule: server_step.induct)
  case (step_search flt s sr s')
  then show ?case using search_servers_keeps by (metis synced_def)
next
  case (step_export xl loc now flt s er s')
  then show ?case using export_servers_keeps by (metis synced_def)
qed (blast intro: create_sync update_sync delete_sync import_sync)+

end

section \<open>Look-ups that are answered\<close>

context server_store
begin

lemma lookup_answered:
  assumes "lookups_succeed (sv_repo d)" and "first_or_not_found (sv_repo d) p t = (r, t')"
  shows "r = Inl ErrNotFound \<and> (\<forall>x\<in>set (rows t). \<not> p x) \<or> (\<exists>x\<in>set (rows t). p x \<and> r = Inr x)"
proof -
  have "fst (g_first (sv_repo d) p t) \<noteq> Inl (DBError m)" for m using assms(1) by (simp add: lookups_succeed_def)
  then have "r = Inl ErrNotFound \<or> (\<exists>x. r = Inr x)"
    using assms(2) unfolding first_or_not_found_def
    by (cases "g_first (sv_repo d) p t") (auto split: sum.splits if_splits gorm_error.splits, metis gorm_error.exhaust)
  then show ?thesis using lookup [OF assms(2)] by blast
qed

lemma name_answered:
  assumes "lookups_succeed (sv_repo d)" and "GetByName (sv_repo d) name t = (r, t')"
  shows "r = Inl ErrNotFound \<and> (\<forall>x\<in>set (rows t). S_ServerName x \<noteq> TrimSpace name) \<or>
    (\<exists>x\<in>set (rows t). S_ServerName x = TrimSpace name \<and> r = Inr x)"
  using lookup_answered [OF assms(1) assms(2) [unfolded GetByName_def]] .

lemma ipv4_answered:
  assumes "lookups_succeed (sv_repo d)" and "GetByIPv4 (sv_repo d) ip t = (r, t')"
  shows "r = Inl ErrNotFound \<and> (\<forall>x\<in>set (rows t). S_IPv4 x \<noteq> TrimSpace ip) \<or>
    (\<exists>x\<in>set (rows t). S_IPv4 x = TrimSpace ip \<and> r = Inr x)"
  using lookup_answered [OF assms(1) assms(2) [unfolded GetByIPv4_def]] .

lemma id_answered:
  assumes "lookups_succeed (sv_repo d)" and "GetByID (sv_repo d) i t = (r, t')"
  shows "r = Inl ErrNotFound \<and> (\<forall>x\<in>set (rows t). S_ServerID x \<noteq> i) \<or>
    (\<exists>x\<in>set (rows t). S_ServerID x = i \<and> r = Inr x)"
  using lookup_answered [OF assms(1) assms(2) [unfolded GetByID_def]] .

text \<open>With answered look-ups, the name check fails exactly when another server has the name.\<close>

lemma check_name_answered:
  assumes "lookups_succeed (sv_repo d)" and "servers_inv t" and "x \<in> set (rows t)" and "S_ServerID x = i"
    and "check_name d i name x t = (r, t')"
  shows "if \<exists>y\<in>set (rows t). S_ServerID y \<noteq> i \<and> S_ServerName y = TrimSpace name then r = Inl ErrNameExists
    else r = Inr (x\<lparr>S_ServerName := name\<rparr>)"
proof (cases "name = S_ServerName x")
  case True
  have "TrimSpace name = name" using assms(2,3) True by (auto simp: servers_inv_def list_all_iff server_wf_def)
  then have "y = x" if "y \<in> set (rows t)" "S_ServerName y = TrimSpace name" for y
    using that assms(2,3) True by (auto simp: servers_inv_def uniq_servers_def distinct_map inj_on_def)
  then have "\<not> (\<exists>y\<in>set (rows t). S_ServerID y \<noteq> i \<and> S_ServerName y = TrimSpace name)" using assms(4) by blast
  with assms(5) True show ?thesis by (auto simp: check_name_def)
next
  case False
  obtain q t1 where g: "GetByName (sv_repo d) name t = (q, t1)" by fastforce
  have uniq: "y = z" if "y \<in> set (rows t)" "z \<in> set (rows t)" "S_ServerName y = S_ServerName z" for y z
    using that assms(2) by (auto simp: servers_inv_def uniq_servers_def distinct_map inj_on_def)
  from name_answered [OF assms(1) g] show ?thesis
    using assms(5) False g uniq by (auto simp: check_name_def split: if_splits) metis
qed

lemma check_ipv4_answered:
  assumes "lookups_succeed (sv_repo d)" and "servers_inv t" and "x \<in> set (rows t)" and "S_ServerID x = i"
    and "check_ipv4 d i ip (x\<lparr>S_ServerName := name\<rparr>) t = (r, t')"
  shows "if \<exists>y\<in>set (rows t). S_ServerID y \<noteq> i \<and> S_IPv4 y = TrimSpace ip then r = Inl ErrIPv4Exists
    else r = Inr (x\<lparr>S_ServerName := name, S_IPv4 := ip\<rparr>)"
proof (cases "ip = S_IPv4 x")
  case True
  have "TrimSpace ip = ip" using assms(2,3) True by (auto simp: servers_inv_def list_all_iff server_wf_def)
  then have "y = x" if "y \<in> set (rows t)" "S_IPv4 y = TrimSpace ip" for y
    using that assms(2,3) True by (auto simp: servers_inv_def uniq_servers_def distinct_map inj_on_def)
  then have "\<not> (\<exists>y\<in>set (rows t). S_ServerID y \<noteq> i \<and> S_IPv4 y = TrimSpace ip)" using assms(4) by blast
  with assms(5) True show ?thesis by (auto simp: check_ipv4_def)
next
  case False
  obtain q t1 where g: "GetByIPv4 (sv_repo d) ip t = (q, t1)" by fastforce
  have uniq: "y = z" if "y \<in> set (rows t)" "z \<in> set (rows t)" "S_IPv4 y = S_IPv4 z" for y z
    using that assms(2) by (auto simp: servers_inv_def uniq_servers_def distinct_map inj_on_def)
  from ipv4_answered [OF assms(1) g] show ?thesis
    using assms(5) False g uniq by (auto simp: check_ipv4_def split: if_splits) metis
qed

end

section \<open>Properties\<close>

text \<open>C14: in any sequence of requests, whatever errors the database and Redis report, the table keeps
  unique identifiers, names and addresses, all names and addresses are stored trimmed and every
  state is ONLINE or OFFLINE.\<close>

theorem servers_stay_wellformed:
  assumes "server_store d c" and "rtranclp (server_step d) s s'" and "servers_inv (st_servers s)"
  shows "servers_inv (st_servers s')"
  using assms(2,3) by (induction rule: rtranclp_induct) (blast intro: server_store.step_inv [OF assms(1)])+


text \<open>C17: creating a server whose trimmed name, or else whose trimmed address, is taken is refused with
  that reason and changes nothing; otherwise the request fails without a trace or appends exactly one
  row, trimmed, ONLINE, with no failures, and caches it under its new identifier.\<close>

theorem create_server_outcome:
  assumes "server_store d c" and "lookups_succeed (sv_repo d)" and "writes_succeed c"
    and "CreateServer d input s = (r, s')"
  shows "if \<exists>x\<in>set (rows (st_servers s)). S_ServerName x = TrimSpace (CS_ServerName input)
      then r = Returns (Inl ErrNameExists) \<and> rows (st_servers s') = rows (st_servers s) \<and> st_cache s' = st_cache s
    else if \<exists>x\<in>set (rows (st_servers s)). S_IPv4 x = TrimSpace (CS_IPv4 input)
      then r = Returns (Inl ErrIPv4Exists) \<and> rows (st_servers s') = rows (st_servers s) \<and> st_cache s' = st_cache s
    else (\<exists>e. r = Returns (Inl e)) \<and> rows (st_servers s') = rows (st_servers s) \<and> st_cache s' = st_cache s
      \<or> (\<exists>srv. r = Returns (Inr srv) \<and> rows (st_servers s') = rows (st_servers s) @ [srv]
          \<and> S_ServerName srv = TrimSpace (CS_ServerName input) \<and> S_IPv4 srv = TrimSpace (CS_IPv4 input)
          \<and> S_CurrentStatus srv = ServerStatusOnline \<and> S_ConsecutiveFailures srv = 0
          \<and> S_ServerID srv \<in> cached_ids (rdata (st_cache s'))
          \<and> state_of (rdata (st_cache s')) (S_ServerID srv) = Some \<lparr>SS_Status = ServerStatusOnline, SS_RetryCount = 0\<rparr>
          \<and> info_of (rdata (st_cache s')) (S_ServerID srv) ''ipv4'' = Some (S_IPv4 srv))"
proof -
  note L = assms(1)
  obtain n t where n: "GetByName (sv_repo d) (CS_ServerName input) (st_servers s) = (n, t)" by fastforce
  obtain a t1 where a: "GetByIPv4 (sv_repo d) (CS_IPv4 input) t = (a, t1)" by fastforce
  have keep: "rows t = rows (st_servers s)" using server_store.get_by_name(1) [OF L n] .
  note N = server_store.name_answered [OF L assms(2) n] and A = server_store.ipv4_answered [OF L assms(2) a, unfolded keep]
  show ?thesis
  proof (rule server_store.create_server_cases [OF L assms(4)])
    fix e assume "r = Returns (Inl e)" "rows (st_servers s') = rows (st_servers s)" "st_cache s' = st_cache s"
    then show ?thesis using N A assms(4) n a by (auto simp: CreateServer_def)
  next
    fix srv r0
    assume *: "r = Returns (Inr srv)" "rows (st_servers s') = rows (st_servers s) @ [srv]"
      "filled_server (trim_server (zero_server\<lparr>S_ServerName := CS_ServerName input, S_IPv4 := CS_IPv4 input\<rparr>)) srv"
      "\<forall>x\<in>set (rows (st_servers s)). S_ServerName x \<noteq> TrimSpace (CS_ServerName input) \<and> S_IPv4 x \<noteq> TrimSpace (CS_IPv4 input)"
      "Upsert (Iface c) (S_ServerID srv) (S_IPv4 srv) (S_CurrentStatus srv) 0 (st_cache s) = (Returns r0, st_cache s')"
    have rc: "redis_client c" using L by (simp add: server_store_def)
    have "rdata (st_cache s') = do_sadd ServerAllIDsKey (S_ServerID srv)
        (do_hset (ServerInfoKey (S_ServerID srv)) (info_fields (S_IPv4 srv) (S_CurrentStatus srv) 0) (rdata (st_cache s)))"
      using redis_client.upsert_done [OF rc assms(3), of "S_ServerID srv" "S_IPv4 srv" "S_CurrentStatus srv" 0 "st_cache s"]
        *(5) by auto
    moreover have "min_int64 \<le> 0" "0 \<le> max_int64" by (simp_all add: min_int64_def max_int64_def)
    ultimately show ?thesis
      using * filled_server_ext [OF *(3)] by (auto simp: store_simps state_after_fields info_after_fields)
  qed
qed


lemma update_server_effect:
  assumes "server_store d c" and "writes_succeed c" and "servers_inv (st_servers s)"
    and "UpdateServer d now i input s = (Returns (Inr srv), s')"
    and "\<And>x. x \<in> set (rows (st_servers s)) \<Longrightarrow> S_ConsecutiveFailures x \<in> {min_int64..max_int64}"
  shows "\<exists>x\<in>set (rows (st_servers s)). S_ServerID x = i
    \<and> srv = x\<lparr>S_ServerName := TrimSpace (US_ServerName input), S_IPv4 := TrimSpace (US_IPv4 input), S_UpdatedAt := now\<rparr>
    \<and> rows (st_servers s') = map (\<lambda>z. if S_ServerID z = i then srv else z) (rows (st_servers s))
    \<and> info_of (rdata (st_cache s')) i ''ipv4'' = Some (S_IPv4 srv)
    \<and> state_of (rdata (st_cache s')) i = Some \<lparr>SS_Status = S_CurrentStatus x, SS_RetryCount = S_ConsecutiveFailures x\<rparr>"
proof (rule server_store.update_server_cases [OF assms(1,4)])
  fix x srv' r0
  assume *: "Returns (Inr srv) = Returns (Inr srv')" "x \<in> set (rows (st_servers s))" "S_ServerID x = i"
    "srv' = (trim_server (x\<lparr>S_ServerName := US_ServerName input, S_IPv4 := US_IPv4 input\<rparr>))\<lparr>S_UpdatedAt := now\<rparr>"
    "rows (st_servers s') = map (\<lambda>z. if S_ServerID z = i then updated_from now srv' z else z) (rows (st_servers s))"
    "Upsert (Iface c) i (S_IPv4 srv') (S_CurrentStatus srv') (S_ConsecutiveFailures srv') (st_cache s) = (Returns r0, st_cache s')"
  have rc: "redis_client c" using assms(1) by (simp add: server_store_def)
  have srv: "srv = x\<lparr>S_ServerName := TrimSpace (US_ServerName input), S_IPv4 := TrimSpace (US_IPv4 input), S_UpdatedAt := now\<rparr>"
    using *(1,4) by (simp add: trim_server_def)
  have "updated_from now srv z = srv" if "z \<in> set (rows (st_servers s))" "S_ServerID z = i" for z
    using servers_inv_id [OF assms(3) that(1) *(2)] that(2) *(3) srv by (simp add: updated_from_def)
  with *(1,5) have rows: "rows (st_servers s') = map (\<lambda>z. if S_ServerID z = i then srv else z) (rows (st_servers s))" by auto
  have "rdata (st_cache s') = do_sadd ServerAllIDsKey i
      (do_hset (ServerInfoKey i) (info_fields (S_IPv4 srv) (S_CurrentStatus srv) (S_ConsecutiveFailures srv)) (rdata (st_cache s)))"
    using redis_client.upsert_done [OF rc assms(2), of i "S_IPv4 srv" "S_CurrentStatus srv" "S_ConsecutiveFailures srv" "st_cache s"]
      *(1,6) by auto
  then show ?thesis
    using * srv rows assms(5) [OF *(2)] by (intro bexI [of _ x]) (simp_all add: store_simps state_after_fields info_after_fields)
qed simp


text \<open>C16: an import that succeeds accounts for every row: it appends the servers it reports as successful,
  in the order of the sheet, each made from a row with a trimmed name of at most 255 bytes and an
  address that parses as IPv4; the two counters are the lengths of the two lists (as \<open>int32\<close>), and
  together they count the rows of the sheet that are not empty.\<close>

theorem import_accounts_for_rows:
  assumes "server_store d c" and "xl_open xl content = Some \<lparr>wb_sheet = sheet, wb_rows = Inr (header # rest)\<rparr>"
    and "header_cols (sv_uni d) 0 header (- 1, - 1) = (ni, ii)"
    and "ImportServers d xl content s = (Returns (Inr r), s')"
  shows "\<exists>created. rows (st_servers s') = rows (st_servers s) @ created
    \<and> IR_SuccessfulServers r = map S_ServerName created
    \<and> (\<forall>y\<in>set created. valid_row (S_ServerName y) (S_IPv4 y) \<and> server_wf y)
    \<and> IR_SuccessCount r = wrap32 (int (length created))
    \<and> IR_FailCount r = wrap32 (int (length (IR_FailedServers r)))
    \<and> length created + length (IR_FailedServers r) = length (filter (filled_row ni ii) rest)"
proof -
  have "import_rows d ni ii rest no_result [] s = (Returns (Inr r), s')"
    using assms(2-4) by (auto simp: ImportServers_def split: if_splits)
  from server_store.import_rows_effect [OF assms(1) this] obtain created where c:
    "rows (st_servers s') = rows (st_servers s) @ created"
    "\<forall>y\<in>set created. \<exists>x\<in>set (candidates ni ii rest). filled_server x y"
    "IR_SuccessfulServers r = map S_ServerName created"
    "length (IR_FailedServers r) + length created = length (filter (filled_row ni ii) rest)"
    "counts_ok no_result \<longrightarrow> counts_ok r"
    by (auto simp: batch_effect_def no_result_def)
  have "counts_ok no_result" by (simp add: counts_ok_def no_result_def)
  with c(5) have "counts_ok r" by simp
  moreover have "valid_row (S_ServerName y) (S_IPv4 y) \<and> server_wf y" if "y \<in> set created" for y
  proof -
    obtain x where x: "x \<in> set (candidates ni ii rest)" "filled_server x y" using c(2) \<open>y \<in> set created\<close> by blast
    note imp = candidates_importable [OF x(1)]
    with importable_wf [OF _ x(2)] filled_server_ext [OF x(2)] show ?thesis
      by (auto simp: importable_def imported_def)
  qed
  ultimately show ?thesis
    using c(1,3,4) by (intro exI [of _ created]) (simp add: counts_ok_def)
qed

text \<open>C23: a search returns at most the page size, which is between 1 and 100, only rows that satisfy every
  given condition, and the number of all rows that do (as \<open>int32\<close>); an unknown state is refused.\<close>

theorem search_servers_page:
  assumes "server_store d c" and "SearchServers d flt s = (Inr (xs, n), s')"
  shows "length xs \<le> (if F_PageSize flt < 1 \<or> F_PageSize flt > 100 then 20 else nat (F_PageSize flt))
    \<and> length xs \<le> 100
    \<and> (\<forall>x\<in>set xs. x \<in> set (rows (st_servers s)) \<and> search_where (sv_ilike d) flt x)
    \<and> n = wrap32 (int (length (filter (search_where (sv_ilike d) flt) (rows (st_servers s)))))
    \<and> (F_Status flt = [] \<or> IsValid (F_Status flt))"
proof -
  have st: "gorm_table (sv_repo d) filled_server uniq_servers" using assms(1) by (simp add: server_store_def)
  let ?f = "clamp_filter flt"
  have w: "search_where (sv_ilike d) ?f = search_where (sv_ilike d) flt"
    by (simp add: search_where_def clamp_filter_def fun_eq_iff)
  from assms(2) obtain k t1 t2 where
    c: "g_count (sv_repo d) (search_where (sv_ilike d) flt) (st_servers s) = (Inr k, t1)"
    and p: "g_page (sv_repo d) (search_where (sv_ilike d) flt) (search_order (sv_uni d) ?f) (search_offset ?f) (F_PageSize ?f) t1
      = (Inr xs, t2)"
    and n: "n = wrap32 (int k)" and v: "F_Status ?f = [] \<or> IsValid (F_Status ?f)"
    by (auto simp: SearchServers_def Search_def Let_def w split: if_splits sum.splits prod.splits)
  have pos: "0 < F_PageSize ?f" by (simp add: clamp_filter_def)
  have t1: "rows t1 = rows (st_servers s)" using gorm_table.count_keeps [OF st c] .
  have k: "k = length (filter (search_where (sv_ilike d) flt) (rows (st_servers s)))" using gorm_table.count_found [OF st c] .
  have "length xs \<le> nat (F_PageSize ?f)" using gorm_table.page_rows(1) [OF st p pos] .
  moreover have "x \<in> set (rows (st_servers s)) \<and> search_where (sv_ilike d) flt x" if "x \<in> set xs" for x
    using gorm_table.page_rows(2) [OF st p pos that] t1 by simp
  ultimately show ?thesis
    using n k v by (auto simp: clamp_filter_def split: if_splits)
qed

section \<open>The properties at a concrete state\<close>

definition demo_service :: server_service where
  "demo_service = mem_service (\<lambda>_. None)"

definition demo_server :: Server where
  "demo_server = zero_server\<lparr>S_ServerID := ''7'', S_ServerName := ''web'', S_IPv4 := ''10.0.0.1'',
     S_CurrentStatus := ServerStatusOnline\<rparr>"

definition demo_data :: redis_data where
  "demo_data = do_sadd ServerAllIDsKey ''7'' (do_hset (ServerInfoKey ''7'') (info_fields ''10.0.0.1'' ServerStatusOnline 0)
     \<lparr>hashes = (\<lambda>_. []), rsets = (\<lambda>_. []), rstrs = (\<lambda>_. None)\<rparr>)"

definition demo_servers :: server_state where
  "demo_servers = \<lparr>st_servers = \<lparr>rows = [demo_server], tenv = 0\<rparr>, st_cache = \<lparr>rdata = demo_data, renv = 0\<rparr>\<rparr>"

lemma demo_server_store: "server_store demo_service (mem_redis (\<lambda>_. None))"
  unfolding demo_service_def by (rule mem_servers.server_store_axioms)

lemma demo_lookups: "lookups_succeed (sv_repo demo_service)"
  by (simp add: demo_service_def mem_service_def)

lemma demo_trim: "TrimSpace ''web'' = ''web''" "TrimSpace ''10.0.0.1'' = ''10.0.0.1''" "TrimSpace ''10.0.0.2'' = ''10.0.0.2''" "TrimSpace ''db'' = ''db''" "TrimSpace ''bad'' = ''bad''"
  "TrimSpace ''v6'' = ''v6''" "TrimSpace ''::ffff:10.0.0.9'' = ''::ffff:10.0.0.9''" "TrimSpace ''10.0.0.3'' = ''10.0.0.3''"
  "TrimSpace ''10.0.0.256'' = ''10.0.0.256''"
  by (simp_all add: TrimSpace_visible visible_def)

lemma demo_trim_spaces: "TrimSpace '' web '' = ''web''" "TrimSpace '' db '' = ''db''"
  by code_simp+

lemma demo_ids: "nat_string (Suc 0) = ''1''" "nat_string (Suc (Suc 0)) = ''2''"
  by code_simp+

lemmas demo_eval = demo_service_def mem_service_def demo_servers_def demo_server_def zero_server_def demo_trim demo_trim_spaces demo_ids
  mem_engine mem_redis_engine GetByName_def GetByIPv4_def GetByID_def first_or_not_found_def RepoCreate_def
  RepoUpdate_def trim_server_def fill_server_def uniq_servers_def dual_write_def Upsert_def updated_from_def
  ServerStatusOnline_def

lemma demo_inv: "servers_inv (st_servers demo_servers)"
  by (simp add: servers_inv_def uniq_servers_def server_wf_def demo_servers_def demo_server_def demo_trim)

lemma demo_synced: "synced demo_servers"
proof -
  have "cache_synced [] \<lparr>hashes = (\<lambda>_. []), rsets = (\<lambda>_. []), rstrs = (\<lambda>_. None)\<rparr>"
    by (simp add: cache_synced_def cached_ids_def)
  from synced_insert [OF this, of demo_server ServerStatusOnline 0] show ?thesis
    by (simp add: synced_def demo_servers_def demo_data_def demo_server_def)
qed

definition demo_new :: CreateServerInput where
  "demo_new = \<lparr>CS_ServerName = '' db '', CS_IPv4 = ''10.0.0.2''\<rparr>"

lemma demo_step: "rtranclp (server_step demo_service) demo_servers (snd (CreateServer demo_service demo_new demo_servers))"
  by (rule r_into_rtranclp, rule step_create) (rule surjective_pairing)

lemma demo_created: "map S_ServerName (rows (st_servers (snd (CreateServer demo_service demo_new demo_servers)))) = [''web'', ''db'']"
  by (simp add: CreateServer_def demo_new_def demo_eval)

theorem servers_stay_wellformed_witness:
  "servers_inv (st_servers (snd (CreateServer demo_service demo_new demo_servers)))
   \<and> map S_ServerName (rows (st_servers (snd (CreateServer demo_service demo_new demo_servers)))) = [''web'', ''db'']"
  using servers_stay_wellformed [OF demo_server_store demo_step demo_inv] demo_created by simp


theorem create_server_outcome_witness:
  "fst (CreateServer demo_service \<lparr>CS_ServerName = '' web '', CS_IPv4 = ''10.0.0.2''\<rparr> demo_servers)
     = Returns (Inl ErrNameExists)"
  using create_server_outcome [OF demo_server_store demo_lookups mem_redis_succeeds(3) surjective_pairing,
      where input = "\<lparr>CS_ServerName = '' web '', CS_IPv4 = ''10.0.0.2''\<rparr>" and s = demo_servers]
  by (simp add: demo_servers_def demo_server_def demo_trim_spaces)


definition demo_change :: UpdateServerInput where
  "demo_change = \<lparr>US_ServerName = '' db '', US_IPv4 = ''10.0.0.2''\<rparr>"

lemma demo_updated:
  "fst (UpdateServer demo_service 5 ''7'' demo_change demo_servers) =
     Returns (Inr (demo_server\<lparr>S_ServerName := ''db'', S_IPv4 := ''10.0.0.2'', S_UpdatedAt := 5\<rparr>))"
  by (simp add: UpdateServer_def check_name_def check_ipv4_def demo_change_def demo_eval)


text \<open>A sheet with a new server, a row with a bad address, an empty row and a taken name. The second
  sheet holds an address in the IPv4-mapped IPv6 form, which the validation accepts.\<close>

definition demo_sheet :: "string list list \<Rightarrow> excelize" where
  "demo_sheet rws = \<lparr>xl_open = (\<lambda>_. Some \<lparr>wb_sheet = ''Sheet1'', wb_rows = Inr rws\<rparr>), xl_stream = None,
     xl_style = None, xl_cell = (\<lambda>_. []), xl_set_row = (\<lambda>_ _. None), xl_flush = None, xl_write = (\<lambda>_. Inr [])\<rparr>"

definition demo_rows :: "string list list" where
  "demo_rows = [[''Server Name'', ''IPv4''], [''db'', ''10.0.0.2''], [''bad'', ''10.0.0.256''], [], [''web'', ''10.0.0.3''],
     [''v6'', ''::ffff:10.0.0.9'']]"

lemma demo_groups:
  "hex_group ''ffff:10.0.0.9'' 0 0 = Some (65535, 4, '':10.0.0.9'')" "hex_group ''10.0.0.9'' 0 0 = Some (16, 2, ''.0.0.9'')"
  "v4_fields ''10.0.0.9'' 0 0 [] = Some [10, 0, 0, 9]"
  by (simp_all add: hex_val_def is_digit_def digit_val_def)

lemma demo_mapped: "ParseIP ''::ffff:10.0.0.9'' = Some (v4_mapped [10, 0, 0, 9])"
proof -
  have "v6_groups 8 ''ffff:10.0.0.9'' [] (Some 0) = Some ([255, 255, 10, 0, 0, 9], Some 0, [])"
    using v6_groups.simps(2) [of 7 "''ffff:10.0.0.9''"] v6_groups.simps(2) [of 6 "''10.0.0.9''"]
    by (simp add: demo_groups del: hex_group.simps v4_fields.simps)
  moreover have "expand_ellipsis [255, 255, 10, 0, 0, 9] (Some 0) = Some (v4_mapped [10, 0, 0, 9])"
    by (simp add: expand_ellipsis_def v4_mapped_def)
  ultimately show ?thesis by (simp add: ParseIP_def parse_v6_def)
qed

lemma demo_valid:
  "valid_row ''db'' ''10.0.0.2''" "\<not> valid_row ''bad'' ''10.0.0.256''" "valid_row ''v6'' ''::ffff:10.0.0.9''"
  "valid_row ''web'' ''10.0.0.3''"
proof -
  show "valid_row ''v6'' ''::ffff:10.0.0.9''" by (simp add: valid_row_def demo_mapped)
qed (simp_all add: valid_row_def ParseIP_def is_digit_def digit_val_def)

lemma demo_header: "header_step (\<lambda>x. x) (Suc 0) ''IPv4'' (header_step (\<lambda>x. x) 0 ''Server Name'' (- 1, - 1)) = (0, 1)"
  by code_simp

lemma demo_import:
  "fst (ImportServers demo_service (demo_sheet demo_rows) [] demo_servers) =
     Returns (Inr \<lparr>IR_SuccessCount = 2, IR_SuccessfulServers = [''db'', ''v6''], IR_FailCount = 2,
       IR_FailedServers = [''bad (10.0.0.256) - Invalid Format'', ''web (10.0.0.3)'']\<rparr>)"
  by (simp add: ImportServers_def demo_sheet_def demo_rows_def maxFileSize_def demo_header column_def demo_valid
      processBatch_def batchSize_def imported_def FindByNamesOrIPv4s_def BatchCreate_def split_batch.simps
      no_result_def add_success_def add_failure_def BatchUpsert_def wrap32_def demo_eval)

theorem import_accounts_for_rows_witness:
  "\<exists>r s' created. ImportServers demo_service (demo_sheet demo_rows) [] demo_servers = (Returns (Inr r), s')
     \<and> rows (st_servers s') = rows (st_servers demo_servers) @ created \<and> map S_ServerName created = [''db'', ''v6'']"
proof -
  obtain r s' where i: "ImportServers demo_service (demo_sheet demo_rows) [] demo_servers = (Returns (Inr r), s')"
    "IR_SuccessfulServers r = [''db'', ''v6'']"
    using demo_import by (metis ImportResult.select_convs(2) prod.collapse)
  have "xl_open (demo_sheet demo_rows) [] = Some \<lparr>wb_sheet = ''Sheet1'', wb_rows = Inr (hd demo_rows # tl demo_rows)\<rparr>"
    by (simp add: demo_sheet_def demo_rows_def)
  from import_accounts_for_rows [OF demo_server_store this surjective_pairing i(1)] i
  show ?thesis by auto
qed

definition demo_filter :: ServerListFilter where
  "demo_filter = \<lparr>F_Page = 0, F_PageSize = 1000, F_Status = ''ONLINE'', F_Name = [], F_CreatedFrom = 0, F_CreatedTo = 0,
     F_SortBy = [], F_SortDirection = []\<rparr>"

lemma demo_search: "fst (SearchServers demo_service demo_filter demo_servers) = Inr ([demo_server], 1)"
  by (simp add: SearchServers_def Search_def demo_filter_def clamp_filter_def search_where_def IsValid_def wrap32_def
      demo_eval search_offset_def search_order_def)

theorem search_servers_page_witness:
  "\<exists>xs n s'. SearchServers demo_service demo_filter demo_servers = (Inr (xs, n), s') \<and> length xs \<le> 100 \<and> n = 1"
proof -
  obtain s' where "SearchServers demo_service demo_filter demo_servers = (Inr ([demo_server], 1), s')"
    using demo_search by (metis prod.collapse)
  with search_servers_page [OF demo_server_store this] show ?thesis by blast
qed

end
