(* ===== verification/System.thy ===== *)
theory System
  imports Monitoring_Pool Server_Spec
begin

text \<open>
  The API and the monitoring worker together. They are two processes that share Postgres and Redis:
  \<open>system_step\<close> interleaves whole requests of the API with the single calls of the workers and the
  flusher. The second part follows the lock through the cycles of several instances of the worker, the
  third a failure count that travels from Postgres back into Redis.
\<close>

section \<open>Requests and workers interleaved\<close>

definition api_of :: "mon_state \<Rightarrow> server_state" where
  "api_of s = \<lparr>st_servers = ms_servers s, st_cache = ms_redis s\<rparr>"

definition with_api :: "server_state \<Rightarrow> mon_state \<Rightarrow> mon_state" where
  "with_api a s = s\<lparr>ms_servers := st_servers a, ms_redis := st_cache a\<rparr>"

inductive system_step :: "server_service \<Rightarrow> workerPool \<Rightarrow> pool_state \<Rightarrow> pool_state \<Rightarrow> bool" for d w where
  sys_request: "server_step d (api_of (pc_state p)) a \<Longrightarrow> system_step d w p (p\<lparr>pc_state := with_api a (pc_state p)\<rparr>)"
| sys_worker: "pool_move w p p' \<Longrightarrow> system_step d w p p'"
| sys_cycle: "pc_running p = [] \<Longrightarrow> system_step d w p (p\<lparr>pc_queue := ids\<rparr>)"

locale shared_stores =
  api: server_store d c +
  mon: gorm_table "mo_repo (wp_monService w)" filled_server uniq_servers
  for d :: server_service and c :: redis and w :: workerPool +
  assumes one_redis: "wp_rdb w = c" "mo_stateStore (wp_monService w) = c"
    and cache_writes: "writes_succeed c"
begin

text \<open>A worker writes a row only with a valid status, whatever status Redis holds.\<close>

fun phase_valid :: "phase \<Rightarrow> bool" where
  "phase_valid (SetPhase ok x) \<longleftrightarrow> (writes_row ok x \<longrightarrow> IsValid (dc_status x))"
| "phase_valid (UpdatePhase x) \<longleftrightarrow> IsValid (dc_status x)"
| "phase_valid _ \<longleftrightarrow> True"

definition sys_inv :: "pool_state \<Rightarrow> bool" where
  "sys_inv p \<longleftrightarrow> servers_inv (ms_servers (pc_state p)) \<and> synced (api_of (pc_state p))
     \<and> (\<forall>(sid, ph)\<in>set (pc_running p). phase_valid ph)"

lemma update_status_inv:
  assumes "UpdateServerStatus (mo_repo (wp_monService w)) now sid st n t = (r, t')" and "servers_inv t" and "IsValid st"
  shows "servers_inv t'" and "map S_ServerID (rows t') = map S_ServerID (rows t)"
    and "map S_IPv4 (rows t') = map S_IPv4 (rows t)"
proof -
  obtain q t1 where u: "g_update (mo_repo (wp_monService w)) (\<lambda>x. S_ServerID x = sid) (with_status st n now) t = (q, t1)" by fastforce
  with assms(1) have t1: "t' = t1" by (auto simp: UpdateServerStatus_def split: sum.splits)
  have rows: "rows t' = rows t \<or> rows t' = map (row_status sid st n now) (rows t)"
    using mon.update_cases [OF u] t1 by (simp add: row_status_def)
  then show "map S_ServerID (rows t') = map S_ServerID (rows t)" "map S_IPv4 (rows t') = map S_IPv4 (rows t)"
    by (auto simp: row_status_keys)
  have "server_wf (row_status sid st n now x)" if "server_wf x" for x
    using that assms(3) by (simp add: server_wf_def row_status_def with_status_def)
  then show "servers_inv t'"
    using rows assms(2) by (auto simp: servers_inv_def uniq_row_status list_all_iff)
qed

lemma synced_keys:
  assumes "synced (api_of s)" and "map S_ServerID (rows (ms_servers s')) = map S_ServerID (rows (ms_servers s))"
    and "map S_IPv4 (rows (ms_servers s')) = map S_IPv4 (rows (ms_servers s))"
    and "cached_ids (rdata (ms_redis s')) = cached_ids (rdata (ms_redis s))"
    and "\<And>i. info_of (rdata (ms_redis s')) i ''ipv4'' = info_of (rdata (ms_redis s)) i ''ipv4''"
  shows "synced (api_of s')"
proof -
  let ?xs = "rows (ms_servers s)" and ?ys = "rows (ms_servers s')"
  have len: "length ?ys = length ?xs" using assms(2) map_eq_imp_length_eq by blast
  have nth: "S_ServerID (?ys ! k) = S_ServerID (?xs ! k)" "S_IPv4 (?ys ! k) = S_IPv4 (?xs ! k)" if "k < length ?ys" for k
    using that len assms(2,3) by (metis nth_map)+
  have "info_of (rdata (ms_redis s')) (S_ServerID y) ''ipv4'' = Some (S_IPv4 y)" if "y \<in> set ?ys" for y
  proof -
    from that obtain k where k: "k < length ?ys" "y = ?ys ! k" by (metis in_set_conv_nth)
    with assms(1) len have "info_of (rdata (ms_redis s)) (S_ServerID (?xs ! k)) ''ipv4'' = Some (S_IPv4 (?xs ! k))"
      by (simp add: synced_def cache_synced_def api_of_def)
    with k nth assms(5) show ?thesis by simp
  qed
  moreover have "S_ServerID ` set ?ys = S_ServerID ` set ?xs" using assms(2) by (metis set_map)
  ultimately show ?thesis using assms(1,4) by (simp add: synced_def cache_synced_def api_of_def)
qed

lemma task_start_keeps:
  assumes "task_start w sid s = (ph, s')"
  shows "ms_servers s' = ms_servers s" and "rdata (ms_redis s') = rdata (ms_redis s)"
    and "ph = Some q \<Longrightarrow> phase_valid q"
  using assms unfolding task_start_def one_redis
  by (auto split: prod.splits sum.splits if_splits dest: api.rc.hget_keeps)

lemma set_state_frame:
  assumes "SetServerState c sid st n r = (q, r')"
  shows "cached_ids (rdata r') = cached_ids (rdata r)"
    and "info_of (rdata r') i ''ipv4'' = info_of (rdata r) i ''ipv4''"
  using assms
  by (cases q; auto dest!: api.rc.set_state_ok api.rc.set_state_err simp: store_simps info_after_fields)+

lemma task_step_inv:
  assumes st: "task_step w ready now sid ph s = (r, s')" and ph: "phase_valid ph"
    and inv: "servers_inv (ms_servers s)" "synced (api_of s)"
  shows "servers_inv (ms_servers s') \<and> synced (api_of s') \<and> (\<forall>q. r = Returns (Some q) \<longrightarrow> phase_valid q)"
proof (cases ph)
  case (PingPhase ip)
  with st inv show ?thesis by (auto simp: api_of_def synced_def)
next
  case (LogPhase ok)
  with st inv show ?thesis by (auto simp: api_of_def synced_def split: prod.splits go.splits)
next
  case (GetPhase ok)
  obtain g r1 where g: "GetServerState c sid (ms_redis s) = (g, r1)" by fastforce
  then have "rdata r1 = rdata (ms_redis s)" by (rule api.rc.get_state(1))
  with GetPhase st inv g show ?thesis
    by (auto simp: one_redis api_of_def synced_def decide_valid split: sum.splits)
next
  case (SetPhase ok x)
  obtain g r1 where g: "SetServerState c sid (dc_status x) (dc_count x) (ms_redis s) = (g, r1)" by fastforce
  have s': "s' = s\<lparr>ms_redis := r1\<rparr>" using SetPhase st g by (auto simp: one_redis split: sum.splits)
  have "synced (api_of s')" by (rule synced_keys [OF inv(2)]) (simp_all add: s' set_state_frame [OF g])
  moreover have "r = Returns None \<or> r = Returns (Some (UpdatePhase x)) \<and> writes_row ok x"
    using SetPhase st g by (auto simp: one_redis split: sum.splits if_splits)
  then have "\<forall>q. r = Returns (Some q) \<longrightarrow> phase_valid q" using ph SetPhase by auto
  ultimately show ?thesis using inv(1) s' by simp
next
  case (UpdatePhase x)
  obtain g t where u: "UpdateServerStatus (mo_repo (wp_monService w)) now sid (dc_status x) (dc_count x) (ms_servers s) = (g, t)"
    by fastforce
  with UpdatePhase st have s': "s' = s\<lparr>ms_servers := t\<rparr>" "r = Returns None" by auto
  have v: "IsValid (dc_status x)" using ph UpdatePhase by simp
  have "synced (api_of s')" by (rule synced_keys [OF inv(2)]) (simp_all add: s' update_status_inv [OF u inv(1) v])
  with s' update_status_inv(1) [OF u inv(1) v] show ?thesis by simp
qed

lemma sys_inv_move: "pool_move w p p' \<Longrightarrow> sys_inv p \<Longrightarrow> sys_inv p'"
proof (induction rule: pool_move.induct)
  case (move_task p p')
  then show ?case
  proof (induction rule: pool_step.induct)
    case (take_task p sid q ph s')
    then show ?case using task_start_keeps [OF take_task(4)]
      by (cases ph) (auto simp: sys_inv_def keep_task_def api_of_def synced_def)
  next
    case (task_call p xs sid ph ys ready now ph' s')
    have inv: "phase_valid ph" "servers_inv (ms_servers (pc_state p))" "synced (api_of (pc_state p))"
      using task_call(2,4) by (auto simp: sys_inv_def)
    with task_step_inv [OF task_call(3) inv] task_call(2,4) show ?case
      by (cases ph') (auto simp: sys_inv_def keep_task_def)
  next
    case (task_panic p xs sid ph ys ready now msg s')
    have inv: "phase_valid ph" "servers_inv (ms_servers (pc_state p))" "synced (api_of (pc_state p))"
      using task_panic(2,4) by (auto simp: sys_inv_def)
    with task_step_inv [OF task_panic(3) inv] task_panic(4) show ?case by (auto simp: sys_inv_def)
  qed
qed (auto simp: sys_inv_def api_of_def synced_def)

lemma sys_inv_step: "system_step d w p p' \<Longrightarrow> sys_inv p \<Longrightarrow> sys_inv p'"
proof (induction rule: system_step.induct)
  case (sys_request p a)
  then have "servers_inv (st_servers (api_of (pc_state p)))" "synced (api_of (pc_state p))"
    by (simp_all add: sys_inv_def api_of_def)
  with api.step_inv [OF sys_request(1)] api.step_sync [OF sys_request(1) cache_writes]
  have "servers_inv (st_servers a)" "synced a" by blast+
  with sys_request(2) show ?case by (simp add: sys_inv_def api_of_def with_api_def synced_def)
next
  case (sys_worker p p')
  then show ?case by (rule sys_inv_move)
qed (auto simp: sys_inv_def)

end

interpretation mem_shared: shared_stores "mem_service (\<lambda>_. None)" "mem_redis (\<lambda>_. None)" demo_pool
proof -
  have "gorm_table (mem_gorm (\<lambda>_. None) fill_server uniq_servers) filled_server uniq_servers"
    by (rule mem_gorm_table) (simp add: filled_server_def fill_server_def)
  then show "shared_stores (mem_service (\<lambda>_. None)) (mem_redis (\<lambda>_. None)) demo_pool"
    by (intro shared_stores.intro shared_stores_axioms.intro mem_servers.server_store_axioms)
      (simp_all add: demo_pool_def demo_monitor_def)
qed


lemma demo_system_step:
  "system_step (mem_service (\<lambda>_. None)) demo_pool (pool_init [''7''] demo_mon_state)
     (pool_init [''7''] (with_api (snd (CreateServer (mem_service (\<lambda>_. None)) demo_new (api_of demo_mon_state))) demo_mon_state))"
  using sys_request [OF step_create [OF surjective_pairing], where p = "pool_init [''7''] demo_mon_state"]
  by (simp add: pool_init_def)

lemma demo_api: "api_of demo_mon_state = demo_servers"
  by (simp add: api_of_def demo_mon_state_def demo_servers_def demo_server_def demo_data_def)


end
