(* ===== verification/Cycles.thy ===== *)
theory Cycles
  imports System
begin

text \<open>
  The cycles of several instances of the monitoring worker, and what the lock between them gives. A
  trace lists the attempts with their times and outcomes; between them other processes may do anything
  that leaves the key of the lock alone.
\<close>

section \<open>A cycle leaves the lock as it acquired it\<close>

definition lock_entry :: "env \<Rightarrow> mon_state \<Rightarrow> (string \<times> time option) option" where
  "lock_entry env s = rstrs (rdata (ms_redis s)) (lock_key env)"

definition one_client :: "workerPool \<Rightarrow> bool" where
  "one_client w \<longleftrightarrow> redis_client (wp_rdb w) \<and> mo_stateStore (wp_monService w) = wp_rdb w"

lemma task_start_strings:
  assumes "one_client w" and "task_start w sid s = (ph, s')"
  shows "rstrs (rdata (ms_redis s')) = rstrs (rdata (ms_redis s))"
proof -
  have rc: "redis_client (wp_rdb w)" using assms(1) by (simp add: one_client_def)
  obtain g r where g: "r_hget (wp_rdb w) (ServerInfoKey sid) ''ipv4'' (ms_redis s) = (g, r)" by fastforce
  with redis_client.hget_keeps [OF rc g] assms(2) show ?thesis
    by (auto simp: task_start_def split: sum.splits if_splits)
qed

lemma task_step_strings:
  assumes "one_client w" and st: "task_step w ready now sid ph s = (r, s')"
  shows "rstrs (rdata (ms_redis s')) = rstrs (rdata (ms_redis s))"
proof -
  have rc: "redis_client (mo_stateStore (wp_monService w))" using assms(1) by (simp add: one_client_def)
  show ?thesis
  proof (cases ph)
    case (GetPhase ok)
    obtain g r1 where g: "GetServerState (mo_stateStore (wp_monService w)) sid (ms_redis s) = (g, r1)" by fastforce
    with redis_client.get_state(1) [OF rc g] GetPhase st show ?thesis by (auto split: sum.splits)
  next
    case (SetPhase ok d)
    obtain g r1 where g: "SetServerState (mo_stateStore (wp_monService w)) sid (dc_status d) (dc_count d) (ms_redis s) = (g, r1)"
      by fastforce
    have "rstrs (rdata r1) = rstrs (rdata (ms_redis s))"
      using g redis_client.set_state_ok [OF rc] redis_client.set_state_err [OF rc]
      by (cases g) (auto simp: do_hset_def)
    with g SetPhase st show ?thesis by (auto split: sum.splits)
  qed (use st in \<open>auto split: prod.splits go.splits\<close>)
qed

lemma pool_move_strings:
  assumes "one_client w" and "pool_move w p p'"
  shows "rstrs (rdata (ms_redis (pc_state p'))) = rstrs (rdata (ms_redis (pc_state p)))"
  using assms(2)
proof cases
  case move_task
  from move_task show ?thesis
    by cases (auto dest: task_start_strings [OF assms(1)] task_step_strings [OF assms(1)])
qed simp

lemma pool_run_strings:
  assumes "one_client w" and "pool_Run w s res s'"
  shows "rstrs (rdata (ms_redis s')) = rstrs (rdata (ms_redis s))"
  using assms(2)
proof cases
  case (run_error e r)
  then show ?thesis using assms(1) redis_client.smembers_keeps by (auto simp: one_client_def)
next
  case (run_ids ids r p)
  have "rstrs (rdata (ms_redis (pc_state p))) = rstrs (rdata (ms_redis (pc_state (pool_init ids (s\<lparr>ms_redis := r\<rparr>)))))"
    using run_ids(4) by induction (auto dest: pool_move_strings [OF assms(1)])
  moreover have "rdata r = rdata (ms_redis s)"
    using run_ids(3) assms(1) redis_client.smembers_keeps by (auto simp: one_client_def)
  ultimately show ?thesis using run_ids(2) by (simp add: pool_init_def)
qed

lemma cycle_lock:
  assumes "one_client w" and "runCycle env w now s out s'"
  shows "(case out of
      CycleRan res \<Rightarrow> \<not> str_live now (lock_key env) (rdata (ms_redis s)) \<and>
        lock_entry env s' = Some (''locked'', if lock_expiration env \<le> 0 then None else Some (now + lock_expiration env))
    | _ \<Rightarrow> lock_entry env s' = lock_entry env s)"
proof -
  have rc: "redis_client (wp_rdb w)" using assms(1) by (simp add: one_client_def)
  from assms(2) show ?thesis
  proof cases
    case (cycle_error e r)
    then show ?thesis using redis_client.setnx_err [OF rc]
      by (auto simp: AcquireLock_def lock_entry_def split: prod.splits)
  next
    case (cycle_taken r)
    then have "rdata r = rdata (ms_redis s)"
      by (auto simp: AcquireLock_def split: prod.splits dest!: redis_client.setnx_ok [OF rc])
    with cycle_taken show ?thesis by (simp add: lock_entry_def)
  next
    case (cycle_runs r res)
    then have "r_setnx (wp_rdb w) now (lock_key env) ''locked'' (lock_expiration env) (ms_redis s) = (Inr True, r)"
      by (auto simp: AcquireLock_def split: prod.splits)
    from redis_client.setnx_ok [OF rc this] have
      "\<not> str_live now (lock_key env) (rdata (ms_redis s))"
      "rdata r = do_set now (lock_key env) ''locked'' (lock_expiration env) (rdata (ms_redis s))" by simp_all
    moreover have "rstrs (rdata (ms_redis s')) = rstrs (rdata r)"
      using pool_run_strings [OF assms(1) cycle_runs(3)] by simp
    ultimately show ?thesis using cycle_runs(1) by (simp add: lock_entry_def do_set_def)
  qed
qed

section \<open>Traces of cycles\<close>

inductive cycles :: "env \<Rightarrow> (time \<times> cycle_outcome) list \<Rightarrow> mon_state \<Rightarrow> bool" for env where
  no_cycle: "cycles env [] s"
| next_cycle: "cycles env tr s \<Longrightarrow> one_client w \<Longrightarrow> runCycle env w now s out s' \<Longrightarrow> cycles env (tr @ [(now, out)]) s'"
| elsewhere: "cycles env tr s \<Longrightarrow> lock_entry env s' = lock_entry env s \<Longrightarrow> cycles env tr s'"

definition ran_times :: "(time \<times> cycle_outcome) list \<Rightarrow> time list" where
  "ran_times tr = map fst (filter (\<lambda>(_, out). case out of CycleRan _ \<Rightarrow> True | _ \<Rightarrow> False) tr)"

text \<open>From the times at which the pool ran, the entry of the lock follows.\<close>

definition lock_guards :: "env \<Rightarrow> time list \<Rightarrow> mon_state \<Rightarrow> bool" where
  "lock_guards env ts s \<longleftrightarrow>
     (\<forall>t\<in>set ts. case lock_entry env s of
        None \<Rightarrow> False
      | Some (_, None) \<Rightarrow> True
      | Some (_, Some x) \<Rightarrow> 0 < lock_expiration env \<and> t + lock_expiration env \<le> x)"

lemma lock_guards_free:
  assumes "lock_guards env ts s" and "\<not> str_live now (lock_key env) (rdata (ms_redis s))" and "t \<in> set ts"
  shows "0 < lock_expiration env \<and> t + lock_expiration env \<le> now"
  using assms by (auto simp: lock_guards_def str_live_def lock_entry_def split: option.splits)

lemma cycles_guarded:
  "cycles env tr s \<Longrightarrow> lock_guards env (ran_times tr) s \<and>
     sorted_wrt (\<lambda>a b. 0 < lock_expiration env \<and> a + lock_expiration env \<le> b) (ran_times tr)"
proof (induction rule: cycles.induct)
  case (next_cycle tr s w now out s')
  note lock = cycle_lock [OF next_cycle(2,3)]
  show ?case
  proof (cases out)
    case (CycleRan res)
    with lock have free: "\<not> str_live now (lock_key env) (rdata (ms_redis s))"
      and entry: "lock_entry env s' = Some (''locked'', if lock_expiration env \<le> 0 then None else Some (now + lock_expiration env))"
      by simp_all
    have "0 < lock_expiration env \<and> t + lock_expiration env \<le> now" if "t \<in> set (ran_times tr)" for t
      using lock_guards_free free next_cycle(4) that by blast
    moreover have "ran_times (tr @ [(now, out)]) = ran_times tr @ [now]" using CycleRan by (simp add: ran_times_def)
    ultimately show ?thesis
      using next_cycle(4) entry by (force simp: lock_guards_def sorted_wrt_append)
  qed (use lock next_cycle(4) in \<open>simp_all add: ran_times_def lock_guards_def\<close>)
qed (simp_all add: lock_guards_def ran_times_def)

lemma sorted_wrt_single: "sorted_wrt (\<lambda>a b. P \<and> Q a b) xs \<Longrightarrow> P \<or> length xs \<le> 1"
  by (cases xs rule: remdups_adj.cases) auto

text \<open>C28: The lock separates the cycles of all instances. In any sequence of cycle attempts by any instances
  that share the lock, two attempts that run the pool are at least the expiration of the lock apart;
  with an expiration that is not positive at most one attempt ever runs the pool, because the key then
  never expires.\<close>

theorem cycles_apart:
  assumes "cycles env tr s"
  shows "sorted_wrt (\<lambda>a b. 0 < lock_expiration env \<and> a + lock_expiration env \<le> b) (ran_times tr)
    \<and> (0 < lock_expiration env \<or> length (ran_times tr) \<le> 1)"
  using cycles_guarded [OF assms]
    sorted_wrt_single [of "0 < lock_expiration env" "\<lambda>a b. a + lock_expiration env \<le> b" "ran_times tr"] by simp

text \<open>Two cycles, half a minute apart, over an empty set of servers.\<close>

definition demo_idle :: "nat \<Rightarrow> (string \<times> time option) option \<Rightarrow> mon_state" where
  "demo_idle n lock = demo_mon_state\<lparr>ms_redis := \<lparr>rdata = \<lparr>hashes = (\<lambda>_. []), rsets = (\<lambda>_. []),
     rstrs = (\<lambda>_. None)(''lock:monitoring_worker'' := lock)\<rparr>, renv = n\<rparr>\<rparr>"

lemma demo_client: "one_client demo_pool"
  by (simp add: one_client_def demo_pool_def demo_monitor_def mr.redis_client_axioms)

lemma demo_lock: "lock_key (\<lambda>_. []) = ''lock:monitoring_worker''" "lock_expiration (\<lambda>_. []) = 25 * second"
  by (simp_all add: lock_key_def lock_expiration_def)

lemma demo_cycle:
  assumes "case lock of None \<Rightarrow> True | Some (_, None) \<Rightarrow> False | Some (_, Some x) \<Rightarrow> x \<le> now"
    and key: "lock_key env = ''lock:monitoring_worker''"
  shows "runCycle env demo_pool now (demo_idle n lock) (CycleRan (Inr ()))
    (demo_idle (Suc (Suc n)) (Some (''locked'', if lock_expiration env \<le> 0 then None else Some (now + lock_expiration env))))"
proof -
  let ?l = "Some (''locked'', if lock_expiration env \<le> 0 then None else Some (now + lock_expiration env))"
  have a: "AcquireLock (Iface (wp_rdb demo_pool)) now (lock_key env) (lock_expiration env) (ms_redis (demo_idle n lock))
      = (Returns (Inr True), ms_redis (demo_idle (Suc n) ?l))"
    using assms by (auto simp: AcquireLock_def demo_pool_def mem_redis_engine demo_idle_def str_live_def do_set_def
        split: option.splits)
  let ?s = "(demo_idle n lock)\<lparr>ms_redis := ms_redis (demo_idle (Suc n) ?l)\<rparr>"
  have m: "r_smembers (wp_rdb demo_pool) ServerAllIDsKey (ms_redis ?s) = (Inr [], ms_redis (demo_idle (Suc (Suc n)) ?l))"
    by (simp add: demo_pool_def mem_redis_engine demo_idle_def)
  have "pool_Run demo_pool ?s (Inr ()) (pc_state (pool_init [] (?s\<lparr>ms_redis := ms_redis (demo_idle (Suc (Suc n)) ?l)\<rparr>)))"
    using run_ids [OF m rtranclp.rtrancl_refl] by (simp add: pool_init_def pool_done_def)
  then have "pool_Run demo_pool ?s (Inr ()) (demo_idle (Suc (Suc n)) ?l)"
    by (simp add: pool_init_def demo_idle_def)
  with a show ?thesis by (rule cycle_runs)
qed

lemma demo_cycles:
  "\<exists>s. cycles (\<lambda>_. []) [(0, CycleRan (Inr ())), (30 * second, CycleRan (Inr ()))] s"
  using next_cycle [OF next_cycle [OF no_cycle demo_client demo_cycle [where lock = None and now = 0 and env = "\<lambda>_. []"]]
      demo_client demo_cycle [where now = "30 * second"]] demo_lock by auto

theorem cycles_apart_witness:
  "\<exists>s. cycles (\<lambda>_. []) [(0, CycleRan (Inr ())), (30 * second, CycleRan (Inr ()))] s
     \<and> sorted_wrt (\<lambda>a b. 0 < lock_expiration (\<lambda>_. []) \<and> a + lock_expiration (\<lambda>_. []) \<le> b) [0, 30 * second]"
proof -
  obtain s where s: "cycles (\<lambda>_. []) [(0, CycleRan (Inr ())), (30 * second, CycleRan (Inr ()))] s"
    using demo_cycles by blast
  with cycles_apart [OF s] show ?thesis by (auto simp: ran_times_def)
qed

text \<open>C29: An expiration written as a bare number, such as \<open>25\<close> for 25 seconds, stops monitoring: the value does not
  parse as a duration, its error is ignored and the lock is taken with no expiry, so that over any
  sequence of attempts by any instances, however long, at most one cycle runs.\<close>

theorem bare_expiration_stops_monitoring:
  assumes "0 < n" and "cycles (env(''MONITORING_WORKER_LOCK_EXPIRATION'' := nat_string n)) tr s"
  shows "length (ran_times tr) \<le> 1"
proof -
  have "lock_expiration (env(''MONITORING_WORKER_LOCK_EXPIRATION'' := nat_string n)) = 0"
    using parse_bare_number [OF assms(1)] by (simp add: lock_expiration_def GetEnvDuration_def)
  then show ?thesis using cycles_guarded [OF assms(2)] sorted_wrt_single by fastforce
qed

definition demo_bare_env :: env where
  "demo_bare_env = (\<lambda>_. [])(''MONITORING_WORKER_LOCK_EXPIRATION'' := nat_string 25)"

lemma demo_bare_cycles:
  "\<exists>s. cycles demo_bare_env [(0, CycleRan (Inr ())), (1000000 * hour, NotAcquired)] s"
proof -
  have e: "lock_key demo_bare_env = ''lock:monitoring_worker''" "lock_expiration demo_bare_env = 0"
    using parse_bare_number [of 25]
    by (simp_all add: demo_bare_env_def lock_key_def lock_expiration_def GetEnvDefault_def GetEnvDuration_def)
  let ?s = "demo_idle 2 (Some (''locked'', None))"
  have c1: "cycles demo_bare_env ([] @ [(0, CycleRan (Inr ()))]) ?s"
    using next_cycle [OF no_cycle demo_client demo_cycle [where lock = None and now = 0 and env = demo_bare_env and n = 0]] e by (simp add: numeral_2_eq_2)
  have "AcquireLock (Iface (wp_rdb demo_pool)) (1000000 * hour) (lock_key demo_bare_env) (lock_expiration demo_bare_env) (ms_redis ?s)
      = (Returns (Inr False), ms_redis (demo_idle 3 (Some (''locked'', None))))"
    by (simp add: AcquireLock_def demo_pool_def mem_redis_engine demo_idle_def str_live_def e)
  from next_cycle [OF c1 demo_client cycle_taken [OF this]] show ?thesis by auto
qed

theorem bare_expiration_stops_monitoring_witness:
  "\<exists>s. cycles demo_bare_env [(0, CycleRan (Inr ())), (1000000 * hour, NotAcquired)] s
     \<and> length (ran_times [(0, CycleRan (Inr ())), (1000000 * hour, NotAcquired)]) \<le> 1"
  using demo_bare_cycles
    bare_expiration_stops_monitoring [of 25 "\<lambda>_. []" "[(0, CycleRan (Inr ())), (1000000 * hour, NotAcquired)]"]
  unfolding demo_bare_env_def by fastforce

section \<open>A failure count that comes back\<close>

text \<open>The calls of \<open>k\<close> failed pings and a successful one.\<close>

definition flap :: "nat \<Rightarrow> eval_call list" where
  "flap k = replicate k (True, 0, [], False) @ [(True, 0, [], True)]"

lemma replicate_Suc_snoc: "replicate (Suc k) x = replicate k x @ [x]"
  by (simp add: replicate_append_same)

definition rows_ok :: "Server tbl \<Rightarrow> bool" where
  "rows_ok t \<longleftrightarrow> servers_inv t \<and> (\<forall>x\<in>set (rows t). S_ConsecutiveFailures x \<in> {min_int64..max_int64})"

lemma rows_ok_status:
  assumes "rows_ok t" and "IsValid st" and "min_int64 \<le> n" "n \<le> max_int64"
    and "rows t' = map (row_status sid st n now) (rows t)"
  shows "rows_ok t'"
proof -
  have "server_wf (row_status sid st n now x)" if "server_wf x" for x
    using that assms(2) by (simp add: server_wf_def row_status_def with_status_def)
  moreover have "S_ConsecutiveFailures (row_status sid st n now x) \<in> {min_int64..max_int64}"
    if "S_ConsecutiveFailures x \<in> {min_int64..max_int64}" for x
    using that assms(3,4) by (simp add: row_status_def with_status_def)
  ultimately show ?thesis
    using assms(1,5) by (auto simp: rows_ok_def servers_inv_def uniq_row_status list_all_iff)
qed

context monitor_stores
begin

lemma evaluate_rows:
  assumes "Evaluate m ready now sid ip b s = (r, s')"
  shows "rows (ms_servers s') = rows (ms_servers s) \<or>
    (\<exists>x. writes_row b (decide (mo_failureThreshold m) b x) \<and> rows (ms_servers s') =
      map (row_status sid (dc_status (decide (mo_failureThreshold m) b x))
        (dc_count (decide (mo_failureThreshold m) b x)) now) (rows (ms_servers s)))"
proof -
  have u: "rows t' = rows t \<or> rows t' = map (row_status sid st n now) (rows t)"
    if "UpdateServerStatus (mo_repo m) now sid st n t = (q, t')" for st n t q t'
  proof -
    obtain q1 t1 where "g_update (mo_repo m) (\<lambda>x. S_ServerID x = sid) (with_status st n now) t = (q1, t1)" by fastforce
    with that tbl.update_cases [OF this] show ?thesis
      by (auto simp: UpdateServerStatus_def row_status_def split: sum.splits)
  qed
  have "ms_servers s' = ms_servers s \<or>
    (\<exists>x g. writes_row b (decide (mo_failureThreshold m) b x) \<and> UpdateServerStatus (mo_repo m) now sid
        (dc_status (decide (mo_failureThreshold m) b x)) (dc_count (decide (mo_failureThreshold m) b x)) (ms_servers s)
      = (g, ms_servers s'))"
    using assms by (auto simp: Evaluate_def Let_def split: prod.splits go.splits sum.splits if_splits)
  with u show ?thesis by metis
qed

lemma evaluations_rows:
  "rows_ok (ms_servers s) \<Longrightarrow> rows_ok (ms_servers (evaluations m sid calls s)) \<and>
     map S_ServerID (rows (ms_servers (evaluations m sid calls s))) = map S_ServerID (rows (ms_servers s)) \<and>
     map S_ServerName (rows (ms_servers (evaluations m sid calls s))) = map S_ServerName (rows (ms_servers s)) \<and>
     map S_IPv4 (rows (ms_servers (evaluations m sid calls s))) = map S_IPv4 (rows (ms_servers s))"
proof (induction calls rule: rev_induct)
  case (snoc c calls)
  let ?s = "evaluations m sid calls s"
  obtain ready now ip b where c: "c = (ready, now, ip, b)" by (metis prod_cases4)
  obtain r s' where ev: "Evaluate m ready now sid ip b ?s = (r, s')" by fastforce
  have s': "evaluations m sid (calls @ [c]) s = s'" using ev by (simp add: evaluations_def evaluate_call_def c)
  from evaluate_rows [OF ev] show ?case
  proof
    assume "rows (ms_servers s') = rows (ms_servers ?s)"
    with snoc s' show ?thesis by (simp add: rows_ok_def servers_inv_def)
  next
    assume "\<exists>x. writes_row b (decide (mo_failureThreshold m) b x) \<and> rows (ms_servers s') =
      map (row_status sid (dc_status (decide (mo_failureThreshold m) b x))
        (dc_count (decide (mo_failureThreshold m) b x)) now) (rows (ms_servers ?s))"
    then obtain x where v: "IsValid (dc_status (decide (mo_failureThreshold m) b x))" and
      rows: "rows (ms_servers s') = map (row_status sid (dc_status (decide (mo_failureThreshold m) b x))
        (dc_count (decide (mo_failureThreshold m) b x)) now) (rows (ms_servers ?s))"
      using decide_valid by blast
    have "rows_ok (ms_servers s')"
      using rows_ok_status [OF _ v decide_bounds rows] snoc by blast
    with snoc s' rows show ?thesis by (simp add: row_status_keys)
  qed
qed (simp add: evaluations_def)

lemma failures_view:
  assumes "mon_ok s" and "server_view s sid = (Some \<lparr>SS_Status = ServerStatusOnline, SS_RetryCount = 0\<rparr>, [(ServerStatusOnline, n)])"
    and "int k < mo_failureThreshold m" and "mo_failureThreshold m \<le> max_int64"
  shows "mon_ok (evaluations m sid (replicate k (True, 0, [], False)) s) \<and>
    server_view (evaluations m sid (replicate k (True, 0, [], False)) s) sid =
      (Some \<lparr>SS_Status = ServerStatusOnline, SS_RetryCount = int k\<rparr>, [(ServerStatusOnline, if k = 0 then n else int k)])"
  using assms(3)
proof (induction k)
  case 0
  then show ?case using assms by (simp add: evaluations_def)
next
  case (Suc k)
  let ?s = "evaluations m sid (replicate k (True, 0, [], False)) s"
  obtain r s' where ev: "Evaluate m True 0 sid [] False ?s = (r, s')" by fastforce
  have "evaluations m sid (replicate (Suc k) (True, 0, [], False)) s = s'"
    unfolding replicate_Suc_snoc using ev by (simp add: evaluations_def evaluate_call_def)
  moreover have "wrap64 (int k + 1) = int k + 1" using Suc.prems assms(4) by (simp add: max_int64_def)
  ultimately show ?case
    using Suc evaluate_view(2,4) [OF _ ev]
    by (simp add: observe_def decide_def apply_decision_def writes_row_def)
qed

lemma flap_view:
  assumes "mon_ok s" and "server_view s sid = (Some \<lparr>SS_Status = ServerStatusOnline, SS_RetryCount = 0\<rparr>, [(ServerStatusOnline, n)])"
    and "0 < k" and "int k < mo_failureThreshold m" and "mo_failureThreshold m \<le> max_int64"
  shows "server_view (evaluations m sid (flap k) s) sid =
      (Some \<lparr>SS_Status = ServerStatusOnline, SS_RetryCount = 0\<rparr>, [(ServerStatusOnline, int k)])"
proof -
  let ?s = "evaluations m sid (replicate k (True, 0, [], False)) s"
  note * = failures_view [OF assms(1,2,4,5)]
  obtain r s' where ev: "Evaluate m True 0 sid [] True ?s = (r, s')" by fastforce
  then have "evaluations m sid (flap k) s = s'" by (simp add: flap_def evaluations_def evaluate_call_def)
  then show ?thesis
    using * evaluate_view(2) [OF _ ev] assms(3) by (simp add: observe_def decide_def apply_decision_def writes_row_def)
qed

end

text \<open>C30: Renaming a server brings an old failure count back. When \<open>k\<close> pings of an online server fail, fewer than the
  threshold, and the next one succeeds, Redis counts no failures, but Postgres keeps \<open>k\<close>; a later
  successful \<open>UpdateServer\<close> of that server copies \<open>k\<close> into Redis as the current count, so that fewer than
  the threshold of consecutive failures will mark the server offline.\<close>

theorem update_restores_stale_failures:
  assumes "monitor_stores m" and "server_store d (mo_stateStore m)" and "mon_ok s"
    and "server_view s i = (Some \<lparr>SS_Status = ServerStatusOnline, SS_RetryCount = 0\<rparr>, [(ServerStatusOnline, 0)])"
    and "0 < k" and "int k < mo_failureThreshold m" and "mo_failureThreshold m \<le> max_int64"
    and "rows_ok (ms_servers s)"
    and "UpdateServer d now i input (api_of (evaluations m i (flap k) s)) = (Returns (Inr srv), a)"
  shows "state_of (rdata (ms_redis (evaluations m i (flap k) s))) i = Some \<lparr>SS_Status = ServerStatusOnline, SS_RetryCount = 0\<rparr>
    \<and> state_of (rdata (st_cache a)) i = Some \<lparr>SS_Status = ServerStatusOnline, SS_RetryCount = int k\<rparr>"
proof -
  let ?e = "evaluations m i (flap k) s"
  have v: "server_view ?e i = (Some \<lparr>SS_Status = ServerStatusOnline, SS_RetryCount = 0\<rparr>, [(ServerStatusOnline, int k)])"
    by (rule monitor_stores.flap_view [OF assms(1,3,4,5,6,7)])
  have w: "writes_succeed (mo_stateStore m)"
    using assms(1) by (simp add: monitor_stores_def monitor_stores_axioms_def)
  have "\<exists>x\<in>set (rows (ms_servers ?e)). S_ServerID x = i \<and> state_of (rdata (st_cache a)) i
      = Some \<lparr>SS_Status = S_CurrentStatus x, SS_RetryCount = S_ConsecutiveFailures x\<rparr>"
    using update_server_effect [OF assms(2) w _ assms(9)] monitor_stores.evaluations_rows [OF assms(1,8), of i "flap k"]
    by (simp add: api_of_def rows_ok_def) blast
  then obtain x where x: "x \<in> set (rows (ms_servers ?e))" "S_ServerID x = i"
    "state_of (rdata (st_cache a)) i = Some \<lparr>SS_Status = S_CurrentStatus x, SS_RetryCount = S_ConsecutiveFailures x\<rparr>" by blast
  then have "(S_CurrentStatus x, S_ConsecutiveFailures x) \<in> set (snd (server_view ?e i))"
    by (auto simp: server_view_def)
  with v x(3) show ?thesis by (simp add: server_view_def)
qed

lemma demo_rename:
  assumes "rows (st_servers a) = [x]" and "S_ServerID x = ''7''" and "S_ServerName x = ''web''" and "S_IPv4 x = ''10.0.0.1''"
  shows "\<exists>srv. fst (UpdateServer demo_service 5 ''7'' demo_change a) = Returns (Inr srv)"
  using assms by (simp add: UpdateServer_def check_name_def check_ipv4_def demo_change_def demo_eval)

theorem update_restores_stale_failures_witness:
  "\<exists>srv a. UpdateServer demo_service 5 ''7'' demo_change (api_of (evaluations demo_monitor ''7'' (flap 1) demo_mon_state)) = (Returns (Inr srv), a)
     \<and> state_of (rdata (st_cache a)) ''7'' = Some \<lparr>SS_Status = ServerStatusOnline, SS_RetryCount = 1\<rparr>"
proof -
  let ?e = "evaluations demo_monitor ''7'' (flap 1) demo_mon_state"
  have ok: "rows_ok (ms_servers demo_mon_state)"
    using demo_inv by (simp add: rows_ok_def demo_mon_state_def demo_servers_def demo_server_def zero_server_def
        min_int64_def max_int64_def)
  note keys = monitor_stores.evaluations_rows [OF demo_monitor_stores ok, of "''7''" "flap 1"]
  then obtain x where "rows (ms_servers ?e) = [x]" "S_ServerID x = ''7''" "S_ServerName x = ''web''" "S_IPv4 x = ''10.0.0.1''"
    by (auto simp: demo_mon_state_def)
  then obtain srv where "fst (UpdateServer demo_service 5 ''7'' demo_change (api_of ?e)) = Returns (Inr srv)"
    using demo_rename [of "api_of ?e" x] by (auto simp: api_of_def)
  then obtain a where u: "UpdateServer demo_service 5 ''7'' demo_change (api_of ?e) = (Returns (Inr srv), a)"
    by (metis prod.collapse)
  have st: "server_store demo_service (mo_stateStore demo_monitor)"
    using demo_server_store by (simp add: demo_monitor_def)
  have "0 < (1 :: nat)" "int 1 < mo_failureThreshold demo_monitor" "mo_failureThreshold demo_monitor \<le> max_int64"
    by (simp_all add: demo_monitor_def max_int64_def)
  from update_restores_stale_failures [OF demo_monitor_stores st demo_mon_ok demo_view this ok u] u
  show ?thesis by auto
qed

end
