(* ===== verification/Notification.thy ===== *)
theory Notification
  imports Config Go_Time
begin

text \<open>
  \<open>internal/modules/notification\<close>: the mailer over \<open>net/smtp\<close> and the notification service. What the
  mail server answers to each command is a parameter; \<open>outbox\<close> is what it accepted, a message being
  accepted when the end of its data is.
\<close>

section \<open>Messages\<close>

record Message =
  MG_To :: string
  MG_Subject :: string
  MG_HTMLBody :: string
  MG_TextBody :: string

definition mimeHeaderEncode :: "string \<Rightarrow> string" where
  "mimeHeaderEncode s = s"

definition crlf :: string where "crlf = [CHR 0x0D, CHR 0x0A]"

definition quoted :: "string \<Rightarrow> string" where
  "quoted s = [CHR 0x22] @ s @ [CHR 0x22]"

text \<open>\<open>unixNano\<close> is \<open>time.Now().UnixNano()\<close>.\<close>

definition buildMultipartMessage :: "int \<Rightarrow> string \<Rightarrow> string \<Rightarrow> string \<Rightarrow> string \<Rightarrow> string \<Rightarrow> string" where
  "buildMultipartMessage unixNano from to subject textBody htmlBody =
     (let boundary = ''portal-boundary-'' @ Itoa unixNano;
          part = (\<lambda>kind body. ''--'' @ boundary @ crlf @ ''Content-Type: text/'' @ kind @ ''; charset='' @ quoted ''UTF-8'' @ crlf
            @ ''Content-Transfer-Encoding: 8bit'' @ crlf @ crlf @ body @ crlf)
      in ''From: '' @ from @ crlf
         @ ''To: '' @ to @ crlf
         @ ''Subject: '' @ mimeHeaderEncode subject @ crlf
         @ ''MIME-Version: 1.0'' @ crlf
         @ ''Content-Type: multipart/alternative; boundary='' @ quoted boundary @ crlf
         @ crlf
         @ part ''plain'' textBody
         @ part ''html'' htmlBody
         @ ''--'' @ boundary @ ''--'' @ crlf)"

section \<open>The mailer\<close>

text \<open>\<open>net.JoinHostPort\<close>.\<close>

definition JoinHostPort :: "string \<Rightarrow> string \<Rightarrow> string" where
  "JoinHostPort host port =
     (if CHR '':'' \<in> set host then ''['' @ host @ '']:'' @ port else host @ '':'' @ port)"

text \<open>The answers of a mail server: the error of each command, if any.\<close>

record smtp_server =
  sm_Dial :: "string \<Rightarrow> string option"
  sm_NewClient :: "string \<Rightarrow> string option"
  sm_StartTLS :: "string \<Rightarrow> string option"
  sm_Auth :: "string \<Rightarrow> string \<Rightarrow> string \<Rightarrow> string option"
  sm_Mail :: "string \<Rightarrow> string option"
  sm_Rcpt :: "string \<Rightarrow> string option"
  sm_Data :: "string option"
  sm_Write :: "string \<Rightarrow> string option"
  sm_Close :: "string option"
  sm_Quit :: "string option"

type_synonym outbox = "(string \<times> string) list"

definition mail_step :: "string \<Rightarrow> string option \<Rightarrow> outbox \<Rightarrow> (outbox \<Rightarrow> (string + unit) \<times> outbox) \<Rightarrow> (string + unit) \<times> outbox" where
  "mail_step what err out k = (case err of Some e \<Rightarrow> (Inl (what @ '': '' @ e), out) | None \<Rightarrow> k out)"

definition from_header :: "SMTPConfig \<Rightarrow> string" where
  "from_header cfg =
     (if TrimSpace (SMTP_FromName cfg) \<noteq> []
      then mimeHeaderEncode (SMTP_FromName cfg) @ '' <'' @ SMTP_From cfg @ ''>'' else SMTP_From cfg)"

definition Send :: "SMTPConfig \<Rightarrow> smtp_server \<Rightarrow> int \<Rightarrow> Message \<Rightarrow> outbox \<Rightarrow> (string + unit) \<times> outbox" where
  "Send cfg sm unixNano msg out =
     (let raw = buildMultipartMessage unixNano (from_header cfg) (MG_To msg) (MG_Subject msg) (MG_TextBody msg) (MG_HTMLBody msg);
          addr = JoinHostPort (SMTP_Host cfg) (SMTP_Port cfg)
      in mail_step ''dial smtp server'' (sm_Dial sm addr) out (\<lambda>out.
         mail_step ''create smtp client'' (sm_NewClient sm (SMTP_Host cfg)) out (\<lambda>out.
         mail_step ''start tls'' (if SMTP_UseTLS cfg then sm_StartTLS sm (SMTP_Host cfg) else None) out (\<lambda>out.
         mail_step ''smtp auth'' (if SMTP_UseAuth cfg then sm_Auth sm (SMTP_Username cfg) (SMTP_Password cfg) (SMTP_Host cfg) else None) out (\<lambda>out.
         mail_step ''smtp mail from'' (sm_Mail sm (SMTP_From cfg)) out (\<lambda>out.
         mail_step ''smtp rcpt to'' (sm_Rcpt sm (MG_To msg)) out (\<lambda>out.
         mail_step ''smtp data'' (sm_Data sm) out (\<lambda>out.
         mail_step ''write message'' (sm_Write sm raw) out (\<lambda>out.
         mail_step ''close message writer'' (sm_Close sm) out (\<lambda>out.
         mail_step ''smtp quit'' (sm_Quit sm) (out @ [(MG_To msg, raw)]) (\<lambda>out.
           (Inr (), out))))))))))))"

definition SendReportEmail ::
  "SMTPConfig \<Rightarrow> smtp_server \<Rightarrow> int \<Rightarrow> string \<Rightarrow> string \<Rightarrow> string \<Rightarrow> outbox \<Rightarrow> (string + unit) \<times> outbox" where
  "SendReportEmail cfg sm unixNano toEmail subject htmlBody out =
     Send cfg sm unixNano \<lparr>MG_To = toEmail, MG_Subject = subject, MG_HTMLBody = htmlBody, MG_TextBody = []\<rparr> out"

section \<open>What a call delivers\<close>

lemma send_outcome:
  assumes "Send cfg sm nano msg out = (r, out')"
  shows "(r = Inr () \<longrightarrow> (\<exists>raw. out' = out @ [(MG_To msg, raw)])) \<and>
    (out' = out \<or> (\<exists>raw. out' = out @ [(MG_To msg, raw)])) \<and>
    (out' = out \<longrightarrow> (\<exists>e. r = Inl e)) \<and>
    (\<forall>e. r = Inl e \<longrightarrow> out' = out \<or> sm_Quit sm \<noteq> None)"
  using assms by (auto simp: Send_def mail_step_def Let_def split: option.splits)

end
