(* ===== verification/Security.thy ===== *)
theory Security
  imports Go_Crypto Stores
begin

text \<open>
  \<open>internal/infrastructure/security\<close> and \<open>internal/modules/identity/domain/role.go\<close>: roles and
  permissions, the authorizer, the token manager, the authenticator and the CSRF manager.

  The JWT library is the parameter \<open>jwt\<close>; the locale \<open>jwt_lib\<close> states what is relied on: a token
  signed with HS256 verifies under the same secret until it expires and yields the signed claims,
  and an expired token never verifies. \<open>ref_jwt\<close> is a codec that satisfies it. UUIDs are 128-bit
  values; their text form is the parameter \<open>uuid_lib\<close>.
\<close>

section \<open>Roles, permissions and principals\<close>

type_synonym RoleCode = string
type_synonym PermissionCode = string
type_synonym uuid = "128 word"

definition RoleCodeAdmin :: RoleCode where "RoleCodeAdmin = ''ADMIN''"
definition RoleCodeUser :: RoleCode where "RoleCodeUser = ''USER''"

definition PermServerCreate :: PermissionCode where "PermServerCreate = ''server:create''"
definition PermServerRead :: PermissionCode where "PermServerRead = ''server:read''"
definition PermServerUpdate :: PermissionCode where "PermServerUpdate = ''server:update''"
definition PermServerDelete :: PermissionCode where "PermServerDelete = ''server:delete''"
definition PermServerImport :: PermissionCode where "PermServerImport = ''server:import''"
definition PermServerExport :: PermissionCode where "PermServerExport = ''server:export''"
definition PermReportRequest :: PermissionCode where "PermReportRequest = ''report:request''"

lemmas perm_defs = PermServerCreate_def PermServerRead_def PermServerUpdate_def
  PermServerDelete_def PermServerImport_def PermServerExport_def PermReportRequest_def

lemmas role_defs = RoleCodeAdmin_def RoleCodeUser_def

record Principal =
  P_UserID :: string
  P_Username :: string
  P_Email :: string
  P_RoleID :: string
  P_RoleCode :: RoleCode
  P_SessionID :: string

record Authorizer =
  rolePermissions :: "(RoleCode \<times> (PermissionCode \<times> bool) list) list"

definition NewAuthorizer :: Authorizer where
  "NewAuthorizer =
     (let adminPerms =
            [(PermServerCreate, True), (PermServerRead, True), (PermServerUpdate, True),
             (PermServerDelete, True), (PermServerImport, True), (PermServerExport, True),
             (PermReportRequest, True)];
          userPerms = [(PermServerRead, True)]
      in \<lparr>rolePermissions = [(RoleCodeAdmin, adminPerms), (RoleCodeUser, userPerms)]\<rparr>)"

definition HasPermission :: "Authorizer \<Rightarrow> Principal option \<Rightarrow> PermissionCode \<Rightarrow> bool" where
  "HasPermission a prin required =
     (if required = [] then True
      else (case prin of
          None \<Rightarrow> False
        | Some p \<Rightarrow>
            if P_RoleCode p = RoleCodeAdmin then True
            else (case map_of (rolePermissions a) (P_RoleCode p) of
                None \<Rightarrow> False
              | Some perms \<Rightarrow> map_of perms required = Some True)))"

lemma HasPermission_admin:
  "P_RoleCode p = RoleCodeAdmin \<Longrightarrow> HasPermission a (Some p) perm"
  by (simp add: HasPermission_def)

lemma HasPermission_static:
  assumes "required \<noteq> []"
  shows "HasPermission NewAuthorizer (Some p) required \<longleftrightarrow>
    P_RoleCode p = RoleCodeAdmin \<or> (P_RoleCode p = RoleCodeUser \<and> required = PermServerRead)"
  using assms
  by (auto simp: HasPermission_def NewAuthorizer_def Let_def role_defs)

section \<open>Token manager\<close>

record jwt_payload =
  pl_user_id :: string
  pl_role_code :: RoleCode
  pl_session_id :: string
  pl_exp :: int
  pl_iat :: int

record claims =
  C_UserID :: string
  C_SessionID :: string
  C_Username :: string
  C_Email :: string
  C_RoleID :: string
  C_RoleCode :: RoleCode
  C_ExpiresAt :: int

record jwt =
  jwt_sign :: "string \<Rightarrow> jwt_payload \<Rightarrow> string + string"
  jwt_parse :: "time \<Rightarrow> string list \<Rightarrow> string \<Rightarrow> string \<Rightarrow> string + claims"

record uuid_lib =
  uuid_String :: "uuid \<Rightarrow> string"
  uuid_Parse :: "string \<Rightarrow> uuid option"

text \<open>\<open>t.Unix()\<close>: whole seconds since 1970-01-01T00:00:00Z.\<close>

definition Unix :: "time \<Rightarrow> int" where
  "Unix t = t div second - 62135596800"

definition unix_time :: "int \<Rightarrow> time" where
  "unix_time u = (u + 62135596800) * second"

lemma unix_time_le: "unix_time (Unix t) \<le> t" "t < unix_time (Unix t) + second"
proof -
  have "t = t div second * second + t mod second" by simp
  moreover have "0 \<le> t mod second" "t mod second < second" by simp_all
  ultimately show "unix_time (Unix t) \<le> t" "t < unix_time (Unix t) + second"
    by (simp_all add: unix_time_def Unix_def)
qed

definition HashToken :: "string \<Rightarrow> string" where
  "HashToken token = hex_encode (sha256 token)"

definition access_payload :: "uuid_lib \<Rightarrow> time \<Rightarrow> nat \<Rightarrow> RoleCode \<Rightarrow> uuid \<Rightarrow> jwt_payload" where
  "access_payload ul now userID roleCode sessionID =
     \<lparr>pl_user_id = nat_string userID, pl_role_code = roleCode,
      pl_session_id = uuid_String ul sessionID,
      pl_exp = Unix (now + 15 * minute), pl_iat = Unix now\<rparr>"

definition GenerateAccessToken ::
  "jwt \<Rightarrow> uuid_lib \<Rightarrow> string \<Rightarrow> time \<Rightarrow> nat \<Rightarrow> RoleCode \<Rightarrow> uuid \<Rightarrow> string + string" where
  "GenerateAccessToken j ul jwtSecret now userID roleCode sessionID =
     jwt_sign j jwtSecret (access_payload ul now userID roleCode sessionID)"

text \<open>\<open>uuid.New().String()\<close>; the fresh identifier is an input.\<close>

definition GenerateRefreshToken :: "uuid_lib \<Rightarrow> uuid \<Rightarrow> string" where
  "GenerateRefreshToken ul fresh = uuid_String ul fresh"

lemma HashToken_length [simp]: "length (HashToken s) = 64"
  by (simp add: HashToken_def)

definition payload_claims :: "jwt_payload \<Rightarrow> claims" where
  "payload_claims p =
     \<lparr>C_UserID = pl_user_id p, C_SessionID = pl_session_id p, C_Username = [], C_Email = [],
      C_RoleID = [], C_RoleCode = pl_role_code p, C_ExpiresAt = pl_exp p\<rparr>"

locale jwt_lib =
  fixes j :: jwt
  assumes sign_parse: "jwt_sign j sec p = Inr tok \<Longrightarrow> ''HS256'' \<in> set methods \<Longrightarrow>
      now < unix_time (pl_exp p) \<Longrightarrow> jwt_parse j now methods sec tok = Inr (payload_claims p)"
    and parse_live: "jwt_parse j now methods sec tok = Inr cl \<Longrightarrow> now < unix_time (C_ExpiresAt cl)"

subsection \<open>A reference codec\<close>

definition net_string :: "string \<Rightarrow> string" where
  "net_string s = nat_string (length s) @ CHR '':'' # s"

definition un_net :: "string \<Rightarrow> (string \<times> string) option" where
  "un_net s =
     (let ds = takeWhile is_digit s; r = dropWhile is_digit s in
      case r of [] \<Rightarrow> None
      | c # r' \<Rightarrow> Some (take (digits_val ds) r', drop (digits_val ds) r'))"

lemma colon_not_digit: "\<not> is_digit (CHR '':'')"
  by (simp add: is_digit_def)

lemma un_net_net [simp]: "un_net (net_string s @ r) = Some (s, r)"
proof -
  have d: "\<forall>x\<in>set (nat_string (length s)). is_digit x"
    using nat_string_digits [of "length s"] by (simp add: list_all_iff)
  have "takeWhile is_digit (nat_string (length s) @ CHR '':'' # s @ r) = nat_string (length s)"
    and "dropWhile is_digit (nat_string (length s) @ CHR '':'' # s @ r) = CHR '':'' # s @ r"
    using d colon_not_digit by (simp_all add: takeWhile_append2 dropWhile_append2)
  then show ?thesis
    by (simp add: un_net_def net_string_def Let_def)
qed

definition ref_sign :: "string \<Rightarrow> jwt_payload \<Rightarrow> string + string" where
  "ref_sign sec p =
     (if min_int64 \<le> pl_exp p \<and> pl_exp p \<le> max_int64 then
        Inr (net_string sec @ net_string (pl_user_id p) @ net_string (pl_role_code p)
             @ net_string (pl_session_id p) @ Itoa (pl_exp p))
      else Inl ''exp out of range'')"

definition ref_parse :: "time \<Rightarrow> string list \<Rightarrow> string \<Rightarrow> string \<Rightarrow> string + claims" where
  "ref_parse now methods sec tok =
     (if ''HS256'' \<notin> set methods then Inl ''signing method''
      else case un_net tok of
        None \<Rightarrow> Inl ''malformed''
      | Some (k, r1) \<Rightarrow>
          if k \<noteq> sec then Inl ''signature'' else
          (case un_net r1 of
             None \<Rightarrow> Inl ''malformed''
           | Some (u, r2) \<Rightarrow>
               (case un_net r2 of
                  None \<Rightarrow> Inl ''malformed''
                | Some (ro, r3) \<Rightarrow>
                    (case un_net r3 of
                       None \<Rightarrow> Inl ''malformed''
                     | Some (sid, ex) \<Rightarrow>
                         (case Atoi ex of
                            (e, Some _) \<Rightarrow> Inl ''malformed''
                          | (e, None) \<Rightarrow>
                              if now < unix_time e
                              then Inr \<lparr>C_UserID = u, C_SessionID = sid, C_Username = [],
                                        C_Email = [], C_RoleID = [], C_RoleCode = ro,
                                        C_ExpiresAt = e\<rparr>
                              else Inl ''expired'')))))"

definition ref_jwt :: jwt where
  "ref_jwt = \<lparr>jwt_sign = ref_sign, jwt_parse = ref_parse\<rparr>"

interpretation rj: jwt_lib ref_jwt
proof
  fix sec p tok methods now
  assume "jwt_sign ref_jwt sec p = Inr tok" "''HS256'' \<in> set methods" "now < unix_time (pl_exp p)"
  then show "jwt_parse ref_jwt now methods sec tok = Inr (payload_claims p)"
    by (auto simp: ref_jwt_def ref_sign_def ref_parse_def Atoi_Itoa payload_claims_def split: if_splits)
next
  fix now methods sec tok cl
  assume "jwt_parse ref_jwt now methods sec tok = Inr cl"
  then show "now < unix_time (C_ExpiresAt cl)"
    by (auto simp: ref_jwt_def ref_parse_def split: if_splits option.splits prod.splits)
qed

section \<open>Authenticator\<close>

datatype auth_failure = InvalidToken | InvalidClaims | SessionRevoked

record Authenticator =
  auth_secret :: string
  auth_redis :: "redis iface"

definition NewAuthenticator :: "string \<Rightarrow> redis iface \<Rightarrow> Authenticator" where
  "NewAuthenticator sec rc = \<lparr>auth_secret = sec, auth_redis = rc\<rparr>"

definition revoked_key :: "string \<Rightarrow> string" where
  "revoked_key sid = ''revoked_session:'' @ sid"

definition claims_principal :: "claims \<Rightarrow> Principal" where
  "claims_principal cl =
     \<lparr>P_UserID = C_UserID cl, P_Username = C_Username cl, P_Email = C_Email cl,
      P_RoleID = C_RoleID cl, P_RoleCode = C_RoleCode cl, P_SessionID = C_SessionID cl\<rparr>"

definition Authenticate ::
  "jwt \<Rightarrow> Authenticator \<Rightarrow> time \<Rightarrow> string \<Rightarrow> redis_db \<Rightarrow> (auth_failure + Principal) go \<times> redis_db" where
  "Authenticate j a now tokenString s =
     (case jwt_parse j now [''HS256''] (auth_secret a) tokenString of
        Inl _ \<Rightarrow> (Returns (Inl InvalidToken), s)
      | Inr cl \<Rightarrow>
          (if \<not> is_nil (auth_redis a) \<and> C_SessionID cl \<noteq> [] then
             (case auth_redis a of
                Iface rc \<Rightarrow>
                  (case r_exists rc now (revoked_key (C_SessionID cl)) s of
                     (Inr n, s') \<Rightarrow>
                       if 0 < n then (Returns (Inl SessionRevoked), s')
                       else (Returns (Inr (claims_principal cl)), s')
                   | (Inl _, s') \<Rightarrow> (Returns (Inr (claims_principal cl)), s'))
              | _ \<Rightarrow> (Panics nil_dereference, s))
           else (Returns (Inr (claims_principal cl)), s)))"

section \<open>CSRF tokens\<close>

datatype csrf_failure = MissingCSRFToken | CSRFTokenMismatch

definition csrfTokenLength :: nat where "csrfTokenLength = 32"
definition csrfCookieName :: string where "csrfCookieName = ''csrf_token''"
definition csrfHeaderName :: string where "csrfHeaderName = ''X-CSRF-Token''"
definition csrfTTL :: duration where "csrfTTL = 24 * hour"

text \<open>\<open>rand.Read\<close> is an input: the bytes it fills the buffer with, or its error.\<close>

definition GenerateCSRFToken :: "string + string \<Rightarrow> string + string" where
  "GenerateCSRFToken rand =
     (case rand of Inl e \<Rightarrow> Inl e | Inr b \<Rightarrow> Inr (hex_encode (take csrfTokenLength b)))"

definition ConstantTimeCompare :: "string \<Rightarrow> string \<Rightarrow> int" where
  "ConstantTimeCompare x y = (if length x = length y \<and> x = y then 1 else 0)"

definition ValidateCSRFToken :: "string \<Rightarrow> string \<Rightarrow> csrf_failure option" where
  "ValidateCSRFToken cookieValue headerValue =
     (if cookieValue = [] \<or> headerValue = [] then Some MissingCSRFToken
      else if ConstantTimeCompare (sha256 cookieValue) (sha256 headerValue) \<noteq> 1
      then Some CSRFTokenMismatch
      else None)"

lemma ValidateCSRFToken_None:
  "ValidateCSRFToken c h = None \<longleftrightarrow> c \<noteq> [] \<and> h \<noteq> [] \<and> sha256 c = sha256 h"
  by (auto simp: ValidateCSRFToken_def ConstantTimeCompare_def)

end
