(* ===== verification/Reporting.thy ===== *)
theory Reporting
  imports Server_Mgmt Notification Security
begin

text \<open>
  \<open>internal/modules/reporting\<close> and \<open>internal/infrastructure/elasticsearch/uptime_calculator.go\<close>: report
  requests, their queue and workers, and the figures of a report. \<open>float64\<close> values are rationals rounded
  by \<open>fl\<close>. The count queries of Elasticsearch and the rendering of the embedded \<open>html/template\<close> are
  parameters.
\<close>

section \<open>Domain\<close>

definition ReportStatusPending :: string where "ReportStatusPending = ''PENDING''"
definition ReportStatusProcessing :: string where "ReportStatusProcessing = ''PROCESSING''"
definition ReportStatusCompleted :: string where "ReportStatusCompleted = ''COMPLETED''"
definition ReportStatusFailed :: string where "ReportStatusFailed = ''FAILED''"

lemmas report_status_defs = ReportStatusPending_def ReportStatusProcessing_def ReportStatusCompleted_def ReportStatusFailed_def

record Report =
  RP_ID :: uuid
  RP_RequestorEmail :: string
  RP_StartTime :: time
  RP_EndTime :: time
  RP_Status :: string
  RP_CorrelationID :: string
  RP_CreatedAt :: time
  RP_UpdatedAt :: time

datatype report_error = ErrInvalidEmail | ErrStartDate | ErrEndDate | ErrReportRepo gorm_error

definition NewReportRequest :: "uuid \<Rightarrow> string \<Rightarrow> time \<Rightarrow> time \<Rightarrow> string \<Rightarrow> report_error + Report" where
  "NewReportRequest requestID requestorEmail startTime endTime correlationID =
     (if TrimSpace requestorEmail = [] then Inl ErrInvalidEmail
      else Inr \<lparr>RP_ID = requestID, RP_RequestorEmail = requestorEmail, RP_StartTime = startTime, RP_EndTime = endTime,
                RP_Status = ReportStatusPending, RP_CorrelationID = correlationID, RP_CreatedAt = 0, RP_UpdatedAt = 0\<rparr>)"

section \<open>Repository\<close>

definition CreateReportRequest :: "Report gorm \<Rightarrow> Report \<Rightarrow> Report tbl \<Rightarrow> (gorm_error + Report) \<times> Report tbl" where
  "CreateReportRequest g req t = g_create g req t"

definition report_with_status :: "time \<Rightarrow> string \<Rightarrow> Report \<Rightarrow> Report" where
  "report_with_status now st x = x\<lparr>RP_Status := st, RP_UpdatedAt := now\<rparr>"

definition UpdateReportStatus ::
  "Report gorm \<Rightarrow> uuid_lib \<Rightarrow> time \<Rightarrow> string \<Rightarrow> string \<Rightarrow> Report tbl \<Rightarrow> (gorm_error + unit) \<times> Report tbl" where
  "UpdateReportStatus g ul now reqID st t =
     (case g_update g (\<lambda>x. uuid_String ul (RP_ID x) = reqID) (report_with_status now st) t of
        (Inl e, t') \<Rightarrow> (Inl e, t')
      | (Inr _, t') \<Rightarrow> (Inr (), t'))"

definition GetServerCountByStatus :: "Server gorm \<Rightarrow> string \<Rightarrow> Server tbl \<Rightarrow> (gorm_error + int) \<times> Server tbl" where
  "GetServerCountByStatus g st t =
     (case g_count g (\<lambda>x. st = [] \<or> S_CurrentStatus x = st) t of
        (Inl e, t') \<Rightarrow> (Inl e, t')
      | (Inr n, t') \<Rightarrow> (Inr (int n), t'))"

section \<open>Uptime\<close>

text \<open>A layout that ends in a literal \<open>Z\<close>, whatever the location of the value.\<close>

definition Format_es :: "(time \<Rightarrow> int) \<Rightarrow> time \<Rightarrow> string" where
  "Format_es loc t =
     (case civil loc t of (y, m, d, h, mi, s) \<Rightarrow>
        pad 4 y @ ''-'' @ pad 2 (int m) @ ''-'' @ pad 2 d @ ''T'' @ pad 2 h @ '':'' @ pad 2 mi @ '':'' @ pad 2 s @ ''Z'')"

text \<open>A count query: the range of the time stamp, and whether only successes count.\<close>

type_synonym es_count = "string \<Rightarrow> string \<Rightarrow> bool \<Rightarrow> nat \<Rightarrow> string + int"

definition CalculateUptime ::
  "es_count option \<Rightarrow> (time \<Rightarrow> int) \<Rightarrow> time \<Rightarrow> time \<Rightarrow> nat \<Rightarrow> (string + rat) \<times> nat" where
  "CalculateUptime esClient loc startTime endTime n =
     (case esClient of
        None \<Rightarrow> (Inr 0, n)
      | Some cnt \<Rightarrow>
          (let startStr = Format_es loc startTime; endStr = Format_es loc endTime in
           case cnt startStr endStr False n of
             Inl e \<Rightarrow> (Inl (''failed to count total observations: '' @ e), Suc n)
           | Inr tot \<Rightarrow>
               if tot = 0 then (Inr 0, Suc n)
               else (case cnt startStr endStr True (Suc n) of
                       Inl e \<Rightarrow> (Inl (''failed to count success observations: '' @ e), Suc (Suc n))
                     | Inr success \<Rightarrow>
                         (Inr (fl (fl (fl (of_int success) / fl (of_int tot)) * 100)), Suc (Suc n)))))"

section \<open>Figures\<close>

definition percentage :: "int \<Rightarrow> int \<Rightarrow> rat" where
  "percentage value tot =
     (if tot \<le> 0 then 0 else fl (fl (fl (of_int value) * 100) / fl (of_int tot)))"

definition healthLabel :: "rat \<Rightarrow> string" where
  "healthLabel uptime =
     (if 99 \<le> uptime then ''Healthy'' else if 95 \<le> uptime then ''Attention Recommended'' else ''Action Required'')"

text \<open>\<open>Duration.Hours\<close>, and the conversion of a float to an integer.\<close>

definition duration_Hours :: "duration \<Rightarrow> rat" where
  "duration_Hours d =
     (let h = sgn d * (\<bar>d\<bar> div hour); nsec = sgn d * (\<bar>d\<bar> mod hour)
      in fl (of_int h + fl (of_int nsec / 3600000000000)))"

definition float_int :: "rat \<Rightarrow> int" where
  "float_int q = (if q < 0 then \<lceil>q\<rceil> else \<lfloor>q\<rfloor>)"

definition PeriodDays :: "time \<Rightarrow> time \<Rightarrow> int" where
  "PeriodDays startTime endTime =
     wrap64 (float_int (fl (duration_Hours (time_Sub endTime startTime) / 24)) + 1)"

record TemplateData =
  TD_StartDate :: string
  TD_EndDate :: string
  TD_PeriodDays :: int
  TD_TotalServers :: int
  TD_OnlineServers :: int
  TD_OfflineServers :: int
  TD_UptimePercent :: rat
  TD_OnlinePercent :: rat
  TD_OfflinePercent :: rat
  TD_HealthLabel :: string

section \<open>The worker\<close>

record reportingWorkerImpl =
  rw_reports :: "Report gorm"
  rw_servers :: "Server gorm"
  rw_uuid :: uuid_lib
  rw_es :: "es_count option"
  rw_loc :: "time \<Rightarrow> int"
  rw_template :: "TemplateData \<Rightarrow> string + string"
  rw_notifier :: "(SMTPConfig \<times> smtp_server) option"
  rw_workerCount :: int
  rw_queueSize :: int

definition worker_count :: "int \<Rightarrow> int" where
  "worker_count n = (if n \<le> 0 then 5 else n)"

definition queue_size :: "int \<Rightarrow> int" where
  "queue_size n = (if n \<le> 0 then 100 else n)"

text \<open>\<open>NewReportingWorker\<close> replaces counts that are not positive.\<close>

definition NewReportingWorker :: "reportingWorkerImpl \<Rightarrow> reportingWorkerImpl" where
  "NewReportingWorker w = w\<lparr>rw_workerCount := worker_count (rw_workerCount w), rw_queueSize := queue_size (rw_queueSize w)\<rparr>"

datatype work_error = WorkCount gorm_error | WorkUptime string | WorkTemplate string | WorkMail string

text \<open>
  The state of the component: its tables, the number of queries Elasticsearch has answered, the mail
  that was delivered, the requests whose callers are about to send them, the buffered channel of the
  jobs, whether it is closed, and the jobs the workers hold, each at the point of \<open>processReport\<close> that
  it has reached.
\<close>

datatype work_phase = Taken | Marked | Worked "work_error + unit"

record report_state =
  rp_reports :: "Report tbl"
  rp_servers :: "Server tbl"
  rp_es :: nat
  rp_outbox :: outbox
  rp_sending :: "Report list"
  rp_queue :: "Report list"
  rp_closed :: bool
  rp_running :: "(Report \<times> work_phase) list"

definition template_data :: "reportingWorkerImpl \<Rightarrow> Report \<Rightarrow> int \<Rightarrow> int \<Rightarrow> int \<Rightarrow> rat \<Rightarrow> TemplateData" where
  "template_data w req totalServers onlineServers offlineServers uptimePercent = \<lparr>
     TD_StartDate = Format_date (rw_loc w) (RP_StartTime req),
     TD_EndDate = Format_date (rw_loc w) (RP_EndTime req),
     TD_PeriodDays = PeriodDays (RP_StartTime req) (RP_EndTime req),
     TD_TotalServers = totalServers,
     TD_OnlineServers = onlineServers,
     TD_OfflineServers = offlineServers,
     TD_UptimePercent = uptimePercent,
     TD_OnlinePercent = percentage onlineServers totalServers,
     TD_OfflinePercent = percentage offlineServers totalServers,
     TD_HealthLabel = healthLabel uptimePercent\<rparr>"

definition doWork :: "reportingWorkerImpl \<Rightarrow> int \<Rightarrow> Report \<Rightarrow> report_state \<Rightarrow> (work_error + unit) \<times> report_state" where
  "doWork w unixNano req s =
     (case GetServerCountByStatus (rw_servers w) [] (rp_servers s) of
        (Inl e, t) \<Rightarrow> (Inl (WorkCount e), s\<lparr>rp_servers := t\<rparr>)
      | (Inr totalServers, t) \<Rightarrow>
     (case GetServerCountByStatus (rw_servers w) ''ONLINE'' t of
        (Inl e, t1) \<Rightarrow> (Inl (WorkCount e), s\<lparr>rp_servers := t1\<rparr>)
      | (Inr onlineServers, t1) \<Rightarrow>
     (case GetServerCountByStatus (rw_servers w) ''OFFLINE'' t1 of
        (Inl e, t2) \<Rightarrow> (Inl (WorkCount e), s\<lparr>rp_servers := t2\<rparr>)
      | (Inr offlineServers, t2) \<Rightarrow>
     (case CalculateUptime (rw_es w) (rw_loc w) (RP_StartTime req) (RP_EndTime req) (rp_es s) of
        (Inl e, n) \<Rightarrow> (Inl (WorkUptime e), s\<lparr>rp_servers := t2, rp_es := n\<rparr>)
      | (Inr uptimePercent, n) \<Rightarrow>
     (case rw_template w (template_data w req totalServers onlineServers offlineServers uptimePercent) of
        Inl e \<Rightarrow> (Inl (WorkTemplate e), s\<lparr>rp_servers := t2, rp_es := n\<rparr>)
      | Inr htmlStr \<Rightarrow>
          (case rw_notifier w of
             None \<Rightarrow> (Inr (), s\<lparr>rp_servers := t2, rp_es := n\<rparr>)
           | Some (cfg, sm) \<Rightarrow>
               (case SendReportEmail cfg sm unixNano (RP_RequestorEmail req) ''Server Status Report'' htmlStr (rp_outbox s) of
                  (Inl e, out) \<Rightarrow> (Inl (WorkMail (''failed to send email: '' @ e)), s\<lparr>rp_servers := t2, rp_es := n, rp_outbox := out\<rparr>)
                | (Inr _, out) \<Rightarrow> (Inr (), s\<lparr>rp_servers := t2, rp_es := n, rp_outbox := out\<rparr>))))))))"

text \<open>\<open>processReport\<close> as its three accesses: the row is marked, the work is done, the outcome is stored.\<close>

definition markReport :: "reportingWorkerImpl \<Rightarrow> time \<Rightarrow> Report \<Rightarrow> report_state \<Rightarrow> (gorm_error + unit) \<times> report_state" where
  "markReport w now req s =
     (case UpdateReportStatus (rw_reports w) (rw_uuid w) now (uuid_String (rw_uuid w) (RP_ID req)) ReportStatusProcessing (rp_reports s) of
        (r, t) \<Rightarrow> (r, s\<lparr>rp_reports := t\<rparr>))"

definition finalStatus :: "work_error + unit \<Rightarrow> string" where
  "finalStatus r = (case r of Inl _ \<Rightarrow> ReportStatusFailed | Inr _ \<Rightarrow> ReportStatusCompleted)"

definition finishReport :: "reportingWorkerImpl \<Rightarrow> time \<Rightarrow> Report \<Rightarrow> work_error + unit \<Rightarrow> report_state \<Rightarrow> (gorm_error + unit) \<times> report_state" where
  "finishReport w now req r s =
     (case UpdateReportStatus (rw_reports w) (rw_uuid w) now (uuid_String (rw_uuid w) (RP_ID req)) (finalStatus r) (rp_reports s) of
        (u, t) \<Rightarrow> (u, s\<lparr>rp_reports := t\<rparr>))"

definition processReport :: "reportingWorkerImpl \<Rightarrow> time \<Rightarrow> int \<Rightarrow> time \<Rightarrow> Report \<Rightarrow> report_state \<Rightarrow> report_state" where
  "processReport w now unixNano now' req s =
     (case markReport w now req s of
        (Inl _, s1) \<Rightarrow> s1
      | (Inr _, s1) \<Rightarrow>
          (case doWork w unixNano req s1 of
             (r, s2) \<Rightarrow> (case finishReport w now' req r s2 of (_, s3) \<Rightarrow> s3)))"

text \<open>
  \<open>EnqueueReport\<close> is a send on the channel of the jobs: it panics when the channel is closed and waits
  while it is full (\<open>None\<close>).
\<close>

definition EnqueueReport :: "reportingWorkerImpl \<Rightarrow> Report \<Rightarrow> report_state \<Rightarrow> (unit go \<times> report_state) option" where
  "EnqueueReport w req s =
     (if rp_closed s then Some (Panics ''send on closed channel'', s)
      else if int (length (rp_queue s)) < rw_queueSize w then Some (Returns (), s\<lparr>rp_queue := rp_queue s @ [req]\<rparr>)
      else None)"

definition StopWorker :: "report_state \<Rightarrow> unit go \<times> report_state" where
  "StopWorker s =
     (if rp_closed s then (Panics ''close of closed channel'', s) else (Returns (), s\<lparr>rp_closed := True\<rparr>))"

section \<open>The service\<close>

text \<open>\<open>RequestReport\<close> up to the row it stores, and the whole of it.\<close>

definition storeRequest ::
  "reportingWorkerImpl \<Rightarrow> uuid \<Rightarrow> string \<Rightarrow> string \<Rightarrow> string \<Rightarrow> string \<Rightarrow> report_state
   \<Rightarrow> (report_error + Report) \<times> report_state" where
  "storeRequest w requestID correlationID email startDate endDate s =
     (case parse_date startDate of
        None \<Rightarrow> (Inl ErrStartDate, s)
      | Some start \<Rightarrow>
     (case parse_date endDate of
        None \<Rightarrow> (Inl ErrEndDate, s)
      | Some endDay \<Rightarrow>
          (let endTime = endDay + 24 * hour - 1 in
           case NewReportRequest requestID email start endTime correlationID of
             Inl e \<Rightarrow> (Inl e, s)
           | Inr req \<Rightarrow>
               (case CreateReportRequest (rw_reports w) req (rp_reports s) of
                  (Inl e, t) \<Rightarrow> (Inl (ErrReportRepo e), s\<lparr>rp_reports := t\<rparr>)
                | (Inr stored, t) \<Rightarrow> (Inr stored, s\<lparr>rp_reports := t\<rparr>)))))"

definition RequestReport ::
  "reportingWorkerImpl \<Rightarrow> uuid \<Rightarrow> string \<Rightarrow> string \<Rightarrow> string \<Rightarrow> string \<Rightarrow> report_state
   \<Rightarrow> ((report_error + unit) go \<times> report_state) option" where
  "RequestReport w requestID correlationID email startDate endDate s =
     (case storeRequest w requestID correlationID email startDate endDate s of
        (Inl e, s1) \<Rightarrow> Some (Returns (Inl e), s1)
      | (Inr req, s1) \<Rightarrow>
          (case EnqueueReport w req s1 of
             None \<Rightarrow> None
           | Some (Panics m, s2) \<Rightarrow> Some (Panics m, s2)
           | Some (Returns _, s2) \<Rightarrow> Some (Returns (Inr ()), s2)))"

text \<open>
  Callers, workers and the stop in any order. A caller stores its row and then sends, waiting while the
  channel is full. A free worker takes the job at the head of the channel,
  also after the channel is closed; the workers then run \<open>processReport\<close> with their accesses
  interleaved. A worker whose first update fails drops its job.
\<close>

inductive worker_step :: "reportingWorkerImpl \<Rightarrow> report_state \<Rightarrow> report_state \<Rightarrow> bool" for w where
  ws_send: "rp_sending s = js @ job # ks \<Longrightarrow> EnqueueReport w job s = Some (r, s') \<Longrightarrow>
    worker_step w s (s'\<lparr>rp_sending := js @ ks\<rparr>)"
| ws_take: "rp_queue s = job # rest \<Longrightarrow> int (length (rp_running s)) < rw_workerCount w \<Longrightarrow>
    worker_step w s (s\<lparr>rp_queue := rest, rp_running := (job, Taken) # rp_running s\<rparr>)"
| ws_mark: "rp_running s = js @ (job, Taken) # ks \<Longrightarrow> markReport w now job s = (Inr (), s') \<Longrightarrow>
    worker_step w s (s'\<lparr>rp_running := js @ (job, Marked) # ks\<rparr>)"
| ws_drop: "rp_running s = js @ (job, Taken) # ks \<Longrightarrow> markReport w now job s = (Inl e, s') \<Longrightarrow>
    worker_step w s (s'\<lparr>rp_running := js @ ks\<rparr>)"
| ws_work: "rp_running s = js @ (job, Marked) # ks \<Longrightarrow> doWork w unixNano job s = (r, s') \<Longrightarrow>
    worker_step w s (s'\<lparr>rp_running := js @ (job, Worked r) # ks\<rparr>)"
| ws_finish: "rp_running s = js @ (job, Worked r) # ks \<Longrightarrow> finishReport w now job r s = (u, s') \<Longrightarrow>
    worker_step w s (s'\<lparr>rp_running := js @ ks\<rparr>)"

inductive report_step :: "reportingWorkerImpl \<Rightarrow> report_state \<Rightarrow> report_state \<Rightarrow> bool" for w where
  rs_worker: "worker_step w s s' \<Longrightarrow> report_step w s s'"
| rs_refuse: "storeRequest w requestID correlationID email startDate endDate s = (Inl e, s') \<Longrightarrow> report_step w s s'"
| rs_store: "storeRequest w requestID correlationID email startDate endDate s = (Inr req, s') \<Longrightarrow>
    report_step w s (s'\<lparr>rp_sending := req # rp_sending s'\<rparr>)"
| rs_stop: "StopWorker s = (p, s') \<Longrightarrow> report_step w s s'"

inductive_cases worker_stepE: "worker_step w s s'"
inductive_cases report_stepE: "report_step w s s'"

end
