(* ===== verification/Report_Figures.thy ===== *)
theory Report_Figures
  imports Reporting
begin

text \<open>
  The figures of a report: the uptime and the percentages stay within 0 and 100, and the number of
  days of the period is right up to 170 days and one too many from then on, because the hours of a
  longer period round to the next full day.
\<close>

section \<open>Percentages\<close>

lemma ratio_bounds:
  assumes "0 \<le> a" and "a \<le> b" and "0 < b"
  shows "0 \<le> (of_int a / of_int b :: rat)" and "(of_int a / of_int b :: rat) \<le> 1"
  using assms by (simp_all add: pos_divide_le_eq)

lemma fl_scaled:
  assumes "0 \<le> q" and "q \<le> 1"
  shows "0 \<le> fl (fl q * 100)" and "fl (fl q * 100) \<le> 100"
proof -
  have q: "0 \<le> fl q" "fl q \<le> 1" using fl_nonneg [OF assms(1)] fl_le_int [of q 1] assms by simp_all
  then show "0 \<le> fl (fl q * 100)" by (simp add: fl_nonneg)
  show "fl (fl q * 100) \<le> 100" using fl_le_int [of "fl q * 100" 100] q by simp
qed

lemma percentage_bounds:
  assumes "0 \<le> v" and "v \<le> n" and "n * 100 < 2 ^ 52"
  shows "0 \<le> percentage v n \<and> percentage v n \<le> 100"
proof (cases "0 < n")
  case True
  have f: "fl (of_int v) = of_int v" "fl (of_int n) = of_int n" using assms by (simp_all add: fl_of_int)
  have "fl (of_int (v * 100)) = of_int (v * 100)" using assms by (intro fl_of_int) simp_all
  with f have "percentage v n = fl (of_int (v * 100) / of_int n)" using True by (simp add: percentage_def)
  moreover have "of_int (v * 100) \<le> (of_int (100 * n) :: rat)" using assms(2) of_int_le_iff by simp
  then have "(of_int (v * 100) / of_int n :: rat) \<le> of_int 100" using True by (simp add: pos_divide_le_eq)
  moreover have "0 \<le> (of_int (v * 100) / of_int n :: rat)" using assms(1) True by simp
  ultimately show ?thesis using fl_nonneg fl_le_int [of _ 100] by simp
qed (simp add: percentage_def)

section \<open>The days of a period\<close>

text \<open>The last hour of a day less a nanosecond, as a float.\<close>

definition last_hour :: rat where
  "last_hour = fl (of_int (hour - 1) / 3600000000000)"

lemma last_hour_bounds: "1 - 1 / 2 ^ 41 < last_hour" "last_hour < 1 - 1 / 2 ^ 42" "last_hour < 1" "0 < last_hour"
proof -
  let ?q = "of_int (hour - 1) / 3600000000000 :: rat"
  have q: "?q = 3599999999999 / 3600000000000" by simp
  have "exponent ?q < 0" by (rule exponent_less) (simp_all add: q pow2_def)
  moreover have "- 1 \<le> exponent ?q" by (rule exponent_ge) (simp_all add: q pow2_def)
  ultimately have "exponent ?q = - 1" by linarith
  then have "ulp ?q = 1 / 2 ^ 53" by (simp add: ulp_def pow2_def)
  moreover have "\<bar>last_hour - ?q\<bar> \<le> ulp ?q / 2" unfolding last_hour_def by (rule fl_near) (simp add: q)
  ultimately have n: "\<bar>last_hour - 3599999999999 / 3600000000000\<bar> \<le> 1 / 2 ^ 54" by (simp add: q)
  then have "last_hour - 3599999999999 / 3600000000000 \<le> 1 / 2 ^ 54"
    "- (last_hour - 3599999999999 / 3600000000000) \<le> 1 / 2 ^ 54"
    unfolding abs_le_iff by blast+
  moreover have p: "(2 :: rat) ^ 54 = 18014398509481984" "(2 :: rat) ^ 41 = 2199023255552" "(2 :: rat) ^ 42 = 4398046511104"
    by simp_all
  ultimately show "1 - 1 / 2 ^ 41 < last_hour" "last_hour < 1 - 1 / 2 ^ 42" "last_hour < 1" "0 < last_hour"
    unfolding p by linarith+
qed

text \<open>The hours of \<open>n\<close> days less a nanosecond, before they are rounded.\<close>

definition day_hours :: "int \<Rightarrow> rat" where
  "day_hours n = of_int (24 * n - 1) + last_hour"

lemma day_hours_bounds:
  assumes "1 \<le> n" and "n \<le> 106751"
  shows "0 < day_hours n" "day_hours n < 2 ^ 52" "of_int (24 * n - 1) \<le> day_hours n" "day_hours n \<le> of_int (24 * n)"
    "day_hours n + 1 / 2 ^ 42 < of_int (24 * n)" "of_int (24 * n) < day_hours n + 1 / 2 ^ 41"
proof -
  have n: "(1 :: rat) \<le> of_int n" "(of_int n :: rat) \<le> 106751" using assms by simp_all
  have "(2 :: rat) ^ 52 = 4503599627370496" by simp
  with n last_hour_bounds show "0 < day_hours n" "day_hours n < 2 ^ 52" "of_int (24 * n - 1) \<le> day_hours n" "day_hours n \<le> of_int (24 * n)"
    "day_hours n + 1 / 2 ^ 42 < of_int (24 * n)" "of_int (24 * n) < day_hours n + 1 / 2 ^ 41"
    unfolding day_hours_def of_int_mult of_int_diff of_int_numeral of_int_1 by linarith+
qed

lemma period_hours:
  assumes "1 \<le> n" and "n \<le> 106751"
  shows "duration_Hours (time_Sub (t + n * day - 1) t) = fl (day_hours n)"
proof -
  have "time_Sub (t + n * day - 1) t = n * day - 1" using assms by (simp add: time_Sub_id)
  moreover have d: "(n * day - 1) div hour = 24 * n - 1" "0 < n * day - 1"
    using assms by simp_all
  moreover have "(n * day - 1) mod hour = hour - 1"
    using minus_mult_div_eq_mod [of "n * day - 1" hour] d(1) by simp
  ultimately show ?thesis
    by (simp add: duration_Hours_def day_hours_def last_hour_def Let_def)
qed

text \<open>Up to 170 days the hours stay below the full day, and so does their quotient.\<close>

lemma short_quotient:
  assumes "1 \<le> n" and "n \<le> 170"
  shows "fl (fl (day_hours n) / 24) < of_int n" and "of_int (n - 1) \<le> fl (fl (day_hours n) / 24)"
proof -
  let ?q = "day_hours n" and ?b = "fl (day_hours n)" and ?r = "fl (day_hours n) / 24"
  have "n \<le> 106751" using assms(2) by simp
  note q = day_hours_bounds [OF assms(1) this]
  have n: "(1 :: rat) \<le> of_int n" "(of_int n :: rat) \<le> 170" using assms by simp_all
  have "?q < pow2 12" using q(4) n by (simp add: pow2_def)
  then have e: "exponent ?q < 12" using exponent_less q(1) by blast
  have "pow2 4 \<le> ?q" using q(3) n by (simp add: pow2_def)
  then have e4: "4 \<le> exponent ?q" using exponent_ge q(1) by blast
  have u: "ulp ?q = pow2 (exponent ?q - 52)" using e4 by (simp add: ulp_def)
  have "ulp ?q \<le> pow2 (- 41)" unfolding u by (rule pow2_mono) (use e in simp)
  then have "ulp ?q / 2 \<le> 1 / 2 ^ 42" by (simp add: pow2_def)
  with q(5) have b: "?b \<le> of_int (24 * n) - ulp ?q" using q(1,2) by (intro fl_below_int) linarith+
  have b1: "of_int (24 * n - 1) \<le> ?b" using q(2,3) assms(1) by (intro fl_ge_int) simp_all
  have r0: "0 < ?r" using b1 n by simp
  have p4: "pow2 4 = 16" "pow2 (- 4) = 1 / 16" by (simp_all add: pow2_def)
  have "pow2 (exponent ?r + 4) \<le> 16 * ?r" using pow2_exponent [OF r0] unfolding pow2_add p4(1) by linarith
  also have "16 * ?r < ?q"
    using b q(3) n(1) ulp_pos [of ?q] unfolding of_int_mult of_int_diff of_int_numeral of_int_1 by linarith
  also have "?q < pow2 (exponent ?q + 1)" using pow2_less_exponent q(1) by blast
  finally have "exponent ?r + 4 < exponent ?q + 1" using pow2_mono [of "exponent ?q + 1" "exponent ?r + 4"] by linarith
  then have "ulp ?r \<le> pow2 (exponent ?q - 52 + - 4)" unfolding ulp_def using e4 by (intro pow2_mono) simp
  then have "ulp ?r \<le> ulp ?q / 16" unfolding pow2_add u p4(2) by simp
  moreover have "fl ?r \<le> ?r + ulp ?r / 2" using fl_near [OF r0] unfolding abs_le_iff by linarith
  moreover have "?r \<le> of_int n - ulp ?q / 24" using b by simp
  ultimately show "fl ?r < of_int n" using ulp_pos [of ?q] by linarith
  have "?r < 170 + 1" using b n(2) ulp_pos [of ?q] unfolding of_int_mult of_int_numeral by linarith
  then have "?r < 2 ^ 52" by simp
  then show "of_int (n - 1) \<le> fl ?r" using b1 assms(1) by (intro fl_ge_int) simp_all
qed

text \<open>From 171 days on the hours round up to the full day.\<close>

lemma long_quotient:
  assumes "171 \<le> n" and "n \<le> 106751"
  shows "fl (fl (day_hours n) / 24) = of_int n"
proof -
  let ?q = "day_hours n"
  have "1 \<le> n" using assms(1) by simp
  note q = day_hours_bounds [OF this assms(2)]
  have n: "(171 :: rat) \<le> of_int n" using assms by simp
  have "pow2 12 \<le> ?q" using q(3) n by (simp add: pow2_def)
  then have "12 \<le> exponent ?q" using exponent_ge q(1) by blast
  then have "pow2 (- 40) \<le> ulp ?q" unfolding ulp_def by (intro pow2_mono) simp
  then have "1 / 2 ^ 41 \<le> ulp ?q / 2" by (simp add: pow2_def)
  with q(6) have "fl ?q = of_int (24 * n)" using q(1,2,4) by (intro fl_up_int) linarith+
  then have "fl ?q / 24 = of_int n" by simp
  with assms show ?thesis by (simp add: fl_of_int)
qed

text \<open>C25: A period of \<open>n\<close> whole days, from midnight to a nanosecond before midnight, as \<open>RequestReport\<close> builds
  it, is printed as \<open>n\<close> days up to 170 days and as \<open>n + 1\<close> days from 171 days on, for every period that
  \<open>time.Duration\<close> can hold.
\<close>

theorem period_days_exact:
  assumes "1 \<le> n" and "n \<le> 106751"
  shows "PeriodDays t (t + n * day - 1) = (if n \<le> 170 then n else n + 1)"
proof -
  let ?x = "fl (fl (day_hours n) / 24)"
  have "float_int ?x = (if n \<le> 170 then n - 1 else n)"
  proof (cases "n \<le> 170")
    case True
    have "0 \<le> (of_int (n - 1) :: rat)" using assms(1) by simp
    with short_quotient [OF assms(1) True] have "0 \<le> ?x" "\<lfloor>?x\<rfloor> = n - 1" by (linarith, intro floor_unique) simp_all
    with True show ?thesis by (simp add: float_int_def)
  next
    case False
    with assms have "?x = of_int n" by (intro long_quotient) simp_all
    with False assms(1) show ?thesis by (simp add: float_int_def)
  qed
  moreover have "wrap64 (n - 1 + 1) = n" "wrap64 (n + 1) = n + 1" using assms by (simp_all add: wrap64_def)
  ultimately show ?thesis using period_hours [OF assms] by (simp add: PeriodDays_def)
qed

theorem period_days_exact_witness:
  "PeriodDays 0 (0 + 31 * day - 1) = 31 \<and> PeriodDays 0 (0 + 365 * day - 1) = 366"
  using period_days_exact [of 31 0] period_days_exact [of 365 0] by simp


text \<open>Nine successes of ten observations, and two of three servers online.\<close>

definition demo_counts :: es_count where
  "demo_counts a b ok n = Inr (if ok then 9 else 10)"


end
