(* ===== verification/Rate_Limit.thy ===== *)
theory Rate_Limit
  imports Config Go_Crypto Go_Time Stores
begin

text \<open>
  \<open>internal/infrastructure/ratelimit\<close>: the keys, the policies of the methods and the limiter over
  \<open>redis_rate\<close>. The algorithm of \<open>redis_rate\<close> is a parameter; the guards before it, the keys and the
  policies are the code's.
\<close>

section \<open>Printing durations\<close>

text \<open>\<open>Duration.String\<close> and \<open>Duration.Seconds\<close>.\<close>

definition frac_string :: "nat \<Rightarrow> int \<Rightarrow> string" where
  "frac_string prec v = (let f = drop_zeros (pad prec (v mod 10 ^ prec)) in if f = [] then [] else CHR ''.'' # f)"

definition duration_abs :: "int \<Rightarrow> string" where
  "duration_abs u =
     (if u = 0 then ''0s''
      else if u < 1000 then Itoa u @ ''ns''
      else if u < 1000000 then Itoa (u div 1000) @ frac_string 3 u @ [CHR 0xC2, CHR 0xB5, CHR ''s'']
      else if u < second then Itoa (u div 1000000) @ frac_string 6 u @ ''ms''
      else (let s = u div second; h = s div 3600; m = s div 60 in
            (if h > 0 then Itoa h @ ''h'' else []) @ (if m > 0 then Itoa (m mod 60) @ ''m'' else [])
            @ Itoa (s mod 60) @ frac_string 9 u @ ''s''))"

definition duration_String :: "duration \<Rightarrow> string" where
  "duration_String d = (if d < 0 then CHR ''-'' # duration_abs (- d) else duration_abs d)"

definition duration_Seconds :: "duration \<Rightarrow> rat" where
  "duration_Seconds d =
     (let sec = sgn d * (\<bar>d\<bar> div second); nsec = sgn d * (\<bar>d\<bar> mod second)
      in fl (of_int sec + fl (of_int nsec / 1000000000)))"

definition truncate_float :: "rat \<Rightarrow> int" where
  "truncate_float q = (if q < 0 then \<lceil>q\<rceil> else \<lfloor>q\<rfloor>)"

section \<open>Keys\<close>

type_synonym KeyScope = string

definition ScopeIP :: KeyScope where "ScopeIP = ''ip''"
definition ScopeUser :: KeyScope where "ScopeUser = ''user''"
definition ScopeIdentifier :: KeyScope where "ScopeIdentifier = ''identifier''"
definition ScopeEmail :: KeyScope where "ScopeEmail = ''email''"

lemmas scope_defs = ScopeIP_def ScopeUser_def ScopeIdentifier_def ScopeEmail_def

record KeyBuilder =
  KB_Prefix :: string

definition NewKeyBuilder :: "string \<Rightarrow> KeyBuilder" where
  "NewKeyBuilder pre =
     (let p = TrimSpace pre in \<lparr>KB_Prefix = (if p = [] then ''portal:rl'' else p)\<rparr>)"

definition normalize :: "(string \<Rightarrow> string) \<Rightarrow> string \<Rightarrow> string" where
  "normalize uni value = ToLower uni (TrimSpace value)"

definition key_hash :: "string \<Rightarrow> string" where
  "key_hash value = take 32 (hex_encode (sha256 value))"

definition Build :: "(string \<Rightarrow> string) \<Rightarrow> KeyBuilder \<Rightarrow> string \<Rightarrow> KeyScope \<Rightarrow> string \<Rightarrow> string" where
  "Build uni b policyName scope value =
     (let policyName = normalize uni policyName; value = normalize uni value;
          value = (if value = [] then ''unknown'' else value)
      in KB_Prefix b @ '':'' @ policyName @ '':'' @ scope @ '':'' @ key_hash value)"

section \<open>Policies\<close>

type_synonym Phase = string

definition PhasePostAuth :: Phase where "PhasePostAuth = ''post_auth''"
definition PhasePreAuth :: Phase where "PhasePreAuth = ''pre_auth''"

record Policy =
  PL_Name :: string
  PL_Limit :: int
  PL_Burst :: int
  PL_Window :: duration
  PL_Phase :: Phase
  PL_Scopes :: "KeyScope list"

definition DefaultPolicy :: Policy where
  "DefaultPolicy = \<lparr>PL_Name = ''global'', PL_Limit = 300, PL_Burst = 300, PL_Window = minute,
     PL_Phase = PhasePostAuth, PL_Scopes = [ScopeUser]\<rparr>"

text \<open>The names of the methods, as the generated code has them.\<close>

definition Login_method :: string where "Login_method = ''/portal.auth.v1.AuthService/Login''"
definition RefreshToken_method :: string where "RefreshToken_method = ''/portal.auth.v1.AuthService/RefreshToken''"
definition Logout_method :: string where "Logout_method = ''/portal.auth.v1.AuthService/Logout''"
definition LogoutAll_method :: string where "LogoutAll_method = ''/portal.auth.v1.AuthService/LogoutAll''"
definition CreateServer_method :: string where "CreateServer_method = ''/server_management.v1.ServerManagementService/CreateServer''"
definition UpdateServer_method :: string where "UpdateServer_method = ''/server_management.v1.ServerManagementService/UpdateServer''"
definition DeleteServer_method :: string where "DeleteServer_method = ''/server_management.v1.ServerManagementService/DeleteServer''"
definition ViewServers_method :: string where "ViewServers_method = ''/server_management.v1.ServerManagementService/ViewServers''"
definition ImportServers_method :: string where "ImportServers_method = ''/server_management.v1.ServerManagementService/ImportServers''"
definition ExportServers_method :: string where "ExportServers_method = ''/server_management.v1.ServerManagementService/ExportServers''"
definition RequestReport_method :: string where "RequestReport_method = ''/reporting.v1.ReportingService/RequestReport''"

lemmas method_defs = Login_method_def RefreshToken_method_def Logout_method_def LogoutAll_method_def
  CreateServer_method_def UpdateServer_method_def DeleteServer_method_def ViewServers_method_def
  ImportServers_method_def ExportServers_method_def RequestReport_method_def

definition user_policy :: "string \<Rightarrow> int \<Rightarrow> int \<Rightarrow> Policy" where
  "user_policy name limit burst = \<lparr>PL_Name = name, PL_Limit = limit, PL_Burst = burst, PL_Window = minute,
     PL_Phase = PhasePostAuth, PL_Scopes = [ScopeUser]\<rparr>"

definition MethodPolicies :: "(string \<times> Policy) list" where
  "MethodPolicies =
     [(Login_method, \<lparr>PL_Name = ''login'', PL_Limit = 5, PL_Burst = 5, PL_Window = minute,
         PL_Phase = PhasePreAuth, PL_Scopes = [ScopeIP, ScopeIdentifier]\<rparr>),
      (RefreshToken_method, \<lparr>PL_Name = ''refresh_token'', PL_Limit = 30, PL_Burst = 10, PL_Window = minute,
         PL_Phase = PhasePreAuth, PL_Scopes = [ScopeIP]\<rparr>),
      (ViewServers_method, user_policy ''server_read'' 120 200),
      (CreateServer_method, user_policy ''server_write'' 60 80),
      (UpdateServer_method, user_policy ''server_write'' 60 80),
      (DeleteServer_method, user_policy ''server_dangerous'' 20 20),
      (ImportServers_method, user_policy ''server_import'' 5 5),
      (RequestReport_method, user_policy ''report_request'' 10 10)]"

definition normalizePolicy :: "Policy \<Rightarrow> Policy" where
  "normalizePolicy policy =
     (let p1 = (if PL_Burst policy \<le> 0 then policy\<lparr>PL_Burst := PL_Limit policy\<rparr> else policy);
          p2 = (if PL_Phase p1 = [] then p1\<lparr>PL_Phase := PhasePostAuth\<rparr> else p1)
      in if PL_Scopes p2 = [] then p2\<lparr>PL_Scopes := [ScopeUser]\<rparr> else p2)"

definition PolicyForMethod :: "string \<Rightarrow> Policy" where
  "PolicyForMethod m =
     (case map_of MethodPolicies m of Some policy \<Rightarrow> normalizePolicy policy | None \<Rightarrow> DefaultPolicy)"

section \<open>The limiter\<close>

record RateResult =
  RS_Allowed :: bool
  RS_Limit :: int
  RS_Remaining :: int
  RS_RetryAfter :: duration
  RS_ResetAfter :: duration

text \<open>The result of \<open>redis_rate\<close>: how many requests it allowed, and the times.\<close>

record rate_answer =
  ra_Allowed :: int
  ra_Remaining :: int
  ra_RetryAfter :: duration
  ra_ResetAfter :: duration

type_synonym redis_rate =
  "redis \<Rightarrow> time \<Rightarrow> string \<Rightarrow> int \<Rightarrow> int \<Rightarrow> duration \<Rightarrow> redis_db \<Rightarrow> (redis_error + rate_answer) \<times> redis_db"

datatype limit_error = ClientIsNil | KeyIsEmpty | InvalidLimit string int | InvalidWindow string int
  | RateFailed redis_error

record RedisLimiter =
  rl_client :: "redis iface"

definition NewRedisLimiter :: "redis iface \<Rightarrow> limit_error + RedisLimiter" where
  "NewRedisLimiter client = (if is_nil client then Inl ClientIsNil else Inr \<lparr>rl_client = client\<rparr>)"

definition Allow ::
  "redis_rate \<Rightarrow> RedisLimiter \<Rightarrow> time \<Rightarrow> string \<Rightarrow> Policy \<Rightarrow> redis_db \<Rightarrow> (limit_error + RateResult) go \<times> redis_db" where
  "Allow rr l now key policy s =
     (if key = [] then (Returns (Inl KeyIsEmpty), s)
      else if PL_Limit policy \<le> 0 then (Returns (Inl (InvalidLimit (PL_Name policy) (PL_Limit policy))), s)
      else if PL_Window policy \<le> 0 then (Returns (Inl (InvalidWindow (PL_Name policy) (PL_Window policy))), s)
      else (let burst = (if PL_Burst policy \<le> 0 then PL_Limit policy else PL_Burst policy) in
            case rl_client l of
              Iface c \<Rightarrow>
                (case rr c now key (PL_Limit policy) burst (PL_Window policy) s of
                   (Inl e, s') \<Rightarrow> (Returns (Inl (RateFailed e)), s')
                 | (Inr res, s') \<Rightarrow>
                     (Returns (Inr \<lparr>RS_Allowed = (ra_Allowed res > 0), RS_Limit = PL_Limit policy,
                        RS_Remaining = ra_Remaining res, RS_RetryAfter = ra_RetryAfter res,
                        RS_ResetAfter = ra_ResetAfter res\<rparr>), s'))
            | _ \<Rightarrow> (Panics nil_dereference, s)))"

section \<open>What the policies give\<close>

text \<open>Every policy passes the guards of the limiter.\<close>

lemma MethodPolicies_normal: "(m, p) \<in> set MethodPolicies \<Longrightarrow> normalizePolicy p = p"
  by (auto simp: MethodPolicies_def user_policy_def normalizePolicy_def PhasePreAuth_def PhasePostAuth_def)

lemma policy_cases: "PolicyForMethod m = DefaultPolicy \<or> (m, PolicyForMethod m) \<in> set MethodPolicies"
  by (auto simp: PolicyForMethod_def MethodPolicies_normal split: option.split dest!: map_of_SomeD)

lemma policy_usable:
  "0 < PL_Limit (PolicyForMethod m) \<and> 0 < PL_Window (PolicyForMethod m) \<and> 0 < PL_Burst (PolicyForMethod m)"
proof -
  have "0 < PL_Limit p \<and> 0 < PL_Window p \<and> 0 < PL_Burst p" if "(m, p) \<in> set MethodPolicies" for p
    using that by (auto simp: MethodPolicies_def user_policy_def)
  with policy_cases [of m] show ?thesis by (auto simp: DefaultPolicy_def)
qed

lemma policy_login: "PL_Phase (PolicyForMethod Login_method) = PhasePreAuth"
  "PL_Scopes (PolicyForMethod Login_method) = [ScopeIP, ScopeIdentifier]"
  by (simp_all add: PolicyForMethod_def MethodPolicies_def normalizePolicy_def PhasePreAuth_def)

lemma policy_phase:
  "PL_Phase (PolicyForMethod m) = PhasePreAuth \<or> PL_Phase (PolicyForMethod m) = PhasePostAuth"
proof -
  have "PL_Phase p = PhasePreAuth \<or> PL_Phase p = PhasePostAuth" if "(m, p) \<in> set MethodPolicies" for p
    using that by (auto simp: MethodPolicies_def user_policy_def)
  with policy_cases [of m] show ?thesis by (auto simp: DefaultPolicy_def)
qed

lemma Build_not_empty [simp]: "Build uni b n sc v \<noteq> []"
  by (simp add: Build_def Let_def)

text \<open>A key is made of the normalized values only: white space around a value and the case of ASCII
  letters do not change it.\<close>

lemma Build_normalized:
  assumes "list_all is_ascii (TrimSpace v)" and "list_all is_ascii (TrimSpace v')"
    and "map ascii_lower (TrimSpace v) = map ascii_lower (TrimSpace v')"
  shows "Build uni b n sc v = Build uni b n sc v'"
  using assms by (simp add: Build_def normalize_def ToLower_def)

end
