(* ===== verification/Middlewares.thy ===== *)
theory Middlewares
  imports Rate_Limit Security Go_Net
begin

text \<open>
  \<open>internal/shared/middlewares\<close>, \<open>internal/shared/grpcctx\<close>, \<open>internal/infrastructure/gateway\<close> and the
  chain of \<open>internal/app/grpc_server.go\<close>. An interceptor is a function of the context, the request, the
  method and the handler it wraps, over the state of a call: the Redis database, the headers set on the
  response and the state of the application.
\<close>

section \<open>Calls\<close>

datatype grpc_code = InvalidArgument | Unauthenticated | PermissionDenied | NotFound | AlreadyExists
  | ResourceExhausted | Unavailable | Internal | Unknown

datatype status = Status grpc_code string

text \<open>
  The context of a call: the incoming metadata (keys in lower case), the peer with its address (which
  may be nil) and the value stored by \<open>SetPrincipal\<close> (a pointer, which may be nil).
\<close>

record ctx =
  cx_md :: "(string \<Rightarrow> string list) option"
  cx_peer :: "string option option"
  cx_principal :: "Principal option option"

record LoginRequest =
  LQ_Identifier :: string
  LQ_Password :: string

record ListRequest =
  VQ_Page :: int
  VQ_Limit :: int
  VQ_FilterStatus :: string
  VQ_FilterName :: string
  VQ_SortBy :: string
  VQ_SortDirection :: string
  VQ_CreatedFrom :: string
  VQ_CreatedTo :: string

record ReportRequest =
  RQ_StartDate :: string
  RQ_EndDate :: string
  RQ_TargetEmail :: string

text \<open>A request is a pointer to a message, which may be nil.\<close>

datatype request =
    LoginReq "LoginRequest option"
  | RefreshReq "string option"
  | LogoutReq
  | LogoutAllReq
  | CreateServerReq "(string \<times> string) option"
  | UpdateServerReq "(string \<times> string \<times> string) option"
  | DeleteServerReq "string option"
  | ViewServersReq "ListRequest option"
  | ImportServersReq "(string \<times> string) option"
  | ExportServersReq "ListRequest option"
  | RequestReportReq "ReportRequest"

text \<open>The optional interfaces of \<open>ratelimit.go\<close>: only the login request has an identifier, none has an e-mail.\<close>

fun GetIdentifier :: "request \<Rightarrow> string option" where
  "GetIdentifier (LoginReq q) = Some (case q of None \<Rightarrow> [] | Some r \<Rightarrow> LQ_Identifier r)"
| "GetIdentifier _ = None"

definition GetEmail :: "request \<Rightarrow> string option" where
  "GetEmail req = None"

record 'a gstate =
  gs_redis :: redis_db
  gs_headers :: "(string \<times> string) list"
  gs_app :: 'a

type_synonym ('a, 'r) handler = "ctx \<Rightarrow> request \<Rightarrow> 'a gstate \<Rightarrow> (status + 'r) go \<times> 'a gstate"
type_synonym ('a, 'r) interceptor =
  "ctx \<Rightarrow> request \<Rightarrow> string \<Rightarrow> ('a, 'r) handler \<Rightarrow> 'a gstate \<Rightarrow> (status + 'r) go \<times> 'a gstate"

definition refuse :: "grpc_code \<Rightarrow> string \<Rightarrow> 'a gstate \<Rightarrow> (status + 'r) go \<times> 'a gstate" where
  "refuse c msg s = (Returns (Inl (Status c msg)), s)"

section \<open>The principal in the context\<close>

definition SetPrincipal :: "ctx \<Rightarrow> Principal option \<Rightarrow> ctx" where
  "SetPrincipal c p = c\<lparr>cx_principal := Some p\<rparr>"

definition GetPrincipal :: "ctx \<Rightarrow> Principal option \<times> bool" where
  "GetPrincipal c = (case cx_principal c of None \<Rightarrow> (None, False) | Some p \<Rightarrow> (p, True))"

definition GetActorFromCtx :: "ctx \<Rightarrow> string + Principal option" where
  "GetActorFromCtx c = (case GetPrincipal c of (actor, ok) \<Rightarrow> if \<not> ok then Inl ''unauthorized'' else Inr actor)"

lemma get_set_principal [simp]: "GetPrincipal (SetPrincipal c p) = (p, True)"
  by (simp add: GetPrincipal_def SetPrincipal_def)

section \<open>Rate limits\<close>

definition firstMetadataValue :: "(string \<Rightarrow> string list) \<Rightarrow> string \<Rightarrow> string" where
  "firstMetadataValue md key = (case md key of [] \<Rightarrow> [] | v # _ \<Rightarrow> v)"

definition forwarded_ip :: "(string \<Rightarrow> string list) \<Rightarrow> string" where
  "forwarded_ip md =
     (let forwarded = firstMetadataValue md ''x-forwarded-for'';
          ip = (if forwarded \<noteq> [] then TrimSpace (hd (Split forwarded (CHR '',''))) else []) in
      if ip \<noteq> [] then ip
      else (let realIP = firstMetadataValue md ''x-real-ip'' in
            if realIP \<noteq> [] then TrimSpace realIP else []))"

definition extractClientIP :: "ctx \<Rightarrow> string" where
  "extractClientIP c =
     (let ip = (case cx_md c of Some md \<Rightarrow> forwarded_ip md | None \<Rightarrow> []) in
      if ip \<noteq> [] then ip
      else (case cx_peer c of
              Some (Some addr) \<Rightarrow> (case SplitHostPort addr of Inr (host, _) \<Rightarrow> host | Inl _ \<Rightarrow> addr)
            | _ \<Rightarrow> []))"

definition identifierFromRequest :: "(string \<Rightarrow> string) \<Rightarrow> request \<Rightarrow> string" where
  "identifierFromRequest uni req =
     (case GetIdentifier req of None \<Rightarrow> [] | Some i \<Rightarrow> ToLower uni (TrimSpace i))"

definition emailFromRequest :: "(string \<Rightarrow> string) \<Rightarrow> request \<Rightarrow> string" where
  "emailFromRequest uni req =
     (case GetEmail req of None \<Rightarrow> [] | Some i \<Rightarrow> ToLower uni (TrimSpace i))"

definition userIDFromContext :: "ctx \<Rightarrow> string" where
  "userIDFromContext c =
     (case GetPrincipal c of
        (Some p, True) \<Rightarrow> P_UserID p
      | _ \<Rightarrow> [])"

definition valueForRateLimitScope :: "(string \<Rightarrow> string) \<Rightarrow> ctx \<Rightarrow> request \<Rightarrow> KeyScope \<Rightarrow> string" where
  "valueForRateLimitScope uni c req scope =
     (if scope = ScopeIP then extractClientIP c
      else if scope = ScopeIdentifier then identifierFromRequest uni req
      else if scope = ScopeEmail then emailFromRequest uni req
      else if scope = ScopeUser then userIDFromContext c
      else [])"

type_synonym rateLimitCheck = "KeyScope \<times> string"

fun buildRateLimitChecks ::
  "(string \<Rightarrow> string) \<Rightarrow> ctx \<Rightarrow> request \<Rightarrow> KeyBuilder \<Rightarrow> string \<Rightarrow> KeyScope list \<Rightarrow> rateLimitCheck list" where
  "buildRateLimitChecks uni c req kb name [] = []"
| "buildRateLimitChecks uni c req kb name (scope # scopes) =
     (let value = valueForRateLimitScope uni c req scope in
      if value = [] then buildRateLimitChecks uni c req kb name scopes
      else (scope, Build uni kb name scope value) # buildRateLimitChecks uni c req kb name scopes)"

definition limit_headers :: "RateResult \<Rightarrow> (string \<times> string) list" where
  "limit_headers res =
     [(''x-ratelimit-limit'', Itoa (RS_Limit res)),
      (''x-ratelimit-remaining'', Itoa (RS_Remaining res)),
      (''x-ratelimit-retry-after'', Itoa (truncate_float (duration_Seconds (RS_RetryAfter res))))]"

definition limiter_Allow ::
  "redis_rate \<Rightarrow> RedisLimiter iface \<Rightarrow> time \<Rightarrow> string \<Rightarrow> Policy \<Rightarrow> redis_db \<Rightarrow> (limit_error + RateResult) go \<times> redis_db" where
  "limiter_Allow rr limiter now key policy s =
     (case limiter of Iface l \<Rightarrow> Allow rr l now key policy s | _ \<Rightarrow> (Panics nil_dereference, s))"

fun run_checks ::
  "redis_rate \<Rightarrow> RedisLimiter iface \<Rightarrow> bool \<Rightarrow> time \<Rightarrow> Policy \<Rightarrow> rateLimitCheck list
   \<Rightarrow> ('a gstate \<Rightarrow> (status + 'r) go \<times> 'a gstate) \<Rightarrow> 'a gstate \<Rightarrow> (status + 'r) go \<times> 'a gstate" where
  "run_checks rr limiter failOpen now policy [] next s = next s"
| "run_checks rr limiter failOpen now policy ((scope, key) # checks) next s =
     (case limiter_Allow rr limiter now key policy (gs_redis s) of
        (Panics p, r) \<Rightarrow> (Panics p, s\<lparr>gs_redis := r\<rparr>)
      | (Returns (Inl _), r) \<Rightarrow>
          (if failOpen then next (s\<lparr>gs_redis := r\<rparr>)
           else refuse Unavailable ''rate limiter unavailable'' (s\<lparr>gs_redis := r\<rparr>))
      | (Returns (Inr result), r) \<Rightarrow>
          (if \<not> RS_Allowed result
           then refuse ResourceExhausted
                  (''rate limit exceeded for '' @ scope @ '', retry after '' @ duration_String (RS_RetryAfter result))
                  (s\<lparr>gs_redis := r, gs_headers := gs_headers s @ limit_headers result\<rparr>)
           else run_checks rr limiter failOpen now policy checks next (s\<lparr>gs_redis := r\<rparr>)))"

definition rateLimitInterceptor ::
  "redis_rate \<Rightarrow> (string \<Rightarrow> string) \<Rightarrow> RedisLimiter iface \<Rightarrow> KeyBuilder \<Rightarrow> RateLimitConfig option \<Rightarrow> Phase \<Rightarrow> time
   \<Rightarrow> ('a, 'r) interceptor" where
  "rateLimitInterceptor rr uni limiter kb rlCfg phase now c req m handler s =
     (case rlCfg of
        None \<Rightarrow> handler c req s
      | Some cfg \<Rightarrow>
          if \<not> RL_Enabled cfg \<or> is_nil limiter then handler c req s
          else (let policy = PolicyForMethod m in
                if PL_Phase policy \<noteq> phase then handler c req s
                else run_checks rr limiter (RL_FailOpen cfg) now policy
                       (buildRateLimitChecks uni c req kb (PL_Name policy) (PL_Scopes policy)) (handler c req) s))"

section \<open>Validation and CSRF\<close>

definition ValidationInterceptor :: "(request \<Rightarrow> string option) iface \<Rightarrow> ('a, 'r) interceptor" where
  "ValidationInterceptor v c req m handler s =
     (case v of
        Iface validate \<Rightarrow>
          (case validate req of
             Some err \<Rightarrow> refuse InvalidArgument (''invalid request: '' @ err) s
           | None \<Rightarrow> handler c req s)
      | _ \<Rightarrow> (Panics nil_dereference, s))"

definition stateChangingMethods :: "string list" where
  "stateChangingMethods =
     [Login_method, Logout_method, LogoutAll_method, CreateServer_method, UpdateServer_method,
      DeleteServer_method, ImportServers_method, RequestReport_method]"

definition csrf_message :: "csrf_failure \<Rightarrow> string" where
  "csrf_message e =
     ''CSRF validation failed: '' @ (case e of MissingCSRFToken \<Rightarrow> ''missing CSRF token'' | CSRFTokenMismatch \<Rightarrow> ''CSRF token mismatch'')"

definition CSRFInterceptor :: "('a, 'r) interceptor" where
  "CSRFInterceptor c req m handler s =
     (if m \<notin> set stateChangingMethods then handler c req s
      else (case cx_md c of
              None \<Rightarrow> handler c req s
            | Some md \<Rightarrow>
                (let cookieToken = TrimSpace (firstMetadataValue md ''cookie-csrf-token'');
                     headerToken = TrimSpace (firstMetadataValue md ''x-csrf-token'') in
                 if cookieToken = [] \<and> headerToken = [] then handler c req s
                 else (case ValidateCSRFToken cookieToken headerToken of
                         Some e \<Rightarrow> refuse PermissionDenied (csrf_message e) s
                       | None \<Rightarrow> handler c req s))))"

section \<open>Authentication and permissions\<close>

definition extractBearerTokenFromMetadata :: "ctx \<Rightarrow> string + string" where
  "extractBearerTokenFromMetadata c =
     (case cx_md c of
        None \<Rightarrow> Inl ''missing token''
      | Some md \<Rightarrow>
          (case md ''authorization'' of
             [] \<Rightarrow> Inl ''missing token''
           | v # _ \<Rightarrow>
               (case SplitN2 (TrimSpace v) (CHR '' '') of
                  [scheme, rest] \<Rightarrow>
                    if scheme \<noteq> ''Bearer'' \<or> TrimSpace rest = [] then Inl ''invalid token''
                    else Inr (TrimSpace rest)
                | _ \<Rightarrow> Inl ''invalid token'')))"

definition AuthenticationInterceptor ::
  "jwt \<Rightarrow> Authenticator option \<Rightarrow> (string \<times> bool) list \<Rightarrow> time \<Rightarrow> ('a, 'r) interceptor" where
  "AuthenticationInterceptor j authenticator publicMethods now c req m handler s =
     (case authenticator of
        None \<Rightarrow> refuse Internal ''internal server error'' s
      | Some a \<Rightarrow>
          if map_of publicMethods m = Some True then handler c req s
          else (case extractBearerTokenFromMetadata c of
                  Inl err \<Rightarrow> refuse Unauthenticated err s
                | Inr tokenString \<Rightarrow>
                    (case Authenticate j a now tokenString (gs_redis s) of
                       (Panics p, r) \<Rightarrow> (Panics p, s\<lparr>gs_redis := r\<rparr>)
                     | (Returns (Inl _), r) \<Rightarrow> refuse Unauthenticated ''invalid authorize format'' (s\<lparr>gs_redis := r\<rparr>)
                     | (Returns (Inr p), r) \<Rightarrow> handler (SetPrincipal c (Some p)) req (s\<lparr>gs_redis := r\<rparr>))))"

definition PermissionInterceptor ::
  "Authorizer option \<Rightarrow> (string \<times> PermissionCode) list \<Rightarrow> ('a, 'r) interceptor" where
  "PermissionInterceptor authorizer methodPermissions c req m handler s =
     (case authorizer of
        None \<Rightarrow> refuse Internal ''internal server error'' s
      | Some a \<Rightarrow>
          (case map_of methodPermissions m of
             None \<Rightarrow> handler c req s
           | Some required \<Rightarrow>
               (case GetPrincipal c of
                  (Some p, True) \<Rightarrow>
                    if \<not> HasPermission a (Some p) required then refuse PermissionDenied ''forbidden'' s
                    else handler c req s
                | _ \<Rightarrow> refuse Unauthenticated ''unauthorized'' s)))"

section \<open>Recovery\<close>

definition RecoveryInterceptor :: "('a, 'r) interceptor" where
  "RecoveryInterceptor c req m handler s =
     (case handler c req s of
        (Panics _, s') \<Rightarrow> (Returns (Inl (Status Internal ''internal server error'')), s')
      | (Returns r, s') \<Rightarrow> (Returns r, s'))"

section \<open>The chain of the server\<close>

record GRPCServerDeps =
  gd_Validator :: "(request \<Rightarrow> string option) iface"
  gd_Authenticator :: "Authenticator option"
  gd_Authorizer :: "Authorizer option"
  gd_RateLimiter :: "RedisLimiter iface"
  gd_RateLimitKeyBuilder :: KeyBuilder
  gd_RateLimitConfig :: "RateLimitConfig option"
  gd_jwt :: jwt
  gd_rate :: redis_rate
  gd_uni :: "string \<Rightarrow> string"

definition buildGRPCPublicMethods :: "(string \<times> bool) list" where
  "buildGRPCPublicMethods =
     [(''/grpc.health.v1.Health/Check'', True), (''/portal.auth.v1.AuthService/Login'', True),
      (''/portal.auth.v1.AuthService/RefreshToken'', True)]"

definition buildGRPCMethodPermissions :: "(string \<times> PermissionCode) list" where
  "buildGRPCMethodPermissions =
     [(''/server_management.v1.ServerManagementService/CreateServer'', PermServerCreate),
      (''/server_management.v1.ServerManagementService/UpdateServer'', PermServerUpdate),
      (''/server_management.v1.ServerManagementService/DeleteServer'', PermServerDelete),
      (''/server_management.v1.ServerManagementService/ImportServers'', PermServerImport),
      (''/server_management.v1.ServerManagementService/ExportServers'', PermServerExport),
      (''/server_management.v1.ServerManagementService/ViewServers'', PermServerRead),
      (''/reporting.v1.ReportingService/RequestReport'', PermReportRequest)]"

text \<open>\<open>ChainUnaryInterceptor\<close>: each interceptor gets the rest of the chain as its handler.\<close>

definition chain :: "('a, 'r) interceptor \<Rightarrow> ('a, 'r) interceptor \<Rightarrow> ('a, 'r) interceptor" where
  "chain f g c req m handler s = f c req m (\<lambda>c' req' s'. g c' req' m handler s') s"

definition inner_chain :: "GRPCServerDeps \<Rightarrow> time \<Rightarrow> ('a, 'r) interceptor" where
  "inner_chain d now =
     (let limit = rateLimitInterceptor (gd_rate d) (gd_uni d) (gd_RateLimiter d) (gd_RateLimitKeyBuilder d) (gd_RateLimitConfig d)
      in chain (limit PhasePreAuth now)
        (chain (ValidationInterceptor (gd_Validator d))
        (chain CSRFInterceptor
        (chain (AuthenticationInterceptor (gd_jwt d) (gd_Authenticator d) buildGRPCPublicMethods now)
        (chain (limit PhasePostAuth now)
          (PermissionInterceptor (gd_Authorizer d) buildGRPCMethodPermissions))))))"

definition NewGRPCServer :: "GRPCServerDeps \<Rightarrow> time \<Rightarrow> ('a, 'r) interceptor" where
  "NewGRPCServer d now = chain RecoveryInterceptor (inner_chain d now)"

section \<open>The gateway\<close>

text \<open>The default matcher of \<open>grpc-gateway\<close> is a parameter.\<close>

definition CustomIncomingMatcher :: "(string \<Rightarrow> string option) \<Rightarrow> string \<Rightarrow> string option" where
  "CustomIncomingMatcher dflt key = (if key = ''Cookie'' then Some ''cookie'' else dflt key)"

definition CustomOutgoingMatcher :: "(string \<Rightarrow> string option) \<Rightarrow> string \<Rightarrow> string option" where
  "CustomOutgoingMatcher dflt key =
     (if key \<in> {''set-cookie-access-token'', ''set-cookie-refresh-token'', ''set-cookie-csrf-token'', ''clear-cookie''}
      then Some ''Set-Cookie'' else dflt key)"

record http_request =
  hr_method :: string
  hr_header :: "string \<Rightarrow> string list"
  hr_cookies :: "(string \<times> string) list"
  hr_query :: "string \<Rightarrow> string"
  hr_body :: "string + string"
  hr_principal :: "Principal option"

definition CookieMiddleware :: "http_request \<Rightarrow> http_request" where
  "CookieMiddleware r =
     (case map_of (hr_cookies r) ''access_token'' of
        Some v \<Rightarrow> r\<lparr>hr_header := (hr_header r)(''Authorization'' := hr_header r ''Authorization'' @ [''Bearer '' @ v])\<rparr>
      | None \<Rightarrow> r)"

end
