(* ===== verification/Identity.thy ===== *)
theory Identity
  imports Security
begin

text \<open>
  The identity module: the tables of \<open>internal/modules/identity/domain\<close>, the repositories of
  \<open>internal/modules/identity/repository/impl\<close> and the service of
  \<open>internal/modules/identity/service/auth_service.go\<close>.

  A repository operation takes the engine of its table and returns the result and the table. The
  service works on the record \<open>identity_state\<close> of the three tables and the Redis database; its
  collaborators (engines, Redis client, JWT and UUID libraries, bcrypt) are the record
  \<open>auth_service\<close>. Every clock reading made while one request is served is the same instant
  \<open>now\<close>, and the fresh identifier drawn by \<open>uuid.New\<close> is an input.
\<close>

section \<open>Domain\<close>

record User =
  U_ID :: nat
  U_CreatedAt :: time
  U_UpdatedAt :: time
  U_DeletedAt :: "time option"
  U_Email :: string
  U_Password :: string
  U_RoleCode :: RoleCode

record AuthSession =
  AS_ID :: uuid
  AS_UserID :: nat
  AS_ExpiresAt :: time
  AS_LastUsedAt :: "time option"
  AS_RevokedAt :: "time option"
  AS_IPAddress :: string
  AS_UserAgent :: string
  AS_CreatedAt :: time
  AS_UpdatedAt :: time

record RefreshToken =
  RT_ID :: uuid
  RT_SessionID :: uuid
  RT_UserID :: nat
  RT_TokenHash :: string
  RT_ExpiresAt :: time
  RT_RevokedAt :: "time option"
  RT_ReplacedBy :: "uuid option"
  RT_CreatedAt :: time
  RT_UpdatedAt :: time

section \<open>Repositories\<close>

text \<open>A model that embeds \<open>gorm.Model\<close> is soft-deleted: queries see rows with no deletion time.\<close>

definition FindByEmail :: "User gorm \<Rightarrow> string \<Rightarrow> User tbl \<Rightarrow> (gorm_error + User option) \<times> User tbl" where
  "FindByEmail g email t =
     (case g_first g (\<lambda>u. U_DeletedAt u = None \<and> U_Email u = email) t of
        (Inl e, t') \<Rightarrow> (if e = ErrRecordNotFound then (Inr None, t') else (Inl e, t'))
      | (Inr u, t') \<Rightarrow> (Inr (Some u), t'))"

definition FindByID :: "User gorm \<Rightarrow> nat \<Rightarrow> User tbl \<Rightarrow> (gorm_error + User option) \<times> User tbl" where
  "FindByID g i t =
     (case g_first g (\<lambda>u. U_DeletedAt u = None \<and> U_ID u = i) t of
        (Inl e, t') \<Rightarrow> (if e = ErrRecordNotFound then (Inr None, t') else (Inl e, t'))
      | (Inr u, t') \<Rightarrow> (Inr (Some u), t'))"

definition session_active :: "time \<Rightarrow> AuthSession \<Rightarrow> bool" where
  "session_active now x \<longleftrightarrow> AS_RevokedAt x = None \<and> AS_ExpiresAt x > now"

definition CreateSession ::
  "AuthSession gorm \<Rightarrow> AuthSession \<Rightarrow> AuthSession tbl \<Rightarrow> (gorm_error + AuthSession) \<times> AuthSession tbl" where
  "CreateSession g session t = g_create g session t"

definition FindActiveByID ::
  "AuthSession gorm \<Rightarrow> time \<Rightarrow> uuid \<Rightarrow> AuthSession tbl \<Rightarrow> (gorm_error + AuthSession) \<times> AuthSession tbl" where
  "FindActiveByID g now i t = g_first g (\<lambda>x. AS_ID x = i \<and> session_active now x) t"

definition ListActiveByUserID ::
  "AuthSession gorm \<Rightarrow> time \<Rightarrow> nat \<Rightarrow> AuthSession tbl \<Rightarrow> (gorm_error + AuthSession list) \<times> AuthSession tbl" where
  "ListActiveByUserID g now uid t = g_find g (\<lambda>x. AS_UserID x = uid \<and> session_active now x) t"

definition revoke_session :: "time \<Rightarrow> AuthSession \<Rightarrow> AuthSession" where
  "revoke_session now x = x\<lparr>AS_RevokedAt := Some now, AS_UpdatedAt := now\<rparr>"

definition RevokeSessionByID ::
  "AuthSession gorm \<Rightarrow> time \<Rightarrow> uuid \<Rightarrow> AuthSession tbl \<Rightarrow> (gorm_error + nat) \<times> AuthSession tbl" where
  "RevokeSessionByID g now i t = g_update g (\<lambda>x. AS_ID x = i) (revoke_session now) t"

definition RevokeAllByUserID ::
  "AuthSession gorm \<Rightarrow> time \<Rightarrow> nat \<Rightarrow> AuthSession tbl \<Rightarrow> (gorm_error + nat) \<times> AuthSession tbl" where
  "RevokeAllByUserID g now uid t =
     g_update g (\<lambda>x. AS_UserID x = uid \<and> AS_RevokedAt x = None) (revoke_session now) t"

definition CreateToken ::
  "RefreshToken gorm \<Rightarrow> RefreshToken \<Rightarrow> RefreshToken tbl \<Rightarrow> (gorm_error + RefreshToken) \<times> RefreshToken tbl" where
  "CreateToken g token t = g_create g token t"

definition FindByTokenHash ::
  "RefreshToken gorm \<Rightarrow> string \<Rightarrow> RefreshToken tbl \<Rightarrow> (gorm_error + RefreshToken) \<times> RefreshToken tbl" where
  "FindByTokenHash g h t = g_first g (\<lambda>x. RT_TokenHash x = h) t"

definition revoke_token :: "time \<Rightarrow> RefreshToken \<Rightarrow> RefreshToken" where
  "revoke_token now x = x\<lparr>RT_RevokedAt := Some now, RT_UpdatedAt := now\<rparr>"

definition RevokeTokenByID ::
  "RefreshToken gorm \<Rightarrow> time \<Rightarrow> uuid \<Rightarrow> RefreshToken tbl \<Rightarrow> (gorm_error + nat) \<times> RefreshToken tbl" where
  "RevokeTokenByID g now i t = g_update g (\<lambda>x. RT_ID x = i) (revoke_token now) t"

definition RevokeBySessionID ::
  "RefreshToken gorm \<Rightarrow> time \<Rightarrow> uuid \<Rightarrow> RefreshToken tbl \<Rightarrow> (gorm_error + nat) \<times> RefreshToken tbl" where
  "RevokeBySessionID g now sid t =
     g_update g (\<lambda>x. RT_SessionID x = sid \<and> RT_RevokedAt x = None) (revoke_token now) t"

definition RevokeByUserID ::
  "RefreshToken gorm \<Rightarrow> time \<Rightarrow> nat \<Rightarrow> RefreshToken tbl \<Rightarrow> (gorm_error + nat) \<times> RefreshToken tbl" where
  "RevokeByUserID g now uid t =
     g_update g (\<lambda>x. RT_UserID x = uid \<and> RT_RevokedAt x = None) (revoke_token now) t"

definition MarkReplacement ::
  "RefreshToken gorm \<Rightarrow> time \<Rightarrow> uuid \<Rightarrow> uuid \<Rightarrow> RefreshToken tbl \<Rightarrow> (gorm_error + nat) \<times> RefreshToken tbl" where
  "MarkReplacement g now oldTokenID newTokenID t =
     g_update g (\<lambda>x. RT_ID x = oldTokenID)
       (\<lambda>x. (revoke_token now x)\<lparr>RT_ReplacedBy := Some newTokenID\<rparr>) t"

text \<open>The revocation store: a key per session that lives as long as the session would have.\<close>

definition MarkRevoked ::
  "uuid_lib \<Rightarrow> redis iface \<Rightarrow> time \<Rightarrow> uuid \<Rightarrow> time \<Rightarrow> redis_db \<Rightarrow> (redis_error + unit) go \<times> redis_db" where
  "MarkRevoked ul client now sessionID expiresAt s =
     (let ttl = duration_Round (time_Sub expiresAt now) second in
      if ttl \<le> 0 then (Returns (Inr ()), s)
      else (case client of
          Iface rc \<Rightarrow>
            (let (r, s') = r_set rc now (revoked_key (uuid_String ul sessionID)) ''revoked'' ttl s
             in (Returns r, s'))
        | _ \<Rightarrow> (Panics nil_dereference, s)))"

section \<open>Service\<close>

datatype auth_error =
    ErrInvalidCredentials
  | ErrInvalidRefreshToken
  | ErrUserNotFound
  | ErrUnauthorized
  | ErrFindUser gorm_error
  | ErrCreateSession gorm_error
  | ErrCreateToken gorm_error
  | ErrSignToken string
  | ErrListSessions gorm_error

record LoginResult =
  LR_AccessToken :: string
  LR_RefreshToken :: string
  LR_ExpiresIn :: int
  LR_User :: User

record RefreshResult =
  RR_AccessToken :: string
  RR_RefreshToken :: string
  RR_ExpiresIn :: int

record auth_service =
  as_users :: "User gorm"
  as_sessions :: "AuthSession gorm"
  as_tokens :: "RefreshToken gorm"
  as_redis :: "redis iface"
  as_jwt :: jwt
  as_uuid :: uuid_lib
  as_secret :: string
  as_bcrypt :: "string \<Rightarrow> string \<Rightarrow> bool"

record identity_state =
  st_users :: "User tbl"
  st_sessions :: "AuthSession tbl"
  st_tokens :: "RefreshToken tbl"
  st_redis :: redis_db

definition refreshTTL :: duration where
  "refreshTTL = 7 * 24 * hour"

definition new_session :: "User \<Rightarrow> time \<Rightarrow> string \<Rightarrow> string \<Rightarrow> AuthSession" where
  "new_session user now ipAddress userAgent =
     \<lparr>AS_ID = 0, AS_UserID = U_ID user, AS_ExpiresAt = now + refreshTTL, AS_LastUsedAt = Some now,
      AS_RevokedAt = None, AS_IPAddress = ipAddress, AS_UserAgent = userAgent,
      AS_CreatedAt = 0, AS_UpdatedAt = 0\<rparr>"

definition new_token :: "uuid \<Rightarrow> nat \<Rightarrow> string \<Rightarrow> time \<Rightarrow> RefreshToken" where
  "new_token sid uid h expires =
     \<lparr>RT_ID = 0, RT_SessionID = sid, RT_UserID = uid, RT_TokenHash = h, RT_ExpiresAt = expires,
      RT_RevokedAt = None, RT_ReplacedBy = None, RT_CreatedAt = 0, RT_UpdatedAt = 0\<rparr>"

definition Login ::
  "auth_service \<Rightarrow> time \<Rightarrow> uuid \<Rightarrow> string \<Rightarrow> string \<Rightarrow> string \<Rightarrow> string \<Rightarrow> identity_state
   \<Rightarrow> (auth_error + LoginResult) \<times> identity_state" where
  "Login d now fresh email password ipAddress userAgent s =
     (case FindByEmail (as_users d) email (st_users s) of
        (Inl e, tu) \<Rightarrow> (Inl (ErrFindUser e), s\<lparr>st_users := tu\<rparr>)
      | (Inr None, tu) \<Rightarrow> (Inl ErrInvalidCredentials, s\<lparr>st_users := tu\<rparr>)
      | (Inr (Some user), tu) \<Rightarrow>
          (let s1 = s\<lparr>st_users := tu\<rparr> in
           if \<not> as_bcrypt d (U_Password user) password then (Inl ErrInvalidCredentials, s1)
           else
             let rawRefreshToken = GenerateRefreshToken (as_uuid d) fresh;
                 hashedToken = HashToken rawRefreshToken
             in (case CreateSession (as_sessions d) (new_session user now ipAddress userAgent) (st_sessions s1) of
                   (Inl e, ts) \<Rightarrow> (Inl (ErrCreateSession e), s1\<lparr>st_sessions := ts\<rparr>)
                 | (Inr session, ts) \<Rightarrow>
                     (let s2 = s1\<lparr>st_sessions := ts\<rparr> in
                      case CreateToken (as_tokens d)
                             (new_token (AS_ID session) (U_ID user) hashedToken (now + refreshTTL)) (st_tokens s2) of
                        (Inl e, tt) \<Rightarrow> (Inl (ErrCreateToken e), s2\<lparr>st_tokens := tt\<rparr>)
                      | (Inr _, tt) \<Rightarrow>
                          (let s3 = s2\<lparr>st_tokens := tt\<rparr> in
                           case GenerateAccessToken (as_jwt d) (as_uuid d) (as_secret d) now
                                  (U_ID user) (U_RoleCode user) (AS_ID session) of
                             Inl e \<Rightarrow> (Inl (ErrSignToken e), s3)
                           | Inr accessToken \<Rightarrow>
                               (Inr \<lparr>LR_AccessToken = accessToken, LR_RefreshToken = rawRefreshToken,
                                     LR_ExpiresIn = 15 * 60, LR_User = user\<rparr>, s3))))))"

text \<open>The loop of \<open>LogoutAll\<close>: errors of the store are ignored, a panic ends it.\<close>

fun mark_all_revoked ::
  "auth_service \<Rightarrow> time \<Rightarrow> AuthSession list \<Rightarrow> redis_db \<Rightarrow> unit go \<times> redis_db" where
  "mark_all_revoked d now [] r = (Returns (), r)"
| "mark_all_revoked d now (x # xs) r =
     (case MarkRevoked (as_uuid d) (as_redis d) now (AS_ID x) (AS_ExpiresAt x) r of
        (Panics m, r') \<Rightarrow> (Panics m, r')
      | (Returns _, r') \<Rightarrow> mark_all_revoked d now xs r')"

definition LogoutAll ::
  "auth_service \<Rightarrow> time \<Rightarrow> nat \<Rightarrow> identity_state \<Rightarrow> (auth_error + unit) go \<times> identity_state" where
  "LogoutAll d now userID s =
     (case ListActiveByUserID (as_sessions d) now userID (st_sessions s) of
        (Inl e, ts) \<Rightarrow> (Returns (Inl (ErrListSessions e)), s\<lparr>st_sessions := ts\<rparr>)
      | (Inr sessions, ts) \<Rightarrow>
          (let ts' = snd (RevokeAllByUserID (as_sessions d) now userID ts);
               tt' = snd (RevokeByUserID (as_tokens d) now userID (st_tokens s));
               (m, r') = mark_all_revoked d now sessions (st_redis s);
               s' = s\<lparr>st_sessions := ts', st_tokens := tt', st_redis := r'\<rparr>
           in case m of Panics p \<Rightarrow> (Panics p, s') | Returns _ \<Rightarrow> (Returns (Inr ()), s')))"

definition Refresh ::
  "auth_service \<Rightarrow> time \<Rightarrow> uuid \<Rightarrow> string \<Rightarrow> identity_state
   \<Rightarrow> (auth_error + RefreshResult) go \<times> identity_state" where
  "Refresh d now fresh refreshToken s =
     (if refreshToken = [] then (Returns (Inl ErrInvalidRefreshToken), s)
      else
        (case FindByTokenHash (as_tokens d) (HashToken refreshToken) (st_tokens s) of
           (Inl _, tt) \<Rightarrow> (Returns (Inl ErrInvalidRefreshToken), s\<lparr>st_tokens := tt\<rparr>)
         | (Inr foundToken, tt) \<Rightarrow>
             (let s1 = s\<lparr>st_tokens := tt\<rparr> in
              if RT_RevokedAt foundToken \<noteq> None then
                (case LogoutAll d now (RT_UserID foundToken) s1 of
                   (Panics m, s2) \<Rightarrow> (Panics m, s2)
                 | (Returns _, s2) \<Rightarrow> (Returns (Inl ErrInvalidRefreshToken), s2))
              else if RT_ExpiresAt foundToken < now then (Returns (Inl ErrInvalidRefreshToken), s1)
              else
                (case FindActiveByID (as_sessions d) now (RT_SessionID foundToken) (st_sessions s1) of
                   (Inl _, ts) \<Rightarrow> (Returns (Inl ErrInvalidRefreshToken), s1\<lparr>st_sessions := ts\<rparr>)
                 | (Inr session, ts) \<Rightarrow>
                     (let s2 = s1\<lparr>st_sessions := ts\<rparr> in
                      case FindByID (as_users d) (AS_UserID session) (st_users s2) of
                        (Inl _, tu) \<Rightarrow> (Returns (Inl ErrUserNotFound), s2\<lparr>st_users := tu\<rparr>)
                      | (Inr None, tu) \<Rightarrow> (Returns (Inl ErrUserNotFound), s2\<lparr>st_users := tu\<rparr>)
                      | (Inr (Some user), tu) \<Rightarrow>
                          (let s3 = s2\<lparr>st_users := tu\<rparr>;
                               rawRefreshToken = GenerateRefreshToken (as_uuid d) fresh;
                               newHash = HashToken rawRefreshToken;
                               newRefreshExpiresAt =
                                 (if now + refreshTTL > AS_ExpiresAt session
                                  then AS_ExpiresAt session else now + refreshTTL);
                               tt1 = snd (RevokeTokenByID (as_tokens d) now (RT_ID foundToken) (st_tokens s3));
                               (created, tt2) = CreateToken (as_tokens d)
                                 (new_token (AS_ID session) (U_ID user) newHash newRefreshExpiresAt) tt1;
                               newID = (case created of Inl _ \<Rightarrow> 0 | Inr tok \<Rightarrow> RT_ID tok);
                               tt3 = snd (MarkReplacement (as_tokens d) now (RT_ID foundToken) newID tt2);
                               s4 = s3\<lparr>st_tokens := tt3\<rparr>
                           in case GenerateAccessToken (as_jwt d) (as_uuid d) (as_secret d) now
                                     (U_ID user) (U_RoleCode user) (AS_ID session) of
                                Inl e \<Rightarrow> (Returns (Inl (ErrSignToken e)), s4)
                              | Inr accessToken \<Rightarrow>
                                  (Returns (Inr \<lparr>RR_AccessToken = accessToken,
                                     RR_RefreshToken = rawRefreshToken, RR_ExpiresIn = 15 * 60\<rparr>), s4)))))))"

definition Logout ::
  "auth_service \<Rightarrow> time \<Rightarrow> string \<Rightarrow> identity_state \<Rightarrow> (auth_error + unit) go \<times> identity_state" where
  "Logout d now sessionIDStr s =
     (case uuid_Parse (as_uuid d) sessionIDStr of
        None \<Rightarrow> (Returns (Inl ErrInvalidRefreshToken), s)
      | Some sessionID \<Rightarrow>
          (case FindActiveByID (as_sessions d) now sessionID (st_sessions s) of
             (Inl _, ts) \<Rightarrow> (Returns (Inr ()), s\<lparr>st_sessions := ts\<rparr>)
           | (Inr session, ts) \<Rightarrow>
               (let ts' = snd (RevokeSessionByID (as_sessions d) now sessionID ts);
                    tt' = snd (RevokeBySessionID (as_tokens d) now sessionID (st_tokens s));
                    (m, r') = MarkRevoked (as_uuid d) (as_redis d) now (AS_ID session)
                                (AS_ExpiresAt session) (st_redis s);
                    s' = s\<lparr>st_sessions := ts', st_tokens := tt', st_redis := r'\<rparr>
                in case m of Panics p \<Rightarrow> (Panics p, s') | Returns _ \<Rightarrow> (Returns (Inr ()), s'))))"

end
