(* ===== verification/Handlers.thy ===== *)
theory Handlers
  imports Middlewares Identity Import_Export Reporting
begin

text \<open>
  The gRPC handlers: \<open>identity/handler/grpcserver/auth_server.go\<close>,
  \<open>server_management/handler/grpcserver/server_handler.go\<close> and
  \<open>reporting/handler/grpcserver/grpc_server.go\<close>. They run on the whole state of the application and
  turn the results of the services into responses and statuses.
\<close>

section \<open>The state of the application\<close>

record app_state =
  ap_users :: "User tbl"
  ap_sessions :: "AuthSession tbl"
  ap_tokens :: "RefreshToken tbl"
  ap_servers :: "Server tbl"
  ap_reports :: report_state

text \<open>What a call reads from outside: the clock, fresh UUIDs and random bytes.\<close>

record inputs =
  in_now :: time
  in_token :: uuid
  in_report :: uuid
  in_correlation :: string
  in_rand :: "string + string"

record services =
  hs_auth :: auth_service
  hs_server :: server_service
  hs_excel :: excelize
  hs_loc :: "time \<Rightarrow> int"
  hs_scan_error :: "string \<Rightarrow> string"
  hs_date_error :: "string \<Rightarrow> string"
  hs_report :: reportingWorkerImpl

text \<open>A service runs on its part of the state.\<close>

definition with_identity :: "(identity_state \<Rightarrow> 'x \<times> identity_state) \<Rightarrow> app_state gstate \<Rightarrow> 'x \<times> app_state gstate" where
  "with_identity f s =
     (case f \<lparr>st_users = ap_users (gs_app s), st_sessions = ap_sessions (gs_app s), st_tokens = ap_tokens (gs_app s),
              st_redis = gs_redis s\<rparr> of
        (x, i) \<Rightarrow> (x, s\<lparr>gs_redis := st_redis i,
           gs_app := (gs_app s)\<lparr>ap_users := st_users i, ap_sessions := st_sessions i, ap_tokens := st_tokens i\<rparr>\<rparr>))"

definition with_servers :: "(server_state \<Rightarrow> 'x \<times> server_state) \<Rightarrow> app_state gstate \<Rightarrow> 'x \<times> app_state gstate" where
  "with_servers f s =
     (case f \<lparr>st_servers = ap_servers (gs_app s), st_cache = gs_redis s\<rparr> of
        (x, t) \<Rightarrow> (x, s\<lparr>gs_redis := st_cache t, gs_app := (gs_app s)\<lparr>ap_servers := st_servers t\<rparr>\<rparr>))"

definition with_reports :: "(report_state \<Rightarrow> 'x \<times> report_state) \<Rightarrow> app_state gstate \<Rightarrow> 'x \<times> app_state gstate" where
  "with_reports f s =
     (case f ((ap_reports (gs_app s))\<lparr>rp_servers := ap_servers (gs_app s)\<rparr>) of
        (x, r) \<Rightarrow> (x, s\<lparr>gs_app := (gs_app s)\<lparr>ap_reports := r, ap_servers := rp_servers r\<rparr>\<rparr>))"

section \<open>Responses\<close>

record ServerPB =
  PB_ServerId :: string
  PB_ServerName :: string
  PB_Ipv4 :: string
  PB_CurrentStatus :: string
  PB_CreatedAt :: string
  PB_UpdatedAt :: string

text \<open>\<open>Waiting\<close>: the handler waits for room in the channel of the report jobs and answers afterwards.\<close>

datatype response =
    TokenResponse string string string int
  | MessageResponse string
  | ServerResponse ServerPB
  | DeleteResponse bool
  | ViewResponse int "ServerPB list"
  | ImportResponse ImportResult
  | ExportResponse string string
  | ReportResponse string int string
  | Waiting

section \<open>Cookies\<close>

text \<open>\<open>http.Cookie.String\<close> for the fields that are used: bytes that a cookie value cannot hold are dropped.\<close>

definition validCookieValueByte :: "char \<Rightarrow> bool" where
  "validCookieValueByte b \<longleftrightarrow> 32 \<le> (of_char b :: nat) \<and> of_char b < (127 :: nat) \<and> b \<noteq> CHR 0x22 \<and> b \<noteq> CHR '';'' \<and> b \<noteq> CHR 0x5C"

definition sanitizeCookieValue :: "string \<Rightarrow> string" where
  "sanitizeCookieValue v =
     (let w = filter validCookieValueByte v in
      if w \<noteq> [] \<and> (CHR '' '' \<in> set w \<or> CHR '','' \<in> set w) then CHR 0x22 # w @ [CHR 0x22] else w)"

definition cookie_String :: "string \<Rightarrow> string \<Rightarrow> int \<Rightarrow> bool \<Rightarrow> string" where
  "cookie_String name value maxAge httpOnly =
     name @ ''='' @ sanitizeCookieValue value @ ''; Path=/''
     @ (if 0 < maxAge then ''; Max-Age='' @ Itoa maxAge else if maxAge < 0 then ''; Max-Age=0'' else [])
     @ (if httpOnly then ''; HttpOnly'' else []) @ ''; SameSite=Lax''"

definition authCookie :: "string \<Rightarrow> string \<Rightarrow> int \<Rightarrow> bool \<Rightarrow> string" where
  "authCookie name value maxAge httpOnly = cookie_String name value maxAge httpOnly"

definition clearCookie :: "string \<Rightarrow> string" where
  "clearCookie name = cookie_String name [] (- 1) (name \<noteq> ''csrf_token'')"

section \<open>Authentication\<close>

definition getClientIP :: "ctx \<Rightarrow> string go" where
  "getClientIP c =
     (case cx_peer c of
        None \<Rightarrow> Returns []
      | Some None \<Rightarrow> Panics nil_dereference
      | Some (Some addr) \<Rightarrow> Returns addr)"

definition getUserAgent :: "ctx \<Rightarrow> string" where
  "getUserAgent c =
     (case cx_md c of
        None \<Rightarrow> []
      | Some md \<Rightarrow>
          (case md ''grpcgateway-user-agent'' of
             a # _ \<Rightarrow> a
           | [] \<Rightarrow> (case md ''user-agent'' of a # _ \<Rightarrow> a | [] \<Rightarrow> [])))"

definition set_header :: "(string \<times> string) list \<Rightarrow> 'a gstate \<Rightarrow> 'a gstate" where
  "set_header kvs s = s\<lparr>gs_headers := gs_headers s @ kvs\<rparr>"

definition token_cookies :: "string \<Rightarrow> string \<Rightarrow> string \<Rightarrow> int \<Rightarrow> (string \<times> string) list" where
  "token_cookies accessToken refreshToken csrfToken expiresIn =
     [(''set-cookie-access-token'', authCookie ''access_token'' accessToken expiresIn True),
      (''set-cookie-refresh-token'', authCookie ''refresh_token'' refreshToken 604800 True),
      (''set-cookie-csrf-token'', authCookie ''csrf_token'' csrfToken 86400 False)]"

definition cleared_cookies :: "(string \<times> string) list" where
  "cleared_cookies =
     [(''clear-cookie'', clearCookie ''access_token''), (''clear-cookie'', clearCookie ''refresh_token''),
      (''clear-cookie'', clearCookie ''csrf_token'')]"

definition with_cookies :: "inputs \<Rightarrow> string \<Rightarrow> string \<Rightarrow> int \<Rightarrow> 'a gstate \<Rightarrow> 'a gstate" where
  "with_cookies i accessToken refreshToken expiresIn s =
     (case GenerateCSRFToken (in_rand i) of
        Inl _ \<Rightarrow> s
      | Inr csrfToken \<Rightarrow> set_header (token_cookies accessToken refreshToken csrfToken expiresIn) s)"

definition LoginHandler :: "services \<Rightarrow> inputs \<Rightarrow> ctx \<Rightarrow> LoginRequest option \<Rightarrow> app_state gstate \<Rightarrow> (status + response) go \<times> app_state gstate" where
  "LoginHandler h i c req s =
     (case req of
        None \<Rightarrow> refuse InvalidArgument ''identifier and password are required'' s
      | Some q \<Rightarrow>
          if LQ_Identifier q = [] \<or> LQ_Password q = [] then refuse InvalidArgument ''identifier and password are required'' s
          else (case getClientIP c of
                  Panics m \<Rightarrow> (Panics m, s)
                | Returns ipAddress \<Rightarrow>
                    (case with_identity (Login (hs_auth h) (in_now i) (in_token i) (LQ_Identifier q) (LQ_Password q) ipAddress (getUserAgent c)) s of
                       (Inl ErrInvalidCredentials, s1) \<Rightarrow> refuse Unauthenticated ''invalid credentials'' s1
                     | (Inl _, s1) \<Rightarrow> refuse Internal ''failed to login'' s1
                     | (Inr result, s1) \<Rightarrow>
                         (Returns (Inr (TokenResponse (LR_AccessToken result) (LR_RefreshToken result) ''Bearer'' (LR_ExpiresIn result))),
                          with_cookies i (LR_AccessToken result) (LR_RefreshToken result) (LR_ExpiresIn result) s1))))"

definition LogoutHandler :: "services \<Rightarrow> inputs \<Rightarrow> ctx \<Rightarrow> app_state gstate \<Rightarrow> (status + response) go \<times> app_state gstate" where
  "LogoutHandler h i c s =
     (case (case GetPrincipal c of
              (Some p, True) \<Rightarrow>
                if P_SessionID p \<noteq> [] then with_identity (Logout (hs_auth h) (in_now i) (P_SessionID p)) s
                else (Returns (Inr ()), s)
            | _ \<Rightarrow> (Returns (Inr ()), s)) of
        (Panics m, s1) \<Rightarrow> (Panics m, s1)
      | (Returns _, s1) \<Rightarrow> (Returns (Inr (MessageResponse ''Logout successful'')), set_header cleared_cookies s1))"

definition RefreshHandler :: "services \<Rightarrow> inputs \<Rightarrow> string option \<Rightarrow> app_state gstate \<Rightarrow> (status + response) go \<times> app_state gstate" where
  "RefreshHandler h i req s =
     (case req of
        None \<Rightarrow> refuse InvalidArgument ''refresh token is required'' s
      | Some refreshToken \<Rightarrow>
          if refreshToken = [] then refuse InvalidArgument ''refresh token is required'' s
          else (case with_identity (Refresh (hs_auth h) (in_now i) (in_token i) refreshToken) s of
                  (Panics m, s1) \<Rightarrow> (Panics m, s1)
                | (Returns (Inl ErrInvalidRefreshToken), s1) \<Rightarrow> refuse Unauthenticated ''invalid refresh token'' s1
                | (Returns (Inl _), s1) \<Rightarrow> refuse Internal ''failed to refresh token'' s1
                | (Returns (Inr result), s1) \<Rightarrow>
                    (Returns (Inr (TokenResponse (RR_AccessToken result) (RR_RefreshToken result) ''Bearer'' (RR_ExpiresIn result))),
                     with_cookies i (RR_AccessToken result) (RR_RefreshToken result) (RR_ExpiresIn result) s1)))"

text \<open>
  \<open>fmt.Sscanf(s, "%d", &u)\<close> for a 64-bit unsigned \<open>u\<close>: white space but no new line is skipped, then at
  least one digit is read, and what follows is ignored. The text of its error is a parameter.
\<close>

function scan_space :: "string \<Rightarrow> string option" where
  "scan_space s =
     (if prefix [CHR 0x0A] s then None
      else (case strip_one space_runes s of None \<Rightarrow> Some s | Some r \<Rightarrow> scan_space r))"
  by pat_completeness auto
termination
  by (relation "measure length") (auto dest: strip_one_shorter)

declare scan_space.simps [simp del]

definition Sscanf_uint :: "string \<Rightarrow> nat option" where
  "Sscanf_uint s =
     (case scan_space s of
        None \<Rightarrow> None
      | Some r \<Rightarrow>
          (let ds = takeWhile is_digit r in
           if ds = [] \<or> 2 ^ 64 \<le> digits_val ds then None else Some (digits_val ds)))"

definition LogoutAllHandler :: "services \<Rightarrow> inputs \<Rightarrow> ctx \<Rightarrow> app_state gstate \<Rightarrow> (status + response) go \<times> app_state gstate" where
  "LogoutAllHandler h i c s =
     (case (case GetPrincipal c of
              (Some p, True) \<Rightarrow>
                if P_UserID p = [] then (Returns (Inr ()), s)
                else (case Sscanf_uint (P_UserID p) of
                        None \<Rightarrow> refuse Unknown (''invalid user id format in token: '' @ hs_scan_error h (P_UserID p)) s
                      | Some userID \<Rightarrow>
                          if 0 < userID
                          then (case with_identity (LogoutAll (hs_auth h) (in_now i) userID) s of
                                  (Panics m, s1) \<Rightarrow> (Panics m, s1)
                                | (Returns _, s1) \<Rightarrow> (Returns (Inr ()), s1))
                          else (Returns (Inr ()), s))
            | _ \<Rightarrow> (Returns (Inr ()), s)) of
        (Panics m, s1) \<Rightarrow> (Panics m, s1)
      | (Returns (Inl e), s1) \<Rightarrow> (Returns (Inl e), s1)
      | (Returns (Inr _), s1) \<Rightarrow> (Returns (Inr (MessageResponse ''Logout all successful'')), set_header cleared_cookies s1))"

section \<open>Servers\<close>

fun gorm_text :: "gorm_error \<Rightarrow> string" where
  "gorm_text ErrRecordNotFound = ''record not found''"
| "gorm_text (DBError m) = m"

fun service_error_text :: "service_error \<Rightarrow> string" where
  "service_error_text ErrServerNotFound = ''server not found''"
| "service_error_text ErrIPv4Exists = ''ipv4 already exists''"
| "service_error_text ErrNameExists = ''server name already exists''"
| "service_error_text ErrFileTooLarge = ''file size exceeds 2MB limit''"
| "service_error_text ErrInvalidFormat = ''invalid excel file format''"
| "service_error_text ErrNoSheets = ''no sheets found in the excel file''"
| "service_error_text ErrEmptyFile = ''empty excel file''"
| "service_error_text ErrMissingCols = ''missing required columns: '' @ [CHR 0x27] @ ''Server Name'' @ [CHR 0x27] @ '' or '' @ [CHR 0x27] @ ''IPv4'' @ [CHR 0x27]"
| "service_error_text (ErrReadRows e) = ''failed to read rows: '' @ e"
| "service_error_text ErrInvalidStatusFilter = ''invalid status filter''"
| "service_error_text (ErrRepo e) = gorm_text e"
| "service_error_text ErrRepoNotFound = ''record not found''"
| "service_error_text (ErrCheckExisting e) = ''failed to check existing servers: '' @ gorm_text e"
| "service_error_text (ErrBatchCreate e) = ''batch create failed: '' @ gorm_text e"
| "service_error_text (ErrExportFetch e) = ''failed to fetch servers for export: '' @ gorm_text e"
| "service_error_text (ErrExcel e) = e"

definition mapError :: "service_error \<Rightarrow> status" where
  "mapError err =
     (if err = ErrServerNotFound then Status NotFound (service_error_text err)
      else if err = ErrIPv4Exists \<or> err = ErrNameExists then Status AlreadyExists (service_error_text err)
      else if err \<in> {ErrFileTooLarge, ErrInvalidFormat, ErrNoSheets, ErrEmptyFile, ErrMissingCols}
      then Status InvalidArgument (service_error_text err)
      else Status Internal (service_error_text err))"

definition mapServerToPB :: "(time \<Rightarrow> int) \<Rightarrow> Server \<Rightarrow> ServerPB" where
  "mapServerToPB loc server = \<lparr>
     PB_ServerId = S_ServerID server, PB_ServerName = S_ServerName server, PB_Ipv4 = S_IPv4 server,
     PB_CurrentStatus = S_CurrentStatus server, PB_CreatedAt = Format_RFC3339 loc (S_CreatedAt server),
     PB_UpdatedAt = Format_RFC3339 loc (S_UpdatedAt server)\<rparr>"

text \<open>The result of a service as an answer.\<close>

fun answer :: "('x \<Rightarrow> response) \<Rightarrow> (service_error + 'x) go \<Rightarrow> (status + response) go" where
  "answer f (Panics m) = Panics m"
| "answer f (Returns (Inl e)) = Returns (Inl (mapError e))"
| "answer f (Returns (Inr x)) = Returns (Inr (f x))"

definition request_required :: "app_state gstate \<Rightarrow> (status + response) go \<times> app_state gstate" where
  "request_required s = refuse InvalidArgument ''request is required'' s"

definition CreateServerHandler :: "services \<Rightarrow> (string \<times> string) option \<Rightarrow> app_state gstate \<Rightarrow> (status + response) go \<times> app_state gstate" where
  "CreateServerHandler h req s =
     (case req of
        None \<Rightarrow> request_required s
      | Some (name, ipv4) \<Rightarrow>
          (case with_servers (CreateServer (hs_server h) \<lparr>CS_ServerName = name, CS_IPv4 = ipv4\<rparr>) s of
             (r, s1) \<Rightarrow> (answer (\<lambda>x. ServerResponse (mapServerToPB (hs_loc h) x)) r, s1)))"

definition UpdateServerHandler ::
  "services \<Rightarrow> inputs \<Rightarrow> (string \<times> string \<times> string) option \<Rightarrow> app_state gstate \<Rightarrow> (status + response) go \<times> app_state gstate" where
  "UpdateServerHandler h i req s =
     (case req of
        None \<Rightarrow> request_required s
      | Some (sid, name, ipv4) \<Rightarrow>
          (case with_servers (UpdateServer (hs_server h) (in_now i) sid \<lparr>US_ServerName = name, US_IPv4 = ipv4\<rparr>) s of
             (r, s1) \<Rightarrow> (answer (\<lambda>x. ServerResponse (mapServerToPB (hs_loc h) x)) r, s1)))"

definition DeleteServerHandler :: "services \<Rightarrow> string option \<Rightarrow> app_state gstate \<Rightarrow> (status + response) go \<times> app_state gstate" where
  "DeleteServerHandler h req s =
     (case req of
        None \<Rightarrow> request_required s
      | Some sid \<Rightarrow>
          (case with_servers (DeleteServer (hs_server h) sid) s of
             (r, s1) \<Rightarrow> (answer (\<lambda>_. DeleteResponse True) r, s1)))"

text \<open>The range of creation dates: the last day is included. A date that is the zero time counts as not given.\<close>

datatype range_error = BadFrom | BadTo | BadOrder

definition created_range :: "string \<Rightarrow> string \<Rightarrow> range_error + time \<times> time" where
  "created_range createdFrom createdTo =
     (case (if createdFrom = [] then Some 0 else parse_date createdFrom) of
        None \<Rightarrow> Inl BadFrom
      | Some frm \<Rightarrow>
          (case (if createdTo = [] then Some 0 else map_option (\<lambda>t. t + day) (parse_date createdTo)) of
             None \<Rightarrow> Inl BadTo
           | Some till \<Rightarrow>
               if frm \<noteq> 0 \<and> till \<noteq> 0 \<and> \<not> frm < till then Inl BadOrder else Inr (frm, till)))"

fun range_status :: "range_error \<Rightarrow> status" where
  "range_status BadFrom = Status InvalidArgument ''created_from must use YYYY-MM-DD format''"
| "range_status BadTo = Status InvalidArgument ''created_to must use YYYY-MM-DD format''"
| "range_status BadOrder = Status InvalidArgument ''created_from must be before or equal to created_to''"

definition parseCreatedDateRange :: "string \<Rightarrow> string \<Rightarrow> status + time \<times> time" where
  "parseCreatedDateRange createdFrom createdTo =
     (case created_range createdFrom createdTo of Inl e \<Rightarrow> Inl (range_status e) | Inr r \<Rightarrow> Inr r)"

definition list_filter :: "ListRequest \<Rightarrow> time \<times> time \<Rightarrow> ServerListFilter" where
  "list_filter q r = \<lparr>F_Page = VQ_Page q, F_PageSize = VQ_Limit q, F_Status = VQ_FilterStatus q, F_Name = VQ_FilterName q,
     F_CreatedFrom = fst r, F_CreatedTo = snd r, F_SortBy = VQ_SortBy q, F_SortDirection = VQ_SortDirection q\<rparr>"

definition ViewServersHandler :: "services \<Rightarrow> ListRequest option \<Rightarrow> app_state gstate \<Rightarrow> (status + response) go \<times> app_state gstate" where
  "ViewServersHandler h req s =
     (case req of
        None \<Rightarrow> request_required s
      | Some q \<Rightarrow>
          (case parseCreatedDateRange (VQ_CreatedFrom q) (VQ_CreatedTo q) of
             Inl e \<Rightarrow> (Returns (Inl e), s)
           | Inr r \<Rightarrow>
               (case with_servers (SearchServers (hs_server h) (list_filter q r)) s of
                  (res, s1) \<Rightarrow>
                    (answer (\<lambda>(servers, totalCount). ViewResponse totalCount (map (mapServerToPB (hs_loc h)) servers)) (Returns res), s1))))"

definition ImportServersHandler ::
  "services \<Rightarrow> (string \<times> string) option \<Rightarrow> app_state gstate \<Rightarrow> (status + response) go \<times> app_state gstate" where
  "ImportServersHandler h req s =
     (case req of
        None \<Rightarrow> request_required s
      | Some (fileContent, filename) \<Rightarrow>
          (case with_servers (ImportServers (hs_server h) (hs_excel h) fileContent) s of
             (r, s1) \<Rightarrow> (answer ImportResponse r, s1)))"

definition ExportServersHandler ::
  "services \<Rightarrow> inputs \<Rightarrow> ListRequest option \<Rightarrow> app_state gstate \<Rightarrow> (status + response) go \<times> app_state gstate" where
  "ExportServersHandler h i req s =
     (case req of
        None \<Rightarrow> request_required s
      | Some q \<Rightarrow>
          (case parseCreatedDateRange (VQ_CreatedFrom q) (VQ_CreatedTo q) of
             Inl e \<Rightarrow> (Returns (Inl e), s)
           | Inr r \<Rightarrow>
               (case with_servers (ExportServers (hs_server h) (hs_excel h) (hs_loc h) (in_now i) (list_filter q r)) s of
                  (res, s1) \<Rightarrow> (answer (\<lambda>(fileBytes, filename). ExportResponse fileBytes filename) (Returns res), s1))))"

section \<open>Reports\<close>

text \<open>The text of an error of \<open>time.Parse\<close> is a parameter.\<close>

definition report_status :: "services \<Rightarrow> ReportRequest \<Rightarrow> report_error \<Rightarrow> status" where
  "report_status h req e =
     (case e of
        ErrInvalidEmail \<Rightarrow> Status InvalidArgument ''invalid email address''
      | ErrStartDate \<Rightarrow> Status Internal (''failed to request report: '' @ hs_date_error h (RQ_StartDate req))
      | ErrEndDate \<Rightarrow> Status Internal (''failed to request report: '' @ hs_date_error h (RQ_EndDate req))
      | ErrReportRepo g \<Rightarrow> Status Internal (''failed to request report: '' @ gorm_text g))"

definition RequestReportHandler ::
  "services \<Rightarrow> inputs \<Rightarrow> ReportRequest \<Rightarrow> app_state gstate \<Rightarrow> (status + response) go \<times> app_state gstate" where
  "RequestReportHandler h i req s =
     (if RQ_TargetEmail req = [] then refuse InvalidArgument ''target_email is required'' s
      else with_reports (\<lambda>r.
        case RequestReport (hs_report h) (in_report i) (in_correlation i) (RQ_TargetEmail req) (RQ_StartDate req) (RQ_EndDate req) r of
          Some (Panics m, r1) \<Rightarrow> (Panics m, r1)
        | Some (Returns (Inl e), r1) \<Rightarrow> (Returns (Inl (report_status h req e)), r1)
        | Some (Returns (Inr _), r1) \<Rightarrow>
            (Returns (Inr (ReportResponse ''processing'' 202 ''Report request accepted and is being processed in the background'')), r1)
        | None \<Rightarrow>
            (case storeRequest (hs_report h) (in_report i) (in_correlation i) (RQ_TargetEmail req) (RQ_StartDate req) (RQ_EndDate req) r of
               (Inl e, r1) \<Rightarrow> (Returns (Inl (report_status h req e)), r1)
             | (Inr q, r1) \<Rightarrow> (Returns (Inr Waiting), r1\<lparr>rp_sending := q # rp_sending r1\<rparr>))) s)"

section \<open>Registration\<close>

text \<open>The method of a request and the handler the generated code calls for it.\<close>

fun method_of :: "request \<Rightarrow> string" where
  "method_of (LoginReq q) = Login_method"
| "method_of (RefreshReq q) = RefreshToken_method"
| "method_of LogoutReq = Logout_method"
| "method_of LogoutAllReq = LogoutAll_method"
| "method_of (CreateServerReq q) = CreateServer_method"
| "method_of (UpdateServerReq q) = UpdateServer_method"
| "method_of (DeleteServerReq q) = DeleteServer_method"
| "method_of (ViewServersReq q) = ViewServers_method"
| "method_of (ImportServersReq q) = ImportServers_method"
| "method_of (ExportServersReq q) = ExportServers_method"
| "method_of (RequestReportReq q) = RequestReport_method"

fun dispatch :: "services \<Rightarrow> inputs \<Rightarrow> (app_state, response) handler" where
  "dispatch h i c (LoginReq q) s = LoginHandler h i c q s"
| "dispatch h i c (RefreshReq q) s = RefreshHandler h i q s"
| "dispatch h i c LogoutReq s = LogoutHandler h i c s"
| "dispatch h i c LogoutAllReq s = LogoutAllHandler h i c s"
| "dispatch h i c (CreateServerReq q) s = CreateServerHandler h q s"
| "dispatch h i c (UpdateServerReq q) s = UpdateServerHandler h i q s"
| "dispatch h i c (DeleteServerReq q) s = DeleteServerHandler h q s"
| "dispatch h i c (ViewServersReq q) s = ViewServersHandler h q s"
| "dispatch h i c (ImportServersReq q) s = ImportServersHandler h q s"
| "dispatch h i c (ExportServersReq q) s = ExportServersHandler h i q s"
| "dispatch h i c (RequestReportReq q) s = RequestReportHandler h i q s"

definition serve :: "GRPCServerDeps \<Rightarrow> services \<Rightarrow> inputs \<Rightarrow> ctx \<Rightarrow> request \<Rightarrow> app_state gstate \<Rightarrow> (status + response) go \<times> app_state gstate" where
  "serve d h i c req s = NewGRPCServer d (in_now i) c req (method_of req) (dispatch h i) s"

end
