(* ===== verification/Rest.thy ===== *)
theory Rest
  imports Handlers
begin

text \<open>
  The HTTP side: \<open>server_management/handler/rest\<close> (the import and the export of files that bypass the
  gRPC gateway, with their own authentication and permission middlewares) and the routes of
  \<open>internal/app/http_routes.go\<close>. \<open>mime/multipart\<close> and \<open>grpc-gateway\<close> are parameters.
\<close>

section \<open>Responses\<close>

datatype http_body = ErrorBody int string | ImportBody ImportResult | FileBody string | TextBody string

record http_response =
  hp_status :: int
  hp_headers :: "(string \<times> string) list"
  hp_body :: http_body

type_synonym http_handler = "http_request \<Rightarrow> app_state gstate \<Rightarrow> http_response go \<times> app_state gstate"

definition writeJSON :: "int \<Rightarrow> http_body \<Rightarrow> http_response" where
  "writeJSON st body = \<lparr>hp_status = st, hp_headers = [(''Content-Type'', ''application/json'')], hp_body = body\<rparr>"

definition writeError :: "int \<Rightarrow> string \<Rightarrow> http_response" where
  "writeError st msg = writeJSON st (ErrorBody st msg)"

definition reply :: "http_response \<Rightarrow> app_state gstate \<Rightarrow> http_response go \<times> app_state gstate" where
  "reply r s = (Returns r, s)"

section \<open>Middlewares\<close>

text \<open>\<open>Header.Get\<close> and \<open>Request.Cookie\<close>.\<close>

definition header_Get :: "http_request \<Rightarrow> string \<Rightarrow> string" where
  "header_Get r key = (case hr_header r key of [] \<Rightarrow> [] | v # _ \<Rightarrow> v)"

definition extractBearer :: "http_request \<Rightarrow> string" where
  "extractBearer r =
     (let auth = header_Get r ''Authorization'' in
      if HasPrefix auth ''Bearer '' then TrimPrefix auth ''Bearer ''
      else (case map_of (hr_cookies r) ''access_token'' of Some v \<Rightarrow> TrimSpace v | None \<Rightarrow> []))"

definition PrincipalFromContext :: "http_request \<Rightarrow> Principal option" where
  "PrincipalFromContext r = hr_principal r"

definition principalWithContext :: "http_request \<Rightarrow> Principal \<Rightarrow> http_request" where
  "principalWithContext r p = r\<lparr>hr_principal := Some p\<rparr>"

definition AuthMiddleware :: "jwt \<Rightarrow> Authenticator \<Rightarrow> time \<Rightarrow> http_handler \<Rightarrow> http_handler" where
  "AuthMiddleware j auth now nextHandler r s =
     (let token = extractBearer r in
      if token = [] then reply (writeError 401 ''missing authorization token'') s
      else (case Authenticate j auth now token (gs_redis s) of
              (Panics m, db) \<Rightarrow> (Panics m, s\<lparr>gs_redis := db\<rparr>)
            | (Returns (Inl _), db) \<Rightarrow> reply (writeError 401 ''invalid token'') (s\<lparr>gs_redis := db\<rparr>)
            | (Returns (Inr p), db) \<Rightarrow> nextHandler (principalWithContext r p) (s\<lparr>gs_redis := db\<rparr>)))"

definition PermissionMiddleware :: "Authorizer \<Rightarrow> PermissionCode \<Rightarrow> http_handler \<Rightarrow> http_handler" where
  "PermissionMiddleware authorizer required nextHandler r s =
     (case PrincipalFromContext r of
        None \<Rightarrow> reply (writeError 401 ''authentication required'') s
      | Some p \<Rightarrow>
          if \<not> HasPermission authorizer (Some p) required then reply (writeError 403 ''insufficient permissions'') s
          else nextHandler r s)"

section \<open>Import\<close>

definition maxSize :: nat where "maxSize = 2 * 1024 * 1024"

text \<open>\<open>io.ReadAll\<close> on a \<open>MaxBytesReader\<close>.\<close>

definition read_body :: "http_request \<Rightarrow> string option" where
  "read_body r = (case hr_body r of Inl _ \<Rightarrow> None | Inr raw \<Rightarrow> if length raw > maxSize then None else Some raw)"

fun boundary_from :: "string list \<Rightarrow> string" where
  "boundary_from [] = []"
| "boundary_from (part # parts) =
     (let p = TrimSpace part in if HasPrefix p ''boundary='' then TrimPrefix p ''boundary='' else boundary_from parts)"

definition extractBoundary :: "string \<Rightarrow> string" where
  "extractBoundary contentType = boundary_from (Split contentType (CHR '';''))"

text \<open>\<open>multipart.Reader\<close>: the form names and the data of the parts up to the first error.\<close>

type_synonym multipart = "string \<Rightarrow> string \<Rightarrow> (string \<times> string) list"

definition extractFileFromMultipart :: "multipart \<Rightarrow> string \<Rightarrow> string \<Rightarrow> string option" where
  "extractFileFromMultipart mp contentType raw =
     (let boundary = extractBoundary contentType in
      if boundary = [] \<or> length raw < 2 \<or> take 2 raw \<noteq> ''--'' then None
      else map_of (mp boundary raw) ''file'')"

definition HandleImport :: "services \<Rightarrow> multipart \<Rightarrow> http_handler" where
  "HandleImport h mp r s =
     (if hr_method r \<noteq> ''POST'' then reply (writeError 405 ''method not allowed'') s
      else (case read_body r of
              None \<Rightarrow> reply (writeError 400 ''failed to read request body'') s
            | Some raw \<Rightarrow>
                (let fileBytes = (case extractFileFromMultipart mp (header_Get r ''Content-Type'') raw of None \<Rightarrow> raw | Some b \<Rightarrow> b) in
                 case with_servers (ImportServers (hs_server h) (hs_excel h) fileBytes) s of
                   (Panics m, s1) \<Rightarrow> (Panics m, s1)
                 | (Returns (Inl e), s1) \<Rightarrow>
                     reply (if e = ErrFileTooLarge then writeError 413 (service_error_text e)
                            else if e \<in> {ErrInvalidFormat, ErrEmptyFile, ErrNoSheets, ErrMissingCols}
                            then writeError 400 (service_error_text e)
                            else writeError 500 (service_error_text e)) s1
                 | (Returns (Inr result), s1) \<Rightarrow> reply (writeJSON 200 (ImportBody result)) s1)))"

section \<open>Export\<close>

fun rest_range_message :: "range_error \<Rightarrow> string" where
  "rest_range_message BadFrom = ''createdFrom must use YYYY-MM-DD format''"
| "rest_range_message BadTo = ''createdTo must use YYYY-MM-DD format''"
| "rest_range_message BadOrder = ''createdFrom must be before or equal to createdTo''"

definition rest_parseCreatedDateRange :: "string \<Rightarrow> string \<Rightarrow> string + time \<times> time" where
  "rest_parseCreatedDateRange createdFrom createdTo =
     (case created_range createdFrom createdTo of Inl e \<Rightarrow> Inl (rest_range_message e) | Inr r \<Rightarrow> Inr r)"

text \<open>A number of the query, where an error of \<open>Atoi\<close> is ignored.\<close>

definition query_number :: "int \<Rightarrow> string \<Rightarrow> int" where
  "query_number dflt q = (let n = fst (Atoi q) in if n < 1 then dflt else n)"

definition export_filter :: "http_request \<Rightarrow> time \<times> time \<Rightarrow> ServerListFilter" where
  "export_filter r dates = \<lparr>
     F_Page = query_number 1 (hr_query r ''page''), F_PageSize = query_number 100 (hr_query r ''limit''),
     F_Status = hr_query r ''filterStatus'', F_Name = hr_query r ''filterName'',
     F_CreatedFrom = fst dates, F_CreatedTo = snd dates,
     F_SortBy = hr_query r ''sortBy'', F_SortDirection = hr_query r ''sortDirection''\<rparr>"

definition HandleExport :: "services \<Rightarrow> time \<Rightarrow> http_handler" where
  "HandleExport h now r s =
     (if hr_method r \<noteq> ''GET'' then reply (writeError 405 ''method not allowed'') s
      else (case rest_parseCreatedDateRange (hr_query r ''createdFrom'') (hr_query r ''createdTo'') of
              Inl e \<Rightarrow> reply (writeError 400 e) s
            | Inr dates \<Rightarrow>
                (case with_servers (ExportServers (hs_server h) (hs_excel h) (hs_loc h) now (export_filter r dates)) s of
                   (Inl e, s1) \<Rightarrow> reply (writeError 500 (service_error_text e)) s1
                 | (Inr (fileBytes, filename), s1) \<Rightarrow>
                     reply \<lparr>hp_status = 200,
                       hp_headers = [(''Content-Type'', ''application/vnd.openxmlformats-officedocument.spreadsheetml.sheet''),
                         (''Content-Disposition'', ''attachment; filename='' @ [CHR 0x22] @ filename @ [CHR 0x22])],
                       hp_body = FileBody fileBytes\<rparr> s1)))"

section \<open>Routes\<close>

text \<open>
  The patterns of the mux on a clean path: an exact path, else the longest prefix (the mux redirects
  other paths, and \<open>/openapi\<close>, before a pattern applies). Static files are a
  parameter, and so is the gateway here; \<open>Gateway\<close> builds it.
\<close>

record http_deps =
  hd_services :: services
  hd_jwt :: jwt
  hd_Authenticator :: Authenticator
  hd_Authorizer :: Authorizer
  hd_multipart :: multipart
  hd_files :: "string \<Rightarrow> http_response"
  hd_gateway :: "string \<Rightarrow> http_handler"

definition setupHTTPRoutes :: "http_deps \<Rightarrow> time \<Rightarrow> string \<Rightarrow> http_handler" where
  "setupHTTPRoutes d now path r s =
     (if path = ''/health'' then reply \<lparr>hp_status = 200, hp_headers = [], hp_body = TextBody ''OK''\<rparr> s
      else if path = ''/docs'' then reply (hd_files d ''./docs/swagger-ui.html'') s
      else if path = ''/api/v1/servers/import''
      then AuthMiddleware (hd_jwt d) (hd_Authenticator d) now
             (PermissionMiddleware (hd_Authorizer d) PermServerImport (HandleImport (hd_services d) (hd_multipart d))) r s
      else if path = ''/api/v1/servers/export''
      then AuthMiddleware (hd_jwt d) (hd_Authenticator d) now
             (PermissionMiddleware (hd_Authorizer d) PermServerExport (HandleExport (hd_services d) now)) r s
      else if HasPrefix path ''/openapi/'' then reply (hd_files d (''./api/openapi/'' @ TrimPrefix path ''/openapi/'')) s
      else hd_gateway d path (CookieMiddleware r) s)"

end
