(* ===== verification/App.thy ===== *)
theory App
  imports Rest Monitoring
begin

text \<open>
  The API process: \<open>internal/app/bootstrap.go\<close> (\<open>New\<close>), \<open>internal/app/run.go\<close> (the dependencies of the
  server), \<open>internal/infrastructure/storage/seed.go\<close>, \<open>internal/shared/database/elasticsearch.go\<close> and the
  daily scheduler of \<open>internal/app/scheduler/app.go\<close>. The clients of third-party packages are parameters.
  A nil pointer that is stored in an interface is the value \<open>TypedNil\<close>, which is not equal to nil.
\<close>

section \<open>Seeding\<close>

definition zero_user :: User where
  "zero_user = \<lparr>U_ID = 0, U_CreatedAt = 0, U_UpdatedAt = 0, U_DeletedAt = None, U_Email = [], U_Password = [], U_RoleCode = []\<rparr>"

text \<open>\<open>bcrypt.GenerateFromPassword\<close> is a parameter; its error and those of the statements are ignored.\<close>

definition seedSingleUser :: "User gorm \<Rightarrow> (string \<Rightarrow> string + string) \<Rightarrow> string \<Rightarrow> string \<Rightarrow> RoleCode \<Rightarrow> User tbl \<Rightarrow> User tbl" where
  "seedSingleUser g bcrypt email password role t =
     (case g_count g (\<lambda>u. U_Email u = email \<and> U_DeletedAt u = None) t of
        (r, t1) \<Rightarrow>
          if (case r of Inl _ \<Rightarrow> 0 | Inr n \<Rightarrow> n) = 0
          then snd (g_create g (zero_user\<lparr>U_Email := email,
                 U_Password := (case bcrypt password of Inl _ \<Rightarrow> [] | Inr h \<Rightarrow> h), U_RoleCode := role\<rparr>) t1)
          else t1)"

definition SeedUsers :: "User gorm \<Rightarrow> (string \<Rightarrow> string + string) \<Rightarrow> string \<Rightarrow> string \<Rightarrow> string \<Rightarrow> string \<Rightarrow> User tbl \<Rightarrow> User tbl" where
  "SeedUsers g bcrypt adminEmail adminPassword userEmail userPassword t =
     (let t1 = (if adminEmail = [] \<or> adminPassword = [] then t else seedSingleUser g bcrypt adminEmail adminPassword RoleCodeAdmin t)
      in if userEmail = [] \<or> userPassword = [] then t1 else seedSingleUser g bcrypt userEmail userPassword RoleCodeUser t1)"

section \<open>The clients\<close>

text \<open>\<open>esv8.NewTypedClient\<close> and the first request are parameters.\<close>

definition NewElasticsearchClient :: "(string list \<Rightarrow> string + 'es) \<Rightarrow> ('es \<Rightarrow> string option) \<Rightarrow> string list \<Rightarrow> string + 'es" where
  "NewElasticsearchClient create info addresses =
     (case create addresses of
        Inl e \<Rightarrow> Inl (''create elasticsearch client: '' @ e)
      | Inr es \<Rightarrow> (case info es of Some e \<Rightarrow> Inl (''connect elasticsearch: '' @ e) | None \<Rightarrow> Inr es))"

record databases =
  db_users :: "User gorm"
  db_sessions :: "AuthSession gorm"
  db_tokens :: "RefreshToken gorm"
  db_servers :: "Server gorm"
  db_reports :: "Report gorm"

record outside =
  ow_dotenv :: "string option \<Rightarrow> env \<Rightarrow> env"
  ow_database :: "string \<Rightarrow> string + databases"
  ow_bcrypt_hash :: "string \<Rightarrow> string + string"
  ow_bcrypt :: "string \<Rightarrow> string \<Rightarrow> bool"
  ow_redis :: "RedisConfig \<Rightarrow> redis"
  ow_redis_ping :: "redis \<Rightarrow> string option"
  ow_elastic :: "string list \<Rightarrow> string + es_count"
  ow_elastic_info :: "es_count \<Rightarrow> string option"
  ow_validator :: "string + (request \<Rightarrow> string option)"
  ow_jwt :: jwt
  ow_uuid :: uuid_lib
  ow_rate :: redis_rate
  ow_uni :: "string \<Rightarrow> string"
  ow_ilike :: "string \<Rightarrow> string \<Rightarrow> bool"
  ow_excel :: excelize
  ow_loc :: "time \<Rightarrow> int"
  ow_template :: "TemplateData \<Rightarrow> string + string"
  ow_smtp :: "SMTPConfig \<Rightarrow> smtp_server"
  ow_scan_error :: "string \<Rightarrow> string"
  ow_date_error :: "string \<Rightarrow> string"

section \<open>Construction\<close>

record App =
  app_config :: AppConfig
  app_deps :: GRPCServerDeps
  app_services :: services

datatype new_error = ConfigFailed config_error | ConnectFailed string

definition app_limiter :: "RateLimitConfig option \<Rightarrow> redis iface \<Rightarrow> RedisLimiter iface \<times> KeyBuilder" where
  "app_limiter cfg client =
     (case cfg of
        None \<Rightarrow> (NilIface, \<lparr>KB_Prefix = []\<rparr>)
      | Some c \<Rightarrow>
          if \<not> RL_Enabled c then (NilIface, \<lparr>KB_Prefix = []\<rparr>)
          else (case NewRedisLimiter client of
                  Inl _ \<Rightarrow> (TypedNil, \<lparr>KB_Prefix = []\<rparr>)
                | Inr l \<Rightarrow> (Iface l, NewKeyBuilder (RL_Prefix c))))"

definition app_worker :: "outside \<Rightarrow> AppConfig \<Rightarrow> databases \<Rightarrow> es_count option \<Rightarrow> reportingWorkerImpl" where
  "app_worker w cfg db es = NewReportingWorker \<lparr>
     rw_reports = db_reports db, rw_servers = db_servers db, rw_uuid = ow_uuid w, rw_es = es, rw_loc = (\<lambda>_. 0),
     rw_template = ow_template w, rw_notifier = Some (CF_SMTP cfg, ow_smtp w (CF_SMTP cfg)),
     rw_workerCount = RC_WorkerCount (CF_Reporting cfg), rw_queueSize = RC_JobQueueSize (CF_Reporting cfg)\<rparr>"

definition app_services_of :: "outside \<Rightarrow> AppConfig \<Rightarrow> databases \<Rightarrow> redis iface \<Rightarrow> es_count option \<Rightarrow> services" where
  "app_services_of w cfg db client es = \<lparr>
     hs_auth = \<lparr>as_users = db_users db, as_sessions = db_sessions db, as_tokens = db_tokens db, as_redis = client,
       as_jwt = ow_jwt w, as_uuid = ow_uuid w, as_secret = CF_JWTSecret cfg, as_bcrypt = ow_bcrypt w\<rparr>,
     hs_server = \<lparr>sv_repo = db_servers db, sv_cache = Some client, sv_ilike = ow_ilike w, sv_uni = ow_uni w\<rparr>,
     hs_excel = ow_excel w, hs_loc = ow_loc w, hs_scan_error = ow_scan_error w, hs_date_error = ow_date_error w,
     hs_report = app_worker w cfg db es\<rparr>"

definition app_deps_of :: "outside \<Rightarrow> AppConfig \<Rightarrow> redis iface \<Rightarrow> RateLimitConfig option \<Rightarrow> GRPCServerDeps" where
  "app_deps_of w cfg client rateLimitCfg = \<lparr>
     gd_Validator = (case ow_validator w of Inl _ \<Rightarrow> NilIface | Inr v \<Rightarrow> Iface v),
     gd_Authenticator = Some (NewAuthenticator (CF_JWTSecret cfg) client),
     gd_Authorizer = Some NewAuthorizer,
     gd_RateLimiter = fst (app_limiter rateLimitCfg client),
     gd_RateLimitKeyBuilder = snd (app_limiter rateLimitCfg client),
     gd_RateLimitConfig = rateLimitCfg,
     gd_jwt = ow_jwt w, gd_rate = ow_rate w, gd_uni = ow_uni w\<rparr>"

text \<open>
  \<open>New\<close>: the client of Redis is a pointer, nil when Redis is disabled, that becomes an interface value at
  each of its uses; a failed ping and a failed connection to Elasticsearch are logged only.
\<close>

definition New :: "outside \<Rightarrow> env_state \<Rightarrow> app_state \<Rightarrow> (new_error + App) \<times> env_state \<times> app_state" where
  "New w ev st =
     (case Load (ow_dotenv w) ev of
        (Inl e, ev') \<Rightarrow> (Inl (ConfigFailed e), ev', st)
      | (Inr cfg, ev') \<Rightarrow>
          (case ow_database w (CF_DBUrl cfg) of
             Inl e \<Rightarrow> (Inl (ConnectFailed e), ev', st)
           | Inr db \<Rightarrow>
               (let st' = st\<lparr>ap_users := SeedUsers (db_users db) (ow_bcrypt_hash w) (CF_AdminEmail cfg) (CF_AdminPassword cfg)
                                (CF_UserEmail cfg) (CF_UserPassword cfg) (ap_users st)\<rparr>;
                    env = ev_vars ev';
                    client = iface_of_pointer (NewRedisClient (ow_redis w) (app_redis_config env));
                    es = (case NewElasticsearchClient (ow_elastic w) (ow_elastic_info w) [ES_URL (LoadElasticsearchConfig env)] of
                            Inl _ \<Rightarrow> None | Inr c \<Rightarrow> Some c);
                    rateLimitCfg = (case LoadRateLimitConfig env of Inl _ \<Rightarrow> None | Inr c \<Rightarrow> Some c)
                in (Inr \<lparr>app_config = cfg, app_deps = app_deps_of w cfg client rateLimitCfg,
                         app_services = app_services_of w cfg db client es\<rparr>, ev', st'))))"

text \<open>The server that \<open>Run\<close> starts.\<close>

definition app_serve :: "App \<Rightarrow> inputs \<Rightarrow> ctx \<Rightarrow> request \<Rightarrow> app_state gstate \<Rightarrow> (status + response) go \<times> app_state gstate" where
  "app_serve a i c req s = serve (app_deps a) (app_services a) i c req s"

section \<open>The daily scheduler\<close>

text \<open>
  \<open>time.Now().AddDate(0, 0, -1).Format("2006-01-02")\<close>: the date of the day before, in the local zone of
  the process.
\<close>

definition yesterday :: "(time \<Rightarrow> int) \<Rightarrow> time \<Rightarrow> string" where
  "yesterday loc now =
     (case date_of ((now div second + loc now) div 86400 - 1) of
        (y, m, d) \<Rightarrow> pad 4 y @ ''-'' @ pad 2 (int m) @ ''-'' @ pad 2 d)"

record SchedulerApp =
  sc_worker :: reportingWorkerImpl
  sc_adminEmail :: string
  sc_cronSpec :: string
  sc_location :: "time \<Rightarrow> int"

datatype scheduler_error = SchedulerConfig config_error | SchedulerDatabase string | SchedulerElastic string
  | SchedulerZone string string | SchedulerCron string

text \<open>\<open>time.LoadLocation\<close> and the parser of \<open>cron\<close> are parameters.\<close>

definition scheduler_location :: "(string \<Rightarrow> string + (time \<Rightarrow> int)) \<Rightarrow> (time \<Rightarrow> int) \<Rightarrow> env \<Rightarrow> scheduler_error + (time \<Rightarrow> int)" where
  "scheduler_location loadLocation local env =
     (let locationName = GetEnvDefault env ''SCHEDULER_TIMEZONE'' ''Local'' in
      if locationName \<noteq> [] \<and> locationName \<noteq> ''Local''
      then (case loadLocation locationName of Inl e \<Rightarrow> Inl (SchedulerZone locationName e) | Inr l \<Rightarrow> Inr l)
      else Inr local)"

definition setupCronJobs :: "(string \<Rightarrow> string option) \<Rightarrow> SchedulerApp \<Rightarrow> scheduler_error option" where
  "setupCronJobs cron a =
     (let cronSpec = (if sc_cronSpec a = [] then ''0 0 * * *'' else sc_cronSpec a) in
      map_option SchedulerCron (cron cronSpec))"

definition NewSchedulerApp ::
  "outside \<Rightarrow> (string \<Rightarrow> string + (time \<Rightarrow> int)) \<Rightarrow> (string \<Rightarrow> string option) \<Rightarrow> env_state \<Rightarrow> (scheduler_error + SchedulerApp) \<times> env_state" where
  "NewSchedulerApp w loadLocation cron ev =
     (case Load (ow_dotenv w) ev of
        (Inl e, ev') \<Rightarrow> (Inl (SchedulerConfig e), ev')
      | (Inr cfg, ev') \<Rightarrow>
     (case ow_database w (CF_DBUrl cfg) of
        Inl e \<Rightarrow> (Inl (SchedulerDatabase e), ev')
      | Inr db \<Rightarrow>
          (let env = ev_vars ev' in
           case NewElasticsearchClient (ow_elastic w) (ow_elastic_info w) [ES_URL (LoadElasticsearchConfig env)] of
             Inl e \<Rightarrow> (Inl (SchedulerElastic e), ev')
           | Inr es \<Rightarrow>
               (case scheduler_location loadLocation (ow_loc w) env of
                  Inl e \<Rightarrow> (Inl e, ev')
                | Inr location \<Rightarrow>
                    (let app = \<lparr>sc_worker = app_worker w cfg db (Some es),
                                sc_adminEmail = GetEnvDefault env ''ADMIN_EMAIL'' ''admin@portal.local'',
                                sc_cronSpec = GetEnvDefault env ''SCHEDULER_CRON_SPEC'' ''0 0 * * *'',
                                sc_location = location\<rparr>
                     in case setupCronJobs cron app of
                          Some e \<Rightarrow> (Inl e, ev')
                        | None \<Rightarrow> (Inr app, ev'))))))"

text \<open>The job: the zone of the process decides which day is yesterday, whatever the zone of the schedule is.\<close>

definition daily_job ::
  "SchedulerApp \<Rightarrow> (time \<Rightarrow> int) \<Rightarrow> time \<Rightarrow> uuid \<Rightarrow> string \<Rightarrow> report_state
   \<Rightarrow> ((report_error + unit) go \<times> report_state) option" where
  "daily_job a local now requestID correlationID s =
     RequestReport (sc_worker a) requestID correlationID (sc_adminEmail a) (yesterday local now) (yesterday local now) s"

end
