(* ===== verification/Gateway.thy ===== *)
theory Gateway
  imports App
begin

text \<open>
  The generated reverse proxies \<open>gen/go/*/v1/*.pb.gw.go\<close> in the form the program uses (the handlers that
  forward to a client connection), \<open>internal/app/grpc_gateway.go\<close>, and the HTTP server of
  \<open>internal/app/run.go\<close>. The runtime of \<open>grpc-gateway\<close> is a parameter: its mux, the annotation of the
  context, the JSON codec, the query parser, the two writers of responses and the dial of a connection.
\<close>

section \<open>The runtime\<close>

text \<open>\<open>runtime.NewPattern\<close>: a version, pairs of an operation and an operand, the pool of strings and a verb.\<close>

record gw_pattern =
  pt_version :: nat
  pt_ops :: "nat list"
  pt_pool :: "string list"
  pt_verb :: string

definition NewPattern :: "nat \<Rightarrow> nat list \<Rightarrow> string list \<Rightarrow> string \<Rightarrow> gw_pattern" where
  "NewPattern version ops pool verb = \<lparr>pt_version = version, pt_ops = ops, pt_pool = pool, pt_verb = verb\<rparr>"

text \<open>
  An error of the decoder is \<open>io.EOF\<close> or has a text. A decoded message is its string and bytes fields by
  their names in the \<open>.proto\<close> file; a context is the one the server sees.
\<close>

datatype decode_error = EOF | Malformed string

type_synonym path_params = "(string \<times> string) list"

record gw_runtime =
  gw_DefaultHeaderMatcher :: "string \<Rightarrow> string option"
  gw_route :: "(string \<times> gw_pattern) list \<Rightarrow> string \<Rightarrow> http_request \<Rightarrow> http_response + nat \<times> path_params"
  gw_AnnotateContext :: "(string \<Rightarrow> string option) \<Rightarrow> string \<Rightarrow> string \<Rightarrow> http_request \<Rightarrow> status + ctx"
  gw_Decode :: "string \<Rightarrow> string + string \<Rightarrow> decode_error + (string \<Rightarrow> string)"
  gw_String :: "string \<Rightarrow> string + string"
  gw_ParseForm :: "http_request \<Rightarrow> string option"
  gw_PopulateQueryParameters :: "string \<Rightarrow> http_request \<Rightarrow> string + ListRequest"
  gw_HTTPError :: "(string \<Rightarrow> string option) \<Rightarrow> status \<Rightarrow> (string \<times> string) list \<Rightarrow> http_response"
  gw_ForwardResponseMessage :: "(string \<Rightarrow> string option) \<Rightarrow> response \<Rightarrow> (string \<times> string) list \<Rightarrow> http_response"
  gw_NewClient :: "string \<Rightarrow> string option"
  gw_closing :: status

type_synonym client_call = "app_state gstate \<Rightarrow> (status + response) go \<times> app_state gstate"
type_synonym gw_client = "ctx \<Rightarrow> request \<Rightarrow> client_call"
type_synonym gw_request = "ctx \<Rightarrow> http_request \<Rightarrow> path_params \<Rightarrow> client_call"

section \<open>The requests\<close>

text \<open>The body of a message: no body at all leaves the message empty.\<close>

definition decode_body :: "gw_runtime \<Rightarrow> string \<Rightarrow> http_request \<Rightarrow> status + (string \<Rightarrow> string)" where
  "decode_body g msg r =
     (case gw_Decode g msg (hr_body r) of
        Inr f \<Rightarrow> Inr f
      | Inl EOF \<Rightarrow> Inr (\<lambda>_. [])
      | Inl (Malformed e) \<Rightarrow> Inl (Status InvalidArgument e))"

definition server_id_param :: "gw_runtime \<Rightarrow> path_params \<Rightarrow> status + string" where
  "server_id_param g pathParams =
     (case map_of pathParams ''server_id'' of
        None \<Rightarrow> Inl (Status InvalidArgument ''missing parameter server_id'')
      | Some val \<Rightarrow>
          (case gw_String g val of
             Inl e \<Rightarrow> Inl (Status InvalidArgument (''type mismatch, parameter: server_id, error: '' @ e))
           | Inr v \<Rightarrow> Inr v))"

definition query_message :: "gw_runtime \<Rightarrow> string \<Rightarrow> http_request \<Rightarrow> status + ListRequest" where
  "query_message g msg r =
     (case gw_ParseForm g r of
        Some e \<Rightarrow> Inl (Status InvalidArgument e)
      | None \<Rightarrow>
          (case gw_PopulateQueryParameters g msg r of
             Inl e \<Rightarrow> Inl (Status InvalidArgument e)
           | Inr q \<Rightarrow> Inr q))"

definition request_ServerManagementService_CreateServer_0 :: "gw_runtime \<Rightarrow> gw_client \<Rightarrow> gw_request" where
  "request_ServerManagementService_CreateServer_0 g client c r pathParams s =
     (case decode_body g ''CreateServerRequest'' r of
        Inl e \<Rightarrow> (Returns (Inl e), s)
      | Inr f \<Rightarrow> client c (CreateServerReq (Some (f ''server_name'', f ''ipv4''))) s)"

definition request_ServerManagementService_UpdateServer_0 :: "gw_runtime \<Rightarrow> gw_client \<Rightarrow> gw_request" where
  "request_ServerManagementService_UpdateServer_0 g client c r pathParams s =
     (case decode_body g ''UpdateServerRequest'' r of
        Inl e \<Rightarrow> (Returns (Inl e), s)
      | Inr f \<Rightarrow>
          (case server_id_param g pathParams of
             Inl e \<Rightarrow> (Returns (Inl e), s)
           | Inr serverId \<Rightarrow> client c (UpdateServerReq (Some (serverId, f ''server_name'', f ''ipv4''))) s))"

definition request_ServerManagementService_DeleteServer_0 :: "gw_runtime \<Rightarrow> gw_client \<Rightarrow> gw_request" where
  "request_ServerManagementService_DeleteServer_0 g client c r pathParams s =
     (case server_id_param g pathParams of
        Inl e \<Rightarrow> (Returns (Inl e), s)
      | Inr serverId \<Rightarrow> client c (DeleteServerReq (Some serverId)) s)"

definition request_ServerManagementService_ViewServers_0 :: "gw_runtime \<Rightarrow> gw_client \<Rightarrow> gw_request" where
  "request_ServerManagementService_ViewServers_0 g client c r pathParams s =
     (case query_message g ''ViewServersRequest'' r of
        Inl e \<Rightarrow> (Returns (Inl e), s)
      | Inr q \<Rightarrow> client c (ViewServersReq (Some q)) s)"

definition request_ServerManagementService_ImportServers_0 :: "gw_runtime \<Rightarrow> gw_client \<Rightarrow> gw_request" where
  "request_ServerManagementService_ImportServers_0 g client c r pathParams s =
     (case decode_body g ''ImportServersRequest'' r of
        Inl e \<Rightarrow> (Returns (Inl e), s)
      | Inr f \<Rightarrow> client c (ImportServersReq (Some (f ''file_content'', f ''filename''))) s)"

definition request_ServerManagementService_ExportServers_0 :: "gw_runtime \<Rightarrow> gw_client \<Rightarrow> gw_request" where
  "request_ServerManagementService_ExportServers_0 g client c r pathParams s =
     (case query_message g ''ExportServersRequest'' r of
        Inl e \<Rightarrow> (Returns (Inl e), s)
      | Inr q \<Rightarrow> client c (ExportServersReq (Some q)) s)"

definition request_ReportingService_RequestReport_0 :: "gw_runtime \<Rightarrow> gw_client \<Rightarrow> gw_request" where
  "request_ReportingService_RequestReport_0 g client c r pathParams s =
     (case decode_body g ''RequestReportRequest'' r of
        Inl e \<Rightarrow> (Returns (Inl e), s)
      | Inr f \<Rightarrow> client c (RequestReportReq \<lparr>RQ_StartDate = f ''start_date'', RQ_EndDate = f ''end_date'',
          RQ_TargetEmail = f ''target_email''\<rparr>) s)"

definition request_AuthService_Login_0 :: "gw_runtime \<Rightarrow> gw_client \<Rightarrow> gw_request" where
  "request_AuthService_Login_0 g client c r pathParams s =
     (case decode_body g ''LoginRequest'' r of
        Inl e \<Rightarrow> (Returns (Inl e), s)
      | Inr f \<Rightarrow> client c (LoginReq (Some \<lparr>LQ_Identifier = f ''identifier'', LQ_Password = f ''password''\<rparr>)) s)"

definition request_AuthService_RefreshToken_0 :: "gw_runtime \<Rightarrow> gw_client \<Rightarrow> gw_request" where
  "request_AuthService_RefreshToken_0 g client c r pathParams s =
     (case decode_body g ''RefreshRequest'' r of
        Inl e \<Rightarrow> (Returns (Inl e), s)
      | Inr f \<Rightarrow> client c (RefreshReq (Some (f ''refresh_token''))) s)"

definition request_AuthService_Logout_0 :: "gw_runtime \<Rightarrow> gw_client \<Rightarrow> gw_request" where
  "request_AuthService_Logout_0 g client c r pathParams s =
     (case decode_body g ''LogoutRequest'' r of
        Inl e \<Rightarrow> (Returns (Inl e), s)
      | Inr f \<Rightarrow> client c LogoutReq s)"

definition request_AuthService_LogoutAll_0 :: "gw_runtime \<Rightarrow> gw_client \<Rightarrow> gw_request" where
  "request_AuthService_LogoutAll_0 g client c r pathParams s =
     (case decode_body g ''LogoutAllRequest'' r of
        Inl e \<Rightarrow> (Returns (Inl e), s)
      | Inr f \<Rightarrow> client c LogoutAllReq s)"

section \<open>The patterns\<close>

definition pattern_ServerManagementService_CreateServer_0 :: gw_pattern where
  "pattern_ServerManagementService_CreateServer_0 = NewPattern 1 [2, 0, 2, 1, 2, 2] [''api'', ''v1'', ''servers''] ''''"

definition pattern_ServerManagementService_UpdateServer_0 :: gw_pattern where
  "pattern_ServerManagementService_UpdateServer_0 =
     NewPattern 1 [2, 0, 2, 1, 2, 2, 1, 0, 4, 1, 5, 3] [''api'', ''v1'', ''servers'', ''server_id''] ''''"

definition pattern_ServerManagementService_DeleteServer_0 :: gw_pattern where
  "pattern_ServerManagementService_DeleteServer_0 =
     NewPattern 1 [2, 0, 2, 1, 2, 2, 1, 0, 4, 1, 5, 3] [''api'', ''v1'', ''servers'', ''server_id''] ''''"

definition pattern_ServerManagementService_ViewServers_0 :: gw_pattern where
  "pattern_ServerManagementService_ViewServers_0 = NewPattern 1 [2, 0, 2, 1, 2, 2] [''api'', ''v1'', ''servers''] ''''"

definition pattern_ServerManagementService_ImportServers_0 :: gw_pattern where
  "pattern_ServerManagementService_ImportServers_0 =
     NewPattern 1 [2, 0, 2, 1, 2, 2, 2, 3] [''api'', ''v1'', ''servers'', ''import''] ''''"

definition pattern_ServerManagementService_ExportServers_0 :: gw_pattern where
  "pattern_ServerManagementService_ExportServers_0 =
     NewPattern 1 [2, 0, 2, 1, 2, 2, 2, 3] [''api'', ''v1'', ''servers'', ''export''] ''''"

definition pattern_ReportingService_RequestReport_0 :: gw_pattern where
  "pattern_ReportingService_RequestReport_0 =
     NewPattern 1 [2, 0, 2, 1, 2, 2, 2, 3] [''api'', ''v1'', ''servers'', ''report''] ''''"

definition pattern_AuthService_Login_0 :: gw_pattern where
  "pattern_AuthService_Login_0 = NewPattern 1 [2, 0, 2, 1, 2, 2, 2, 3] [''api'', ''v1'', ''auth'', ''login''] ''''"

definition pattern_AuthService_RefreshToken_0 :: gw_pattern where
  "pattern_AuthService_RefreshToken_0 = NewPattern 1 [2, 0, 2, 1, 2, 2, 2, 3] [''api'', ''v1'', ''auth'', ''refresh''] ''''"

definition pattern_AuthService_Logout_0 :: gw_pattern where
  "pattern_AuthService_Logout_0 = NewPattern 1 [2, 0, 2, 1, 2, 2, 2, 3] [''api'', ''v1'', ''auth'', ''logout''] ''''"

definition pattern_AuthService_LogoutAll_0 :: gw_pattern where
  "pattern_AuthService_LogoutAll_0 = NewPattern 1 [2, 0, 2, 1, 2, 2, 2, 3] [''api'', ''v1'', ''auth'', ''logout-all''] ''''"

lemmas pattern_defs = pattern_ServerManagementService_CreateServer_0_def pattern_ServerManagementService_UpdateServer_0_def
  pattern_ServerManagementService_DeleteServer_0_def pattern_ServerManagementService_ViewServers_0_def
  pattern_ServerManagementService_ImportServers_0_def pattern_ServerManagementService_ExportServers_0_def
  pattern_ReportingService_RequestReport_0_def pattern_AuthService_Login_0_def pattern_AuthService_RefreshToken_0_def
  pattern_AuthService_Logout_0_def pattern_AuthService_LogoutAll_0_def NewPattern_def

lemmas request_defs = request_ServerManagementService_CreateServer_0_def request_ServerManagementService_UpdateServer_0_def
  request_ServerManagementService_DeleteServer_0_def request_ServerManagementService_ViewServers_0_def
  request_ServerManagementService_ImportServers_0_def request_ServerManagementService_ExportServers_0_def
  request_ReportingService_RequestReport_0_def request_AuthService_Login_0_def request_AuthService_RefreshToken_0_def
  request_AuthService_Logout_0_def request_AuthService_LogoutAll_0_def

section \<open>Registration\<close>

text \<open>
  A registered handler: its closures differ in the method, the pattern, the name of the RPC, the template of
  the path and the request function only. Handlers are listed in the order of their registration.
\<close>

record route =
  rt_method :: string
  rt_pattern :: gw_pattern
  rt_rpc :: string
  rt_template :: string
  rt_request :: gw_request

definition RegisterServerManagementServiceHandlerClient :: "gw_runtime \<Rightarrow> gw_client \<Rightarrow> route list \<Rightarrow> route list" where
  "RegisterServerManagementServiceHandlerClient g client mux = mux @
     [\<lparr>rt_method = ''POST'', rt_pattern = pattern_ServerManagementService_CreateServer_0,
        rt_rpc = ''/server_management.v1.ServerManagementService/CreateServer'', rt_template = ''/api/v1/servers'',
        rt_request = request_ServerManagementService_CreateServer_0 g client\<rparr>,
      \<lparr>rt_method = ''PUT'', rt_pattern = pattern_ServerManagementService_UpdateServer_0,
        rt_rpc = ''/server_management.v1.ServerManagementService/UpdateServer'', rt_template = ''/api/v1/servers/{server_id}'',
        rt_request = request_ServerManagementService_UpdateServer_0 g client\<rparr>,
      \<lparr>rt_method = ''DELETE'', rt_pattern = pattern_ServerManagementService_DeleteServer_0,
        rt_rpc = ''/server_management.v1.ServerManagementService/DeleteServer'', rt_template = ''/api/v1/servers/{server_id}'',
        rt_request = request_ServerManagementService_DeleteServer_0 g client\<rparr>,
      \<lparr>rt_method = ''GET'', rt_pattern = pattern_ServerManagementService_ViewServers_0,
        rt_rpc = ''/server_management.v1.ServerManagementService/ViewServers'', rt_template = ''/api/v1/servers'',
        rt_request = request_ServerManagementService_ViewServers_0 g client\<rparr>,
      \<lparr>rt_method = ''POST'', rt_pattern = pattern_ServerManagementService_ImportServers_0,
        rt_rpc = ''/server_management.v1.ServerManagementService/ImportServers'', rt_template = ''/api/v1/servers/import'',
        rt_request = request_ServerManagementService_ImportServers_0 g client\<rparr>,
      \<lparr>rt_method = ''GET'', rt_pattern = pattern_ServerManagementService_ExportServers_0,
        rt_rpc = ''/server_management.v1.ServerManagementService/ExportServers'', rt_template = ''/api/v1/servers/export'',
        rt_request = request_ServerManagementService_ExportServers_0 g client\<rparr>]"

definition RegisterReportingServiceHandlerClient :: "gw_runtime \<Rightarrow> gw_client \<Rightarrow> route list \<Rightarrow> route list" where
  "RegisterReportingServiceHandlerClient g client mux = mux @
     [\<lparr>rt_method = ''POST'', rt_pattern = pattern_ReportingService_RequestReport_0,
        rt_rpc = ''/reporting.v1.ReportingService/RequestReport'', rt_template = ''/api/v1/servers/report'',
        rt_request = request_ReportingService_RequestReport_0 g client\<rparr>]"

definition RegisterAuthServiceHandlerClient :: "gw_runtime \<Rightarrow> gw_client \<Rightarrow> route list \<Rightarrow> route list" where
  "RegisterAuthServiceHandlerClient g client mux = mux @
     [\<lparr>rt_method = ''POST'', rt_pattern = pattern_AuthService_Login_0,
        rt_rpc = ''/portal.auth.v1.AuthService/Login'', rt_template = ''/api/v1/auth/login'',
        rt_request = request_AuthService_Login_0 g client\<rparr>,
      \<lparr>rt_method = ''POST'', rt_pattern = pattern_AuthService_RefreshToken_0,
        rt_rpc = ''/portal.auth.v1.AuthService/RefreshToken'', rt_template = ''/api/v1/auth/refresh'',
        rt_request = request_AuthService_RefreshToken_0 g client\<rparr>,
      \<lparr>rt_method = ''POST'', rt_pattern = pattern_AuthService_Logout_0,
        rt_rpc = ''/portal.auth.v1.AuthService/Logout'', rt_template = ''/api/v1/auth/logout'',
        rt_request = request_AuthService_Logout_0 g client\<rparr>,
      \<lparr>rt_method = ''POST'', rt_pattern = pattern_AuthService_LogoutAll_0,
        rt_rpc = ''/portal.auth.v1.AuthService/LogoutAll'', rt_template = ''/api/v1/auth/logout-all'',
        rt_request = request_AuthService_LogoutAll_0 g client\<rparr>]"

text \<open>
  A connection to the endpoint, which is closed when the context is done: from then on its calls are answered
  by the client itself.
\<close>

definition conn_Invoke :: "gw_runtime \<Rightarrow> bool \<Rightarrow> gw_client \<Rightarrow> gw_client" where
  "conn_Invoke g ctxDone server c req s = (if ctxDone then (Returns (Inl (gw_closing g)), s) else server c req s)"

definition RegisterServerManagementServiceHandlerFromEndpoint ::
  "gw_runtime \<Rightarrow> bool \<Rightarrow> gw_client \<Rightarrow> string \<Rightarrow> route list \<Rightarrow> string + route list" where
  "RegisterServerManagementServiceHandlerFromEndpoint g ctxDone server endpoint mux =
     (case gw_NewClient g endpoint of
        Some e \<Rightarrow> Inl e
      | None \<Rightarrow> Inr (RegisterServerManagementServiceHandlerClient g (conn_Invoke g ctxDone server) mux))"

definition RegisterReportingServiceHandlerFromEndpoint ::
  "gw_runtime \<Rightarrow> bool \<Rightarrow> gw_client \<Rightarrow> string \<Rightarrow> route list \<Rightarrow> string + route list" where
  "RegisterReportingServiceHandlerFromEndpoint g ctxDone server endpoint mux =
     (case gw_NewClient g endpoint of
        Some e \<Rightarrow> Inl e
      | None \<Rightarrow> Inr (RegisterReportingServiceHandlerClient g (conn_Invoke g ctxDone server) mux))"

definition RegisterAuthServiceHandlerFromEndpoint ::
  "gw_runtime \<Rightarrow> bool \<Rightarrow> gw_client \<Rightarrow> string \<Rightarrow> route list \<Rightarrow> string + route list" where
  "RegisterAuthServiceHandlerFromEndpoint g ctxDone server endpoint mux =
     (case gw_NewClient g endpoint of
        Some e \<Rightarrow> Inl e
      | None \<Rightarrow> Inr (RegisterAuthServiceHandlerClient g (conn_Invoke g ctxDone server) mux))"

definition setupGRPCGateway :: "gw_runtime \<Rightarrow> bool \<Rightarrow> gw_client \<Rightarrow> string \<Rightarrow> string + route list" where
  "setupGRPCGateway g ctxDone server grpcAddr =
     (case RegisterServerManagementServiceHandlerFromEndpoint g ctxDone server grpcAddr [] of
        Inl e \<Rightarrow> Inl (''register server management gateway: '' @ e)
      | Inr mux1 \<Rightarrow>
          (case RegisterReportingServiceHandlerFromEndpoint g ctxDone server grpcAddr mux1 of
             Inl e \<Rightarrow> Inl (''register reporting gateway: '' @ e)
           | Inr mux2 \<Rightarrow>
               (case RegisterAuthServiceHandlerFromEndpoint g ctxDone server grpcAddr mux2 of
                  Inl e \<Rightarrow> Inl (''register auth gateway: '' @ e)
                | Inr mux3 \<Rightarrow> Inr mux3)))"

section \<open>Serving\<close>

definition gw_incoming :: "gw_runtime \<Rightarrow> string \<Rightarrow> string option" where
  "gw_incoming g = CustomIncomingMatcher (gw_DefaultHeaderMatcher g)"

definition gw_outgoing :: "gw_runtime \<Rightarrow> string \<Rightarrow> string option" where
  "gw_outgoing g = CustomOutgoingMatcher (gw_DefaultHeaderMatcher g)"

text \<open>
  The outcome of a client call as a response, with the headers the server set for the call. A call that waits
  has no response yet, which status 0 stands for.
\<close>

definition no_response :: http_response where
  "no_response = \<lparr>hp_status = 0, hp_headers = [], hp_body = TextBody []\<rparr>"

definition gw_answer ::
  "gw_runtime \<Rightarrow> app_state gstate \<Rightarrow> (status + response) go \<times> app_state gstate \<Rightarrow> http_response go \<times> app_state gstate" where
  "gw_answer g s out =
     (case out of (res, s1) \<Rightarrow>
        (case res of
           Panics m \<Rightarrow> Panics m
         | Returns (Inl e) \<Rightarrow> Returns (gw_HTTPError g (gw_outgoing g) e (gs_headers s1))
         | Returns (Inr resp) \<Rightarrow>
             Returns (if resp = Waiting then no_response else gw_ForwardResponseMessage g (gw_outgoing g) resp (gs_headers s1)),
         s1\<lparr>gs_headers := gs_headers s\<rparr>))"

text \<open>The body of the closures.\<close>

definition gw_handle :: "gw_runtime \<Rightarrow> route \<Rightarrow> path_params \<Rightarrow> http_handler" where
  "gw_handle g rt pathParams r s =
     (case gw_AnnotateContext g (gw_incoming g) (rt_rpc rt) (rt_template rt) r of
        Inl e \<Rightarrow> reply (gw_HTTPError g (gw_outgoing g) e []) s
      | Inr c \<Rightarrow> gw_answer g s (rt_request rt c r pathParams (s\<lparr>gs_headers := []\<rparr>)))"

definition gwmux_ServeHTTP :: "gw_runtime \<Rightarrow> route list \<Rightarrow> string \<Rightarrow> http_handler" where
  "gwmux_ServeHTTP g mux path r s =
     (case gw_route g (map (\<lambda>rt. (rt_method rt, rt_pattern rt)) mux) path r of
        Inl resp \<Rightarrow> reply resp s
      | Inr (k, pathParams) \<Rightarrow> gw_handle g (mux ! k) pathParams r s)"

text \<open>
  The HTTP server of \<open>Run\<close>: the authenticator and the authorizer are those that \<open>New\<close> made for the
  gRPC server; the inputs are those of the request at hand.
\<close>

record web =
  wb_runtime :: gw_runtime
  wb_multipart :: multipart
  wb_files :: "string \<Rightarrow> http_response"

definition app_http :: "web \<Rightarrow> App \<Rightarrow> bool \<Rightarrow> inputs \<Rightarrow> string + (string \<Rightarrow> http_handler)" where
  "app_http w a ctxDone i =
     (case setupGRPCGateway (wb_runtime w) ctxDone (app_serve a i) ('':'' @ CF_GRPCPort (app_config a)) of
        Inl e \<Rightarrow> Inl e
      | Inr gwmux \<Rightarrow> Inr (setupHTTPRoutes \<lparr>
          hd_services = app_services a, hd_jwt = gd_jwt (app_deps a),
          hd_Authenticator = NewAuthenticator (as_secret (hs_auth (app_services a))) (as_redis (hs_auth (app_services a))),
          hd_Authorizer = NewAuthorizer, hd_multipart = wb_multipart w, hd_files = wb_files w,
          hd_gateway = gwmux_ServeHTTP (wb_runtime w) gwmux\<rparr> (in_now i)))"

end
