(* ===== verification/Reporting_Props.thy ===== *)
theory Reporting_Props
  imports Reporting
begin

text \<open>
  What reporting guarantees: the rows of the report requests follow the jobs, no request is lost while
  the channel is open, the workers drain what was requested, and the figures stay within their bounds.
\<close>

section \<open>Rows and jobs\<close>

definition filled_report :: "Report \<Rightarrow> Report \<Rightarrow> bool" where
  "filled_report x y \<longleftrightarrow> y = x\<lparr>RP_CreatedAt := RP_CreatedAt y, RP_UpdatedAt := RP_UpdatedAt y\<rparr>"

definition uniq_reports :: "Report list \<Rightarrow> bool" where
  "uniq_reports xs \<longleftrightarrow> distinct (map RP_ID xs)"

text \<open>The status that the row of a job has, by how far the job has come.\<close>

fun phase_status :: "work_phase \<Rightarrow> string" where
  "phase_status Taken = ReportStatusPending"
| "phase_status Marked = ReportStatusProcessing"
| "phase_status (Worked r) = ReportStatusProcessing"

definition waiting_jobs :: "Report list \<Rightarrow> (uuid \<times> string) list" where
  "waiting_jobs = map (\<lambda>j. (RP_ID j, ReportStatusPending))"

definition running_jobs :: "(Report \<times> work_phase) list \<Rightarrow> (uuid \<times> string) list" where
  "running_jobs = map (\<lambda>(j, p). (RP_ID j, phase_status p))"

definition held :: "report_state \<Rightarrow> (uuid \<times> string) list" where
  "held s = waiting_jobs (rp_sending s) @ waiting_jobs (rp_queue s) @ running_jobs (rp_running s)"

lemmas held_defs = held_def waiting_jobs_def running_jobs_def

text \<open>How much work is left, and the bounds of the channel and of the pool.\<close>

fun phase_load :: "work_phase \<Rightarrow> nat" where
  "phase_load Taken = 3"
| "phase_load Marked = 2"
| "phase_load (Worked r) = 1"

definition load :: "report_state \<Rightarrow> nat" where
  "load s = 5 * length (rp_sending s) + 4 * length (rp_queue s) + (\<Sum>(j, p)\<leftarrow>rp_running s. phase_load p)"

definition in_bounds :: "reportingWorkerImpl \<Rightarrow> report_state \<Rightarrow> bool" where
  "in_bounds w s \<longleftrightarrow> int (length (rp_queue s)) \<le> rw_queueSize w \<and> int (length (rp_running s)) \<le> rw_workerCount w"

text \<open>The book that the rows and the jobs keep together.\<close>

definition book :: "Report list \<Rightarrow> (uuid \<times> string) list \<Rightarrow> bool" where
  "book rs hs \<longleftrightarrow> uniq_reports rs \<and> distinct (map fst hs)
     \<and> (\<forall>h\<in>set hs. \<exists>x\<in>set rs. RP_ID x = fst h \<and> RP_Status x = snd h)"

definition closed_book :: "Report list \<Rightarrow> (uuid \<times> string) list \<Rightarrow> bool" where
  "closed_book rs hs \<longleftrightarrow>
     (\<forall>x\<in>set rs. RP_ID x \<in> fst ` set hs \<or> RP_Status x = ReportStatusCompleted \<or> RP_Status x = ReportStatusFailed)"

definition set_status :: "uuid \<Rightarrow> time \<Rightarrow> string \<Rightarrow> Report list \<Rightarrow> Report list" where
  "set_status i now st = map (\<lambda>x. if RP_ID x = i then report_with_status now st x else x)"

lemma report_with_status_simps [simp]:
  "RP_ID (report_with_status now st x) = RP_ID x" "RP_Status (report_with_status now st x) = st"
  by (simp_all add: report_with_status_def)

lemma set_status_ids [simp]: "map RP_ID (set_status i now st xs) = map RP_ID xs"
  by (simp add: set_status_def)

text \<open>
  The ledger: what a step may do to the rows and to the jobs. A request is entered, its row moves to
  PROCESSING and then to its final status; only a \<open>lossy\<close> ledger forgets a job.
\<close>

inductive ledger :: "bool \<Rightarrow> Report list \<Rightarrow> (uuid \<times> string) list \<Rightarrow> Report list \<Rightarrow> (uuid \<times> string) list \<Rightarrow> bool" for lossy where
  l_same: "mset hs' = mset hs \<Longrightarrow> ledger lossy rs hs rs hs'"
| l_enter: "uniq_reports (rs @ [x]) \<Longrightarrow> RP_Status x = st \<Longrightarrow> mset hs' = mset ((RP_ID x, st) # hs) \<Longrightarrow> ledger lossy rs hs (rs @ [x]) hs'"
| l_mark: "mset hs = mset ((i, st0) # ks) \<Longrightarrow> mset hs' = mset ((i, st) # ks) \<Longrightarrow> ledger lossy rs hs (set_status i now st rs) hs'"
| l_finish: "mset hs = mset ((i, st0) # hs') \<Longrightarrow> ledger lossy rs hs (set_status i now (finalStatus r) rs) hs'"
| l_lose: "lossy \<Longrightarrow> mset hs = mset ((i, st0) # hs') \<Longrightarrow> ledger lossy rs hs rs hs'"

lemma ledger_mono: "ledger b rs hs rs' hs' \<Longrightarrow> (b \<Longrightarrow> b') \<Longrightarrow> ledger b' rs hs rs' hs'"
  by (induction rule: ledger.induct) (auto intro: ledger.intros)

lemma book_perm: "mset hs = mset hs' \<Longrightarrow> book rs hs = book rs hs'"
  using mset_eq_imp_distinct_iff [of "map fst hs" "map fst hs'"] mset_eq_setD [of hs hs']
  by (simp add: book_def)

lemma closed_book_perm: "mset hs = mset hs' \<Longrightarrow> closed_book rs hs = closed_book rs hs'"
  using mset_eq_setD [of hs hs'] by (simp add: closed_book_def)

lemma book_drop: "book rs (h # hs) \<Longrightarrow> book rs hs"
  by (simp add: book_def)

lemma book_ids: "book rs hs \<Longrightarrow> fst ` set hs \<subseteq> RP_ID ` set rs"
  by (force simp: book_def)

lemma book_add:
  assumes "book rs hs" and "uniq_reports (rs @ [x])"
  shows "book (rs @ [x]) ((RP_ID x, RP_Status x) # hs)"
proof -
  from assms(2) have "RP_ID x \<notin> RP_ID ` set rs" by (simp add: uniq_reports_def)
  with book_ids [OF assms(1)] have "RP_ID x \<notin> fst ` set hs" by blast
  with assms show ?thesis by (auto simp: book_def)
qed

lemma set_status_other: "x \<in> set rs \<Longrightarrow> RP_ID x \<noteq> i \<Longrightarrow> x \<in> set (set_status i now st rs)"
  by (force simp: set_status_def)

lemma set_status_same: "x \<in> set rs \<Longrightarrow> report_with_status now st x \<in> set (set_status (RP_ID x) now st rs)"
  by (force simp: set_status_def)

lemma book_set:
  assumes "book rs ((i, st0) # hs)"
  shows "book (set_status i now st rs) ((i, st) # hs)"
proof -
  from assms obtain x where "x \<in> set rs" "RP_ID x = i" by (auto simp: book_def)
  then have "\<exists>y\<in>set (set_status i now st rs). RP_ID y = i \<and> RP_Status y = st"
    by (intro bexI [of _ "report_with_status now st x"]) (auto dest: set_status_same)
  moreover have "\<exists>y\<in>set (set_status i now st rs). RP_ID y = fst h \<and> RP_Status y = snd h" if "h \<in> set hs" for h
  proof -
    from assms that obtain y where "y \<in> set rs" "RP_ID y = fst h" "RP_Status y = snd h" "fst h \<noteq> i"
      by (fastforce simp: book_def)
    then show ?thesis by (metis set_status_other)
  qed
  ultimately show ?thesis using assms by (simp add: book_def uniq_reports_def)
qed

lemma ledger_book:
  assumes "ledger lossy rs hs rs' hs'" and "book rs hs"
  shows "book rs' hs'"
  using assms
proof cases
  case l_same
  then show ?thesis using assms(2) book_perm by blast
next
  case (l_enter x st)
  then have "book rs' ((RP_ID x, st) # hs)" using book_add [OF assms(2)] by blast
  with l_enter(4) show ?thesis using book_perm by blast
next
  case (l_mark i st0 ks st now)
  then show ?thesis using assms(2) book_perm [of hs] book_perm [of hs'] book_set by metis
next
  case (l_finish i st0 now r)
  then have "book rs' ((i, finalStatus r) # hs')" using assms(2) book_perm [of hs] book_set by metis
  then show ?thesis by (rule book_drop)
next
  case (l_lose i st0)
  then show ?thesis using assms(2) book_perm [of hs] book_drop by blast
qed

lemma ledger_closed_book:
  assumes "ledger False rs hs rs' hs'" and "closed_book rs hs"
  shows "closed_book rs' hs'"
  using assms
proof cases
  case l_same
  then show ?thesis using assms(2) closed_book_perm by blast
next
  case (l_enter x st)
  with assms(2) have "closed_book rs' ((RP_ID x, st) # hs)" by (simp add: closed_book_def)
  with l_enter(4) show ?thesis using closed_book_perm by blast
next
  case (l_mark i st0 ks st now)
  then have "closed_book rs' ((i, st) # ks)"
    using assms(2) closed_book_perm [of hs "(i, st0) # ks"] by (auto simp: closed_book_def set_status_def)
  with l_mark show ?thesis using closed_book_perm by blast
next
  case (l_finish i st0 now r)
  then show ?thesis
    using assms(2) closed_book_perm [of hs "(i, st0) # hs'"]
    by (auto simp: closed_book_def set_status_def finalStatus_def split: sum.splits)
qed simp_all

lemma ledger_ids:
  assumes "ledger lossy rs hs rs' hs'"
  shows "RP_ID ` set rs \<subseteq> RP_ID ` set rs'"
proof -
  have "RP_ID ` set (set_status i now st rs) = RP_ID ` set rs" for i now st
    by (metis set_map set_status_ids)
  with assms show ?thesis by cases auto
qed

section \<open>The contract of the store\<close>

locale report_stores =
  tbl: gorm_table "rw_reports w" filled_report uniq_reports
  for w :: reportingWorkerImpl +
  assumes text_inj: "inj (uuid_String (rw_uuid w))"
begin

lemma update_status:
  assumes "UpdateReportStatus (rw_reports w) (rw_uuid w) now (uuid_String (rw_uuid w) i) st t = (r, t')"
  shows "rows t' = (case r of Inl _ \<Rightarrow> rows t | Inr _ \<Rightarrow> set_status i now st (rows t))"
proof -
  have p: "(\<lambda>x. uuid_String (rw_uuid w) (RP_ID x) = uuid_String (rw_uuid w) i) = (\<lambda>x. RP_ID x = i)"
    using text_inj by (auto simp: fun_eq_iff inj_eq)
  obtain u t1 where u: "g_update (rw_reports w) (\<lambda>x. RP_ID x = i) (report_with_status now st) t = (u, t1)" by fastforce
  show ?thesis
  proof (cases u)
    case (Inl e)
    with u assms tbl.update_err show ?thesis by (auto simp: UpdateReportStatus_def p)
  next
    case (Inr n)
    with u assms tbl.update_ok show ?thesis by (auto simp: UpdateReportStatus_def p set_status_def)
  qed
qed

lemma update_error:
  assumes "UpdateReportStatus (rw_reports w) (rw_uuid w) now (uuid_String (rw_uuid w) i) st t = (Inl e, t')"
    and "uniq_reports (rows t)"
  shows "\<not> updates_succeed (rw_reports w) uniq_reports"
proof
  let ?p = "\<lambda>x. uuid_String (rw_uuid w) (RP_ID x) = uuid_String (rw_uuid w) i"
  assume "updates_succeed (rw_reports w) uniq_reports"
  moreover have ids: "map RP_ID (map (\<lambda>x. if ?p x then report_with_status now st x else x) (rows t)) = map RP_ID (rows t)" by simp
  have "uniq_reports (map (\<lambda>x. if ?p x then report_with_status now st x else x) (rows t))"
    using assms(2) unfolding uniq_reports_def ids .
  ultimately obtain n t1 where "g_update (rw_reports w) ?p (report_with_status now st) t = (Inr n, t1)"
    by (rule tbl.update_succeeds)
  with assms(1) show False by (simp add: UpdateReportStatus_def)
qed

lemma mark_report:
  assumes "markReport w now job s = (r, s')"
  obtains t where "s' = s\<lparr>rp_reports := t\<rparr>"
    and "rows t = (case r of Inl _ \<Rightarrow> rows (rp_reports s)
      | Inr _ \<Rightarrow> set_status (RP_ID job) now ReportStatusProcessing (rows (rp_reports s)))"
    and "r = Inl e \<Longrightarrow> uniq_reports (rows (rp_reports s)) \<Longrightarrow> \<not> updates_succeed (rw_reports w) uniq_reports"
proof -
  obtain t where "UpdateReportStatus (rw_reports w) (rw_uuid w) now (uuid_String (rw_uuid w) (RP_ID job))
      ReportStatusProcessing (rp_reports s) = (r, t)" and "s' = s\<lparr>rp_reports := t\<rparr>"
    using assms by (auto simp: markReport_def split: prod.splits)
  then show thesis using that update_status update_error by blast
qed

lemma finish_report:
  assumes "finishReport w now job q s = (r, s')"
  obtains t where "s' = s\<lparr>rp_reports := t\<rparr>"
    and "rows t = (case r of Inl _ \<Rightarrow> rows (rp_reports s)
      | Inr _ \<Rightarrow> set_status (RP_ID job) now (finalStatus q) (rows (rp_reports s)))"
    and "r = Inl e \<Longrightarrow> uniq_reports (rows (rp_reports s)) \<Longrightarrow> \<not> updates_succeed (rw_reports w) uniq_reports"
proof -
  obtain t where "UpdateReportStatus (rw_reports w) (rw_uuid w) now (uuid_String (rw_uuid w) (RP_ID job))
      (finalStatus q) (rp_reports s) = (r, t)" and "s' = s\<lparr>rp_reports := t\<rparr>"
    using assms by (auto simp: finishReport_def split: prod.splits)
  then show thesis using that update_status update_error by blast
qed

lemma store_request:
  assumes "storeRequest w i c email d1 d2 s = (r, s')"
  shows "\<exists>t. s' = s\<lparr>rp_reports := t\<rparr>"
    and "r = Inl e \<Longrightarrow> rows (rp_reports s') = rows (rp_reports s)"
    and "r = Inr x \<Longrightarrow> rows (rp_reports s') = rows (rp_reports s) @ [x] \<and> RP_Status x = ReportStatusPending
      \<and> (uniq_reports (rows (rp_reports s)) \<longrightarrow> uniq_reports (rows (rp_reports s) @ [x]))"
proof -
  show "\<exists>t. s' = s\<lparr>rp_reports := t\<rparr>"
    using assms by (cases s) (auto simp: storeRequest_def Let_def split: option.splits sum.splits prod.splits)
  show "r = Inl e \<Longrightarrow> rows (rp_reports s') = rows (rp_reports s)"
    using assms tbl.create_err
    by (auto simp: storeRequest_def CreateReportRequest_def Let_def split: option.splits sum.splits prod.splits)
  assume "r = Inr x"
  with assms have "\<exists>req. RP_Status req = ReportStatusPending
      \<and> g_create (rw_reports w) req (rp_reports s) = (Inr x, rp_reports s')"
    by (auto simp: storeRequest_def CreateReportRequest_def NewReportRequest_def Let_def
        split: option.splits sum.splits prod.splits if_splits intro!: exI)
  then obtain req where req: "RP_Status req = ReportStatusPending"
    and c: "g_create (rw_reports w) req (rp_reports s) = (Inr x, rp_reports s')" by blast
  from tbl.create_ok [OF c]
  have r: "rows (rp_reports s') = rows (rp_reports s) @ [x]" and "filled_report req x" by auto
  moreover from this(2) have "RP_Status x = RP_Status req" by (cases x, cases req) (simp add: filled_report_def)
  ultimately show "rows (rp_reports s') = rows (rp_reports s) @ [x] \<and> RP_Status x = ReportStatusPending
      \<and> (uniq_reports (rows (rp_reports s)) \<longrightarrow> uniq_reports (rows (rp_reports s) @ [x]))"
    using req tbl.create_wf [OF c] by simp
qed

lemma do_work_keeps:
  assumes "doWork w unixNano job s = (r, s')"
  shows "rp_reports s' = rp_reports s" "rp_sending s' = rp_sending s" "rp_queue s' = rp_queue s"
    "rp_closed s' = rp_closed s"
  using assms by (auto simp: doWork_def split: prod.splits sum.splits option.splits)

text \<open>A job is lost only by a send on the closed channel or by an update that fails.\<close>

lemma worker_step_losses:
  assumes "worker_step w s s'" and uniq: "uniq_reports (rows (rp_reports s))"
  shows "ledger (rp_closed s \<and> rp_sending s' \<noteq> rp_sending s \<or> \<not> updates_succeed (rw_reports w) uniq_reports)
    (rows (rp_reports s)) (held s) (rows (rp_reports s')) (held s')"
  using assms(1)
proof (cases rule: worker_step.cases)
  case (ws_send js job ks r t)
  show ?thesis
  proof (cases "rp_closed s")
    case True
    with ws_send have "t = s" by (simp add: EnqueueReport_def)
    with ws_send have "mset (held s) = mset ((RP_ID job, ReportStatusPending) # held s')" by (simp add: held_defs)
    with True ws_send(1) \<open>t = s\<close> show ?thesis by (auto intro: l_lose)
  next
    case False
    with ws_send(3) have "t = s\<lparr>rp_queue := rp_queue s @ [job]\<rparr>" by (auto simp: EnqueueReport_def split: if_splits)
    with ws_send show ?thesis by (simp add: held_defs l_same)
  qed
next
  case (ws_take job rest)
  then show ?thesis by (simp add: held_defs l_same)
next
  case (ws_mark js job ks now t)
  obtain t1 where "t = s\<lparr>rp_reports := t1\<rparr>"
    and "rows t1 = set_status (RP_ID job) now ReportStatusProcessing (rows (rp_reports s))"
    using mark_report [OF ws_mark(3)] by auto
  with ws_mark show ?thesis
    by (auto simp: held_defs intro!: l_mark [where ks = "held (s\<lparr>rp_running := js @ ks\<rparr>)"])
next
  case (ws_drop js job ks now e t)
  obtain t1 where "t = s\<lparr>rp_reports := t1\<rparr>" and "rows t1 = rows (rp_reports s)"
    and "\<not> updates_succeed (rw_reports w) uniq_reports"
    using mark_report [OF ws_drop(3)] uniq by auto
  with ws_drop show ?thesis by (auto simp: held_defs intro!: l_lose)
next
  case (ws_work js job ks unixNano r t)
  then show ?thesis using do_work_keeps [OF ws_work(3)] by (simp add: held_defs l_same)
next
  case (ws_finish js job r ks now u t)
  obtain t1 where "t = s\<lparr>rp_reports := t1\<rparr>"
    and "rows t1 = (case u of Inl _ \<Rightarrow> rows (rp_reports s) | Inr _ \<Rightarrow> set_status (RP_ID job) now (finalStatus r) (rows (rp_reports s)))"
    and "\<exists>e. u = Inl e \<Longrightarrow> \<not> updates_succeed (rw_reports w) uniq_reports"
    using finish_report [OF ws_finish(3)] uniq by metis
  with ws_finish show ?thesis
    by (cases u) (auto simp: held_defs intro!: l_lose l_finish)
qed

lemma worker_step_ledger:
  assumes "worker_step w s s'" and "uniq_reports (rows (rp_reports s))"
  shows "ledger (rp_closed s \<or> \<not> updates_succeed (rw_reports w) uniq_reports)
    (rows (rp_reports s)) (held s) (rows (rp_reports s')) (held s')"
  by (rule ledger_mono [OF worker_step_losses [OF assms]]) blast

lemma report_step_ledger:
  assumes "report_step w s s'" and uniq: "uniq_reports (rows (rp_reports s))"
  shows "ledger (rp_closed s \<or> \<not> updates_succeed (rw_reports w) uniq_reports)
    (rows (rp_reports s)) (held s) (rows (rp_reports s')) (held s')"
  using assms(1)
proof (cases rule: report_step.cases)
  case rs_worker
  then show ?thesis using worker_step_ledger uniq by blast
next
  case (rs_refuse i c email d1 d2 e)
  note f = store_request [OF rs_refuse]
  from f(1) have "held s' = held s" by (auto simp: held_def)
  with f(2) show ?thesis by (simp add: l_same)
next
  case (rs_store i c email d1 d2 req t)
  note f = store_request [OF rs_store(2)]
  from f(1) have "held s' = (RP_ID req, ReportStatusPending) # held s"
    unfolding rs_store(1) by (auto simp: held_defs)
  with f(3) rs_store(1) uniq show ?thesis by (auto intro!: l_enter)
next
  case (rs_stop p)
  then have "held s' = held s" "rp_reports s' = rp_reports s"
    by (auto simp: StopWorker_def held_def split: if_splits)
  then show ?thesis by (simp add: l_same)
qed

lemma worker_step_load:
  assumes "worker_step w s s'"
  shows "load s' < load s" and "rp_closed s' = rp_closed s" and "in_bounds w s \<Longrightarrow> in_bounds w s'"
  using assms
proof (atomize (full), cases rule: worker_step.cases)
  case (ws_send js job ks r t)
  then show "load s' < load s \<and> rp_closed s' = rp_closed s \<and> (in_bounds w s \<longrightarrow> in_bounds w s')"
    by (auto simp: EnqueueReport_def load_def in_bounds_def split: if_splits)
next
  case (ws_mark js job ks now t)
  then show "load s' < load s \<and> rp_closed s' = rp_closed s \<and> (in_bounds w s \<longrightarrow> in_bounds w s')"
    by (auto simp: load_def in_bounds_def elim!: mark_report)
next
  case (ws_drop js job ks now e t)
  then show "load s' < load s \<and> rp_closed s' = rp_closed s \<and> (in_bounds w s \<longrightarrow> in_bounds w s')"
    by (auto simp: load_def in_bounds_def elim!: mark_report)
next
  case (ws_work js job ks unixNano r t)
  then show "load s' < load s \<and> rp_closed s' = rp_closed s \<and> (in_bounds w s \<longrightarrow> in_bounds w s')"
    by (auto simp: load_def in_bounds_def do_work_keeps [OF ws_work(3)])
next
  case (ws_finish js job r ks now u t)
  then show "load s' < load s \<and> rp_closed s' = rp_closed s \<and> (in_bounds w s \<longrightarrow> in_bounds w s')"
    by (auto simp: load_def in_bounds_def elim!: finish_report)
qed (auto simp: load_def in_bounds_def)

lemma report_step_bounds:
  assumes "report_step w s s'"
  shows "rp_closed s \<Longrightarrow> rp_closed s'" and "in_bounds w s \<Longrightarrow> in_bounds w s'"
  using assms
proof (atomize (full), cases rule: report_step.cases)
  case rs_worker
  then show "(rp_closed s \<longrightarrow> rp_closed s') \<and> (in_bounds w s \<longrightarrow> in_bounds w s')" using worker_step_load by blast
next
  case (rs_refuse i c email d1 d2 e)
  from store_request(1) [OF this] show "(rp_closed s \<longrightarrow> rp_closed s') \<and> (in_bounds w s \<longrightarrow> in_bounds w s')"
    by (auto simp: in_bounds_def)
next
  case (rs_store i c email d1 d2 req t)
  from store_request(1) [OF this(2)] this(1) show "(rp_closed s \<longrightarrow> rp_closed s') \<and> (in_bounds w s \<longrightarrow> in_bounds w s')"
    by (auto simp: in_bounds_def)
qed (auto simp: StopWorker_def in_bounds_def split: if_splits)

text \<open>A worker can always go on while there is work.\<close>

lemma worker_progress:
  assumes "0 < load s" and "0 < rw_workerCount w" and "0 < rw_queueSize w"
  obtains s' where "worker_step w s s'"
proof (cases "rp_running s")
  case (Cons jp ks)
  obtain job p where jp: "jp = (job, p)" by fastforce
  show thesis
  proof (cases p)
    case Taken
    obtain r t where m: "markReport w 0 job s = (r, t)" by fastforce
    with Cons jp Taken show thesis
      using that worker_step.ws_mark [of s "[]"] worker_step.ws_drop [of s "[]"] by (cases r) fastforce+
  next
    case Marked
    obtain r t where "doWork w 0 job s = (r, t)" by fastforce
    with Cons jp Marked show thesis using that worker_step.ws_work [of s "[]"] by fastforce
  next
    case (Worked q)
    obtain u t where "finishReport w 0 job q s = (u, t)" by fastforce
    with Cons jp Worked show thesis using that worker_step.ws_finish [of s "[]"] by fastforce
  qed
next
  case Nil
  show thesis
  proof (cases "rp_queue s")
    case (Cons job rest)
    then show thesis using that worker_step.ws_take Nil assms(2) by fastforce
  next
    case Nil2: Nil
    with Nil assms(1) obtain job rest where q: "rp_sending s = job # rest" by (cases "rp_sending s") (auto simp: load_def)
    have "\<exists>r t. EnqueueReport w job s = Some (r, t)" using Nil2 assms(3) by (simp add: EnqueueReport_def)
    then obtain r t where "EnqueueReport w job s = Some (r, t)" by blast
    with q show thesis using that worker_step.ws_send [of s "[]"] by fastforce
  qed
qed

lemma steps_book:
  assumes "(report_step w)\<^sup>*\<^sup>* s0 s" and "book (rows (rp_reports s0)) (held s0)" and "in_bounds w s0"
    and "closed_book (rows (rp_reports s0)) (held s0)"
  shows "book (rows (rp_reports s)) (held s) \<and> in_bounds w s
    \<and> (updates_succeed (rw_reports w) uniq_reports \<longrightarrow> \<not> rp_closed s \<longrightarrow> closed_book (rows (rp_reports s)) (held s))"
  using assms(1)
proof induction
  case base
  then show ?case using assms(2-4) by blast
next
  case (step s s')
  then have b: "book (rows (rp_reports s)) (held s)" by blast
  then have u: "uniq_reports (rows (rp_reports s))" by (simp add: book_def)
  note l = report_step_ledger [OF step(2) u]
  have "closed_book (rows (rp_reports s')) (held s')"
    if "updates_succeed (rw_reports w) uniq_reports" "\<not> rp_closed s'"
  proof -
    have "\<not> rp_closed s" using that(2) report_step_bounds(1) [OF step(2)] by blast
    with that(1) l step(3) show ?thesis using ledger_closed_book by auto
  qed
  with ledger_book [OF l b] report_step_bounds(2) [OF step(2)] step(3) show ?case by blast
qed

lemma steps_keep_ids:
  assumes "(worker_step w)\<^sup>*\<^sup>* s s'" and "book (rows (rp_reports s)) (held s)"
  shows "RP_ID ` set (rows (rp_reports s)) \<subseteq> RP_ID ` set (rows (rp_reports s'))
    \<and> book (rows (rp_reports s')) (held s') \<and> rp_closed s' = rp_closed s"
  using assms(1)
proof induction
  case base
  then show ?case using assms(2) by blast
next
  case (step t t')
  then have "book (rows (rp_reports t)) (held t)" by blast
  then have "uniq_reports (rows (rp_reports t))" by (simp add: book_def)
  note l = worker_step_ledger [OF step(2) this]
  show ?case using step(3) ledger_ids [OF l] ledger_book [OF l] worker_step_load(2) [OF step(2)] by blast
qed

end

text \<open>No step goes on for ever when each of them lessens the work.\<close>

lemma no_endless_run:
  assumes "\<And>s s'. R s s' \<Longrightarrow> f s' < (f s :: nat)"
  shows "\<not> (\<forall>n. R (g n) (g (Suc n)))"
proof
  assume "\<forall>n. R (g n) (g (Suc n))"
  then have "(g (Suc n), g n) \<in> measure f" for n using assms by simp
  then show False using wf_iff_no_infinite_down_chain [of "measure f"] by blast
qed

lemma load_zero: "load s = 0 \<longleftrightarrow> rp_sending s = [] \<and> rp_queue s = [] \<and> rp_running s = []"
proof -
  have "0 < phase_load p" for p by (cases p) simp_all
  then have "(\<Sum>(j, p)\<leftarrow>xs. phase_load p) = 0 \<longleftrightarrow> xs = []" for xs :: "(Report \<times> work_phase) list"
    by (cases xs) (auto split: prod.splits)
  then show ?thesis by (simp add: load_def)
qed

lemma new_worker_sizes: "0 < rw_workerCount (NewReportingWorker w)" "0 < rw_queueSize (NewReportingWorker w)"
  by (simp_all add: NewReportingWorker_def worker_count_def queue_size_def)

section \<open>The properties\<close>

text \<open>A component that was just started: no job is under way and every row has its final status.\<close>

definition report_start :: "report_state \<Rightarrow> bool" where
  "report_start s \<longleftrightarrow> uniq_reports (rows (rp_reports s)) \<and> load s = 0
     \<and> (\<forall>x\<in>set (rows (rp_reports s)). RP_Status x = ReportStatusCompleted \<or> RP_Status x = ReportStatusFailed)"

lemma report_start_book:
  assumes "report_start s"
  shows "book (rows (rp_reports s)) (held s)" and "closed_book (rows (rp_reports s)) (held s)"
    and "in_bounds (NewReportingWorker w) s"
  using assms new_worker_sizes [of w]
  by (auto simp: report_start_def load_zero held_defs book_def closed_book_def in_bounds_def less_imp_le)

text \<open>C11: Whatever the callers, the workers and the stop do and in whatever order, and with any failures of
  the database, each job that is waiting or in work has a row of its own, PENDING until a worker has
  marked it and PROCESSING from then on, and the channel and the pool stay within their sizes. While
  the channel is open and the updates succeed, a row without a job is COMPLETED or FAILED: no request
  is lost.
\<close>

theorem reports_follow_jobs:
  assumes "report_stores (NewReportingWorker w)" and "report_start s0"
    and "(report_step (NewReportingWorker w))\<^sup>*\<^sup>* s0 s"
  shows "book (rows (rp_reports s)) (held s) \<and> in_bounds (NewReportingWorker w) s
    \<and> (updates_succeed (rw_reports (NewReportingWorker w)) uniq_reports \<longrightarrow> \<not> rp_closed s \<longrightarrow>
         closed_book (rows (rp_reports s)) (held s))"
  using report_stores.steps_book [OF assms(1,3)] report_start_book [OF assms(2)] by blast

text \<open>C12: While the channel is open and the database takes the updates, the senders and workers cannot run
  for ever without a new request, and when they can do nothing more, every report that was requested is
  COMPLETED or FAILED.
\<close>

theorem reports_drain:
  assumes "report_stores (NewReportingWorker w)" and "report_start s0"
    and "(report_step (NewReportingWorker w))\<^sup>*\<^sup>* s0 s" and "\<not> rp_closed s"
    and "updates_succeed (rw_reports (NewReportingWorker w)) uniq_reports"
  shows "(\<nexists>g. g 0 = s \<and> (\<forall>n. worker_step (NewReportingWorker w) (g n) (g (Suc n))))
    \<and> (\<forall>s'. (worker_step (NewReportingWorker w))\<^sup>*\<^sup>* s s' \<and> (\<nexists>s''. worker_step (NewReportingWorker w) s' s'') \<longrightarrow>
         RP_ID ` set (rows (rp_reports s)) \<subseteq> RP_ID ` set (rows (rp_reports s'))
         \<and> (\<forall>x\<in>set (rows (rp_reports s')). RP_Status x = ReportStatusCompleted \<or> RP_Status x = ReportStatusFailed))"
proof -
  let ?w = "NewReportingWorker w"
  have ends: "\<not> (\<forall>n. worker_step ?w (g n) (g (Suc n)))" for g
    by (rule no_endless_run [of _ load]) (rule report_stores.worker_step_load(1) [OF assms(1)])
  have fin: "RP_ID ` set (rows (rp_reports s)) \<subseteq> RP_ID ` set (rows (rp_reports s'))
      \<and> (\<forall>x\<in>set (rows (rp_reports s')). RP_Status x = ReportStatusCompleted \<or> RP_Status x = ReportStatusFailed)"
    if run: "(worker_step ?w)\<^sup>*\<^sup>* s s'" and stuck: "\<nexists>s''. worker_step ?w s' s''" for s'
  proof -
    have "(report_step ?w)\<^sup>*\<^sup>* s s'"
      using run by (rule rtranclp_mono [THEN predicate2D, rotated]) (auto intro: rs_worker)
    with assms(3) have reach: "(report_step ?w)\<^sup>*\<^sup>* s0 s'" by (rule rtranclp_trans)
    have "book (rows (rp_reports s)) (held s)"
      using report_stores.steps_book [OF assms(1,3)] report_start_book [OF assms(2)] by blast
    note ids = report_stores.steps_keep_ids [OF assms(1) run this]
    with assms(4,5) have "closed_book (rows (rp_reports s')) (held s')"
      using report_stores.steps_book [OF assms(1) reach] report_start_book [OF assms(2)] by blast
    moreover have "load s' = 0"
      using stuck report_stores.worker_progress [OF assms(1) _ new_worker_sizes] by blast
    ultimately show ?thesis using ids by (auto simp: closed_book_def load_zero held_defs)
  qed
  from ends fin show ?thesis by blast
qed

section \<open>What one run of a worker does\<close>

lemma do_work_mail:
  assumes "doWork w nano req s = (r, s')"
  shows "(r = Inr () \<longrightarrow> (if rw_notifier w = None then rp_outbox s' = rp_outbox s
        else \<exists>raw. rp_outbox s' = rp_outbox s @ [(RP_RequestorEmail req, raw)]))
    \<and> (r \<noteq> Inr () \<longrightarrow> rp_outbox s' = rp_outbox s \<or> (\<exists>cfg sm. rw_notifier w = Some (cfg, sm) \<and> sm_Quit sm \<noteq> None))"
  using assms
  by (auto simp: doWork_def SendReportEmail_def split: prod.splits sum.splits option.splits if_splits dest: send_outcome)


section \<open>An instance\<close>

definition demo_reporting :: "(nat \<Rightarrow> string option) \<Rightarrow> string option \<Rightarrow> reportingWorkerImpl" where
  "demo_reporting fault quit = \<lparr>rw_reports = mem_gorm fault (\<lambda>n x. x) uniq_reports, rw_servers = mem_gorm (\<lambda>_. None) (\<lambda>n x. x) (\<lambda>_. True),
     rw_uuid = \<lparr>uuid_String = (\<lambda>u. nat_string (unat u)), uuid_Parse = (\<lambda>_. None)\<rparr>, rw_es = None, rw_loc = (\<lambda>_. 0),
     rw_template = (\<lambda>_. Inr ''report''),
     rw_notifier = Some (\<lparr>SMTP_Host = ''mail'', SMTP_Port = ''25'', SMTP_UseAuth = False, SMTP_UseTLS = False, SMTP_Username = [],
         SMTP_Password = [], SMTP_From = ''a@b'', SMTP_FromName = []\<rparr>,
       \<lparr>sm_Dial = (\<lambda>_. None), sm_NewClient = (\<lambda>_. None), sm_StartTLS = (\<lambda>_. None), sm_Auth = (\<lambda>_ _ _. None), sm_Mail = (\<lambda>_. None),
         sm_Rcpt = (\<lambda>_. None), sm_Data = None, sm_Write = (\<lambda>_. None), sm_Close = None, sm_Quit = quit\<rparr>),
     rw_workerCount = 0, rw_queueSize = 0\<rparr>"

interpretation mem_reports: report_stores "demo_reporting fault quit" for fault quit
proof -
  have "gorm_table (rw_reports (demo_reporting fault quit)) filled_report uniq_reports"
    unfolding demo_reporting_def by (simp, rule mem_gorm_table) (simp add: filled_report_def)
  moreover have "inj (uuid_String (rw_uuid (demo_reporting fault quit)))"
    by (auto simp: demo_reporting_def inj_def word_unat_eq_iff dest: nat_string_inj)
  ultimately show "report_stores (demo_reporting fault quit)"
    by (intro report_stores.intro report_stores_axioms.intro)
qed

interpretation mem_reports_sized: report_stores "NewReportingWorker (demo_reporting fault quit)" for fault quit
proof -
  have "gorm_table (rw_reports (NewReportingWorker (demo_reporting fault quit))) filled_report uniq_reports"
    using mem_reports.tbl.gorm_table_axioms by (simp add: NewReportingWorker_def)
  then show "report_stores (NewReportingWorker (demo_reporting fault quit))"
    using mem_reports.text_inj by (intro report_stores.intro report_stores_axioms.intro) (simp_all add: NewReportingWorker_def)
qed

definition demo_job :: Report where
  "demo_job = \<lparr>RP_ID = 1, RP_RequestorEmail = ''x@y'', RP_StartTime = 0, RP_EndTime = 1, RP_Status = ''PENDING'',
     RP_CorrelationID = ''c'', RP_CreatedAt = 0, RP_UpdatedAt = 0\<rparr>"

definition demo_reports :: "Report list \<Rightarrow> report_state" where
  "demo_reports rs = \<lparr>rp_reports = \<lparr>rows = rs, tenv = 0\<rparr>, rp_servers = \<lparr>rows = [], tenv = 0\<rparr>, rp_es = 0, rp_outbox = [],
     rp_sending = [], rp_queue = [], rp_closed = False, rp_running = []\<rparr>"

lemma demo_updates: "updates_succeed (rw_reports (NewReportingWorker (demo_reporting (\<lambda>_. None) quit))) uniq_reports"
  "updates_succeed (rw_reports (demo_reporting (\<lambda>_. None) quit)) uniq_reports"
  by (simp_all add: demo_reporting_def NewReportingWorker_def)

lemma demo_dates: "parse_date ''2026-06-01'' \<noteq> None" "TrimSpace ''x@y'' \<noteq> []"
  by (code_simp, simp add: TrimSpace_visible visible_def)

lemma demo_start: "report_start (demo_reports [])"
  by (simp add: report_start_def demo_reports_def uniq_reports_def load_def)

lemma demo_request:
  "\<exists>s. (report_step (NewReportingWorker (demo_reporting (\<lambda>_. None) quit)))\<^sup>*\<^sup>* (demo_reports []) s
     \<and> length (rp_sending s) = 1 \<and> \<not> rp_closed s"
proof -
  let ?w = "NewReportingWorker (demo_reporting (\<lambda>_. None) quit)"
  obtain t where "parse_date ''2026-06-01'' = Some t" using demo_dates(1) by auto
  then have "\<exists>req s1. storeRequest ?w 1 ''c'' ''x@y'' ''2026-06-01'' ''2026-06-01'' (demo_reports []) = (Inr req, s1)
      \<and> rp_sending s1 = [] \<and> \<not> rp_closed s1"
    using demo_dates(2)
    by (simp add: storeRequest_def NewReportRequest_def CreateReportRequest_def NewReportingWorker_def demo_reporting_def
        demo_reports_def mem_engine uniq_reports_def)
  then obtain req s1 where "storeRequest ?w 1 ''c'' ''x@y'' ''2026-06-01'' ''2026-06-01'' (demo_reports []) = (Inr req, s1)"
    and s1: "rp_sending s1 = []" "\<not> rp_closed s1" by blast
  from rs_store [OF this(1)] s1 show ?thesis
    by (intro exI [of _ "s1\<lparr>rp_sending := req # rp_sending s1\<rparr>"]) auto
qed

theorem reports_follow_jobs_witness:
  "\<exists>s. length (rp_sending s) = 1 \<and> book (rows (rp_reports s)) (held s) \<and> closed_book (rows (rp_reports s)) (held s)"
proof -
  obtain s where s: "(report_step (NewReportingWorker (demo_reporting (\<lambda>_. None) None)))\<^sup>*\<^sup>* (demo_reports []) s"
      "length (rp_sending s) = 1" "\<not> rp_closed s"
    using demo_request by blast
  from reports_follow_jobs [OF mem_reports_sized.report_stores_axioms demo_start s(1)] s demo_updates(1)
  show ?thesis by blast
qed

theorem reports_drain_witness:
  "\<exists>s. length (rp_sending s) = 1 \<and>
    (\<nexists>g. g 0 = s \<and> (\<forall>n. worker_step (NewReportingWorker (demo_reporting (\<lambda>_. None) None)) (g n) (g (Suc n))))"
proof -
  obtain s where s: "(report_step (NewReportingWorker (demo_reporting (\<lambda>_. None) None)))\<^sup>*\<^sup>* (demo_reports []) s"
      "length (rp_sending s) = 1" "\<not> rp_closed s"
    using demo_request by blast
  from reports_drain [OF mem_reports_sized.report_stores_axioms demo_start s(1,3) demo_updates(1)] s(2)
  show ?thesis by blast
qed


end
