(* ===== verification/Middlewares_Props.thy ===== *)
theory Middlewares_Props
  imports Middlewares Stores
begin

text \<open>
  What the chain of interceptors guarantees. \<open>gate\<close> is the contract every interceptor but the recovery
  satisfies: it either ends the call with an error or a panic that does not depend on the handler, or
  calls the handler exactly once, as its last action, in a state where its condition holds; in both
  cases the state of the application is as it was. The contract is closed under chaining, so that the chain of the server has it with the
  conditions of all its members.
\<close>

section \<open>The contract\<close>

type_synonym 'a passage = "ctx \<Rightarrow> request \<Rightarrow> string \<Rightarrow> 'a gstate \<Rightarrow> ctx \<Rightarrow> 'a gstate \<Rightarrow> bool"

definition refused :: "'a gstate \<Rightarrow> (status + 'r) go \<times> 'a gstate \<Rightarrow> bool" where
  "refused s out \<longleftrightarrow> (\<forall>r. fst out \<noteq> Returns (Inr r)) \<and> gs_app (snd out) = gs_app s"

definition decides :: "('a, 'r) interceptor \<Rightarrow> 'a passage \<Rightarrow> ctx \<Rightarrow> request \<Rightarrow> string \<Rightarrow> 'a gstate \<Rightarrow> bool" where
  "decides I C c req m s \<longleftrightarrow>
     (\<exists>out. refused s out \<and> (\<forall>h. I c req m h s = out)) \<or>
     (\<exists>c' s'. gs_app s' = gs_app s \<and> C c req m s c' s' \<and> (\<forall>h. I c req m h s = h c' req s'))"

lemma stopI: "(\<And>h. I c req m h s = out) \<Longrightarrow> refused s out \<Longrightarrow> decides I C c req m s"
  unfolding decides_def by blast

lemma goI: "(\<And>h. I c req m h s = h c' req s') \<Longrightarrow> gs_app s' = gs_app s \<Longrightarrow> C c req m s c' s' \<Longrightarrow> decides I C c req m s"
  unfolding decides_def by blast

lemma refused_simps [simp]:
  "refused s (refuse code msg s') \<longleftrightarrow> gs_app s' = gs_app s"
  "refused s (Panics p, s') \<longleftrightarrow> gs_app s' = gs_app s"
  "refused s (Returns (Inl e), s') \<longleftrightarrow> gs_app s' = gs_app s"
  by (auto simp: refused_def refuse_def)

lemma refused_same: "refused s1 out \<Longrightarrow> gs_app s1 = gs_app s \<Longrightarrow> refused s out"
  by (simp add: refused_def)

locale gate =
  fixes I :: "('a, 'r) interceptor" and C :: "'a passage"
  assumes decided: "decides I C c req m s"
begin

lemma reached:
  assumes "I c req m h s = out"
  shows "refused s out \<and> (\<forall>h'. I c req m h' s = out) \<or> (\<exists>c' s'. gs_app s' = gs_app s \<and> C c req m s c' s' \<and> out = h c' req s')"
  using decided [of c req m s] assms unfolding decides_def by metis

end

lemma gate_chain:
  assumes "gate f C" and "gate g D"
  shows "gate (chain f g) (\<lambda>c req m s c' s'. \<exists>c1 s1. C c req m s c1 s1 \<and> D c1 req m s1 c' s')"
proof
  fix c req m s
  from gate.decided [OF assms(1), of c req m s]
  show "decides (chain f g) (\<lambda>c req m s c' s'. \<exists>c1 s1. C c req m s c1 s1 \<and> D c1 req m s1 c' s') c req m s"
  proof (unfold decides_def [of f], elim disjE exE conjE)
    fix out assume "\<forall>h. f c req m h s = out" "refused s out"
    then show ?thesis by (intro stopI) (simp_all add: chain_def)
  next
    fix c1 s1 assume 1: "C c req m s c1 s1" "\<forall>h. f c req m h s = h c1 req s1" "gs_app s1 = gs_app s"
    then have f: "chain f g c req m h s = g c1 req m h s1" for h by (simp add: chain_def)
    from gate.decided [OF assms(2), of c1 req m s1] show ?thesis
    proof (unfold decides_def [of g], elim disjE exE conjE)
      fix out assume "\<forall>h. g c1 req m h s1 = out" "refused s1 out"
      then show ?thesis using f refused_same [OF _ 1(3)] by (intro stopI [where out = out]) simp_all
    next
      fix c' s' assume "D c1 req m s1 c' s'" "\<forall>h. g c1 req m h s1 = h c' req s'" "gs_app s' = gs_app s1"
      then show ?thesis using f 1(1,3) by (intro goI [where c' = c' and s' = s']) auto
    qed
  qed
qed

lemma gate_weaken:
  assumes "gate I C" and "\<And>c req m s c' s'. C c req m s c' s' \<Longrightarrow> D c req m s c' s'"
  shows "gate I D"
  using assms unfolding gate_def decides_def by blast

section \<open>Every interceptor is a gate\<close>

text \<open>Nothing but Redis changes before the handler is called.\<close>

definition passes ::
  "(('a gstate \<Rightarrow> (status + 'r) go \<times> 'a gstate) \<Rightarrow> (status + 'r) go \<times> 'a gstate) \<Rightarrow> 'a gstate \<Rightarrow> bool" where
  "passes F s \<longleftrightarrow> (\<exists>out. refused s out \<and> (\<forall>k. F k = out)) \<or> (\<exists>r. \<forall>k. F k = k (s\<lparr>gs_redis := r\<rparr>))"

lemma passes_const: "(\<And>k. F k = out) \<Longrightarrow> refused s out \<Longrightarrow> passes F s"
  unfolding passes_def by blast

lemma passes_next: "(\<And>k. F k = k (s\<lparr>gs_redis := r\<rparr>)) \<Longrightarrow> passes F s"
  by (auto simp: passes_def)

lemma passes_same: "(\<And>k. F k = k s) \<Longrightarrow> passes F s"
  by (rule passes_next [where r = "gs_redis s"]) simp

lemma passes_redis: "passes F (s\<lparr>gs_redis := r\<rparr>) \<Longrightarrow> passes F s"
  by (auto simp: passes_def refused_def)

lemma run_checks_passes: "passes (\<lambda>next. run_checks rr l fo now pl cs next s) s"
proof (induction cs arbitrary: s)
  case Nil
  show ?case by (rule passes_same) simp
next
  case (Cons k cs)
  obtain sc key where k: "k = (sc, key)" by fastforce
  obtain a r where a: "limiter_Allow rr l now key pl (gs_redis s) = (a, r)" by fastforce
  show ?case
  proof (cases a)
    case (Panics p)
    then show ?thesis using k a by (intro passes_const [where out = "(Panics p, s\<lparr>gs_redis := r\<rparr>)"]) simp_all
  next
    case (Returns e)
    show ?thesis
    proof (cases e)
      case (Inl x)
      then show ?thesis
        using k a Returns passes_const [of "\<lambda>_. refuse Unavailable ''rate limiter unavailable'' (s\<lparr>gs_redis := r\<rparr>)" _ s, OF refl]
        by (cases fo) (simp_all add: passes_next)
    next
      case (Inr res)
      let ?out = "refuse ResourceExhausted (''rate limit exceeded for '' @ sc @ '', retry after '' @ duration_String (RS_RetryAfter res))
        (s\<lparr>gs_redis := r, gs_headers := gs_headers s @ limit_headers res\<rparr>)"
      show ?thesis
        using k a Returns Inr passes_redis [OF Cons [of "s\<lparr>gs_redis := r\<rparr>"]] passes_const [of "\<lambda>_. ?out" ?out s, OF refl]
        by (cases "RS_Allowed res") simp_all
    qed
  qed
qed

text \<open>The condition of a rate limit: the context is kept, and only Redis may have changed, and only when limits are on.\<close>

definition limit_passage :: "RateLimitConfig option \<Rightarrow> 'a passage" where
  "limit_passage cfg c req m s c' s' \<longleftrightarrow>
     c' = c \<and> (\<exists>r. s' = s\<lparr>gs_redis := r\<rparr>) \<and> ((case cfg of None \<Rightarrow> False | Some x \<Rightarrow> RL_Enabled x) \<or> s' = s)"

lemma rate_limit_gate:
  "gate (rateLimitInterceptor rr uni l kb cfg phase now :: ('a, 'r) interceptor) (limit_passage cfg)"
proof
  fix c req m and s :: "'a gstate"
  let ?I = "rateLimitInterceptor rr uni l kb cfg phase now :: ('a, 'r) interceptor"
  show "decides ?I (limit_passage cfg) c req m s"
  proof (cases "\<exists>x. cfg = Some x \<and> RL_Enabled x \<and> \<not> is_nil l \<and> PL_Phase (PolicyForMethod m) = phase")
    case False
    then have "?I c req m h s = h c req s" for h
      by (auto simp: rateLimitInterceptor_def Let_def split: option.split)
    then show ?thesis by (rule goI) (auto simp: limit_passage_def intro: exI [of _ "gs_redis s"])
  next
    case True
    then obtain x where x: "cfg = Some x" "RL_Enabled x" by blast
    define F :: "('a gstate \<Rightarrow> (status + 'r) go \<times> 'a gstate) \<Rightarrow> (status + 'r) go \<times> 'a gstate"
      where "F = (\<lambda>next. run_checks rr l (RL_FailOpen x) now (PolicyForMethod m)
      (buildRateLimitChecks uni c req kb (PL_Name (PolicyForMethod m)) (PL_Scopes (PolicyForMethod m))) next s)"
    have I: "?I c req m h s = F (h c req)" for h using True x by (auto simp: rateLimitInterceptor_def F_def Let_def)
    have "passes F s" unfolding F_def by (rule run_checks_passes)
    then show ?thesis
    proof (unfold passes_def, elim disjE exE)
      fix out assume "refused s out \<and> (\<forall>k. F k = out)"
      then show ?thesis using I by (intro stopI [where out = out]) simp_all
    next
      fix r assume "\<forall>k. F k = k (s\<lparr>gs_redis := r\<rparr>)"
      then show ?thesis using I x by (intro goI [of _ c req m s c "s\<lparr>gs_redis := r\<rparr>"]) (auto simp: limit_passage_def)
    qed
  qed
qed

definition unchanged :: "'a passage" where
  "unchanged c req m s c' s' \<longleftrightarrow> c' = c \<and> s' = s"

lemma validation_gate:
  "gate (ValidationInterceptor v :: ('a, 'r) interceptor) (\<lambda>c req m s c' s'. unchanged c req m s c' s' \<and> (\<exists>validate. v = Iface validate \<and> validate req = None))"
proof
  fix c :: ctx and req m and s :: "'a gstate"
  show "decides (ValidationInterceptor v :: ('a, 'r) interceptor) (\<lambda>c req m s c' s'. unchanged c req m s c' s' \<and> (\<exists>validate. v = Iface validate \<and> validate req = None)) c req m s"
  proof (cases "\<exists>validate. v = Iface validate \<and> validate req = None")
    case True
    then show ?thesis by (intro goI [of _ c req m s c s]) (auto simp: ValidationInterceptor_def unchanged_def)
  next
    case False
    have "\<exists>out. refused s out \<and> (\<forall>h. (ValidationInterceptor v :: ('a, 'r) interceptor) c req m h s = out)"
    proof (cases v)
      case (Iface validate)
      with False obtain err where "validate req = Some err" by auto
      with Iface show ?thesis by (intro exI [of _ "refuse InvalidArgument (''invalid request: '' @ err) s"]) (simp add: ValidationInterceptor_def)
    qed (auto simp: ValidationInterceptor_def intro!: exI [of _ "(Panics nil_dereference, s)"])
    then show ?thesis unfolding decides_def by blast
  qed
qed

lemma csrf_gate: "gate (CSRFInterceptor :: ('a, 'r) interceptor) unchanged"
proof
  fix c :: ctx and req m and s :: "'a gstate"
  define T where "T = (\<lambda>md key. TrimSpace (firstMetadataValue md key))"
  show "decides (CSRFInterceptor :: ('a, 'r) interceptor) unchanged c req m s"
  proof (cases "m \<in> set stateChangingMethods \<and> (\<exists>md e. cx_md c = Some md \<and> (T md ''cookie-csrf-token'' \<noteq> [] \<or> T md ''x-csrf-token'' \<noteq> [])
      \<and> ValidateCSRFToken (T md ''cookie-csrf-token'') (T md ''x-csrf-token'') = Some e)")
    case True
    then obtain e where "(CSRFInterceptor :: ('a, 'r) interceptor) c req m h s = refuse PermissionDenied (csrf_message e) s" for h
      by (auto simp: CSRFInterceptor_def T_def)
    then show ?thesis by (rule stopI) simp
  next
    case False
    then have "(CSRFInterceptor :: ('a, 'r) interceptor) c req m h s = h c req s" for h
      by (auto simp: CSRFInterceptor_def T_def Let_def split: option.split)
    then show ?thesis by (rule goI) (simp_all add: unchanged_def)
  qed
qed

definition authenticated :: "jwt \<Rightarrow> Authenticator option \<Rightarrow> (string \<times> bool) list \<Rightarrow> time \<Rightarrow> 'a passage" where
  "authenticated j auth pub now c req m s c' s' \<longleftrightarrow>
     (\<exists>a. auth = Some a \<and>
       (if map_of pub m = Some True then c' = c \<and> s' = s
        else \<exists>tok p r. extractBearerTokenFromMetadata c = Inr tok \<and> Authenticate j a now tok (gs_redis s) = (Returns (Inr p), r)
          \<and> c' = SetPrincipal c (Some p) \<and> s' = s\<lparr>gs_redis := r\<rparr>))"

lemma authentication_gate: "gate (AuthenticationInterceptor j auth pub now :: ('a, 'r) interceptor) (authenticated j auth pub now)"
proof
  fix c :: ctx and req m and s :: "'a gstate"
  show "decides (AuthenticationInterceptor j auth pub now :: ('a, 'r) interceptor) (authenticated j auth pub now) c req m s"
  proof (cases auth)
    case None
    then show ?thesis
      by (intro stopI [where out = "refuse Internal ''internal server error'' s"]) (simp_all add: AuthenticationInterceptor_def)
  next
    case (Some a)
    show ?thesis
    proof (cases "map_of pub m = Some True")
      case True
      with Some show ?thesis by (intro goI [of _ c req m s c s]) (auto simp: AuthenticationInterceptor_def authenticated_def)
    next
      case False
      show ?thesis
      proof (cases "extractBearerTokenFromMetadata c")
        case (Inl e)
        with Some False show ?thesis
          by (intro stopI [where out = "refuse Unauthenticated e s"]) (simp_all add: AuthenticationInterceptor_def)
      next
        case (Inr tok)
        obtain q r where q: "Authenticate j a now tok (gs_redis s) = (q, r)" by fastforce
        show ?thesis
        proof (cases "\<exists>p. q = Returns (Inr p)")
          case True
          then obtain p where "q = Returns (Inr p)" by blast
          with Some False Inr q show ?thesis
            by (intro goI [of _ c req m s "SetPrincipal c (Some p)" "s\<lparr>gs_redis := r\<rparr>"])
              (auto simp: AuthenticationInterceptor_def authenticated_def)
        next
          case no: False
          then consider (panic) pm where "q = Panics pm" | (error) e where "q = Returns (Inl e)"
            by (cases q) (auto, metis sumE)
          then show ?thesis
          proof cases
            case panic
            with Some False Inr q show ?thesis
              by (intro stopI [where out = "(Panics pm, s\<lparr>gs_redis := r\<rparr>)"]) (simp_all add: AuthenticationInterceptor_def)
          next
            case error
            with Some False Inr q show ?thesis
              by (intro stopI [where out = "refuse Unauthenticated ''invalid authorize format'' (s\<lparr>gs_redis := r\<rparr>)"])
                (simp_all add: AuthenticationInterceptor_def)
          qed
        qed
      qed
    qed
  qed
qed

definition permitted :: "Authorizer option \<Rightarrow> (string \<times> PermissionCode) list \<Rightarrow> 'a passage" where
  "permitted auth rules c req m s c' s' \<longleftrightarrow> c' = c \<and> s' = s \<and>
     (\<exists>a. auth = Some a \<and> (case map_of rules m of None \<Rightarrow> True
        | Some required \<Rightarrow> \<exists>p. cx_principal c = Some (Some p) \<and> HasPermission a (Some p) required))"

lemma permission_gate: "gate (PermissionInterceptor auth rules :: ('a, 'r) interceptor) (permitted auth rules)"
proof
  fix c :: ctx and req m and s :: "'a gstate"
  let ?ok = "\<exists>a. auth = Some a \<and> (case map_of rules m of None \<Rightarrow> True
        | Some required \<Rightarrow> \<exists>p. cx_principal c = Some (Some p) \<and> HasPermission a (Some p) required)"
  show "decides (PermissionInterceptor auth rules :: ('a, 'r) interceptor) (permitted auth rules) c req m s"
  proof (cases ?ok)
    case True
    then have "(PermissionInterceptor auth rules :: ('a, 'r) interceptor) c req m h s = h c req s" for h
      by (auto simp: PermissionInterceptor_def GetPrincipal_def split: option.splits)
    then show ?thesis by (rule goI) (use True in \<open>simp_all add: permitted_def\<close>)
  next
    case False
    have "\<exists>code msg. \<forall>h. (PermissionInterceptor auth rules :: ('a, 'r) interceptor) c req m h s = refuse code msg s"
      using False by (cases auth; cases "map_of rules m"; cases "cx_principal c"; cases "the (cx_principal c)")
        (auto simp: PermissionInterceptor_def GetPrincipal_def)
    then have "\<exists>out. refused s out \<and> (\<forall>h. (PermissionInterceptor auth rules :: ('a, 'r) interceptor) c req m h s = out)"
      by (metis refused_simps(1))
    then show ?thesis unfolding decides_def by blast
  qed
qed

section \<open>The server\<close>

definition server_passage :: "GRPCServerDeps \<Rightarrow> time \<Rightarrow> 'a passage" where
  "server_passage d now c req m s c' s' \<longleftrightarrow>
     (\<exists>s1 s2. limit_passage (gd_RateLimitConfig d) c req m s c s1 \<and>
        (\<exists>validate. gd_Validator d = Iface validate \<and> validate req = None) \<and>
        authenticated (gd_jwt d) (gd_Authenticator d) buildGRPCPublicMethods now c req m s1 c' s2 \<and>
        limit_passage (gd_RateLimitConfig d) c' req m s2 c' s' \<and>
        permitted (gd_Authorizer d) buildGRPCMethodPermissions c' req m s' c' s')"

interpretation server_gate: gate "inner_chain d now" "server_passage d now" for d now
  unfolding inner_chain_def Let_def
  by (rule gate_weaken, rule gate_chain [OF rate_limit_gate gate_chain [OF validation_gate gate_chain [OF csrf_gate
      gate_chain [OF authentication_gate gate_chain [OF rate_limit_gate permission_gate]]]]])
    (auto simp: server_passage_def unchanged_def limit_passage_def permitted_def; blast)

definition recovered :: "(status + 'r) go \<times> 'a gstate \<Rightarrow> (status + 'r) go \<times> 'a gstate" where
  "recovered out = (case out of (Panics _, s) \<Rightarrow> (Returns (Inl (Status Internal ''internal server error'')), s) | (Returns r, s) \<Rightarrow> (Returns r, s))"

lemma server_recovered: "NewGRPCServer d now c req m h s = recovered (inner_chain d now c req m h s)"
  by (simp add: NewGRPCServer_def chain_def RecoveryInterceptor_def recovered_def)

lemma recovered_returns: "\<exists>r s'. recovered out = (Returns r, s')"
  by (cases out; cases "fst out") (auto simp: recovered_def)

lemma refused_recovered: "refused s out \<Longrightarrow> refused s (recovered out)"
  by (cases out; cases "fst out") (auto simp: refused_def recovered_def)

lemma passage_app:
  assumes "server_passage d now c req m s c' s'"
  shows "gs_app s' = gs_app s" and "gs_headers s' = gs_headers s"
  using assms by (auto simp: server_passage_def limit_passage_def authenticated_def split: if_splits)

lemma passage_token:
  fixes s :: "'a gstate"
  assumes "server_passage d now c req m s c' s'"
    and "map_of buildGRPCPublicMethods m \<noteq> Some True" and "gd_Authorizer d = Some NewAuthorizer"
  obtains a tok p db db' where "gd_Authenticator d = Some a" and "extractBearerTokenFromMetadata c = Inr tok"
    and "Authenticate (gd_jwt d) a now tok db = (Returns (Inr p), db')" and "cx_principal c' = Some (Some p)"
    and "\<forall>required. map_of buildGRPCMethodPermissions m = Some required \<longrightarrow>
      P_RoleCode p = RoleCodeAdmin \<or> P_RoleCode p = RoleCodeUser \<and> required = PermServerRead"
proof -
  from assms(1) obtain s1 s2 :: "'a gstate"
    where auth: "authenticated (gd_jwt d) (gd_Authenticator d) buildGRPCPublicMethods now c req m s1 c' s2"
      and perm: "permitted (gd_Authorizer d) buildGRPCMethodPermissions c' req m s' c' s'"
    unfolding server_passage_def by blast
  from auth assms(2) obtain a tok p db where a: "gd_Authenticator d = Some a" "extractBearerTokenFromMetadata c = Inr tok"
      "Authenticate (gd_jwt d) a now tok (gs_redis s1) = (Returns (Inr p), db)" "c' = SetPrincipal c (Some p)"
    unfolding authenticated_def by auto
  from a(4) have pr: "cx_principal c' = Some (Some p)" by (simp add: SetPrincipal_def)
  from a(1-3) pr show thesis
  proof (rule that, intro allI impI)
    fix required assume r: "map_of buildGRPCMethodPermissions m = Some required"
    then have "required \<noteq> []" by (auto simp: buildGRPCMethodPermissions_def perm_defs split: if_splits)
    moreover have "HasPermission NewAuthorizer (Some p) required"
      using perm r pr assms(3) by (simp add: permitted_def)
    ultimately show "P_RoleCode p = RoleCodeAdmin \<or> P_RoleCode p = RoleCodeUser \<and> required = PermServerRead"
      using HasPermission_static by blast
  qed
qed

text \<open>C6: No call of the server ends in a panic. A call of a method that is not public reaches its handler
  only with a bearer token that the authenticator accepts, with the application state and the headers as
  they were, and with the principal of that token in the context; where the method needs a permission,
  that principal is an administrator, or a user and the permission is the one to read servers.
  Otherwise the answer is an error, the same for every handler, and the application state is as it was.
\<close>

theorem guarded_handler:
  fixes s :: "'a gstate"
  assumes "map_of buildGRPCPublicMethods m \<noteq> Some True" and "gd_Authorizer d = Some NewAuthorizer"
    and "NewGRPCServer d now c req m h s = out"
  shows "(\<exists>r s'. out = (Returns r, s')) \<and>
    (refused s out \<and> (\<forall>h'. NewGRPCServer d now c req m h' s = out) \<or>
     (\<exists>a tok p c' s' db db'. gd_Authenticator d = Some a \<and> extractBearerTokenFromMetadata c = Inr tok
        \<and> Authenticate (gd_jwt d) a now tok db = (Returns (Inr p), db')
        \<and> cx_principal c' = Some (Some p) \<and> gs_app s' = gs_app s \<and> gs_headers s' = gs_headers s
        \<and> (\<forall>required. map_of buildGRPCMethodPermissions m = Some required \<longrightarrow>
             P_RoleCode p = RoleCodeAdmin \<or> P_RoleCode p = RoleCodeUser \<and> required = PermServerRead)
        \<and> out = recovered (h c' req s')))"
proof -
  have out: "out = recovered (inner_chain d now c req m h s)" using assms(3) by (simp add: server_recovered)
  from server_gate.reached [of d now c req m h s, OF refl] show ?thesis
  proof (elim disjE exE conjE)
    assume "\<forall>h'. inner_chain d now c req m h' s = inner_chain d now c req m h s"
      and r: "refused s (inner_chain d now c req m h s)"
    then have "\<forall>h'. NewGRPCServer d now c req m h' s = out" 
      unfolding out server_recovered by (intro allI arg_cong [where f = recovered]) (erule spec)
    then show ?thesis using out recovered_returns [of "inner_chain d now c req m h s"] refused_recovered [OF r] by blast
  next
    fix c' s' assume P: "server_passage d now c req m s c' s'"
      and o: "inner_chain d now c req m h s = h c' req s'"
    obtain a tok p db db' where "gd_Authenticator d = Some a" "extractBearerTokenFromMetadata c = Inr tok"
      "Authenticate (gd_jwt d) a now tok db = (Returns (Inr p), db')" "cx_principal c' = Some (Some p)"
      "\<forall>required. map_of buildGRPCMethodPermissions m = Some required \<longrightarrow>
        P_RoleCode p = RoleCodeAdmin \<or> P_RoleCode p = RoleCodeUser \<and> required = PermServerRead"
      by (rule passage_token [OF P assms(1,2)])
    moreover have "out = recovered (h c' req s')" using out o by simp
    moreover from this have "\<exists>r s'. out = (Returns r, s')" using recovered_returns by metis
    ultimately show ?thesis using passage_app [OF P] by blast
  qed
qed

text \<open>A server without limits, and a token library that knows one token.\<close>

definition demo_jwt :: jwt where
  "demo_jwt = \<lparr>jwt_sign = (\<lambda>_ _. Inl []), jwt_parse = (\<lambda>now ms sec tok. if tok = ''good''
     then Inr \<lparr>C_UserID = ''7'', C_SessionID = [], C_Username = [], C_Email = [], C_RoleID = [], C_RoleCode = RoleCodeUser, C_ExpiresAt = 9\<rparr>
     else Inl ''bad'')\<rparr>"

definition demo_deps :: GRPCServerDeps where
  "demo_deps = \<lparr>gd_Validator = Iface (\<lambda>_. None), gd_Authenticator = Some (NewAuthenticator ''s'' NilIface),
     gd_Authorizer = Some NewAuthorizer, gd_RateLimiter = NilIface, gd_RateLimitKeyBuilder = NewKeyBuilder [],
     gd_RateLimitConfig = None, gd_jwt = demo_jwt, gd_rate = (\<lambda>_ _ _ _ _ _ db. (Inl RedisNil, db)), gd_uni = (\<lambda>x. x)\<rparr>"

definition demo_md :: "string \<Rightarrow> string list" where
  "demo_md k = (if k = ''authorization'' then [''Bearer good''] else if k = ''x-forwarded-for'' then [''1.2.3.4''] else [])"

definition demo_call :: ctx where
  "demo_call = \<lparr>cx_md = Some demo_md, cx_peer = None, cx_principal = None\<rparr>"

lemma demo_bearer: "extractBearerTokenFromMetadata demo_call = Inr ''good''"
  by (simp add: extractBearerTokenFromMetadata_def demo_call_def demo_md_def TrimSpace_visible visible_def SplitN2_def)

lemma demo_served:
  "NewGRPCServer demo_deps 0 demo_call LogoutReq ViewServers_method h s = recovered (h (SetPrincipal demo_call (Some
     \<lparr>P_UserID = ''7'', P_Username = [], P_Email = [], P_RoleID = [], P_RoleCode = RoleCodeUser, P_SessionID = []\<rparr>)) LogoutReq s)"
  by (simp add: server_recovered inner_chain_def chain_def rateLimitInterceptor_def ValidationInterceptor_def CSRFInterceptor_def
      AuthenticationInterceptor_def PermissionInterceptor_def demo_deps_def demo_bearer Authenticate_def NewAuthenticator_def
      demo_jwt_def claims_principal_def HasPermission_static stateChangingMethods_def method_defs buildGRPCPublicMethods_def
      buildGRPCMethodPermissions_def role_defs perm_defs Let_def)

definition demo_gstate :: "nat gstate" where
  "demo_gstate = \<lparr>gs_redis = \<lparr>rdata = \<lparr>hashes = (\<lambda>_. []), rsets = (\<lambda>_. []), rstrs = (\<lambda>_. None)\<rparr>, renv = 0\<rparr>, gs_headers = [], gs_app = 4\<rparr>"

definition demo_handler :: "bool \<Rightarrow> (nat, bool) handler" where
  "demo_handler b c req s = (Returns (Inr b), s)"

theorem guarded_handler_witness:
  "\<exists>p c' s'. cx_principal c' = Some (Some p) \<and> gs_app s' = gs_app demo_gstate \<and> (P_RoleCode p = RoleCodeAdmin \<or> P_RoleCode p = RoleCodeUser)
     \<and> NewGRPCServer demo_deps 0 demo_call LogoutReq ViewServers_method (demo_handler True) demo_gstate = recovered (demo_handler True c' LogoutReq s')"
proof -
  have m: "map_of buildGRPCPublicMethods ViewServers_method \<noteq> Some True"
    "map_of buildGRPCMethodPermissions ViewServers_method = Some PermServerRead" "gd_Authorizer demo_deps = Some NewAuthorizer"
    by (simp_all add: buildGRPCPublicMethods_def buildGRPCMethodPermissions_def method_defs demo_deps_def)
  have "NewGRPCServer demo_deps 0 demo_call LogoutReq ViewServers_method (demo_handler False) demo_gstate \<noteq>
      NewGRPCServer demo_deps 0 demo_call LogoutReq ViewServers_method (demo_handler True) demo_gstate"
    by (simp add: demo_served recovered_def demo_handler_def)
  with guarded_handler [OF m(1,3), of 0 demo_call LogoutReq "demo_handler True" demo_gstate, OF refl] m(2)
  show ?thesis by blast
qed

section \<open>The keys of the login limits\<close>

text \<open>A login is counted under two keys: the first address of the header \<open>X-Forwarded-For\<close>, which the client
  sets, whatever the address of the peer is, and the identifier without the white space around it and in
  lower case.
\<close>

theorem login_limit_keys:
  assumes "cx_md c = Some md" and "md ''x-forwarded-for'' = ip # ips"
    and "ip \<noteq> []" and "TrimSpace ip = ip" and "CHR '','' \<notin> set ip"
    and "ToLower uni (TrimSpace (LQ_Identifier q)) = who" and "who \<noteq> []"
  shows "buildRateLimitChecks uni c (LoginReq (Some q)) kb (PL_Name (PolicyForMethod Login_method)) (PL_Scopes (PolicyForMethod Login_method))
    = [(ScopeIP, Build uni kb ''login'' ScopeIP ip), (ScopeIdentifier, Build uni kb ''login'' ScopeIdentifier who)]"
proof -
  have "extractClientIP c = ip"
    using assms(1-5) by (simp add: extractClientIP_def forwarded_ip_def firstMetadataValue_def Split_single)
  moreover have "PL_Name (PolicyForMethod Login_method) = ''login''"
    by (simp add: PolicyForMethod_def MethodPolicies_def normalizePolicy_def PhasePreAuth_def)
  ultimately show ?thesis
    using assms(3,6,7)
    by (simp add: policy_login valueForRateLimitScope_def identifierFromRequest_def scope_defs)
qed

theorem login_limit_keys_witness:
  "\<exists>checks. buildRateLimitChecks (\<lambda>x. x) demo_call (LoginReq (Some \<lparr>LQ_Identifier = ''Ann'', LQ_Password = []\<rparr>)) (NewKeyBuilder [])
     (PL_Name (PolicyForMethod Login_method)) (PL_Scopes (PolicyForMethod Login_method)) = checks \<and> map fst checks = [ScopeIP, ScopeIdentifier]"
proof -
  have "TrimSpace ''Ann'' = ''Ann''" "TrimSpace ''1.2.3.4'' = ''1.2.3.4''" "ToLower (\<lambda>x. x) ''Ann'' = ''ann''"
    by (simp_all add: TrimSpace_visible visible_def, code_simp)
  then show ?thesis
    using login_limit_keys [of demo_call demo_md "''1.2.3.4''" "[]" "\<lambda>x. x" "\<lparr>LQ_Identifier = ''Ann'', LQ_Password = []\<rparr>" "''ann''"]
    by (simp add: demo_call_def demo_md_def)
qed

end
