(* ===== verification/Identity_Props.thy ===== *)
theory Identity_Props
  imports Identity
begin

text \<open>
  What the identity service guarantees. The locale \<open>identity_store\<close> collects the contracts of the
  three tables and of Redis; its lemmas describe one operation at a time. The properties: what a
  successful login stores and returns, that bad credentials store nothing, that a rotated or
  revoked refresh token is never accepted again after any further operations, that reuse of such
  a token closes every session of its user, and how long a logout is enforced.
\<close>

section \<open>The schema\<close>

definition filled_user :: "User \<Rightarrow> User \<Rightarrow> bool" where
  "filled_user x y \<longleftrightarrow>
     y = x\<lparr>U_ID := U_ID y, U_CreatedAt := U_CreatedAt y, U_UpdatedAt := U_UpdatedAt y\<rparr>"

definition filled_session :: "AuthSession \<Rightarrow> AuthSession \<Rightarrow> bool" where
  "filled_session x y \<longleftrightarrow>
     y = x\<lparr>AS_ID := AS_ID y, AS_CreatedAt := AS_CreatedAt y, AS_UpdatedAt := AS_UpdatedAt y\<rparr>"

definition filled_token :: "RefreshToken \<Rightarrow> RefreshToken \<Rightarrow> bool" where
  "filled_token x y \<longleftrightarrow>
     y = x\<lparr>RT_ID := RT_ID y, RT_CreatedAt := RT_CreatedAt y, RT_UpdatedAt := RT_UpdatedAt y\<rparr>"

definition uniq_users :: "User list \<Rightarrow> bool" where
  "uniq_users us \<longleftrightarrow> distinct (map U_ID us) \<and> distinct (map U_Email us)"

definition uniq_sessions :: "AuthSession list \<Rightarrow> bool" where
  "uniq_sessions xs \<longleftrightarrow> distinct (map AS_ID xs)"

definition uniq_tokens :: "RefreshToken list \<Rightarrow> bool" where
  "uniq_tokens xs \<longleftrightarrow> distinct (map RT_ID xs) \<and> distinct (map RT_TokenHash xs)"

locale identity_store =
  us: gorm_table "as_users d" filled_user uniq_users +
  ss: gorm_table "as_sessions d" filled_session uniq_sessions +
  ts: gorm_table "as_tokens d" filled_token uniq_tokens +
  rc: redis_client c
  for d :: auth_service and c :: redis +
  assumes redis_on: "as_redis d = Iface c"

subsection \<open>An instance: in-memory engines with any schedule of failures\<close>

definition mem_users :: "(nat \<Rightarrow> string option) \<Rightarrow> User gorm" where
  "mem_users fault =
     mem_gorm fault (\<lambda>n u. u\<lparr>U_ID := Suc n\<rparr>) uniq_users"

definition mem_sessions :: "(nat \<Rightarrow> string option) \<Rightarrow> AuthSession gorm" where
  "mem_sessions fault =
     mem_gorm fault (\<lambda>n x. x\<lparr>AS_ID := word_of_nat (Suc n)\<rparr>) uniq_sessions"

definition mem_tokens :: "(nat \<Rightarrow> string option) \<Rightarrow> RefreshToken gorm" where
  "mem_tokens fault =
     mem_gorm fault (\<lambda>n x. x\<lparr>RT_ID := word_of_nat (Suc n)\<rparr>) uniq_tokens"

definition mem_uuid :: uuid_lib where
  "mem_uuid = \<lparr>uuid_String = (\<lambda>u. nat_string (unat u)),
     uuid_Parse = (\<lambda>s. if s \<noteq> [] \<and> list_all is_digit s then Some (word_of_nat (digits_val s)) else None)\<rparr>"

definition mem_auth :: "(nat \<Rightarrow> string option) \<Rightarrow> auth_service" where
  "mem_auth fault = \<lparr>as_users = mem_users fault, as_sessions = mem_sessions fault,
     as_tokens = mem_tokens fault, as_redis = Iface (mem_redis fault), as_jwt = ref_jwt,
     as_uuid = mem_uuid, as_secret = ''secret'', as_bcrypt = (\<lambda>h p. h = p)\<rparr>"

lemmas mem_auth_defs = mem_auth_def mem_users_def mem_sessions_def mem_tokens_def mem_uuid_def

interpretation mem_store: identity_store "mem_auth fault" "mem_redis fault" for fault
proof -
  have "gorm_table (as_users (mem_auth fault)) filled_user uniq_users"
    unfolding mem_auth_defs by (simp, rule mem_gorm_table) (simp add: filled_user_def)
  moreover have "gorm_table (as_sessions (mem_auth fault)) filled_session uniq_sessions"
    unfolding mem_auth_defs by (simp, rule mem_gorm_table) (simp add: filled_session_def)
  moreover have "gorm_table (as_tokens (mem_auth fault)) filled_token uniq_tokens"
    unfolding mem_auth_defs by (simp, rule mem_gorm_table) (simp add: filled_token_def)
  ultimately show "identity_store (mem_auth fault) (mem_redis fault)"
    by (intro identity_store.intro identity_store_axioms.intro mr.redis_client_axioms)
      (simp_all add: mem_auth_def)
qed

section \<open>Single operations\<close>

text \<open>A refresh token that is known and revoked.\<close>

definition revoked_hash :: "RefreshToken list \<Rightarrow> string \<Rightarrow> bool" where
  "revoked_hash xs h \<longleftrightarrow> (\<exists>x\<in>set xs. RT_TokenHash x = h \<and> RT_RevokedAt x \<noteq> None)"

lemma revoked_hash_mono: "revoked_hash xs h \<Longrightarrow> set xs \<subseteq> set ys \<Longrightarrow> revoked_hash ys h"
  by (auto simp: revoked_hash_def)

lemma revoked_hash_map:
  assumes "revoked_hash xs h"
    and "\<And>x. RT_TokenHash (f x) = RT_TokenHash x" and "\<And>x. RT_RevokedAt (f x) \<noteq> None"
  shows "revoked_hash (map (\<lambda>x. if p x then f x else x) xs) h"
proof -
  from assms(1) obtain x where "x \<in> set xs" "RT_TokenHash x = h" "RT_RevokedAt x \<noteq> None"
    by (auto simp: revoked_hash_def)
  then have "RT_TokenHash (if p x then f x else x) = h" "RT_RevokedAt (if p x then f x else x) \<noteq> None"
    using assms(2,3) by simp_all
  with \<open>x \<in> set xs\<close> show ?thesis
    unfolding revoked_hash_def by (intro bexI [of _ "if p x then f x else x"]) auto
qed

lemma revoke_token_simps [simp]:
  "RT_TokenHash (revoke_token now x) = RT_TokenHash x" "RT_ID (revoke_token now x) = RT_ID x"
  "RT_RevokedAt (revoke_token now x) = Some now" "RT_UserID (revoke_token now x) = RT_UserID x"
  "RT_SessionID (revoke_token now x) = RT_SessionID x"
  by (simp_all add: revoke_token_def)

lemma revoke_session_simps [simp]:
  "AS_ID (revoke_session now x) = AS_ID x" "AS_RevokedAt (revoke_session now x) = Some now"
  "AS_UserID (revoke_session now x) = AS_UserID x"
  "AS_ExpiresAt (revoke_session now x) = AS_ExpiresAt x"
  by (simp_all add: revoke_session_def)

lemma uniq_tokens_map:
  assumes "uniq_tokens xs" and "\<And>x. RT_TokenHash (f x) = RT_TokenHash x" and "\<And>x. RT_ID (f x) = RT_ID x"
  shows "uniq_tokens (map (\<lambda>x. if p x then f x else x) xs)"
proof -
  have "map RT_ID (map (\<lambda>x. if p x then f x else x) xs) = map RT_ID xs"
    and "map RT_TokenHash (map (\<lambda>x. if p x then f x else x) xs) = map RT_TokenHash xs"
    using assms(2,3) by auto
  with assms(1) show ?thesis by (simp add: uniq_tokens_def del: map_map)
qed

lemma uniq_sessions_map:
  assumes "uniq_sessions xs" and "\<And>x. AS_ID (f x) = AS_ID x"
  shows "uniq_sessions (map (\<lambda>x. if p x then f x else x) xs)"
proof -
  have "map AS_ID (map (\<lambda>x. if p x then f x else x) xs) = map AS_ID xs"
    using assms(2) by auto
  with assms(1) show ?thesis by (simp add: uniq_sessions_def del: map_map)
qed

lemma filled_session_ext:
  "filled_session x y \<Longrightarrow> AS_UserID y = AS_UserID x \<and> AS_ExpiresAt y = AS_ExpiresAt x
    \<and> AS_RevokedAt y = AS_RevokedAt x"
  by (cases x, cases y) (simp add: filled_session_def)

lemma filled_token_ext:
  "filled_token x y \<Longrightarrow> RT_SessionID y = RT_SessionID x \<and> RT_UserID y = RT_UserID x
    \<and> RT_TokenHash y = RT_TokenHash x \<and> RT_ExpiresAt y = RT_ExpiresAt x \<and> RT_RevokedAt y = RT_RevokedAt x"
  by (cases x, cases y) (simp add: filled_token_def)

lemma uniq_hash:
  assumes "uniq_tokens xs" "x \<in> set xs" "y \<in> set xs" "RT_TokenHash x = RT_TokenHash y"
  shows "x = y"
  using assms by (auto simp: uniq_tokens_def distinct_map inj_on_def)

text \<open>A change of the token table that keeps the indexes and forgets no revocation.\<close>

definition tok_le :: "RefreshToken tbl \<Rightarrow> RefreshToken tbl \<Rightarrow> bool" where
  "tok_le t t' \<longleftrightarrow>
     (uniq_tokens (rows t) \<longrightarrow> uniq_tokens (rows t')) \<and>
     (\<forall>h. revoked_hash (rows t) h \<longrightarrow> revoked_hash (rows t') h)"

lemma tok_le_same: "rows t' = rows t \<Longrightarrow> tok_le t t'"
  by (simp add: tok_le_def)

lemma tok_le_trans: "tok_le t t1 \<Longrightarrow> tok_le t1 t2 \<Longrightarrow> tok_le t t2"
  by (auto simp: tok_le_def)

text \<open>The three writes of a rotation, in the order \<open>Refresh\<close> makes them.\<close>

definition rotate_tokens ::
  "RefreshToken gorm \<Rightarrow> time \<Rightarrow> uuid \<Rightarrow> RefreshToken \<Rightarrow> RefreshToken tbl \<Rightarrow> RefreshToken tbl" where
  "rotate_tokens g now old fresh t =
     (let t1 = snd (RevokeTokenByID g now old t);
          (created, t2) = CreateToken g fresh t1;
          newID = (case created of Inl _ \<Rightarrow> 0 | Inr tok \<Rightarrow> RT_ID tok)
      in snd (MarkReplacement g now old newID t2))"

lemma Refresh_found:
  assumes "tok \<noteq> []"
    and "FindByTokenHash (as_tokens d) (HashToken tok) (st_tokens s) = (Inr x, tt)"
    and "RT_RevokedAt x = None" and "\<not> RT_ExpiresAt x < now"
    and "FindActiveByID (as_sessions d) now (RT_SessionID x) (st_sessions s) = (Inr y, ts)"
    and "FindByID (as_users d) (AS_UserID y) (st_users s) = (Inr (Some u), tu)"
  shows "Refresh d now fresh tok s =
    (let raw = GenerateRefreshToken (as_uuid d) fresh;
         s4 = s\<lparr>st_users := tu, st_sessions := ts,
                st_tokens := rotate_tokens (as_tokens d) now (RT_ID x)
                  (new_token (AS_ID y) (U_ID u) (HashToken raw) (min (now + refreshTTL) (AS_ExpiresAt y))) tt\<rparr>
     in case GenerateAccessToken (as_jwt d) (as_uuid d) (as_secret d) now (U_ID u) (U_RoleCode u) (AS_ID y) of
          Inl e \<Rightarrow> (Returns (Inl (ErrSignToken e)), s4)
        | Inr acc \<Rightarrow> (Returns (Inr \<lparr>RR_AccessToken = acc, RR_RefreshToken = raw, RR_ExpiresIn = 15 * 60\<rparr>), s4))"
  using assms
  by (simp add: Refresh_def rotate_tokens_def Let_def min_def split: prod.split sum.split)

lemma Refresh_success:
  assumes "Refresh d now fresh tok s = (Returns (Inr r), s')"
  obtains x tt y ts u tu where "tok \<noteq> []"
    "FindByTokenHash (as_tokens d) (HashToken tok) (st_tokens s) = (Inr x, tt)"
    "RT_RevokedAt x = None" "\<not> RT_ExpiresAt x < now"
    "FindActiveByID (as_sessions d) now (RT_SessionID x) (st_sessions s) = (Inr y, ts)"
    "FindByID (as_users d) (AS_UserID y) (st_users s) = (Inr (Some u), tu)"
  using assms
  by (auto simp: Refresh_def Let_def split: if_splits sum.splits prod.splits go.splits option.splits)

text \<open>How long the revocation of a session is kept.\<close>

definition revocation_ttl :: "time \<Rightarrow> time \<Rightarrow> duration" where
  "revocation_ttl now expiresAt = duration_Round (time_Sub expiresAt now) second"

context identity_store
begin

lemma find_by_email:
  assumes "FindByEmail (as_users d) email t = (r, t')"
  shows "rows t' = rows t"
    and "r = Inr (Some u) \<Longrightarrow> u \<in> set (rows t) \<and> U_Email u = email \<and> U_DeletedAt u = None"
    and "r = Inr None \<Longrightarrow> u \<in> set (rows t) \<Longrightarrow> U_DeletedAt u = None \<Longrightarrow> U_Email u \<noteq> email"
  using assms unfolding FindByEmail_def
  by (auto split: sum.splits prod.splits if_splits
      dest: us.first_keeps us.first_found us.first_missing)

lemma find_by_id:
  assumes "FindByID (as_users d) i t = (r, t')"
  shows "rows t' = rows t"
    and "r = Inr (Some u) \<Longrightarrow> u \<in> set (rows t) \<and> U_ID u = i \<and> U_DeletedAt u = None"
  using assms unfolding FindByID_def
  by (auto split: sum.splits prod.splits if_splits dest: us.first_keeps us.first_found)

lemma mark_revoked_returns:
  "\<exists>r s'. MarkRevoked (as_uuid d) (as_redis d) now i e s = (Returns r, s')"
  by (simp add: MarkRevoked_def redis_on Let_def split: prod.split)

lemma mark_all_returns: "\<exists>r'. mark_all_revoked d now xs r = (Returns (), r')"
proof (induction xs arbitrary: r)
  case Nil
  show ?case by simp
next
  case (Cons x xs)
  from mark_revoked_returns obtain q r1
    where "MarkRevoked (as_uuid d) (as_redis d) now (AS_ID x) (AS_ExpiresAt x) r = (Returns q, r1)"
    by blast
  then show ?case using Cons by simp
qed

lemma logout_all_returns: "\<exists>r s'. LogoutAll d now uid s = (Returns r, s')"
proof -
  obtain l ts where l: "ListActiveByUserID (as_sessions d) now uid (st_sessions s) = (l, ts)"
    by fastforce
  show ?thesis
  proof (cases l)
    case (Inl e)
    with l show ?thesis by (simp add: LogoutAll_def)
  next
    case (Inr xs)
    obtain r' where "mark_all_revoked d now xs (st_redis s) = (Returns (), r')"
      using mark_all_returns by blast
    with l Inr show ?thesis by (simp add: LogoutAll_def Let_def)
  qed
qed

text \<open>How one operation changes the token table.\<close>

lemma token_update:
  assumes "\<And>x. RT_TokenHash (f x) = RT_TokenHash x" and "\<And>x. RT_RevokedAt (f x) \<noteq> None"
  shows "tok_le t (snd (g_update (as_tokens d) p f t))"
proof -
  obtain r t' where u: "g_update (as_tokens d) p f t = (r, t')" by fastforce
  have "uniq_tokens (rows t')" if "uniq_tokens (rows t)"
    using ts.update_inv [OF u that] .
  moreover have "revoked_hash (rows t') h" if "revoked_hash (rows t) h" for h
    using ts.update_cases [OF u] that revoked_hash_map [OF that assms] by auto
  ultimately show ?thesis using u by (simp add: tok_le_def)
qed

lemma token_create: "tok_le t (snd (g_create (as_tokens d) x t))"
proof -
  obtain r t' where c: "g_create (as_tokens d) x t = (r, t')" by fastforce
  show ?thesis
    using ts.create_inv [OF c] ts.create_prefix [OF c] c
    by (auto simp: tok_le_def intro: revoked_hash_mono)
qed

lemma token_ops:
  "tok_le t (snd (RevokeTokenByID (as_tokens d) now i t))"
  "tok_le t (snd (RevokeBySessionID (as_tokens d) now i t))"
  "tok_le t (snd (RevokeByUserID (as_tokens d) now uid t))"
  "tok_le t (snd (MarkReplacement (as_tokens d) now i j t))"
  "tok_le t (snd (CreateToken (as_tokens d) x t))"
  by (simp_all add: RevokeTokenByID_def RevokeBySessionID_def RevokeByUserID_def
      MarkReplacement_def CreateToken_def token_update token_create)

lemma find_by_token_hash:
  assumes "FindByTokenHash (as_tokens d) h t = (r, t')"
  shows "rows t' = rows t" and "r = Inr x \<Longrightarrow> x \<in> set (rows t) \<and> RT_TokenHash x = h"
  using assms unfolding FindByTokenHash_def by (auto dest: ts.first_keeps ts.first_found)

lemma find_token_le: "FindByTokenHash (as_tokens d) h t = (r, t') \<Longrightarrow> tok_le t t'"
  by (rule tok_le_same) (rule find_by_token_hash)

lemma login_tok_le: "Login d now fresh e p ip ua s = (r, s') \<Longrightarrow> tok_le (st_tokens s) (st_tokens s')"
  using token_ops(5)
  by (auto simp: Login_def Let_def tok_le_same split: sum.splits prod.splits option.splits if_splits)
    (metis snd_conv)+

lemma logout_all_tok_le: "LogoutAll d now uid s = (r, s') \<Longrightarrow> tok_le (st_tokens s) (st_tokens s')"
  using token_ops(3)
  by (auto simp: LogoutAll_def Let_def tok_le_same split: sum.splits prod.splits go.splits)

lemma logout_tok_le: "Logout d now sid s = (r, s') \<Longrightarrow> tok_le (st_tokens s) (st_tokens s')"
  using token_ops(2)
  by (auto simp: Logout_def Let_def tok_le_same split: sum.splits prod.splits go.splits option.splits)

lemma rotate_tok_le: "tok_le t (rotate_tokens (as_tokens d) now old x t)"
proof -
  define t1 where "t1 = snd (RevokeTokenByID (as_tokens d) now old t)"
  obtain created t2 where c: "CreateToken (as_tokens d) x t1 = (created, t2)" by fastforce
  have "tok_le t t1" unfolding t1_def by (rule token_ops)
  moreover have "tok_le t1 t2" using token_ops(5) [of t1 x] c by simp
  moreover have "tok_le t2 (snd (MarkReplacement (as_tokens d) now old j t2))" for j
    by (rule token_ops)
  ultimately have "tok_le t (snd (MarkReplacement (as_tokens d) now old j t2))" for j
    by (blast intro: tok_le_trans)
  then show ?thesis
    unfolding rotate_tokens_def Let_def t1_def [symmetric] c prod.case .
qed

lemma refresh_tok_le:
  assumes "Refresh d now fresh tok s = (r, s')"
  shows "tok_le (st_tokens s) (st_tokens s')"
proof (cases "\<exists>x tt y ts u tu. tok \<noteq> [] \<and>
    FindByTokenHash (as_tokens d) (HashToken tok) (st_tokens s) = (Inr x, tt) \<and>
    RT_RevokedAt x = None \<and> \<not> RT_ExpiresAt x < now \<and>
    FindActiveByID (as_sessions d) now (RT_SessionID x) (st_sessions s) = (Inr y, ts) \<and>
    FindByID (as_users d) (AS_UserID y) (st_users s) = (Inr (Some u), tu)")
  case True
  then obtain x tt y ts u tu where *: "tok \<noteq> []"
    "FindByTokenHash (as_tokens d) (HashToken tok) (st_tokens s) = (Inr x, tt)"
    "RT_RevokedAt x = None" "\<not> RT_ExpiresAt x < now"
    "FindActiveByID (as_sessions d) now (RT_SessionID x) (st_sessions s) = (Inr y, ts)"
    "FindByID (as_users d) (AS_UserID y) (st_users s) = (Inr (Some u), tu)"
    by blast
  from assms Refresh_found [OF *, of fresh] show ?thesis
    by (auto simp: Let_def split: sum.splits intro: tok_le_trans [OF find_token_le [OF *(2)] rotate_tok_le])
next
  case False
  with assms show ?thesis
    by (auto simp: Refresh_def Let_def tok_le_same find_token_le
        split: if_splits sum.splits prod.splits go.splits option.splits
        intro: tok_le_trans [OF find_token_le] dest!: logout_all_tok_le)
qed

lemma refresh_rejects:
  assumes "uniq_tokens (rows (st_tokens s))" and "revoked_hash (rows (st_tokens s)) (HashToken tok)"
  shows "fst (Refresh d now fresh tok s) = Returns (Inl ErrInvalidRefreshToken)"
proof -
  obtain l tt where f: "FindByTokenHash (as_tokens d) (HashToken tok) (st_tokens s) = (l, tt)"
    by fastforce
  have "RT_RevokedAt x \<noteq> None" if "l = Inr x" for x
    using find_by_token_hash(2) [OF f that] assms uniq_hash unfolding revoked_hash_def by metis
  note revoked = this
  show ?thesis
  proof (cases l)
    case (Inl e)
    with f show ?thesis by (simp add: Refresh_def)
  next
    case (Inr x)
    from revoked [OF Inr] have rev: "RT_RevokedAt x \<noteq> None" .
    obtain q s' where "LogoutAll d now (RT_UserID x) (s\<lparr>st_tokens := tt\<rparr>) = (Returns q, s')"
      using logout_all_returns by blast
    with f Inr rev show ?thesis by (simp add: Refresh_def Let_def)
  qed
qed

lemma rotation_revokes:
  assumes "updates_succeed (as_tokens d) uniq_tokens" and "uniq_tokens (rows t)" and "x \<in> set (rows t)"
  shows "revoked_hash (rows (rotate_tokens (as_tokens d) now (RT_ID x) y t)) (RT_TokenHash x)"
proof -
  let ?up = "map (\<lambda>z. if RT_ID z = RT_ID x then revoke_token now z else z) (rows t)"
  have "uniq_tokens ?up" using assms(2) by (rule uniq_tokens_map) simp_all
  then obtain n t1 where u: "RevokeTokenByID (as_tokens d) now (RT_ID x) t = (Inr n, t1)" and "rows t1 = ?up"
    unfolding RevokeTokenByID_def by (rule ts.update_succeeds [OF assms(1)])
  with assms(3) have "revoked_hash (rows t1) (RT_TokenHash x)"
    unfolding revoked_hash_def by (auto intro!: bexI [of _ "revoke_token now x"] image_eqI [of _ _ x])
  moreover have "tok_le t1 (rotate_tokens (as_tokens d) now (RT_ID x) y t)"
  proof -
    obtain created t2 where c: "CreateToken (as_tokens d) y t1 = (created, t2)" by fastforce
    then have "tok_le t1 t2" using token_ops(5) [of t1 y] by simp
    then have "tok_le t1 (snd (MarkReplacement (as_tokens d) now (RT_ID x) j t2))" for j
      by (blast intro: tok_le_trans token_ops)
    then show ?thesis by (simp add: rotate_tokens_def u c)
  qed
  ultimately show ?thesis by (simp add: tok_le_def)
qed

text \<open>A row of the rotated table with a key the table did not have is the new row.\<close>

lemma rotation_fresh_row:
  assumes "y \<in> set (rows (rotate_tokens (as_tokens d) now old x t))"
    and "RT_ID y \<notin> RT_ID ` set (rows t)"
  shows "RT_TokenHash y = RT_TokenHash x \<and> RT_SessionID y = RT_SessionID x \<and> RT_ExpiresAt y = RT_ExpiresAt x"
proof -
  obtain r1 t1 where u1: "RevokeTokenByID (as_tokens d) now old t = (r1, t1)" by fastforce
  obtain created t2 where c: "CreateToken (as_tokens d) x t1 = (created, t2)" by fastforce
  obtain r3 t3 where u3: "MarkReplacement (as_tokens d) now old
      (case created of Inl _ \<Rightarrow> 0 | Inr tok \<Rightarrow> RT_ID tok) t2 = (r3, t3)" by fastforce
  from assms(1) u1 c u3 have "y \<in> set (rows t3)" by (simp add: rotate_tokens_def)
  then obtain w where w: "w \<in> set (rows t2)" "RT_ID w = RT_ID y" "RT_TokenHash w = RT_TokenHash y"
    "RT_SessionID w = RT_SessionID y" "RT_ExpiresAt w = RT_ExpiresAt y"
    using ts.update_cases [OF u3 [unfolded MarkReplacement_def]]
    by (auto simp: revoke_token_def split: if_splits)
  have "\<forall>z\<in>set (rows t1). RT_ID z \<noteq> RT_ID y"
    using ts.update_cases [OF u1 [unfolded RevokeTokenByID_def]] assms(2) by (fastforce simp: image_iff)
  with w have "w \<notin> set (rows t1)" by auto
  with c w(1) have "filled_token x w"
    unfolding CreateToken_def by (cases created) (auto dest: ts.create_ok ts.create_err)
  with w show ?thesis using filled_token_ext by metis
qed

lemma refresh_revokes:
  assumes "updates_succeed (as_tokens d) uniq_tokens" and "uniq_tokens (rows (st_tokens s))"
    and "Refresh d now fresh tok s = (Returns (Inr r), s')"
  shows "revoked_hash (rows (st_tokens s')) (HashToken tok)"
proof -
  from assms(3) obtain x tt y ts u tu where *: "tok \<noteq> []"
    "FindByTokenHash (as_tokens d) (HashToken tok) (st_tokens s) = (Inr x, tt)"
    "RT_RevokedAt x = None" "\<not> RT_ExpiresAt x < now"
    "FindActiveByID (as_sessions d) now (RT_SessionID x) (st_sessions s) = (Inr y, ts)"
    "FindByID (as_users d) (AS_UserID y) (st_users s) = (Inr (Some u), tu)"
    by (rule Refresh_success)
  have x: "x \<in> set (rows tt)" "RT_TokenHash x = HashToken tok" "uniq_tokens (rows tt)"
    using find_by_token_hash [OF *(2)] assms(2) by simp_all
  from assms(3) Refresh_found [OF *, of fresh]
  have "st_tokens s' = rotate_tokens (as_tokens d) now (RT_ID x)
      (new_token (AS_ID y) (U_ID u) (HashToken (GenerateRefreshToken (as_uuid d) fresh))
        (min (now + refreshTTL) (AS_ExpiresAt y))) tt"
    by (auto simp: Let_def split: sum.splits)
  with rotation_revokes [OF assms(1) x(3,1)] x(2) show ?thesis by simp
qed

lemma update_hashes:
  assumes "g_update (as_tokens d) p f t = (r, t')" and "\<And>x. RT_TokenHash (f x) = RT_TokenHash x"
  shows "map RT_TokenHash (rows t') = map RT_TokenHash (rows t)"
  using ts.update_cases [OF assms(1)] assms(2) by auto

lemma refresh_no_insert:
  assumes "Refresh d now fresh tok s = (Returns (Inr r), s')"
    and "length (rows (st_tokens s')) = length (rows (st_tokens s))"
  shows "map RT_TokenHash (rows (st_tokens s')) = map RT_TokenHash (rows (st_tokens s))"
proof -
  from assms(1) obtain x tt y ts u tu where *: "tok \<noteq> []"
    "FindByTokenHash (as_tokens d) (HashToken tok) (st_tokens s) = (Inr x, tt)"
    "RT_RevokedAt x = None" "\<not> RT_ExpiresAt x < now"
    "FindActiveByID (as_sessions d) now (RT_SessionID x) (st_sessions s) = (Inr y, ts)"
    "FindByID (as_users d) (AS_UserID y) (st_users s) = (Inr (Some u), tu)"
    by (rule Refresh_success)
  let ?new = "new_token (AS_ID y) (U_ID u) (HashToken (GenerateRefreshToken (as_uuid d) fresh))
        (min (now + refreshTTL) (AS_ExpiresAt y))"
  obtain r1 t1 where u1: "RevokeTokenByID (as_tokens d) now (RT_ID x) tt = (r1, t1)" by fastforce
  obtain created t2 where c: "CreateToken (as_tokens d) ?new t1 = (created, t2)" by fastforce
  obtain r3 t3 where u3: "MarkReplacement (as_tokens d) now (RT_ID x)
      (case created of Inl _ \<Rightarrow> 0 | Inr tok \<Rightarrow> RT_ID tok) t2 = (r3, t3)" by fastforce
  have s': "st_tokens s' = t3"
    using assms(1) Refresh_found [OF *, of fresh] u1 c u3
    by (auto simp: Let_def rotate_tokens_def split: sum.splits)
  moreover have h3: "map RT_TokenHash (rows t3) = map RT_TokenHash (rows t2)"
    using u3 unfolding MarkReplacement_def by (rule update_hashes) simp
  moreover have h1: "map RT_TokenHash (rows t1) = map RT_TokenHash (rows tt)"
    using u1 unfolding RevokeTokenByID_def by (rule update_hashes) simp
  moreover have "rows t2 = rows t1"
  proof (cases created)
    case (Inl e)
    with c show ?thesis unfolding CreateToken_def by (simp add: ts.create_err)
  next
    case (Inr z)
    with c have "length (rows t2) = Suc (length (rows t1))"
      unfolding CreateToken_def using ts.create_ok by fastforce
    with assms(2) s' map_eq_imp_length_eq [OF h3] map_eq_imp_length_eq [OF h1] find_by_token_hash(1) [OF *(2)]
    show ?thesis by simp
  qed
  ultimately show ?thesis using find_by_token_hash(1) [OF *(2)] by simp
qed

end

section \<open>Any sequence of operations\<close>

inductive auth_step :: "auth_service \<Rightarrow> identity_state \<Rightarrow> identity_state \<Rightarrow> bool" for d where
  step_login: "Login d now fresh email pw ip ua s = (lr, s') \<Longrightarrow> auth_step d s s'"
| step_refresh: "Refresh d now fresh tok s = (rr, s') \<Longrightarrow> auth_step d s s'"
| step_logout: "Logout d now sid s = (r, s') \<Longrightarrow> auth_step d s s'"
| step_logout_all: "LogoutAll d now uid s = (r, s') \<Longrightarrow> auth_step d s s'"

context identity_store
begin

lemma auth_step_tok_le: "auth_step d s s' \<Longrightarrow> tok_le (st_tokens s) (st_tokens s')"
  by (induction rule: auth_step.induct)
    (blast dest: login_tok_le refresh_tok_le logout_tok_le logout_all_tok_le)+

lemma auth_steps_tok_le: "rtranclp (auth_step d) s s' \<Longrightarrow> tok_le (st_tokens s) (st_tokens s')"
  by (induction rule: rtranclp_induct) (blast intro: tok_le_same tok_le_trans auth_step_tok_le)+

lemma revoked_never_accepted:
  assumes "uniq_tokens (rows (st_tokens s))" and "revoked_hash (rows (st_tokens s)) (HashToken tok)"
    and "rtranclp (auth_step d) s s'"
  shows "fst (Refresh d now fresh tok s') = Returns (Inl ErrInvalidRefreshToken)"
  using assms auth_steps_tok_le [OF assms(3)] by (intro refresh_rejects) (simp_all add: tok_le_def)

subsection \<open>Revocation in Redis\<close>

lemma mark_revoked_live:
  assumes "sets_succeed c" and "MarkRevoked (as_uuid d) (as_redis d) now i e s = (r, s')"
  shows "str_live t (revoked_key k) (rdata s') \<longleftrightarrow>
    (if k = uuid_String (as_uuid d) i \<and> 0 < revocation_ttl now e then t < now + revocation_ttl now e
     else str_live t (revoked_key k) (rdata s))"
proof (cases "0 < revocation_ttl now e")
  case True
  let ?set = "r_set c now (revoked_key (uuid_String (as_uuid d) i)) ''revoked'' (revocation_ttl now e) s"
  from assms True have "snd ?set = s'"
    by (auto simp: MarkRevoked_def redis_on revocation_ttl_def Let_def split: prod.splits if_splits)
  moreover from assms(1) obtain s0 where "?set = (Inr (), s0)"
    unfolding sets_succeed_def is_ok_iff by (metis old.unit.exhaust prod.collapse)
  ultimately have "rdata s' = do_set now (revoked_key (uuid_String (as_uuid d) i)) ''revoked''
      (revocation_ttl now e) (rdata s)"
    using rc.set_ok by fastforce
  with True show ?thesis by (auto simp: store_simps revoked_key_def)
next
  case False
  with assms(2) show ?thesis by (auto simp: MarkRevoked_def revocation_ttl_def Let_def)
qed

lemma mark_all_frame:
  assumes "sets_succeed c" and "mark_all_revoked d now xs r = (q, r')"
    and "\<forall>x\<in>set xs. uuid_String (as_uuid d) (AS_ID x) \<noteq> k"
  shows "str_live t (revoked_key k) (rdata r') = str_live t (revoked_key k) (rdata r)"
  using assms(2,3)
proof (induction xs arbitrary: r)
  case (Cons x xs)
  obtain q1 r1 where m: "MarkRevoked (as_uuid d) (as_redis d) now (AS_ID x) (AS_ExpiresAt x) r = (Returns q1, r1)"
    using mark_revoked_returns by blast
  with Cons.prems have "mark_all_revoked d now xs r1 = (q, r')" by simp
  from Cons.IH [OF this] Cons.prems mark_revoked_live [OF assms(1) m, of t k] show ?case by auto
qed simp

lemma mark_all_live:
  assumes "sets_succeed c" and "inj (uuid_String (as_uuid d))"
    and "mark_all_revoked d now xs r = (q, r')" and "distinct (map AS_ID xs)"
    and "x \<in> set xs" and "0 < revocation_ttl now (AS_ExpiresAt x)"
  shows "str_live t (revoked_key (uuid_String (as_uuid d) (AS_ID x))) (rdata r') \<longleftrightarrow>
    t < now + revocation_ttl now (AS_ExpiresAt x)"
  using assms(3-5)
proof (induction xs arbitrary: r)
  case (Cons y xs)
  let ?k = "uuid_String (as_uuid d) (AS_ID x)"
  obtain q1 r1 where m: "MarkRevoked (as_uuid d) (as_redis d) now (AS_ID y) (AS_ExpiresAt y) r = (Returns q1, r1)"
    using mark_revoked_returns by blast
  with Cons.prems have rest: "mark_all_revoked d now xs r1 = (q, r')" by simp
  show ?case
  proof (cases "x \<in> set xs")
    case True
    with Cons.IH [OF rest] Cons.prems show ?thesis by simp
  next
    case False
    with Cons.prems have "x = y" by simp
    moreover from this Cons.prems assms(2) have "\<forall>z\<in>set xs. uuid_String (as_uuid d) (AS_ID z) \<noteq> ?k"
      by (auto simp: inj_eq rev_image_eqI)
    ultimately show ?thesis
      using mark_all_frame [OF assms(1) rest, of ?k t] mark_revoked_live [OF assms(1) m, of t ?k] assms(6)
      by simp
  qed
qed simp

lemma revoke_sessions_done:
  assumes "updates_succeed (as_sessions d) uniq_sessions" and "uniq_sessions (rows t)"
  obtains n t' where "g_update (as_sessions d) p (revoke_session now) t = (Inr n, t')"
    and "rows t' = map (\<lambda>x. if p x then revoke_session now x else x) (rows t)"
proof -
  have "uniq_sessions (map (\<lambda>x. if p x then revoke_session now x else x) (rows t))"
    using assms(2) by (rule uniq_sessions_map) simp
  from ss.update_succeeds [OF assms(1) this] show thesis using that .
qed

lemma revoke_tokens_done:
  assumes "updates_succeed (as_tokens d) uniq_tokens" and "uniq_tokens (rows t)"
  obtains n t' where "g_update (as_tokens d) p (revoke_token now) t = (Inr n, t')"
    and "rows t' = map (\<lambda>x. if p x then revoke_token now x else x) (rows t)"
proof -
  have "uniq_tokens (map (\<lambda>x. if p x then revoke_token now x else x) (rows t))"
    using assms(2) by (rule uniq_tokens_map) simp_all
  from ts.update_succeeds [OF assms(1) this] show thesis using that .
qed

lemma find_active:
  assumes "firsts_succeed (as_sessions d)" and "uniq_sessions (rows t)"
    and "y \<in> set (rows t)" and "session_active now y"
  obtains t' where "FindActiveByID (as_sessions d) now (AS_ID y) t = (Inr y, t')" and "rows t' = rows t"
  unfolding FindActiveByID_def
proof (rule ss.first_succeeds [OF assms(1,3)])
  show "z = y" if "z \<in> set (rows t)" "AS_ID z = AS_ID y \<and> session_active now z" for z
    using that assms(2,3) by (auto simp: uniq_sessions_def distinct_map inj_on_def)
qed (use assms(4) that in auto)

lemma find_revoked:
  assumes "firsts_succeed (as_tokens d)" and "uniq_tokens (rows t)"
    and "x \<in> set (rows t)" and "RT_TokenHash x = h"
  obtains t' where "FindByTokenHash (as_tokens d) h t = (Inr x, t')" and "rows t' = rows t"
  unfolding FindByTokenHash_def
proof (rule ts.first_succeeds [OF assms(1,3)])
  show "z = x" if "z \<in> set (rows t)" "RT_TokenHash z = h" for z
    using uniq_hash [OF assms(2) that(1) assms(3)] that(2) assms(4) by simp
qed (use assms(4) that in auto)

text \<open>What logging a user out everywhere does.\<close>

lemma logout_all_effect:
  assumes "finds_succeed (as_sessions d)" "updates_succeed (as_sessions d) uniq_sessions"
    and "updates_succeed (as_tokens d) uniq_tokens"
    and "uniq_sessions (rows (st_sessions s))" "uniq_tokens (rows (st_tokens s))"
    and "LogoutAll d now uid s = (r, s')"
  obtains xs where "mset xs = mset (filter (\<lambda>x. AS_UserID x = uid \<and> session_active now x) (rows (st_sessions s)))"
    and "rows (st_sessions s') = map (\<lambda>x. if AS_UserID x = uid \<and> AS_RevokedAt x = None
           then revoke_session now x else x) (rows (st_sessions s))"
    and "rows (st_tokens s') = map (\<lambda>x. if RT_UserID x = uid \<and> RT_RevokedAt x = None
           then revoke_token now x else x) (rows (st_tokens s))"
    and "mark_all_revoked d now xs (st_redis s) = (Returns (), st_redis s')"
    and "r = Returns (Inr ())"
proof -
  obtain xs ts where l: "ListActiveByUserID (as_sessions d) now uid (st_sessions s) = (Inr xs, ts)"
    and ts: "rows ts = rows (st_sessions s)"
    and xs: "mset xs = mset (filter (\<lambda>x. AS_UserID x = uid \<and> session_active now x) (rows (st_sessions s)))"
    unfolding ListActiveByUserID_def by (rule ss.find_succeeds [OF assms(1)])
  obtain n1 t1 where u1: "RevokeAllByUserID (as_sessions d) now uid ts = (Inr n1, t1)"
      "rows t1 = map (\<lambda>x. if AS_UserID x = uid \<and> AS_RevokedAt x = None
         then revoke_session now x else x) (rows (st_sessions s))"
    using revoke_sessions_done [OF assms(2) assms(4) [folded ts],
        where p = "\<lambda>x. AS_UserID x = uid \<and> AS_RevokedAt x = None" and now = now]
    unfolding RevokeAllByUserID_def ts by blast
  obtain n2 t2 where u2: "RevokeByUserID (as_tokens d) now uid (st_tokens s) = (Inr n2, t2)"
      "rows t2 = map (\<lambda>x. if RT_UserID x = uid \<and> RT_RevokedAt x = None
         then revoke_token now x else x) (rows (st_tokens s))"
    using revoke_tokens_done [OF assms(3,5),
        where p = "\<lambda>x. RT_UserID x = uid \<and> RT_RevokedAt x = None" and now = now]
    unfolding RevokeByUserID_def by blast
  obtain r' where m: "mark_all_revoked d now xs (st_redis s) = (Returns (), r')"
    using mark_all_returns by blast
  have "s' = s\<lparr>st_sessions := t1, st_tokens := t2, st_redis := r'\<rparr>" "r = Returns (Inr ())"
    using assms(6) l u1 u2 m by (simp_all add: LogoutAll_def Let_def)
  with that [OF xs] u1 u2 m show thesis by simp
qed

end

section \<open>Properties\<close>

text \<open>C4: once a refresh token was exchanged, no later operation of the service, in any number and
  order, makes \<open>Refresh\<close> accept it again: every further use is rejected as an invalid token.\<close>

theorem rotated_token_never_accepted:
  assumes "identity_store d c" and "updates_succeed (as_tokens d) uniq_tokens"
    and "uniq_tokens (rows (st_tokens s))"
    and "Refresh d now fresh tok s = (Returns (Inr r), s1)"
    and "rtranclp (auth_step d) s1 s2"
  shows "fst (Refresh d now' fresh' tok s2) = Returns (Inl ErrInvalidRefreshToken)"
proof -
  have "revoked_hash (rows (st_tokens s1)) (HashToken tok)"
    using identity_store.refresh_revokes [OF assms(1-4)] .
  moreover have "uniq_tokens (rows (st_tokens s1))"
    using identity_store.refresh_tok_le [OF assms(1,4)] assms(3) by (simp add: tok_le_def)
  ultimately show ?thesis
    using identity_store.revoked_never_accepted [OF assms(1)] assms(5) by blast
qed

text \<open>C5: presenting a refresh token that was already revoked is answered as an invalid token and
  closes the account: every session and every refresh token of its user is revoked, and the
  sessions that were active are marked in Redis until they would have expired.\<close>

theorem token_reuse_closes_all_sessions:
  assumes "identity_store d c" and "finds_succeed (as_sessions d)" and "firsts_succeed (as_tokens d)"
    and "updates_succeed (as_sessions d) uniq_sessions" and "updates_succeed (as_tokens d) uniq_tokens"
    and "sets_succeed c" and "inj (uuid_String (as_uuid d))"
    and "uniq_sessions (rows (st_sessions s))" and "uniq_tokens (rows (st_tokens s))"
    and "x \<in> set (rows (st_tokens s))" and "RT_TokenHash x = HashToken tok"
    and "RT_RevokedAt x \<noteq> None" and "tok \<noteq> []"
    and "Refresh d now fresh tok s = (r, s')"
  shows "r = Returns (Inl ErrInvalidRefreshToken)
    \<and> (\<forall>y\<in>set (rows (st_sessions s')). AS_UserID y = RT_UserID x \<longrightarrow> AS_RevokedAt y \<noteq> None)
    \<and> (\<forall>y\<in>set (rows (st_tokens s')). RT_UserID y = RT_UserID x \<longrightarrow> RT_RevokedAt y \<noteq> None)
    \<and> (\<forall>y\<in>set (rows (st_sessions s)). \<forall>t.
      AS_UserID y = RT_UserID x \<and> session_active now y \<and> 0 < revocation_ttl now (AS_ExpiresAt y)
      \<and> t < now + revocation_ttl now (AS_ExpiresAt y) \<longrightarrow>
      str_live t (revoked_key (uuid_String (as_uuid d) (AS_ID y))) (rdata (st_redis s')))"
proof -
  note L = assms(1)
  obtain tt where f: "FindByTokenHash (as_tokens d) (HashToken tok) (st_tokens s) = (Inr x, tt)"
    and tt: "rows tt = rows (st_tokens s)"
    by (rule identity_store.find_revoked [OF L assms(3,9,10,11)])
  let ?s1 = "s\<lparr>st_tokens := tt\<rparr>"
  obtain q s2 where lo: "LogoutAll d now (RT_UserID x) ?s1 = (q, s2)" by fastforce
  obtain xs where xs: "mset xs = mset (filter (\<lambda>y. AS_UserID y = RT_UserID x \<and> session_active now y) (rows (st_sessions s)))"
    and ss: "rows (st_sessions s2) = map (\<lambda>y. if AS_UserID y = RT_UserID x \<and> AS_RevokedAt y = None
           then revoke_session now y else y) (rows (st_sessions s))"
    and ts: "rows (st_tokens s2) = map (\<lambda>y. if RT_UserID y = RT_UserID x \<and> RT_RevokedAt y = None
           then revoke_token now y else y) (rows (st_tokens s))"
    and m: "mark_all_revoked d now xs (st_redis s) = (Returns (), st_redis s2)"
    and q: "q = Returns (Inr ())"
    using identity_store.logout_all_effect [OF L assms(2,4,5) _ _ lo] assms(8,9) tt by auto
  have eq: "r = Returns (Inl ErrInvalidRefreshToken)" "s' = s2"
    using assms(12-14) f lo q by (auto simp: Refresh_def Let_def)
  have "distinct (map AS_ID xs)"
    using arg_cong [OF xs, of "image_mset AS_ID"] assms(8) mset_eq_imp_distinct_iff distinct_map_filter
    unfolding uniq_sessions_def mset_map [symmetric] by metis
  moreover have "set xs = {y \<in> set (rows (st_sessions s)). AS_UserID y = RT_UserID x \<and> session_active now y}"
    using arg_cong [OF xs, of set_mset] by auto
  ultimately have "\<forall>y\<in>set (rows (st_sessions s)). \<forall>t.
      AS_UserID y = RT_UserID x \<and> session_active now y \<and> 0 < revocation_ttl now (AS_ExpiresAt y)
      \<and> t < now + revocation_ttl now (AS_ExpiresAt y) \<longrightarrow>
      str_live t (revoked_key (uuid_String (as_uuid d) (AS_ID y))) (rdata (st_redis s2))"
    using identity_store.mark_all_live [OF L assms(6,7) m] by blast
  then show ?thesis using ss ts eq by auto
qed

text \<open>C20: a login succeeds only for a user that is not deleted and whose password matches, and then
  stores exactly one session and one refresh token for that user: both expire after seven days,
  and the token is stored as its SHA-256 hash, never as the value returned to the client.\<close>

theorem login_stores_one_session:
  assumes "identity_store d c" and "Login d now fresh email pw ip ua s = (Inr r, s')"
  shows "\<exists>session token. LR_User r \<in> set (rows (st_users s)) \<and> U_Email (LR_User r) = email
    \<and> U_DeletedAt (LR_User r) = None \<and> as_bcrypt d (U_Password (LR_User r)) pw
    \<and> rows (st_sessions s') = rows (st_sessions s) @ [session]
    \<and> rows (st_tokens s') = rows (st_tokens s) @ [token]
    \<and> rows (st_users s') = rows (st_users s) \<and> st_redis s' = st_redis s
    \<and> AS_UserID session = U_ID (LR_User r) \<and> session_active now session
    \<and> AS_ExpiresAt session = now + 7 * 24 * hour
    \<and> RT_SessionID token = AS_ID session \<and> RT_UserID token = U_ID (LR_User r)
    \<and> RT_TokenHash token = HashToken (LR_RefreshToken r) \<and> RT_RevokedAt token = None
    \<and> RT_ExpiresAt token = now + 7 * 24 * hour \<and> LR_RefreshToken r = uuid_String (as_uuid d) fresh"
proof -
  note L = assms(1)
  have ss: "gorm_table (as_sessions d) filled_session uniq_sessions"
    and ts: "gorm_table (as_tokens d) filled_token uniq_tokens"
    using L by (simp_all add: identity_store_def)
  from assms(2) obtain user tu session t1 token t2 where
    u: "FindByEmail (as_users d) email (st_users s) = (Inr (Some user), tu)"
    and pw: "as_bcrypt d (U_Password user) pw"
    and cs: "CreateSession (as_sessions d) (new_session user now ip ua) (st_sessions s) = (Inr session, t1)"
    and ct: "CreateToken (as_tokens d) (new_token (AS_ID session) (U_ID user)
        (HashToken (GenerateRefreshToken (as_uuid d) fresh)) (now + refreshTTL)) (st_tokens s) = (Inr token, t2)"
    and r: "LR_User r = user" "LR_RefreshToken r = GenerateRefreshToken (as_uuid d) fresh"
    and s': "s' = s\<lparr>st_users := tu, st_sessions := t1, st_tokens := t2\<rparr>"
    by (auto simp: Login_def Let_def split: sum.splits prod.splits option.splits if_splits)
  have "rows t1 = rows (st_sessions s) @ [session]" "filled_session (new_session user now ip ua) session"
    using gorm_table.create_ok [OF ss] cs unfolding CreateSession_def by blast+
  moreover have "rows t2 = rows (st_tokens s) @ [token]"
    "filled_token (new_token (AS_ID session) (U_ID user) (HashToken (GenerateRefreshToken (as_uuid d) fresh))
      (now + refreshTTL)) token"
    using gorm_table.create_ok [OF ts] ct unfolding CreateToken_def by blast+
  ultimately show ?thesis
    using identity_store.find_by_email [OF L u] pw r s'
    by (intro exI [of _ session] exI [of _ token])
      (simp add: filled_session_ext filled_token_ext new_session_def new_token_def session_active_def
        refreshTTL_def GenerateRefreshToken_def)
qed

text \<open>C21: when the user table answers, a login is refused as bad credentials exactly when no user
  that is not deleted has this address and this password, and a refused login stores nothing.\<close>

theorem login_refused_iff:
  assumes "identity_store d c" and "uniq_users (rows (st_users s))"
    and "FindByEmail (as_users d) email (st_users s) = (Inr found, tu)"
    and "Login d now fresh email pw ip ua s = (r, s')"
  shows "(r = Inl ErrInvalidCredentials \<longleftrightarrow>
      \<not> (\<exists>u\<in>set (rows (st_users s)). U_DeletedAt u = None \<and> U_Email u = email \<and> as_bcrypt d (U_Password u) pw))
    \<and> (r = Inl ErrInvalidCredentials \<longrightarrow> rows (st_users s') = rows (st_users s)
      \<and> st_sessions s' = st_sessions s \<and> st_tokens s' = st_tokens s \<and> st_redis s' = st_redis s)"
proof -
  note F = identity_store.find_by_email [OF assms(1,3)]
  have email: "u = v" if "u \<in> set (rows (st_users s))" "v \<in> set (rows (st_users s))" "U_Email u = U_Email v" for u v
    using that assms(2) by (auto simp: uniq_users_def distinct_map inj_on_def)
  have "r = Inl ErrInvalidCredentials \<longleftrightarrow> (case found of None \<Rightarrow> True | Some u \<Rightarrow> \<not> as_bcrypt d (U_Password u) pw)"
    using assms(3,4)
    by (auto simp: Login_def Let_def split: sum.splits prod.splits option.splits if_splits)
  also have "\<dots> \<longleftrightarrow>
      \<not> (\<exists>u\<in>set (rows (st_users s)). U_DeletedAt u = None \<and> U_Email u = email \<and> as_bcrypt d (U_Password u) pw)"
    using F(2,3) email by (cases found) fastforce+
  finally have "r = Inl ErrInvalidCredentials \<longleftrightarrow>
      \<not> (\<exists>u\<in>set (rows (st_users s)). U_DeletedAt u = None \<and> U_Email u = email \<and> as_bcrypt d (U_Password u) pw)" .
  moreover have "rows (st_users s') = rows (st_users s) \<and> st_sessions s' = st_sessions s
      \<and> st_tokens s' = st_tokens s \<and> st_redis s' = st_redis s" if "r = Inl ErrInvalidCredentials"
    using assms(3,4) F(1) that
    by (auto simp: Login_def Let_def split: sum.splits prod.splits option.splits if_splits)
  ultimately show ?thesis by blast
qed

text \<open>C22: an exchanged refresh token is at most as long-lived as its session: a row that a
  successful \<open>Refresh\<close> adds holds the hash of the token it returns, belongs to an active session of
  the table, and expires no later than that session and no later than seven days from now.\<close>

theorem refreshed_token_within_session:
  assumes "identity_store d c" and "Refresh d now fresh tok s = (Returns (Inr r), s')"
  shows "\<exists>session\<in>set (rows (st_sessions s)). session_active now session \<and>
    (\<forall>y\<in>set (rows (st_tokens s')). RT_ID y \<in> RT_ID ` set (rows (st_tokens s)) \<or>
       RT_TokenHash y = HashToken (RR_RefreshToken r) \<and> RT_SessionID y = AS_ID session
       \<and> RT_ExpiresAt y \<le> AS_ExpiresAt session \<and> RT_ExpiresAt y \<le> now + 7 * 24 * hour)"
proof -
  note L = assms(1)
  have ss: "gorm_table (as_sessions d) filled_session uniq_sessions"
    using L by (simp add: identity_store_def)
  from assms(2) obtain x tt session ts u tu where *: "tok \<noteq> []"
    "FindByTokenHash (as_tokens d) (HashToken tok) (st_tokens s) = (Inr x, tt)"
    "RT_RevokedAt x = None" "\<not> RT_ExpiresAt x < now"
    "FindActiveByID (as_sessions d) now (RT_SessionID x) (st_sessions s) = (Inr session, ts)"
    "FindByID (as_users d) (AS_UserID session) (st_users s) = (Inr (Some u), tu)"
    by (rule Refresh_success)
  let ?new = "new_token (AS_ID session) (U_ID u) (HashToken (GenerateRefreshToken (as_uuid d) fresh))
        (min (now + refreshTTL) (AS_ExpiresAt session))"
  from assms(2) Refresh_found [OF *, of fresh]
  have "st_tokens s' = rotate_tokens (as_tokens d) now (RT_ID x) ?new tt"
    and r: "RR_RefreshToken r = GenerateRefreshToken (as_uuid d) fresh"
    by (auto simp: Let_def split: sum.splits)
  then have "RT_ID y \<in> RT_ID ` set (rows (st_tokens s)) \<or> RT_TokenHash y = HashToken (RR_RefreshToken r)
      \<and> RT_SessionID y = AS_ID session \<and> RT_ExpiresAt y \<le> AS_ExpiresAt session
      \<and> RT_ExpiresAt y \<le> now + 7 * 24 * hour"
    if "y \<in> set (rows (st_tokens s'))" for y
    using identity_store.rotation_fresh_row [OF L, of y now "RT_ID x" ?new tt] that
      identity_store.find_by_token_hash(1) [OF L *(2)] r
    by (auto simp: new_token_def refreshTTL_def)
  moreover have "session \<in> set (rows (st_sessions s)) \<and> session_active now session"
    using gorm_table.first_found [OF ss] *(5) unfolding FindActiveByID_def by blast
  ultimately show ?thesis by (intro bexI [of _ session]) auto
qed

text \<open>A signed access token that has not expired is accepted or not by its revocation key alone.\<close>

lemma authenticate_signed:
  assumes "redis_client c" and "jwt_lib j" and "exists_succeed c"
    and "GenerateAccessToken j ul secret t0 uid role i = Inr tok"
    and "now < unix_time (Unix (t0 + 15 * minute))" and "uuid_String ul i \<noteq> []"
  shows "fst (Authenticate j (NewAuthenticator secret (Iface c)) now tok db) =
    (if str_live now (revoked_key (uuid_String ul i)) (rdata db) then Returns (Inl SessionRevoked)
     else Returns (Inr (claims_principal (payload_claims (access_payload ul t0 uid role i)))))"
proof -
  let ?cl = "payload_claims (access_payload ul t0 uid role i)"
  have sid: "C_SessionID ?cl = uuid_String ul i"
    by (simp add: payload_claims_def access_payload_def)
  have p: "jwt_parse j now [''HS256''] secret tok = Inr ?cl"
    using jwt_lib.sign_parse [OF assms(2) assms(4) [unfolded GenerateAccessToken_def], of "[''HS256'']" now] assms(5)
    by (simp add: access_payload_def)
  from assms(3) have "is_ok (fst (r_exists c now (revoked_key (uuid_String ul i)) db))"
    by (simp add: exists_succeed_def)
  then obtain n db' where e: "r_exists c now (revoked_key (uuid_String ul i)) db = (Inr n, db')"
    by (cases "r_exists c now (revoked_key (uuid_String ul i)) db") (auto simp: is_ok_iff)
  then show ?thesis
    using p sid assms(6) redis_client.exists_found [OF assms(1) e]
    by (simp add: Authenticate_def NewAuthenticator_def)
qed

text \<open>C15: an access token of a session that logged out is refused while the revocation key lives,
  which is until the expiry of the session rounded to a second, and accepted again afterwards if the
  token itself has not expired by then.\<close>

theorem logout_enforced_until:
  assumes "identity_store d c" and "jwt_lib (as_jwt d)" and "firsts_succeed (as_sessions d)"
    and "sets_succeed c" and "exists_succeed c"
    and "uniq_sessions (rows (st_sessions s))" and "y \<in> set (rows (st_sessions s))" and "session_active now y"
    and "uuid_Parse (as_uuid d) sid = Some (AS_ID y)" and "uuid_String (as_uuid d) (AS_ID y) \<noteq> []"
    and "0 < revocation_ttl now (AS_ExpiresAt y)"
    and "Logout d now sid s = (r, s')"
    and "GenerateAccessToken (as_jwt d) (as_uuid d) (as_secret d) t0 uid role (AS_ID y) = Inr tok"
    and "now' < unix_time (Unix (t0 + 15 * minute))"
  shows "r = Returns (Inr ())
    \<and> fst (Authenticate (as_jwt d) (NewAuthenticator (as_secret d) (as_redis d)) now' tok (st_redis s')) =
    (if now' < now + revocation_ttl now (AS_ExpiresAt y) then Returns (Inl SessionRevoked)
     else Returns (Inr (claims_principal (payload_claims (access_payload (as_uuid d) t0 uid role (AS_ID y))))))"
proof -
  note L = assms(1)
  have rc: "redis_client c" and on: "as_redis d = Iface c"
    using L by (simp_all add: identity_store_def identity_store_axioms_def)
  obtain ts where f: "FindActiveByID (as_sessions d) now (AS_ID y) (st_sessions s) = (Inr y, ts)"
    by (rule identity_store.find_active [OF L assms(3,6-8)])
  obtain q r' where m: "MarkRevoked (as_uuid d) (as_redis d) now (AS_ID y) (AS_ExpiresAt y) (st_redis s) = (Returns q, r')"
    using identity_store.mark_revoked_returns [OF L] by blast
  have r: "r = Returns (Inr ())" and s': "st_redis s' = r'"
    using assms(9,12) f m by (auto simp: Logout_def Let_def)
  show ?thesis
    using authenticate_signed [OF rc assms(2,5,13,14,10), of r']
      identity_store.mark_revoked_live [OF L assms(4) m, of now' "uuid_String (as_uuid d) (AS_ID y)"] assms(11)
    by (simp add: on s' r)
qed

lemma login_signs:
  assumes "Login d now fresh email pw ip ua s = (Inr r, s')"
  obtains session where "CreateSession (as_sessions d) (new_session (LR_User r) now ip ua) (st_sessions s) = (Inr session, st_sessions s')"
    and "GenerateAccessToken (as_jwt d) (as_uuid d) (as_secret d) now (U_ID (LR_User r)) (U_RoleCode (LR_User r)) (AS_ID session)
      = Inr (LR_AccessToken r)"
  using assms by (auto simp: Login_def Let_def split: sum.splits prod.splits option.splits if_splits)

lemma login_finds:
  assumes "Login d now fresh email pw ip ua s = (Inr r, s')"
  obtains tu where "FindByEmail (as_users d) email (st_users s) = (Inr (Some (LR_User r)), tu)"
    and "as_bcrypt d (U_Password (LR_User r)) pw"
  using assms by (auto simp: Login_def Let_def split: sum.splits prod.splits option.splits if_splits)

text \<open>The access token of a successful login is accepted until it expires, as the user that
  logged in, with that user's role and the session just stored, as long as the session is not
  marked as revoked.\<close>

theorem login_token_authenticates:
  assumes "identity_store d c" and "jwt_lib (as_jwt d)" and "exists_succeed c"
    and "Login d now fresh email pw ip ua s = (Inr r, s')"
    and "now' < unix_time (Unix (now + 15 * minute))"
    and "\<And>i. uuid_String (as_uuid d) i \<noteq> []"
    and "\<And>i. \<not> str_live now' (revoked_key (uuid_String (as_uuid d) i)) (rdata db)"
  shows "\<exists>p. fst (Authenticate (as_jwt d) (NewAuthenticator (as_secret d) (as_redis d)) now' (LR_AccessToken r) db)
      = Returns (Inr p) \<and> P_UserID p = nat_string (U_ID (LR_User r)) \<and> P_RoleCode p = U_RoleCode (LR_User r)
    \<and> (\<exists>session\<in>set (rows (st_sessions s')). P_SessionID p = uuid_String (as_uuid d) (AS_ID session))"
proof -
  note L = assms(1)
  have rc: "redis_client c" and on: "as_redis d = Iface c"
    and ss: "gorm_table (as_sessions d) filled_session uniq_sessions"
    using L by (simp_all add: identity_store_def identity_store_axioms_def)
  obtain session where
    cs: "CreateSession (as_sessions d) (new_session (LR_User r) now ip ua) (st_sessions s) = (Inr session, st_sessions s')"
    and g: "GenerateAccessToken (as_jwt d) (as_uuid d) (as_secret d) now (U_ID (LR_User r)) (U_RoleCode (LR_User r))
          (AS_ID session) = Inr (LR_AccessToken r)"
    by (rule login_signs [OF assms(4)])
  have "session \<in> set (rows (st_sessions s'))"
    using gorm_table.create_ok [OF ss] cs unfolding CreateSession_def by fastforce
  then show ?thesis
    using authenticate_signed [OF rc assms(2,3) g assms(5,6), of db] assms(7) on
    by (auto simp: claims_principal_def payload_claims_def access_payload_def)
qed

text \<open>\<open>Refresh\<close> does not report that the new token could not be stored: when a successful call
  added no row, the token it returned is refused (unless it happens to have the hash of an older
  token), although the old token is revoked, so that the client cannot refresh any more.\<close>

theorem refresh_hides_failed_insert:
  assumes "identity_store d c" and "Refresh d now fresh tok s = (Returns (Inr r), s')"
    and "length (rows (st_tokens s')) = length (rows (st_tokens s))"
  shows "fst (Refresh d now' fresh' (RR_RefreshToken r) s') = Returns (Inl ErrInvalidRefreshToken)
    \<or> HashToken (RR_RefreshToken r) \<in> RT_TokenHash ` set (rows (st_tokens s))"
proof (cases "HashToken (RR_RefreshToken r) \<in> RT_TokenHash ` set (rows (st_tokens s))")
  case False
  note L = assms(1)
  obtain l tt where f: "FindByTokenHash (as_tokens d) (HashToken (RR_RefreshToken r)) (st_tokens s') = (l, tt)"
    by fastforce
  moreover have "RT_TokenHash ` set (rows (st_tokens s')) = RT_TokenHash ` set (rows (st_tokens s))"
    using arg_cong [OF identity_store.refresh_no_insert [OF assms], of set] by simp
  ultimately obtain e where "l = Inl e"
    using identity_store.find_by_token_hash(2) [OF L f] False by (cases l) (auto, metis image_eqI)
  with f show ?thesis by (simp add: Refresh_def)
qed simp

section \<open>The properties at a concrete state\<close>

definition is_returned :: "(auth_failure + Principal) go \<Rightarrow> bool" where
  "is_returned r = (case r of Returns (Inr _) \<Rightarrow> True | _ \<Rightarrow> False)"

text \<open>One administrator with one session, which expires after 1000 seconds, and one refresh token.\<close>

definition demo_auth :: auth_service where
  "demo_auth = mem_auth (\<lambda>_. None)"

definition demo_user :: User where
  "demo_user = \<lparr>U_ID = 1, U_CreatedAt = 0, U_UpdatedAt = 0, U_DeletedAt = None, U_Email = ''a@b'',
     U_Password = ''pw'', U_RoleCode = ''ADMIN''\<rparr>"

definition demo_session :: AuthSession where
  "demo_session = (new_session demo_user 0 ''ip'' ''ua'')\<lparr>AS_ID := 1, AS_ExpiresAt := 1000 * second\<rparr>"

definition demo_token :: "time option \<Rightarrow> RefreshToken" where
  "demo_token rv = (new_token 1 1 (HashToken ''old'') (1000 * second))\<lparr>RT_ID := 1, RT_RevokedAt := rv\<rparr>"

definition no_redis :: redis_db where
  "no_redis = \<lparr>rdata = \<lparr>hashes = (\<lambda>_. []), rsets = (\<lambda>_. []), rstrs = (\<lambda>_. None)\<rparr>, renv = 0\<rparr>"

definition demo_state :: "time option \<Rightarrow> identity_state" where
  "demo_state rv = \<lparr>st_users = \<lparr>rows = [demo_user], tenv = 0\<rparr>,
     st_sessions = \<lparr>rows = [demo_session], tenv = 0\<rparr>,
     st_tokens = \<lparr>rows = [demo_token rv], tenv = 0\<rparr>, st_redis = no_redis\<rparr>"

lemmas demo_defs = demo_auth_def mem_auth_defs demo_state_def demo_user_def demo_session_def demo_token_def
  no_redis_def new_session_def new_token_def

lemma demo_store: "identity_store demo_auth (mem_redis (\<lambda>_. None))"
  unfolding demo_auth_def by (rule mem_store.identity_store_axioms)

lemma demo_succeeds:
  "updates_succeed (as_tokens demo_auth) uniq_tokens" "updates_succeed (as_sessions demo_auth) uniq_sessions"
  "firsts_succeed (as_tokens demo_auth)" "firsts_succeed (as_sessions demo_auth)"
  "finds_succeed (as_sessions demo_auth)" "jwt_lib (as_jwt demo_auth)"
  "uniq_tokens (rows (st_tokens (demo_state rv)))" "uniq_sessions (rows (st_sessions (demo_state rv)))"
  "uniq_users (rows (st_users (demo_state rv)))"
  by (simp_all add: demo_defs uniq_tokens_def uniq_sessions_def uniq_users_def rj.jwt_lib_axioms)

lemma demo_uuid: "inj (uuid_String (as_uuid demo_auth))" "uuid_String (as_uuid demo_auth) i \<noteq> []"
  by (auto simp: demo_defs inj_def word_unat_eq_iff dest: nat_string_inj)

lemma demo_refresh: "\<exists>r s1. Refresh demo_auth 0 5 ''old'' (demo_state None) = (Returns (Inr r), s1)"
proof -
  have "\<exists>tt. FindByTokenHash (as_tokens demo_auth) (HashToken ''old'') (st_tokens (demo_state None)) =
      (Inr (demo_token None), tt)"
    and "\<exists>ts. FindActiveByID (as_sessions demo_auth) 0 (RT_SessionID (demo_token None)) (st_sessions (demo_state None)) =
      (Inr demo_session, ts)"
    and "\<exists>tu. FindByID (as_users demo_auth) (AS_UserID demo_session) (st_users (demo_state None)) =
      (Inr (Some demo_user), tu)"
    by (simp_all add: FindByTokenHash_def FindActiveByID_def FindByID_def session_active_def mem_engine demo_defs)
  then obtain tt ts tu where *:
    "FindByTokenHash (as_tokens demo_auth) (HashToken ''old'') (st_tokens (demo_state None)) = (Inr (demo_token None), tt)"
    "FindActiveByID (as_sessions demo_auth) 0 (RT_SessionID (demo_token None)) (st_sessions (demo_state None)) =
      (Inr demo_session, ts)"
    "FindByID (as_users demo_auth) (AS_UserID demo_session) (st_users (demo_state None)) = (Inr (Some demo_user), tu)"
    by blast
  have "\<exists>acc. GenerateAccessToken (as_jwt demo_auth) (as_uuid demo_auth) (as_secret demo_auth) 0
      (U_ID demo_user) (U_RoleCode demo_user) (AS_ID demo_session) = Inr acc"
    by (simp add: GenerateAccessToken_def access_payload_def demo_auth_def mem_auth_def ref_jwt_def ref_sign_def
        Unix_def min_int64_def max_int64_def)
  then show ?thesis
    using Refresh_found [OF _ *(1) _ _ *(2,3), of 5] by (auto simp: Let_def demo_token_def new_token_def)
qed

theorem rotated_token_never_accepted_witness:
  "\<exists>r s1. Refresh demo_auth 0 5 ''old'' (demo_state None) = (Returns (Inr r), s1)
     \<and> fst (Refresh demo_auth 0 6 ''old'' s1) = Returns (Inl ErrInvalidRefreshToken)"
  using demo_refresh rotated_token_never_accepted [OF demo_store demo_succeeds(1,7) _ rtranclp.rtrancl_refl] by blast

theorem token_reuse_closes_all_sessions_witness:
  "fst (Refresh demo_auth 0 5 ''old'' (demo_state (Some 0))) = Returns (Inl ErrInvalidRefreshToken)
   \<and> str_live (999 * second) (revoked_key (uuid_String (as_uuid demo_auth) 1))
       (rdata (st_redis (snd (Refresh demo_auth 0 5 ''old'' (demo_state (Some 0))))))"
proof -
  have "demo_token (Some 0) \<in> set (rows (st_tokens (demo_state (Some 0))))"
    "RT_TokenHash (demo_token (Some 0)) = HashToken ''old''" "RT_RevokedAt (demo_token (Some 0)) \<noteq> None"
    by (simp_all add: demo_state_def demo_token_def new_token_def)
  note * = token_reuse_closes_all_sessions [OF demo_store demo_succeeds(5,3,2,1) mem_redis_succeeds(1)
      demo_uuid(1) demo_succeeds(8,7) this _ surjective_pairing, of 0 5]
  have "revocation_ttl 0 (AS_ExpiresAt demo_session) = 1000 * second" "AS_ID demo_session = 1"
    "session_active 0 demo_session" "AS_UserID demo_session = RT_UserID (demo_token (Some 0))"
    "demo_session \<in> set (rows (st_sessions (demo_state (Some 0))))"
    by (simp_all add: revocation_ttl_def duration_Round_def time_Sub_def min_int64_def max_int64_def
        session_active_def demo_state_def demo_session_def demo_user_def demo_token_def new_session_def new_token_def)
  with * show ?thesis by force
qed

definition empty_state :: identity_state where
  "empty_state = (demo_state None)\<lparr>st_sessions := \<lparr>rows = [], tenv = 0\<rparr>, st_tokens := \<lparr>rows = [], tenv = 0\<rparr>\<rparr>"

lemma demo_login: "\<exists>r s'. Login demo_auth 0 5 ''a@b'' ''pw'' ''ip'' ''ua'' empty_state = (Inr r, s')"
  by (simp add: Login_def FindByEmail_def CreateSession_def CreateToken_def GenerateAccessToken_def
      access_payload_def empty_state_def demo_defs mem_engine uniq_sessions_def uniq_tokens_def ref_jwt_def
      ref_sign_def Unix_def min_int64_def max_int64_def refreshTTL_def)

theorem login_stores_one_session_witness:
  "\<exists>r s'. Login demo_auth 0 5 ''a@b'' ''pw'' ''ip'' ''ua'' empty_state = (Inr r, s')
     \<and> length (rows (st_sessions s')) = 1 \<and> map RT_TokenHash (rows (st_tokens s')) = [HashToken ''5'']"
proof -
  obtain r s' where l: "Login demo_auth 0 5 ''a@b'' ''pw'' ''ip'' ''ua'' empty_state = (Inr r, s')"
    using demo_login by blast
  have "uuid_String (as_uuid demo_auth) 5 = ''5''"
    by (simp add: demo_auth_def mem_auth_def mem_uuid_def) code_simp
  with login_stores_one_session [OF demo_store l]
  have "length (rows (st_sessions s')) = 1 \<and> map RT_TokenHash (rows (st_tokens s')) = [HashToken ''5'']"
    by (auto simp: empty_state_def)
  with l show ?thesis by (intro exI conjI) auto
qed

theorem login_refused_iff_witness:
  "fst (Login demo_auth 0 5 ''a@b'' ''no'' ''ip'' ''ua'' (demo_state None)) = Inl ErrInvalidCredentials"
proof -
  have "\<exists>tu. FindByEmail (as_users demo_auth) ''a@b'' (st_users (demo_state None)) = (Inr (Some demo_user), tu)"
    by (simp add: FindByEmail_def mem_engine demo_defs)
  then obtain tu where
    f: "FindByEmail (as_users demo_auth) ''a@b'' (st_users (demo_state None)) = (Inr (Some demo_user), tu)" by blast
  show ?thesis
    using login_refused_iff [OF demo_store demo_succeeds(9) f surjective_pairing, of 0 5 "''no''" "''ip''" "''ua''"]
    by (simp add: demo_defs)
qed

theorem refreshed_token_within_session_witness:
  "\<exists>r s'. Refresh demo_auth 0 5 ''old'' (demo_state None) = (Returns (Inr r), s') \<and>
     (\<exists>session\<in>set (rows (st_sessions (demo_state None))). session_active 0 session \<and>
       (\<forall>y\<in>set (rows (st_tokens s')). RT_ID y \<in> RT_ID ` set (rows (st_tokens (demo_state None))) \<or>
         RT_TokenHash y = HashToken (RR_RefreshToken r) \<and> RT_SessionID y = AS_ID session
         \<and> RT_ExpiresAt y \<le> AS_ExpiresAt session \<and> RT_ExpiresAt y \<le> 0 + 7 * 24 * hour))"
  using demo_refresh refreshed_token_within_session [OF demo_store] by blast

lemma demo_parse: "uuid_Parse (as_uuid demo_auth) ''1'' = Some (AS_ID demo_session)"
  by (simp add: demo_auth_def mem_auth_def mem_uuid_def is_digit_def digits_val_def digit_val_def
      demo_session_def)

text \<open>The gap: the session ends at second 1000 and is logged out at second 990; an access token
  issued at second 980 is refused at second 999 and accepted at second 1001.\<close>

theorem logout_enforced_until_witness:
  "\<exists>tok s'. Logout demo_auth (990 * second) ''1'' (demo_state None) = (Returns (Inr ()), s') \<and>
     fst (Authenticate ref_jwt (NewAuthenticator ''secret'' (as_redis demo_auth)) (999 * second) tok (st_redis s'))
       = Returns (Inl SessionRevoked) \<and>
     is_returned (fst (Authenticate ref_jwt (NewAuthenticator ''secret'' (as_redis demo_auth)) (1001 * second) tok (st_redis s')))"
proof -
  have "\<exists>tok. GenerateAccessToken (as_jwt demo_auth) (as_uuid demo_auth) (as_secret demo_auth) (980 * second) 1
      ''ADMIN'' (AS_ID demo_session) = Inr tok"
    by (simp add: GenerateAccessToken_def access_payload_def demo_auth_def mem_auth_def ref_jwt_def ref_sign_def
        Unix_def min_int64_def max_int64_def)
  then obtain tok where g: "GenerateAccessToken (as_jwt demo_auth) (as_uuid demo_auth) (as_secret demo_auth)
      (980 * second) 1 ''ADMIN'' (AS_ID demo_session) = Inr tok" by blast
  have mem: "demo_session \<in> set (rows (st_sessions (demo_state None)))" by (simp add: demo_state_def)
  have act: "session_active (990 * second) demo_session"
    by (simp add: session_active_def demo_session_def new_session_def)
  have ttl: "revocation_ttl (990 * second) (AS_ExpiresAt demo_session) = 10 * second"
    by (simp add: revocation_ttl_def duration_Round_def time_Sub_def min_int64_def max_int64_def demo_session_def)
  have simps: "as_jwt demo_auth = ref_jwt" "as_secret demo_auth = ''secret''"
    by (simp_all add: demo_auth_def mem_auth_def)
  note * = logout_enforced_until [OF demo_store demo_succeeds(6,4) mem_redis_succeeds(1,2) demo_succeeds(8) mem act
      demo_parse demo_uuid(2) _ surjective_pairing g, unfolded simps]
  have "999 * second < unix_time (Unix (980 * second + 15 * minute))"
    "1001 * second < unix_time (Unix (980 * second + 15 * minute))"
    by (simp_all add: unix_time_def Unix_def)
  from * [OF _ this(1)] * [OF _ this(2)] ttl show ?thesis
    by (intro exI [of _ tok] exI [of _ "snd (Logout demo_auth (990 * second) ''1'' (demo_state None))"])
      (simp add: is_returned_def prod_eq_iff)
qed

theorem login_token_authenticates_witness:
  "\<exists>r s' p. Login demo_auth 0 5 ''a@b'' ''pw'' ''ip'' ''ua'' empty_state = (Inr r, s')
     \<and> fst (Authenticate ref_jwt (NewAuthenticator ''secret'' (as_redis demo_auth)) (14 * minute) (LR_AccessToken r)
          no_redis) = Returns (Inr p) \<and> P_UserID p = nat_string (U_ID (LR_User r))"
proof -
  obtain r s' where l: "Login demo_auth 0 5 ''a@b'' ''pw'' ''ip'' ''ua'' empty_state = (Inr r, s')"
    using demo_login by blast
  have "14 * minute < unix_time (Unix (0 + 15 * minute))" by (simp add: unix_time_def Unix_def)
  moreover have "\<not> str_live (14 * minute) k (rdata no_redis)" for k
    by (simp add: str_live_def no_redis_def)
  ultimately have "\<exists>p. fst (Authenticate (as_jwt demo_auth) (NewAuthenticator (as_secret demo_auth) (as_redis demo_auth))
      (14 * minute) (LR_AccessToken r) no_redis) = Returns (Inr p) \<and> P_UserID p = nat_string (U_ID (LR_User r))"
    using login_token_authenticates [OF demo_store demo_succeeds(6) mem_redis_succeeds(2) l _ demo_uuid(2)] by blast
  then show ?thesis using l by (simp add: demo_auth_def mem_auth_def)
qed

text \<open>The third statement on each table fails; on the token table that is the insertion.\<close>

definition faulty_auth :: auth_service where
  "faulty_auth = mem_auth (\<lambda>n. if n = 2 then Some ''disk full'' else None)"

lemma faulty_refresh:
  "\<exists>r s'. Refresh faulty_auth 0 5 ''old'' (demo_state None) = (Returns (Inr r), s')
     \<and> length (rows (st_tokens s')) = 1 \<and> RR_RefreshToken r = ''5''
     \<and> length (rows (st_tokens s')) = length (rows (st_tokens (demo_state None)))"
proof -
  have "nat_string 5 = ''5''" by code_simp
  then show ?thesis
    by (simp add: faulty_auth_def Refresh_def FindByTokenHash_def FindActiveByID_def FindByID_def RevokeTokenByID_def
        CreateToken_def MarkReplacement_def GenerateAccessToken_def GenerateRefreshToken_def access_payload_def
        session_active_def demo_defs mem_engine uniq_tokens_def ref_jwt_def ref_sign_def revoke_token_def Unix_def
        min_int64_def max_int64_def refreshTTL_def)
qed

theorem refresh_hides_failed_insert_witness:
  "\<exists>r s'. Refresh faulty_auth 0 5 ''old'' (demo_state None) = (Returns (Inr r), s')
     \<and> (fst (Refresh faulty_auth 0 6 ''5'' s') = Returns (Inl ErrInvalidRefreshToken)
        \<or> HashToken ''5'' = HashToken ''old'')"
proof -
  obtain r s' where r: "Refresh faulty_auth 0 5 ''old'' (demo_state None) = (Returns (Inr r), s')"
    "RR_RefreshToken r = ''5''" "length (rows (st_tokens s')) = length (rows (st_tokens (demo_state None)))"
    using faulty_refresh by blast
  with refresh_hides_failed_insert [OF mem_store.identity_store_axioms r(1) [unfolded faulty_auth_def] r(3), of 0 6]
  show ?thesis by (auto simp: faulty_auth_def demo_state_def demo_token_def new_token_def)
qed

end
