(* ===== verification/Handlers_Props.thy ===== *)
theory Handlers_Props
  imports Rest Middlewares_Props Identity_Props
begin

text \<open>
  What the handlers and the routes guarantee: the way of an access token from the login through the
  cookie to a later call, the kind of answer each request gets, and the outcomes of the REST import.
\<close>

section \<open>The cookie\<close>

definition cookie_safe :: "string \<Rightarrow> bool" where
  "cookie_safe tok \<longleftrightarrow> tok \<noteq> [] \<and> (\<forall>b\<in>set tok. visible b \<and> b \<notin> {CHR 0x22, CHR 0x5C, CHR '';'', CHR '',''})"

lemma space_not_visible: "\<not> visible (CHR '' '')"
  by (simp add: visible_def)

lemma cookie_safe_trim: "cookie_safe tok \<Longrightarrow> TrimSpace tok = tok"
  by (rule TrimSpace_visible) (auto simp: cookie_safe_def)

lemma visible_valid: "visible b \<Longrightarrow> b \<noteq> CHR 0x22 \<Longrightarrow> b \<noteq> CHR 0x5C \<Longrightarrow> b \<noteq> CHR '';'' \<Longrightarrow> validCookieValueByte b"
  unfolding visible_def validCookieValueByte_def by linarith

lemma cookie_safe_value: "cookie_safe tok \<Longrightarrow> sanitizeCookieValue tok = tok"
proof -
  assume safe: "cookie_safe tok"
  then have "\<forall>b\<in>set tok. validCookieValueByte b" using visible_valid by (auto simp: cookie_safe_def)
  then have "filter validCookieValueByte tok = tok" by (simp add: filter_True)
  moreover have "CHR '' '' \<notin> set tok" "CHR '','' \<notin> set tok" using safe space_not_visible by (auto simp: cookie_safe_def)
  ultimately show ?thesis by (simp add: sanitizeCookieValue_def)
qed

lemma digit_safe: "b \<in> set (nat_string n) \<Longrightarrow> visible b \<and> b \<notin> {CHR 0x22, CHR 0x5C, CHR '';'', CHR '',''}"
  using nat_string_digits [of n] by (auto simp: list_all_iff is_digit_def visible_def)

lemma bearer_header:
  assumes "cookie_safe tok" and "cx_md c = Some md" and "md ''authorization'' = (''Bearer '' @ tok) # vs"
  shows "extractBearerTokenFromMetadata c = Inr tok"
proof -
  have "TrimSpace (''Bearer '' @ tok) = ''Bearer '' @ tok"
    using assms(1) by (intro TrimSpace_visible) (auto simp: cookie_safe_def visible_def)
  moreover have "SplitN2 (''Bearer '' @ tok) (CHR '' '') = [''Bearer'', tok]"
    by (simp add: SplitN2_def)
  ultimately show ?thesis
    using assms cookie_safe_trim [OF assms(1)] by (simp add: extractBearerTokenFromMetadata_def cookie_safe_def)
qed

text \<open>An access token of visible characters without quote, backslash, semicolon and comma survives the cookie:
  the cookie that the login sets carries it unchanged, the gateway turns the cookie of a request into an
  authorization header from which the interceptor reads the same token, and so does the REST middleware.\<close>

theorem access_cookie_roundtrip:
  assumes "cookie_safe tok" and "map_of (hr_cookies r) ''access_token'' = Some tok" and "hr_header r ''Authorization'' = []"
    and "cx_md c = Some md" and "md ''authorization'' = hr_header (CookieMiddleware r) ''Authorization''"
  shows "(\<exists>attrs. authCookie ''access_token'' tok age True = ''access_token='' @ tok @ '';'' @ attrs)
    \<and> extractBearerTokenFromMetadata c = Inr tok \<and> extractBearer r = tok"
proof -
  have "authCookie ''access_token'' tok age True = ''access_token='' @ tok @ '';'' @ ('' Path=/''
      @ (if 0 < age then ''; Max-Age='' @ Itoa age else if age < 0 then ''; Max-Age=0'' else []) @ ''; HttpOnly; SameSite=Lax'')"
    by (simp add: authCookie_def cookie_String_def cookie_safe_value [OF assms(1)])
  moreover have "md ''authorization'' = (''Bearer '' @ tok) # []" using assms(2,3,5) by (simp add: CookieMiddleware_def)
  then have "extractBearerTokenFromMetadata c = Inr tok" by (rule bearer_header [OF assms(1,4)])
  moreover have "extractBearer r = tok"
    using assms(2,3) cookie_safe_trim [OF assms(1)] by (simp add: extractBearer_def header_Get_def HasPrefix_def)
  ultimately show ?thesis by blast
qed

definition demo_http :: http_request where
  "demo_http = \<lparr>hr_method = ''GET'', hr_header = (\<lambda>_. []), hr_cookies = [(''access_token'', ''good'')], hr_query = (\<lambda>_. []),
     hr_body = Inr [], hr_principal = None\<rparr>"

lemma demo_safe: "cookie_safe ''good''"
  by (simp add: cookie_safe_def visible_def)

theorem access_cookie_roundtrip_witness:
  "extractBearerTokenFromMetadata \<lparr>cx_md = Some (\<lambda>k. if k = ''authorization'' then hr_header (CookieMiddleware demo_http) ''Authorization'' else []),
     cx_peer = None, cx_principal = None\<rparr> = Inr ''good'' \<and> extractBearer demo_http = ''good''"
  using access_cookie_roundtrip [OF demo_safe, of demo_http
      "\<lparr>cx_md = Some (\<lambda>k. if k = ''authorization'' then hr_header (CookieMiddleware demo_http) ''Authorization'' else []),
        cx_peer = None, cx_principal = None\<rparr>"]
  by (simp add: demo_http_def)

section \<open>The kind of an answer\<close>

fun answers :: "request \<Rightarrow> response \<Rightarrow> bool" where
  "answers (LoginReq q) x = (\<exists>access refresh. x = TokenResponse access refresh ''Bearer'' 900)"
| "answers (RefreshReq q) x = (\<exists>access refresh. x = TokenResponse access refresh ''Bearer'' 900)"
| "answers LogoutReq x = (x = MessageResponse ''Logout successful'')"
| "answers LogoutAllReq x = (x = MessageResponse ''Logout all successful'')"
| "answers (CreateServerReq q) x = (\<exists>server. x = ServerResponse server)"
| "answers (UpdateServerReq q) x = (\<exists>server. x = ServerResponse server)"
| "answers (DeleteServerReq q) x = (x = DeleteResponse True)"
| "answers (ViewServersReq q) x = (\<exists>n servers. x = ViewResponse n servers)"
| "answers (ImportServersReq q) x = (\<exists>result. x = ImportResponse result)"
| "answers (ExportServersReq q) x = (\<exists>bytes filename. x = ExportResponse bytes filename)"
| "answers (RequestReportReq q) x = (x = Waiting \<or> (\<exists>st m. x = ReportResponse st 202 m))"

lemma answer_inr: "answer f r = Returns (Inr x) \<longleftrightarrow> (\<exists>y. r = Returns (Inr y) \<and> x = f y)"
  by (cases "(f, r)" rule: answer.cases) auto

lemma login_expires: "Login d now fresh email pw ip ua s = (Inr r, s') \<Longrightarrow> LR_ExpiresIn r = 900"
  by (auto simp: Login_def Let_def split: sum.splits prod.splits option.splits if_splits)

lemma refresh_expires:
  assumes "Refresh d now fresh tok s = (Returns (Inr r), s')"
  shows "RR_ExpiresIn r = 900"
proof -
  from assms obtain x tt session ts u tu where *: "tok \<noteq> []"
    "FindByTokenHash (as_tokens d) (HashToken tok) (st_tokens s) = (Inr x, tt)"
    "RT_RevokedAt x = None" "\<not> RT_ExpiresAt x < now"
    "FindActiveByID (as_sessions d) now (RT_SessionID x) (st_sessions s) = (Inr session, ts)"
    "FindByID (as_users d) (AS_UserID session) (st_users s) = (Inr (Some u), tu)"
    by (rule Refresh_success)
  from assms Refresh_found [OF *, of fresh] show ?thesis by (auto simp: Let_def split: sum.splits)
qed

lemma with_identity_res: "with_identity f s = (x, s') \<Longrightarrow> \<exists>i i'. f i = (x, i')"
  by (auto simp: with_identity_def split: prod.splits)

lemma login_handler_success:
  assumes "LoginHandler h i c req s = (Returns (Inr r), s')"
  obtains q ip result s1 where "req = Some q" and "getClientIP c = Returns ip"
    and "with_identity (Login (hs_auth h) (in_now i) (in_token i) (LQ_Identifier q) (LQ_Password q) ip (getUserAgent c)) s = (Inr result, s1)"
    and "r = TokenResponse (LR_AccessToken result) (LR_RefreshToken result) ''Bearer'' (LR_ExpiresIn result)"
    and "s' = with_cookies i (LR_AccessToken result) (LR_RefreshToken result) (LR_ExpiresIn result) s1"
  using assms unfolding LoginHandler_def refuse_def
  by (auto split: option.splits if_splits go.splits prod.splits sum.splits auth_error.splits)

lemma refresh_handler_success:
  assumes "RefreshHandler h i req s = (Returns (Inr r), s')"
  obtains tok result s1 where "req = Some tok"
    and "with_identity (Refresh (hs_auth h) (in_now i) (in_token i) tok) s = (Returns (Inr result), s1)"
    and "r = TokenResponse (RR_AccessToken result) (RR_RefreshToken result) ''Bearer'' (RR_ExpiresIn result)"
  using assms unfolding RefreshHandler_def refuse_def
  by (auto split: option.splits if_splits go.splits prod.splits sum.splits auth_error.splits)

lemma dispatch_answers:
  assumes "dispatch h i c req s = (Returns (Inr r), s')"
  shows "answers req r"
proof (cases req)
  case (LoginReq q)
  with assms show ?thesis
    by (auto elim!: login_handler_success dest!: with_identity_res login_expires)
next
  case (RefreshReq q)
  with assms show ?thesis
    by (auto elim!: refresh_handler_success dest!: with_identity_res refresh_expires)
next
  case LogoutReq
  with assms show ?thesis by (auto simp: LogoutHandler_def split: option.splits if_splits go.splits prod.splits sum.splits bool.splits)
next
  case LogoutAllReq
  with assms show ?thesis
    by (auto simp: LogoutAllHandler_def refuse_def split: option.splits if_splits go.splits prod.splits sum.splits bool.splits)
next
  case (RequestReportReq q)
  with assms show ?thesis
    by (auto simp: RequestReportHandler_def with_reports_def refuse_def split: option.splits if_splits go.splits prod.splits sum.splits)
qed (use assms in \<open>auto simp: CreateServerHandler_def UpdateServerHandler_def DeleteServerHandler_def ViewServersHandler_def
    ImportServersHandler_def ExportServersHandler_def request_required_def refuse_def answer_inr
    split: option.splits prod.splits sum.splits\<close>)

lemma serve_dispatched:
  fixes s :: "app_state gstate"
  assumes "serve d h i c req s = (Returns (Inr r), s')"
  obtains c' s1 where "dispatch h i c' req s1 = (Returns (Inr r), s')" and "gs_app s1 = gs_app s"
proof -
  let ?out = "inner_chain d (in_now i) c req (method_of req) (dispatch h i) s"
  have "recovered ?out = (Returns (Inr r), s')" using assms by (simp add: serve_def server_recovered)
  then have out: "?out = (Returns (Inr r), s')"
    by (cases ?out; cases "fst ?out") (auto simp: recovered_def)
  then have "\<not> refused s ?out" by (simp add: refused_def)
  with server_gate.reached [of d "in_now i" c req "method_of req" "dispatch h i" s, OF refl] out that show thesis by metis
qed


section \<open>From the login to a later call\<close>

definition no_limits :: "GRPCServerDeps \<Rightarrow> bool" where
  "no_limits d \<longleftrightarrow> (case gd_RateLimitConfig d of None \<Rightarrow> True | Some cfg \<Rightarrow> \<not> RL_Enabled cfg)"

definition no_csrf :: "ctx \<Rightarrow> bool" where
  "no_csrf c \<longleftrightarrow> (\<forall>md. cx_md c = Some md \<longrightarrow> md ''cookie-csrf-token'' = [] \<and> md ''x-csrf-token'' = [])"

definition may_call :: "Principal \<Rightarrow> request \<Rightarrow> bool" where
  "may_call p req \<longleftrightarrow> (case map_of buildGRPCMethodPermissions (method_of req) of None \<Rightarrow> True
     | Some required \<Rightarrow> HasPermission NewAuthorizer (Some p) required)"

lemma limit_off: "no_limits d \<Longrightarrow> rateLimitInterceptor rr uni l kb (gd_RateLimitConfig d) ph now c req m k s = k c req s"
  by (auto simp: no_limits_def rateLimitInterceptor_def split: option.splits)

lemma csrf_off: "no_csrf c \<Longrightarrow> CSRFInterceptor c req m k s = k c req s"
  by (cases "cx_md c") (auto simp: no_csrf_def CSRFInterceptor_def firstMetadataValue_def)

lemma served_with_token:
  assumes "no_limits d" and "no_csrf c" and "gd_Validator d = Iface validate" and "validate req = None"
    and "gd_Authenticator d = Some a" and "gd_Authorizer d = Some NewAuthorizer"
    and "map_of buildGRPCPublicMethods (method_of req) \<noteq> Some True"
    and "extractBearerTokenFromMetadata c = Inr tok" and "Authenticate (gd_jwt d) a (in_now i) tok (gs_redis s) = (Returns (Inr p), db)"
  shows "serve d h i c req s = recovered (if may_call p req
    then dispatch h i (SetPrincipal c (Some p)) req (s\<lparr>gs_redis := db\<rparr>) else refuse PermissionDenied ''forbidden'' (s\<lparr>gs_redis := db\<rparr>))"
  unfolding serve_def server_recovered inner_chain_def Let_def chain_def limit_off [OF assms(1)] 
  using assms(2-)
  by (simp add: ValidationInterceptor_def csrf_off AuthenticationInterceptor_def PermissionInterceptor_def GetPrincipal_def SetPrincipal_def
      may_call_def split: option.split)

lemma served_public:
  assumes "no_limits d" and "no_csrf c" and "gd_Validator d = Iface validate" and "validate req = None"
    and "gd_Authenticator d = Some a" and "gd_Authorizer d = Some z"
    and "map_of buildGRPCPublicMethods (method_of req) = Some True" and "map_of buildGRPCMethodPermissions (method_of req) = None"
  shows "serve d h i c req s = recovered (dispatch h i c req s)"
  unfolding serve_def server_recovered inner_chain_def Let_def chain_def limit_off [OF assms(1)]
  using assms(2-) by (simp add: ValidationInterceptor_def csrf_off AuthenticationInterceptor_def PermissionInterceptor_def)

lemma login_served:
  assumes "serve d h i c (LoginReq (Some q)) s = (Returns (Inr (TokenResponse access refresh typ e)), s1)"
  obtains ip ua r t t' where "Login (hs_auth h) (in_now i) (in_token i) (LQ_Identifier q) (LQ_Password q) ip ua t = (Inr r, t')"
    and "LR_AccessToken r = access" and "st_users t = ap_users (gs_app s)"
proof -
  from serve_dispatched [OF assms] obtain c1 s0
    where l: "LoginHandler h i c1 (Some q) s0 = (Returns (Inr (TokenResponse access refresh typ e)), s1)" and app: "gs_app s0 = gs_app s"
    by (metis dispatch.simps(1))
  from l obtain ip r s2 where w: "with_identity (Login (hs_auth h) (in_now i) (in_token i) (LQ_Identifier q) (LQ_Password q) ip (getUserAgent c1)) s0 = (Inr r, s2)"
    and r: "LR_AccessToken r = access" by (rule login_handler_success) auto
  define t where "t = \<lparr>st_users = ap_users (gs_app s), st_sessions = ap_sessions (gs_app s), st_tokens = ap_tokens (gs_app s), st_redis = gs_redis s0\<rparr>"
  from w app obtain t' where "Login (hs_auth h) (in_now i) (in_token i) (LQ_Identifier q) (LQ_Password q) ip (getUserAgent c1) t = (Inr r, t')"
    by (auto simp: with_identity_def t_def split: prod.splits)
  from this r show thesis by (rule that) (simp add: t_def)
qed

text \<open>The token of a login authenticates one principal, that of the user who logged in, until it expires or is revoked.\<close>

lemma login_principal:
  assumes "identity_store (hs_auth h) rd" and "jwt_lib (as_jwt (hs_auth h))" and "exists_succeed rd"
    and "\<And>i. uuid_String (as_uuid (hs_auth h)) i \<noteq> []"
    and "gd_jwt d = as_jwt (hs_auth h)"
    and "serve d h i c (LoginReq (Some q)) s = (Returns (Inr (TokenResponse access refresh typ e)), s1)"
  obtains u p where "u \<in> set (rows (ap_users (gs_app s)))" and "U_DeletedAt u = None" and "U_Email u = LQ_Identifier q"
    and "as_bcrypt (hs_auth h) (U_Password u) (LQ_Password q)" and "P_UserID p = nat_string (U_ID u)" and "P_RoleCode p = U_RoleCode u"
    and "\<exists>sid. GenerateAccessToken (as_jwt (hs_auth h)) (as_uuid (hs_auth h)) (as_secret (hs_auth h)) (in_now i) (U_ID u) (U_RoleCode u) sid = Inr access"
    and "\<forall>now db. now < unix_time (Unix (in_now i + 15 * minute)) \<longrightarrow> (\<forall>k. \<not> str_live now (revoked_key k) (rdata db))
      \<longrightarrow> (\<exists>db'. Authenticate (gd_jwt d) (NewAuthenticator (as_secret (hs_auth h)) (as_redis (hs_auth h))) now access db = (Returns (Inr p), db'))"
proof -
  obtain ip ua r t t' where t: "Login (hs_auth h) (in_now i) (in_token i) (LQ_Identifier q) (LQ_Password q) ip ua t = (Inr r, t')"
    and r: "LR_AccessToken r = access" and users: "st_users t = ap_users (gs_app s)" by (rule login_served [OF assms(6)])
  obtain session
    where "CreateSession (as_sessions (hs_auth h)) (new_session (LR_User r) (in_now i) ip ua) (st_sessions t) = (Inr session, st_sessions t')"
      and g: "GenerateAccessToken (as_jwt (hs_auth h)) (as_uuid (hs_auth h)) (as_secret (hs_auth h)) (in_now i)
      (U_ID (LR_User r)) (U_RoleCode (LR_User r)) (AS_ID session) = Inr access"
    by (rule login_signs [OF t, unfolded r])
  define p where "p = claims_principal (payload_claims (access_payload (as_uuid (hs_auth h)) (in_now i) (U_ID (LR_User r)) (U_RoleCode (LR_User r)) (AS_ID session)))"
  have redis: "redis_client rd" "as_redis (hs_auth h) = Iface rd" using assms(1) by (simp_all add: identity_store_def identity_store_axioms_def)
  have db: "\<exists>db'. Authenticate (gd_jwt d) (NewAuthenticator (as_secret (hs_auth h)) (as_redis (hs_auth h))) now access db = (Returns (Inr p), db')"
    if "now < unix_time (Unix (in_now i + 15 * minute))" "\<And>k. \<not> str_live now (revoked_key k) (rdata db)" for now db
    using authenticate_signed [OF redis(1) assms(2,3) g that(1) assms(4), of db] assms(5) that(2) redis(2)
    by (auto simp: p_def prod_eq_iff)
  have p: "P_UserID p = nat_string (U_ID (LR_User r))" "P_RoleCode p = U_RoleCode (LR_User r)"
    by (simp_all add: p_def claims_principal_def payload_claims_def access_payload_def)
  obtain tu where f: "FindByEmail (as_users (hs_auth h)) (LQ_Identifier q) (st_users t) = (Inr (Some (LR_User r)), tu)"
    and pw: "as_bcrypt (hs_auth h) (U_Password (LR_User r)) (LQ_Password q)" by (rule login_finds [OF t])
  from g have sid: "\<exists>sid. GenerateAccessToken (as_jwt (hs_auth h)) (as_uuid (hs_auth h)) (as_secret (hs_auth h)) (in_now i)
      (U_ID (LR_User r)) (U_RoleCode (LR_User r)) sid = Inr access" by (rule exI)
  note find = identity_store.find_by_email(2) [OF assms(1) f refl]
  have "LR_User r \<in> set (rows (ap_users (gs_app s)))" "U_DeletedAt (LR_User r) = None" "U_Email (LR_User r) = LQ_Identifier q"
    using find by (simp_all add: users)
  then show thesis using pw p sid by (rule that) (use db in blast)
qed

text \<open>The token of a login, in a later call to a server with the same secret and stores.\<close>

lemma login_then_serve:
  assumes "identity_store (hs_auth h) rd" and "jwt_lib (as_jwt (hs_auth h))" and "exists_succeed rd"
    and "\<And>i. uuid_String (as_uuid (hs_auth h)) i \<noteq> []"
    and "gd_Authenticator d = Some (NewAuthenticator (as_secret (hs_auth h)) (as_redis (hs_auth h)))" and "gd_jwt d = as_jwt (hs_auth h)"
    and "gd_Authorizer d = Some NewAuthorizer" and "gd_Validator d = Iface validate" and "validate req = None" and "no_limits d"
    and "serve d h i c (LoginReq (Some q)) s = (Returns (Inr (TokenResponse access refresh typ e)), s1)"
    and "map_of buildGRPCPublicMethods (method_of req) \<noteq> Some True"
    and "cx_md c' = Some md" and "md ''authorization'' = (''Bearer '' @ access) # vs" and "cookie_safe access" and "no_csrf c'"
    and "in_now i' < unix_time (Unix (in_now i + 15 * minute))"
    and "\<And>k. \<not> str_live (in_now i') (revoked_key k) (rdata (gs_redis s'))"
  shows "\<exists>u p db. u \<in> set (rows (ap_users (gs_app s))) \<and> U_DeletedAt u = None \<and> U_Email u = LQ_Identifier q
    \<and> as_bcrypt (hs_auth h) (U_Password u) (LQ_Password q) \<and> P_UserID p = nat_string (U_ID u) \<and> P_RoleCode p = U_RoleCode u
    \<and> serve d h i' c' req s' = recovered (if may_call p req
        then dispatch h i' (SetPrincipal c' (Some p)) req (s'\<lparr>gs_redis := db\<rparr>) else refuse PermissionDenied ''forbidden'' (s'\<lparr>gs_redis := db\<rparr>))"
proof -
  obtain u p where u: "u \<in> set (rows (ap_users (gs_app s)))" "U_DeletedAt u = None" "U_Email u = LQ_Identifier q"
    "as_bcrypt (hs_auth h) (U_Password u) (LQ_Password q)" "P_UserID p = nat_string (U_ID u)" "P_RoleCode p = U_RoleCode u"
    and "\<exists>sid. GenerateAccessToken (as_jwt (hs_auth h)) (as_uuid (hs_auth h)) (as_secret (hs_auth h)) (in_now i) (U_ID u) (U_RoleCode u) sid = Inr access"
    and "\<forall>now db. now < unix_time (Unix (in_now i + 15 * minute)) \<longrightarrow> (\<forall>k. \<not> str_live now (revoked_key k) (rdata db))
      \<longrightarrow> (\<exists>db'. Authenticate (gd_jwt d) (NewAuthenticator (as_secret (hs_auth h)) (as_redis (hs_auth h))) now access db = (Returns (Inr p), db'))"
    by (rule login_principal [OF assms(1-4,6,11)])
  from this(8) assms(17,18) obtain db
    where "Authenticate (gd_jwt d) (NewAuthenticator (as_secret (hs_auth h)) (as_redis (hs_auth h))) (in_now i') access (gs_redis s') = (Returns (Inr p), db)" by blast
  from served_with_token [OF assms(10,16,8,9,5,7,12) bearer_header [OF assms(15,13,14)] this, of h] u show ?thesis by blast
qed

text \<open>A logout of a token without a session needs no store.\<close>

lemma demo_logout: "\<exists>s'. serve demo_deps h i demo_call LogoutReq s = (Returns (Inr (MessageResponse ''Logout successful'')), s')"
proof -
  have "no_limits demo_deps" "no_csrf demo_call" by (simp_all add: no_limits_def no_csrf_def demo_deps_def demo_call_def demo_md_def)
  moreover have "map_of buildGRPCPublicMethods (method_of LogoutReq) \<noteq> Some True"
    by (simp add: buildGRPCPublicMethods_def method_defs)
  moreover obtain p where "Authenticate (gd_jwt demo_deps) (NewAuthenticator ''s'' NilIface) (in_now i) ''good'' (gs_redis s) = (Returns (Inr p), gs_redis s)"
    and "P_SessionID p = []" by (simp add: Authenticate_def NewAuthenticator_def demo_deps_def demo_jwt_def claims_principal_def)
  ultimately show ?thesis
    using served_with_token [of demo_deps demo_call "\<lambda>_. None" LogoutReq, OF _ _ _ _ _ _ _ demo_bearer, of _ i s p "gs_redis s" h]
    by (simp add: demo_deps_def may_call_def buildGRPCMethodPermissions_def method_defs LogoutHandler_def GetPrincipal_def SetPrincipal_def
        recovered_def)
qed


section \<open>The import over REST\<close>

text \<open>The data of a part is within the body.\<close>

definition parts_within :: "multipart \<Rightarrow> bool" where
  "parts_within mp \<longleftrightarrow> (\<forall>b raw. \<forall>part\<in>set (mp b raw). length (snd part) \<le> length raw)"

lemma import_file_size:
  assumes "parts_within mp" and "read_body r = Some raw"
    and "extractFileFromMultipart mp ct raw = f"
  shows "length (case f of None \<Rightarrow> raw | Some b \<Rightarrow> b) \<le> maxFileSize"
proof -
  have "length raw \<le> maxFileSize"
    using assms(2) by (auto simp: read_body_def maxSize_def maxFileSize_def split: sum.splits if_splits)
  moreover have "length b \<le> length raw" if "f = Some b" for b
    using assms(1,3) that
    by (fastforce simp: parts_within_def extractFileFromMultipart_def Let_def split: if_splits dest!: map_of_SomeD)
  ultimately show ?thesis by (cases f) (auto intro: order_trans)
qed

lemma batch_not_too_large: "fst (processBatch d result batch t) \<noteq> Returns (Inl ErrFileTooLarge)"
  by (auto simp: processBatch_def dual_write_def Let_def split: prod.splits sum.splits option.splits go.splits)

lemma rows_not_too_large: "fst (import_rows d nameIdx ipIdx rws result batch t) \<noteq> Returns (Inl ErrFileTooLarge)"
proof (induction d nameIdx ipIdx rws result batch t rule: import_rows.induct)
  case (2 d nameIdx ipIdx cols rest result batch t)
  then show ?case
    using batch_not_too_large [of d result "batch @ [imported (column nameIdx cols) (column ipIdx cols)]" t]
    by (auto simp: Let_def split: prod.split go.split sum.split)
qed (simp add: batch_not_too_large)

lemma import_not_too_large:
  "length bytes \<le> maxFileSize \<Longrightarrow> ImportServers d xl bytes t \<noteq> (Returns (Inl ErrFileTooLarge), t')"
  using rows_not_too_large [of d]
  by (auto simp: ImportServers_def Let_def prod_eq_iff split: option.splits sum.splits list.splits prod.splits if_splits)

text \<open>The answers of the handler behind the middlewares.\<close>

lemma handle_import_answers:
  assumes "parts_within mp"
    and "HandleImport h mp r s = (Returns resp, s')"
  shows "hp_status resp = 405 \<and> s' = s \<or> hp_status resp = 400 \<or> hp_status resp = 500
    \<or> hr_method r = ''POST'' \<and> hp_status resp = 200 \<and> (\<exists>bytes result. length bytes \<le> maxFileSize \<and> hp_body resp = ImportBody result
        \<and> with_servers (ImportServers (hs_server h) (hs_excel h) bytes) s = (Returns (Inr result), s'))"
proof (cases "hr_method r = ''POST'' \<and> read_body r \<noteq> None")
  case False
  with assms(2) show ?thesis by (auto simp: HandleImport_def reply_def writeError_def writeJSON_def split: if_splits)
next
  case True
  then obtain raw where raw: "read_body r = Some raw" by blast
  define bytes where "bytes = (case extractFileFromMultipart mp (header_Get r ''Content-Type'') raw of None \<Rightarrow> raw | Some b \<Rightarrow> b)"
  have len: "length bytes \<le> maxFileSize" unfolding bytes_def by (rule import_file_size [OF assms(1) raw refl])
  obtain x s1 where x: "with_servers (ImportServers (hs_server h) (hs_excel h) bytes) s = (x, s1)" by fastforce
  moreover from this have "x \<noteq> Returns (Inl ErrFileTooLarge)"
    using import_not_too_large [OF len] by (auto simp: with_servers_def split: prod.splits)
  ultimately show ?thesis
    using assms(2) True raw len
    by (auto simp: HandleImport_def reply_def writeError_def writeJSON_def bytes_def [symmetric] split: go.splits sum.splits if_splits)
qed


end
