(* ===== verification/App_Props.thy ===== *)
theory App_Props
  imports App Reporting_Props Server_Spec Handlers_Props
begin

text \<open>
  What the composed API process guarantees: the effect of a missing Redis on every call, the way of a
  token from the login to later calls, the answers of the handlers and the period of the daily report.
\<close>

section \<open>Without Redis\<close>

definition redis_off :: "env \<Rightarrow> bool" where
  "redis_off env \<longleftrightarrow> (\<forall>c. app_redis_config env = Some c \<longrightarrow> \<not> RD_Enabled c)"

lemma client_off: "redis_off env \<Longrightarrow> iface_of_pointer (NewRedisClient dial (app_redis_config env)) = TypedNil"
  by (auto simp: redis_off_def NewRedisClient_def iface_of_pointer_def split: option.splits)

lemma new_deps:
  assumes "New w ev st = (Inr a, ev', st')" and "redis_off (ev_vars ev')"
  shows "gd_Authenticator (app_deps a) = Some (NewAuthenticator (CF_JWTSecret (app_config a)) TypedNil)"
    and "gd_jwt (app_deps a) = ow_jwt w"
    and "gd_RateLimitConfig (app_deps a) = (case LoadRateLimitConfig (ev_vars ev') of Inl _ \<Rightarrow> None | Inr c \<Rightarrow> Some c)"
    and "gd_RateLimiter (app_deps a) = (case gd_RateLimitConfig (app_deps a) of None \<Rightarrow> NilIface
      | Some c \<Rightarrow> if RL_Enabled c then Iface \<lparr>rl_client = TypedNil\<rparr> else NilIface)"
  using assms client_off [OF assms(2)]
  by (auto simp: New_def Let_def app_deps_of_def app_limiter_def NewRedisLimiter_def split: prod.splits sum.splits option.splits)

lemma authenticate_typed_nil:
  assumes "jwt_parse j now [''HS256''] sec tok = Inr cl" and "C_SessionID cl \<noteq> []"
  shows "Authenticate j (NewAuthenticator sec TypedNil) now tok db = (Panics nil_dereference, db)"
  using assms by (simp add: Authenticate_def NewAuthenticator_def)

text \<open>C33: When Redis is disabled, which is the default, or its configuration does not load, the API starts and
  then refuses every call of a method that is not public and carries a valid access token of a session:
  the check of the revocation list dereferences a nil client. Nothing is changed.\<close>

theorem no_redis_no_calls:
  assumes "New w ev st = (Inr a, ev', st')" and "redis_off (ev_vars ev')"
    and "map_of buildGRPCPublicMethods (method_of req) \<noteq> Some True"
    and "extractBearerTokenFromMetadata c = Inr tok"
    and "jwt_parse (ow_jwt w) (in_now i) [''HS256''] (CF_JWTSecret (app_config a)) tok = Inr cl" and "C_SessionID cl \<noteq> []"
  shows "\<exists>e s'. app_serve a i c req s = (Returns (Inl e), s') \<and> gs_app s' = gs_app s"
proof -
  let ?m = "method_of req" and ?d = "app_deps a"
  let ?out = "inner_chain ?d (in_now i) c req ?m (dispatch (app_services a) i) s"
  have out: "app_serve a i c req s = recovered ?out"
    by (simp add: app_serve_def serve_def server_recovered)
  have "\<not> server_passage ?d (in_now i) c req ?m s c' s'" for c' s'
    using new_deps(1,2) [OF assms(1,2)] authenticate_typed_nil [OF assms(5,6)] assms(3,4)
    by (auto simp: server_passage_def authenticated_def)
  with server_gate.reached [of ?d "in_now i" c req ?m "dispatch (app_services a) i" s, OF refl]
  have "refused s ?out" by blast
  then have "refused s (recovered ?out)" by (rule refused_recovered)
  with recovered_returns [of ?out] show ?thesis unfolding out by (metis old.sum.exhaust refused_def fst_conv snd_conv)
qed

text \<open>When rate limits are enabled without Redis, every login with an identifier is answered with an internal
  error, also when the limits are configured to fail open: the limiter panics instead of returning an
  error.\<close>

theorem limits_without_redis_block_login:
  assumes "New w ev st = (Inr a, ev', st')" and "redis_off (ev_vars ev')"
    and "LoadRateLimitConfig (ev_vars ev') = Inr cfg" and "RL_Enabled cfg"
    and "ToLower (gd_uni (app_deps a)) (TrimSpace (LQ_Identifier q)) \<noteq> []"
  shows "app_serve a i c (LoginReq (Some q)) s = (Returns (Inl (Status Internal ''internal server error'')), s)"
proof -
  let ?d = "app_deps a" and ?p = "PolicyForMethod Login_method" and ?req = "LoginReq (Some q)"
  let ?checks = "buildRateLimitChecks (gd_uni ?d) c ?req (gd_RateLimitKeyBuilder ?d) (PL_Name ?p) (PL_Scopes ?p)"
  have cfg: "gd_RateLimitConfig ?d = Some cfg" using new_deps(3) [OF assms(1,2)] assms(3) by simp
  with new_deps(4) [OF assms(1,2)] assms(4) have l: "gd_RateLimiter ?d = Iface \<lparr>rl_client = TypedNil\<rparr>" by simp
  have "\<exists>sc pn v cs. ?checks = (sc, Build (gd_uni ?d) (gd_RateLimitKeyBuilder ?d) pn sc v) # cs"
    using assms(5)
    by (cases "extractClientIP c = []") (auto simp: policy_login valueForRateLimitScope_def identifierFromRequest_def scope_defs Let_def)
  then obtain sc pn v cs where "?checks = (sc, Build (gd_uni ?d) (gd_RateLimitKeyBuilder ?d) pn sc v) # cs" by blast
  moreover have "limiter_Allow rr (Iface \<lparr>rl_client = TypedNil\<rparr>) now (Build u kb pn sc v) ?p db = (Panics nil_dereference, db)" for rr now u kb db
    using policy_usable [of Login_method] by (simp add: limiter_Allow_def Allow_def Let_def)
  ultimately have "inner_chain ?d (in_now i) c ?req Login_method (dispatch (app_services a) i) s = (Panics nil_dereference, s)"
    using cfg l assms(4) policy_login(1)
    by (simp add: inner_chain_def chain_def rateLimitInterceptor_def Let_def)
  then show ?thesis by (simp add: app_serve_def serve_def server_recovered recovered_def)
qed

subsection \<open>An instance: no Redis, in-memory tables, a token library that knows one token\<close>

definition session_jwt :: jwt where
  "session_jwt = \<lparr>jwt_sign = (\<lambda>_ _. Inl []), jwt_parse = (\<lambda>now ms sec tok. if tok = ''good''
     then Inr \<lparr>C_UserID = ''7'', C_SessionID = ''s'', C_Username = [], C_Email = [], C_RoleID = [], C_RoleCode = RoleCodeUser, C_ExpiresAt = 9\<rparr>
     else Inl ''bad'')\<rparr>"

definition demo_databases :: databases where
  "demo_databases = \<lparr>db_users = mem_gorm (\<lambda>_. None) (\<lambda>n x. x) (\<lambda>_. True), db_sessions = mem_gorm (\<lambda>_. None) (\<lambda>n x. x) (\<lambda>_. True),
     db_tokens = mem_gorm (\<lambda>_. None) (\<lambda>n x. x) (\<lambda>_. True), db_servers = mem_gorm (\<lambda>_. None) (\<lambda>n x. x) (\<lambda>_. True),
     db_reports = mem_gorm (\<lambda>_. None) (\<lambda>n x. x) (\<lambda>_. True)\<rparr>"

definition demo_excel :: excelize where
  "demo_excel = \<lparr>xl_open = (\<lambda>_. None), xl_stream = None, xl_style = None, xl_cell = nat_string, xl_set_row = (\<lambda>_ _. None),
     xl_flush = None, xl_write = (\<lambda>_. Inr [])\<rparr>"

definition demo_smtp :: smtp_server where
  "demo_smtp = \<lparr>sm_Dial = (\<lambda>_. None), sm_NewClient = (\<lambda>_. None), sm_StartTLS = (\<lambda>_. None), sm_Auth = (\<lambda>_ _ _. None), sm_Mail = (\<lambda>_. None),
     sm_Rcpt = (\<lambda>_. None), sm_Data = None, sm_Write = (\<lambda>_. None), sm_Close = None, sm_Quit = None\<rparr>"

definition demo_outside :: outside where
  "demo_outside = \<lparr>ow_dotenv = (\<lambda>_ e. e), ow_database = (\<lambda>_. Inr demo_databases), ow_bcrypt_hash = Inr, ow_bcrypt = (\<lambda>h p. h = p),
     ow_redis = (\<lambda>_. mem_redis (\<lambda>_. None)), ow_redis_ping = (\<lambda>_. None), ow_elastic = (\<lambda>_. Inl ''down''), ow_elastic_info = (\<lambda>_. None),
     ow_validator = Inr (\<lambda>_. None), ow_jwt = session_jwt, ow_uuid = \<lparr>uuid_String = (\<lambda>u. nat_string (unat u)), uuid_Parse = (\<lambda>_. None)\<rparr>,
     ow_rate = (\<lambda>_ _ _ _ _ _ db. (Inl RedisNil, db)), ow_uni = (\<lambda>x. x), ow_ilike = (=), ow_excel = demo_excel, ow_loc = (\<lambda>_. 0),
     ow_template = (\<lambda>_. Inr []), ow_smtp = (\<lambda>_. demo_smtp), ow_scan_error = (\<lambda>x. x), ow_date_error = (\<lambda>x. x)\<rparr>"

definition demo_tables :: app_state where
  "demo_tables = \<lparr>ap_users = \<lparr>rows = [], tenv = 0\<rparr>, ap_sessions = \<lparr>rows = [], tenv = 0\<rparr>, ap_tokens = \<lparr>rows = [], tenv = 0\<rparr>,
     ap_servers = \<lparr>rows = [], tenv = 0\<rparr>,
     ap_reports = \<lparr>rp_reports = \<lparr>rows = [], tenv = 0\<rparr>, rp_servers = \<lparr>rows = [], tenv = 0\<rparr>, rp_es = 0, rp_outbox = [],
       rp_sending = [], rp_queue = [], rp_closed = False, rp_running = []\<rparr>\<rparr>"

definition demo_app_state :: "app_state gstate" where
  "demo_app_state = \<lparr>gs_redis = \<lparr>rdata = \<lparr>hashes = (\<lambda>_. []), rsets = (\<lambda>_. []), rstrs = (\<lambda>_. None)\<rparr>, renv = 0\<rparr>, gs_headers = [], gs_app = demo_tables\<rparr>"

definition demo_inputs :: inputs where
  "demo_inputs = \<lparr>in_now = 0, in_token = 1, in_report = 2, in_correlation = ''c'', in_rand = Inl ''none''\<rparr>"

text \<open>The environment with only the limits switched on, or with nothing set.\<close>

definition demo_env :: "bool \<Rightarrow> env_state" where
  "demo_env limits = \<lparr>ev_vars = (\<lambda>k. if limits \<and> k = ''RATE_LIMIT_ENABLED'' then ''true'' else []), ev_loaded = True\<rparr>"

lemma demo_redis_off: "redis_off (ev_vars (demo_env limits))"
  by (simp add: redis_off_def app_redis_config_def LoadRedisConfig_def demo_env_def)

lemma demo_load: "\<exists>cfg. Load (\<lambda>_ e. e) (demo_env limits) = (Inr cfg, demo_env limits)"
  by (simp add: Load_def loadEnv_def demo_env_def Let_def)

lemma demo_new: "\<exists>a st'. New demo_outside (demo_env limits) demo_tables = (Inr a, demo_env limits, st') \<and> gd_uni (app_deps a) = (\<lambda>x. x)"
proof -
  obtain cfg where "Load (\<lambda>_ e. e) (demo_env limits) = (Inr cfg, demo_env limits)" using demo_load by blast
  then show ?thesis by (simp add: New_def demo_outside_def Let_def app_deps_of_def)
qed

lemma demo_limits: "\<exists>cfg. LoadRateLimitConfig (ev_vars (demo_env True)) = Inr cfg \<and> RL_Enabled cfg \<and> RL_FailOpen cfg"
proof -
  have "ParseBool ''true'' = Inr True" "TrimSpace ''portal:rl'' = ''portal:rl''"
    by (code_simp, simp add: TrimSpace_visible visible_def)
  then show ?thesis by (simp add: LoadRateLimitConfig_def demo_env_def GetEnvBool_def Validate_def Let_def)
qed

theorem no_redis_no_calls_witness:
  "\<exists>a e s'. fst (New demo_outside (demo_env False) demo_tables) = Inr a
     \<and> app_serve a demo_inputs demo_call (ViewServersReq None) demo_app_state = (Returns (Inl e), s') \<and> gs_app s' = demo_tables"
proof -
  obtain a st' where a: "New demo_outside (demo_env False) demo_tables = (Inr a, demo_env False, st')" using demo_new by blast
  have m: "map_of buildGRPCPublicMethods (method_of (ViewServersReq None)) \<noteq> Some True"
    by (simp add: buildGRPCPublicMethods_def method_defs)
  have "\<exists>cl. jwt_parse (ow_jwt demo_outside) (in_now demo_inputs) [''HS256''] (CF_JWTSecret (app_config a)) ''good'' = Inr cl \<and> C_SessionID cl \<noteq> []"
    by (simp add: demo_outside_def session_jwt_def)
  with no_redis_no_calls [OF a demo_redis_off m demo_bearer, of demo_inputs _ demo_app_state] a
  show ?thesis by (auto simp: demo_app_state_def)
qed

theorem limits_without_redis_block_login_witness:
  "\<exists>a. fst (New demo_outside (demo_env True) demo_tables) = Inr a \<and>
     app_serve a demo_inputs demo_call (LoginReq (Some \<lparr>LQ_Identifier = ''ann'', LQ_Password = ''pw''\<rparr>)) demo_app_state
       = (Returns (Inl (Status Internal ''internal server error'')), demo_app_state)"
proof -
  obtain a st' where a: "New demo_outside (demo_env True) demo_tables = (Inr a, demo_env True, st')"
    and u: "gd_uni (app_deps a) = (\<lambda>x. x)" using demo_new by blast
  obtain cfg where cfg: "LoadRateLimitConfig (ev_vars (demo_env True)) = Inr cfg" "RL_Enabled cfg" using demo_limits by blast
  have "ToLower (gd_uni (app_deps a)) (TrimSpace (LQ_Identifier \<lparr>LQ_Identifier = ''ann'', LQ_Password = ''pw''\<rparr>)) \<noteq> []"
    by (simp add: u TrimSpace_visible visible_def ToLower_def)
  from limits_without_redis_block_login [OF a demo_redis_off cfg this, of demo_inputs demo_call demo_app_state] a
  show ?thesis by auto
qed

section \<open>From the login to a later call\<close>

lemma new_parts:
  assumes "New w ev st = (Inr a, ev', st')"
  obtains db client es rl where "app_deps a = app_deps_of w (app_config a) client rl"
    and "app_services a = app_services_of w (app_config a) db client es"
    and "ow_database w (CF_DBUrl (app_config a)) = Inr db"
    and "client = iface_of_pointer (NewRedisClient (ow_redis w) (app_redis_config (ev_vars ev')))"
    and "rl = (case LoadRateLimitConfig (ev_vars ev') of Inl _ \<Rightarrow> None | Inr c \<Rightarrow> Some c)"
  using assms by (auto simp: New_def Let_def split: prod.splits sum.splits)

text \<open>The access token that a login returned, sent as bearer token in a later call while it is valid and no session
  is marked as revoked, makes the call run as the user who logged in: the handler of the method is called with a
  principal that has the id and the role of a live user with that address and password, or, when the role lacks
  the permission of the method, the call is refused as forbidden.\<close>

theorem login_then_call:
  assumes "New w ev st = (Inr a, ev', st')" and "identity_store (hs_auth (app_services a)) rd" and "jwt_lib (ow_jwt w)"
    and "exists_succeed rd" and "\<And>i. uuid_String (ow_uuid w) i \<noteq> []"
    and "ow_validator w = Inr validate" and "validate req = None" and "no_limits (app_deps a)"
    and "app_serve a i c (LoginReq (Some q)) s = (Returns (Inr (TokenResponse access refresh typ e)), s1)"
    and "map_of buildGRPCPublicMethods (method_of req) \<noteq> Some True"
    and "cx_md c' = Some md" and "md ''authorization'' = (''Bearer '' @ access) # vs" and "cookie_safe access" and "no_csrf c'"
    and "in_now i' < unix_time (Unix (in_now i + 15 * minute))"
    and "\<And>k. \<not> str_live (in_now i') (revoked_key k) (rdata (gs_redis s'))"
  shows "\<exists>u p db. u \<in> set (rows (ap_users (gs_app s))) \<and> U_DeletedAt u = None \<and> U_Email u = LQ_Identifier q
    \<and> ow_bcrypt w (U_Password u) (LQ_Password q) \<and> P_UserID p = nat_string (U_ID u) \<and> P_RoleCode p = U_RoleCode u
    \<and> app_serve a i' c' req s' = recovered (if may_call p req
        then dispatch (app_services a) i' (SetPrincipal c' (Some p)) req (s'\<lparr>gs_redis := db\<rparr>)
        else refuse PermissionDenied ''forbidden'' (s'\<lparr>gs_redis := db\<rparr>))"
proof -
  obtain db client es rl where d: "app_deps a = app_deps_of w (app_config a) client rl"
    "app_services a = app_services_of w (app_config a) db client es" by (rule new_parts [OF assms(1)])
  let ?h = "hs_auth (app_services a)"
  have "as_jwt ?h = ow_jwt w" "as_uuid ?h = ow_uuid w" "as_bcrypt ?h = ow_bcrypt w"
    "gd_Authenticator (app_deps a) = Some (NewAuthenticator (as_secret ?h) (as_redis ?h))" "gd_jwt (app_deps a) = as_jwt ?h"
    "gd_Authorizer (app_deps a) = Some NewAuthorizer" "gd_Validator (app_deps a) = Iface validate"
    using assms(6) by (simp_all add: d app_deps_of_def app_services_of_def)
  with login_then_serve [where validate = validate and req = req and md = md, OF assms(2) _ assms(4) _ _ _ _ _ assms(7,8) assms(9) [unfolded app_serve_def] assms(10-16)] assms(3,5)
  show ?thesis by (simp add: app_serve_def)
qed

subsection \<open>An instance: Redis and the tables in memory, the reference codec for tokens\<close>

definition live_outside :: outside where
  "live_outside = demo_outside\<lparr>ow_database := (\<lambda>_. Inr (demo_databases\<lparr>db_users := mem_users (\<lambda>_. None), db_sessions := mem_sessions (\<lambda>_. None),
     db_tokens := mem_tokens (\<lambda>_. None)\<rparr>)), ow_jwt := ref_jwt, ow_uuid := mem_uuid\<rparr>"

definition live_env :: env_state where
  "live_env = \<lparr>ev_vars = (\<lambda>k. if k = ''REDIS_ENABLED'' then ''true'' else if k = ''JWT_SECRET'' then ''secret'' else []), ev_loaded = True\<rparr>"

definition live_call :: "(string \<times> string) list \<Rightarrow> ctx" where
  "live_call kvs = \<lparr>cx_md = Some (\<lambda>k. map snd (filter (\<lambda>kv. fst kv = k) kvs)), cx_peer = Some (Some ''ip''), cx_principal = None\<rparr>"

definition live_state :: "app_state gstate" where
  "live_state = \<lparr>gs_redis = no_redis, gs_headers = [], gs_app = demo_tables\<lparr>ap_users := st_users empty_state\<rparr>\<rparr>"

lemma live_load: "\<exists>cfg. Load (\<lambda>_ e. e) live_env = (Inr cfg, live_env) \<and> CF_JWTSecret cfg = ''secret''"
  by (simp add: Load_def loadEnv_def live_env_def Let_def jwt_secret_def GetEnvDefault_def)

lemma live_redis: "\<exists>cfg. app_redis_config (ev_vars live_env) = Some cfg \<and> RD_Enabled cfg"
proof -
  have "ParseBool ''true'' = Inr True" by code_simp
  then show ?thesis by (simp add: app_redis_config_def LoadRedisConfig_def live_env_def GetEnvBool_def)
qed

lemma live_new:
  obtains a st' where "New live_outside live_env demo_tables = (Inr a, live_env, st')" and "hs_auth (app_services a) = demo_auth"
    and "no_limits (app_deps a)"
proof -
  obtain cfg where cfg: "Load (\<lambda>_ e. e) live_env = (Inr cfg, live_env)" "CF_JWTSecret cfg = ''secret''" using live_load by blast
  obtain rcfg where "app_redis_config (ev_vars live_env) = Some rcfg" "RD_Enabled rcfg" using live_redis by blast
  moreover have "\<forall>c. LoadRateLimitConfig (ev_vars live_env) = Inr c \<longrightarrow> \<not> RL_Enabled c"
    by (auto simp: LoadRateLimitConfig_def live_env_def Let_def split: if_splits option.splits)
  ultimately have "\<exists>a st'. New live_outside live_env demo_tables = (Inr a, live_env, st') \<and> hs_auth (app_services a) = demo_auth
      \<and> no_limits (app_deps a)"
    using cfg by (auto simp: New_def live_outside_def demo_outside_def Let_def app_services_of_def app_deps_of_def NewRedisClient_def
        iface_of_pointer_def demo_auth_def mem_auth_def no_limits_def split: sum.splits)
  then show thesis using that by blast
qed

lemma demo_token_safe:
  assumes "GenerateAccessToken ref_jwt mem_uuid ''secret'' now uid ''ADMIN'' sid = Inr tok"
  shows "cookie_safe tok"
proof -
  from assms obtain n1 n2 n3 n4 where "tok = nat_string n1 @ '':secret'' @ nat_string n2 @ '':'' @ nat_string uid @ nat_string n3 @ '':ADMIN''
      @ nat_string n4 @ '':'' @ nat_string (unat sid) @ Itoa (Unix (now + 15 * minute))"
    by (auto simp: GenerateAccessToken_def access_payload_def ref_jwt_def ref_sign_def mem_uuid_def net_string_def split: if_splits)
  then show ?thesis by (auto simp: cookie_safe_def Itoa_def visible_def dest!: digit_safe split: if_splits)
qed

definition live_login :: "ctx" where
  "live_login = live_call [(''user-agent'', ''ua'')]"

definition live_inputs :: "time \<Rightarrow> inputs" where
  "live_inputs now = \<lparr>in_now = now, in_token = 5, in_report = 2, in_correlation = ''c'', in_rand = Inl ''none''\<rparr>"

lemma live_login_serves:
  assumes "New live_outside live_env demo_tables = (Inr a, live_env, st')" and "hs_auth (app_services a) = demo_auth" and "no_limits (app_deps a)"
    and "getClientIP c = Returns ''ip''" and "getUserAgent c = ''ua''" and "no_csrf c" and "in_now i = 0" and "in_token i = 5"
  obtains access refresh s1 where
    "app_serve a i c (LoginReq (Some \<lparr>LQ_Identifier = ''a@b'', LQ_Password = ''pw''\<rparr>)) live_state
       = (Returns (Inr (TokenResponse access refresh ''Bearer'' 900)), s1)" and "cookie_safe access"
proof -
  obtain db client es rl where d: "app_deps a = app_deps_of live_outside (app_config a) client rl" by (rule new_parts [OF assms(1)])
  obtain r t where l: "Login demo_auth 0 5 ''a@b'' ''pw'' ''ip'' ''ua'' empty_state = (Inr r, t)" using demo_login by blast
  have user: "LR_User r = demo_user"
    by (rule login_finds [OF l]) (simp add: FindByEmail_def empty_state_def mem_engine demo_defs)
  obtain session where
    "CreateSession (as_sessions demo_auth) (new_session (LR_User r) 0 ''ip'' ''ua'') (st_sessions empty_state) = (Inr session, st_sessions t)"
    and g: "GenerateAccessToken (as_jwt demo_auth) (as_uuid demo_auth) (as_secret demo_auth) 0 (U_ID (LR_User r)) (U_RoleCode (LR_User r)) (AS_ID session)
      = Inr (LR_AccessToken r)" by (rule login_signs [OF l])
  have "cookie_safe (LR_AccessToken r)"
    using g user by (intro demo_token_safe) (simp add: demo_auth_def mem_auth_def demo_user_def)
  moreover have "serve (app_deps a) (app_services a) i c (LoginReq (Some \<lparr>LQ_Identifier = ''a@b'', LQ_Password = ''pw''\<rparr>)) live_state
      = recovered (LoginHandler (app_services a) i c (Some \<lparr>LQ_Identifier = ''a@b'', LQ_Password = ''pw''\<rparr>) live_state)"
    using assms(3,6) by (subst served_public)
      (simp_all add: d app_deps_of_def live_outside_def demo_outside_def buildGRPCPublicMethods_def buildGRPCMethodPermissions_def method_defs)
  moreover have "empty_state = \<lparr>st_users = ap_users (gs_app live_state), st_sessions = ap_sessions (gs_app live_state),
      st_tokens = ap_tokens (gs_app live_state), st_redis = gs_redis live_state\<rparr>"
    by (simp add: live_state_def empty_state_def demo_state_def demo_tables_def)
  note e = l [unfolded this]
  ultimately show thesis
    using login_expires [OF l] that e assms(2,4,5,7,8)
    by (simp add: app_serve_def LoginHandler_def with_identity_def recovered_def)
qed

lemma live_login_served:
  assumes "New live_outside live_env demo_tables = (Inr a, live_env, st')" and "hs_auth (app_services a) = demo_auth" and "no_limits (app_deps a)"
  obtains access refresh s1 where
    "app_serve a (live_inputs 0) live_login (LoginReq (Some \<lparr>LQ_Identifier = ''a@b'', LQ_Password = ''pw''\<rparr>)) live_state
       = (Returns (Inr (TokenResponse access refresh ''Bearer'' 900)), s1)" and "cookie_safe access"
proof -
  have c: "getClientIP live_login = Returns ''ip''" "getUserAgent live_login = ''ua''" "no_csrf live_login"
    "in_now (live_inputs 0) = 0" "in_token (live_inputs 0) = 5"
    by (simp_all add: getClientIP_def getUserAgent_def live_login_def live_call_def live_inputs_def no_csrf_def)
  show thesis by (rule live_login_serves [OF assms c]) (rule that)
qed

theorem login_then_call_witness:
  "\<exists>a access s1 p db. fst (New live_outside live_env demo_tables) = Inr a
     \<and> (\<exists>refresh. app_serve a (live_inputs 0) live_login (LoginReq (Some \<lparr>LQ_Identifier = ''a@b'', LQ_Password = ''pw''\<rparr>)) live_state
          = (Returns (Inr (TokenResponse access refresh ''Bearer'' 900)), s1))
     \<and> P_RoleCode p = RoleCodeAdmin
     \<and> app_serve a (live_inputs (14 * minute)) (live_call [(''authorization'', ''Bearer '' @ access)]) (ViewServersReq None) live_state
          = recovered (dispatch (app_services a) (live_inputs (14 * minute)) (SetPrincipal (live_call [(''authorization'', ''Bearer '' @ access)]) (Some p))
              (ViewServersReq None) (live_state\<lparr>gs_redis := db\<rparr>))"
proof -
  obtain a st' where a: "New live_outside live_env demo_tables = (Inr a, live_env, st')" "hs_auth (app_services a) = demo_auth" "no_limits (app_deps a)"
    by (rule live_new)
  then obtain access refresh s1 where l: "app_serve a (live_inputs 0) live_login (LoginReq (Some \<lparr>LQ_Identifier = ''a@b'', LQ_Password = ''pw''\<rparr>)) live_state
       = (Returns (Inr (TokenResponse access refresh ''Bearer'' 900)), s1)" and safe: "cookie_safe access" by (rule live_login_served)
  let ?c = "live_call [(''authorization'', ''Bearer '' @ access)]" and ?i = "live_inputs (14 * minute)" and ?req = "ViewServersReq None"
  have w: "ow_validator live_outside = Inr (\<lambda>_. None)" "jwt_lib (ow_jwt live_outside)" "\<And>i. uuid_String (ow_uuid live_outside) i \<noteq> []"
    using demo_succeeds(6) by (simp_all add: live_outside_def demo_outside_def demo_auth_def mem_auth_def mem_uuid_def)
  have r: "map_of buildGRPCPublicMethods (method_of ?req) \<noteq> Some True" by (simp add: buildGRPCPublicMethods_def method_defs)
  obtain md where md: "cx_md ?c = Some md" "md ''authorization'' = (''Bearer '' @ access) # []" and csrf: "no_csrf ?c"
    by (simp add: live_call_def no_csrf_def)
  have now: "in_now ?i < unix_time (Unix (in_now (live_inputs 0) + 15 * minute))" by (simp add: live_inputs_def unix_time_def Unix_def)
  have live: "\<And>k. \<not> str_live (in_now ?i) (revoked_key k) (rdata (gs_redis live_state))" by (simp add: str_live_def live_state_def no_redis_def)
  from login_then_call [OF a(1) demo_store [folded a(2)] w(2) mem_redis_succeeds(2) w(3,1) refl a(3) l r md safe csrf now live]
  obtain u p db where u: "u \<in> set (rows (ap_users (gs_app live_state)))" "P_RoleCode p = U_RoleCode u"
    and s: "app_serve a ?i ?c ?req live_state = recovered (if may_call p ?req
        then dispatch (app_services a) ?i (SetPrincipal ?c (Some p)) ?req (live_state\<lparr>gs_redis := db\<rparr>)
        else refuse PermissionDenied ''forbidden'' (live_state\<lparr>gs_redis := db\<rparr>))" by blast
  from u have role: "P_RoleCode p = RoleCodeAdmin" by (simp add: live_state_def empty_state_def demo_state_def demo_user_def role_defs)
  then have "may_call p ?req" by (simp add: may_call_def buildGRPCMethodPermissions_def method_defs HasPermission_static perm_defs)
  with s have "app_serve a ?i ?c ?req live_state = recovered (dispatch (app_services a) ?i (SetPrincipal ?c (Some p)) ?req (live_state\<lparr>gs_redis := db\<rparr>))" by simp
  with a(1) l role show ?thesis by (metis fst_conv)
qed

section \<open>A request to the import route\<close>

definition demo_services :: services where
  "demo_services = \<lparr>hs_auth = demo_auth, hs_server = demo_service, hs_excel = demo_sheet demo_rows, hs_loc = (\<lambda>_. 0), hs_scan_error = (\<lambda>x. x),
     hs_date_error = (\<lambda>x. x), hs_report = demo_reporting (\<lambda>_. None) None\<rparr>"

definition admin_jwt :: jwt where
  "admin_jwt = \<lparr>jwt_sign = (\<lambda>_ _. Inl []), jwt_parse = (\<lambda>now ms sec tok. if tok = ''good''
     then Inr \<lparr>C_UserID = ''1'', C_SessionID = [], C_Username = [], C_Email = [], C_RoleID = [], C_RoleCode = RoleCodeAdmin, C_ExpiresAt = 9\<rparr>
     else Inl ''bad'')\<rparr>"

definition demo_routes :: http_deps where
  "demo_routes = \<lparr>hd_services = demo_services, hd_jwt = admin_jwt, hd_Authenticator = NewAuthenticator ''s'' NilIface, hd_Authorizer = NewAuthorizer,
     hd_multipart = (\<lambda>_ _. []), hd_files = (\<lambda>f. writeError 404 f), hd_gateway = (\<lambda>path r s. reply (writeError 404 path) s)\<rparr>"

definition demo_post :: http_request where
  "demo_post = demo_http\<lparr>hr_method := ''POST''\<rparr>"

definition demo_import_state :: "app_state gstate" where
  "demo_import_state = demo_app_state\<lparr>gs_redis := st_cache demo_servers, gs_app := demo_tables\<lparr>ap_servers := st_servers demo_servers\<rparr>\<rparr>"

lemma demo_import_request:
  "\<exists>resp s'. setupHTTPRoutes demo_routes 0 ''/api/v1/servers/import'' demo_post demo_import_state = (Returns resp, s') \<and> hp_status resp = 200"
proof -
  have "extractBearer demo_post = ''good''"
    by (simp add: demo_post_def demo_http_def extractBearer_def header_Get_def HasPrefix_def TrimSpace_visible visible_def)
  moreover obtain p where "Authenticate admin_jwt (NewAuthenticator ''s'' NilIface) 0 ''good'' db = (Returns (Inr p), db)"
      "P_RoleCode p = RoleCodeAdmin" for db
    by (simp add: Authenticate_def NewAuthenticator_def admin_jwt_def claims_principal_def)
  moreover from this(2) have "HasPermission NewAuthorizer (Some p) PermServerImport" by (simp add: HasPermission_static perm_defs)
  moreover obtain result t where "ImportServers demo_service (demo_sheet demo_rows) [] demo_servers = (Returns (Inr result), t)"
    using demo_import by (metis prod.collapse)
  moreover have same: "\<lparr>st_servers = st_servers demo_servers, st_cache = st_cache demo_servers\<rparr> = demo_servers" by simp
  ultimately show ?thesis
    by (simp add: same setupHTTPRoutes_def AuthMiddleware_def PermissionMiddleware_def PrincipalFromContext_def principalWithContext_def HandleImport_def
        demo_routes_def demo_services_def with_servers_def demo_import_state_def demo_app_state_def demo_post_def demo_http_def read_body_def
        header_Get_def extractFileFromMultipart_def reply_def writeJSON_def)
qed


section \<open>The daily report\<close>

text \<open>The number of the day before, in the local zone of the process.\<close>

definition day_before :: "(time \<Rightarrow> int) \<Rightarrow> time \<Rightarrow> int" where
  "day_before local now = (now div second + local now) div 86400 - 1"

lemma yesterday_parsed:
  assumes "0 \<le> year_of (day_before local now)" and "year_of (day_before local now) \<le> 9999"
  shows "parse_date (yesterday local now) = Some (day_before local now * day)"
proof -
  obtain y m d where date: "date_of (day_before local now) = (y, m, d)" by (metis prod_cases3)
  note inv = date_of_inverse [OF date]
  then have "parse_date (pad 4 y @ ''-'' @ pad 2 (int m) @ ''-'' @ pad 2 d) = Some (days_of y m (nat d) * day)"
    using assms by (intro parse_printed_date) auto
  moreover have "yesterday local now = pad 4 y @ ''-'' @ pad 2 (int m) @ ''-'' @ pad 2 d"
    using date by (simp add: yesterday_def day_before_def)
  moreover have "days_of y m (nat d) = day_before local now" using inv by blast
  ultimately show ?thesis by metis
qed


text \<open>
  Midnight of day 739000 in a zone seven hours ahead, in a process that runs in UTC: the schedule fires, and
  the report is on day 738998, not on day 738999 that has just ended in the zone of the schedule.
\<close>

definition demo_scheduler :: SchedulerApp where
  "demo_scheduler = \<lparr>sc_worker = NewReportingWorker (demo_reporting (\<lambda>_. None) None), sc_adminEmail = ''x@y'', sc_cronSpec = ''0 0 * * *'',
     sc_location = (\<lambda>_. 25200)\<rparr>"


end
