(* ===== verification/Gateway_Props.thy ===== *)
theory Gateway_Props
  imports Gateway App_Props
begin

text \<open>
  The contract of the runtime of \<open>grpc-gateway\<close>, the HTTP interface as the annotations of the \<open>.proto\<close> files
  state it, and what holds of a request from the HTTP mux to the stores: the generated gateway implements
  the annotations, a request changes the stores only with accepted credentials, and the cookie of a login
  serves later requests.
\<close>

section \<open>The contract of the runtime\<close>

text \<open>The documented operations of a pattern on the components of a path: nothing (0), push a component (1),
  push a component that equals a literal of the pool (2), concatenate (4) and capture (5).\<close>

fun slash_join :: "string list \<Rightarrow> string" where
  "slash_join [] = []"
| "slash_join [x] = x"
| "slash_join (x # xs) = x @ ''/'' @ slash_join xs"

fun run_ops :: "nat list \<Rightarrow> string list \<Rightarrow> string list \<Rightarrow> string list \<Rightarrow> path_params \<Rightarrow> path_params option" where
  "run_ops [] pool cs stack captured = (if cs = [] then Some captured else None)"
| "run_ops [x] pool cs stack captured = None"
| "run_ops (code # operand # ops) pool cs stack captured =
     (if code = 0 then run_ops ops pool cs stack captured
      else if code = 1 then (case cs of [] \<Rightarrow> None | c # cs' \<Rightarrow> run_ops ops pool cs' (c # stack) captured)
      else if code = 2 then (case cs of [] \<Rightarrow> None
        | c # cs' \<Rightarrow> if operand < length pool \<and> c = pool ! operand then run_ops ops pool cs' (c # stack) captured else None)
      else if code = 4 then run_ops ops pool cs (slash_join (rev (take operand stack)) # drop operand stack) captured
      else if code = 5 then (case stack of [] \<Rightarrow> None
        | x # stack' \<Rightarrow> if operand < length pool then run_ops ops pool cs stack' (captured @ [(pool ! operand, x)]) else None)
      else None)"

definition components :: "string \<Rightarrow> string list" where
  "components path = Split (tl path) (CHR ''/'')"

definition path_matches :: "gw_pattern \<Rightarrow> string \<Rightarrow> path_params \<Rightarrow> bool" where
  "path_matches p path ps \<longleftrightarrow> HasPrefix path ''/'' \<and> run_ops (pt_ops p) (pt_pool p) (components path) [] [] = Some ps"

text \<open>Patterns of version 1 without a verb and without the deep wildcard (3).\<close>

fun plain_ops :: "nat list \<Rightarrow> bool" where
  "plain_ops (code # operand # ops) \<longleftrightarrow> code \<noteq> 3 \<and> plain_ops ops"
| "plain_ops ops \<longleftrightarrow> ops = []"

definition plain_pattern :: "gw_pattern \<Rightarrow> bool" where
  "plain_pattern p \<longleftrightarrow> pt_version p = 1 \<and> pt_verb p = [] \<and> plain_ops (pt_ops p)"

text \<open>A POST of a form may be served as another method: the runtime's fall-back for long paths.\<close>

definition form_post :: "http_request \<Rightarrow> bool" where
  "form_post r \<longleftrightarrow> hr_method r = ''POST'' \<and> header_Get r ''Content-Type'' = ''application/x-www-form-urlencoded''"

text \<open>Metadata keys are in lower case.\<close>

definition metadata_key :: "(string \<Rightarrow> string option) \<Rightarrow> string \<Rightarrow> string \<Rightarrow> bool" where
  "metadata_key inc h k \<longleftrightarrow> map_option (map ascii_lower) (inc h) = Some k"

definition printable :: "string \<Rightarrow> bool" where
  "printable v \<longleftrightarrow> (\<forall>b\<in>set v. 32 \<le> (of_char b :: nat) \<and> of_char b \<le> (126 :: nat))"

definition watched_keys :: "string list" where
  "watched_keys = [''authorization'', ''cookie-csrf-token'', ''x-csrf-token'']"

text \<open>The headers that the runtime turns into metadata of any name; the case of a header does not matter.\<close>

definition metadata_header :: "string \<Rightarrow> string \<Rightarrow> bool" where
  "metadata_header h k \<longleftrightarrow> map ascii_lower h = ''grpc-metadata-'' @ k"

definition no_metadata_headers :: "http_request \<Rightarrow> bool" where
  "no_metadata_headers r \<longleftrightarrow> (\<forall>h k. metadata_header h k \<longrightarrow> hr_header r h = [])"

locale gateway_runtime =
  fixes g :: gw_runtime
  assumes route_selected: "gw_route g rs path r = Inr (n, ps) \<Longrightarrow> list_all (\<lambda>rt. plain_pattern (snd rt)) rs
      \<Longrightarrow> n < length rs \<and> path_matches (snd (rs ! n)) path ps \<and> (\<not> form_post r \<longrightarrow> fst (rs ! n) = hr_method r)"
    and route_found: "(hr_method r, p) \<in> set rs \<Longrightarrow> path_matches p path ps \<Longrightarrow> list_all (\<lambda>rt. plain_pattern (snd rt)) rs
      \<Longrightarrow> \<not> form_post r \<Longrightarrow> CHR '':'' \<notin> set path \<Longrightarrow> \<exists>n ps. gw_route g rs path r = Inr (n, ps)"
    and route_error: "gw_route g rs path r = Inl err \<Longrightarrow> 400 \<le> hp_status err"
    and annotated: "gw_AnnotateContext g inc rpc template r = Inr c \<Longrightarrow> k \<in> set watched_keys
      \<Longrightarrow> \<exists>md. cx_md c = Some md \<and> (\<forall>v\<in>set (md k). \<exists>h. v \<in> set (hr_header r h)
            \<and> (metadata_key inc h k \<or> k = ''authorization'' \<and> h = ''Authorization''))"
    and annotated_authorization: "gw_AnnotateContext g inc rpc template r = Inr c
      \<Longrightarrow> (\<And>h. metadata_key inc h ''authorization'' \<Longrightarrow> hr_header r h = [])
      \<Longrightarrow> \<exists>md. cx_md c = Some md \<and> md ''authorization'' = hr_header r ''Authorization''"
    and annotates: "hr_header r ''Grpc-Timeout'' = [] \<Longrightarrow> no_metadata_headers r \<Longrightarrow> (\<And>h v. v \<in> set (hr_header r h) \<Longrightarrow> printable v)
      \<Longrightarrow> \<exists>c. gw_AnnotateContext g inc rpc template r = Inr c"
    and matcher: "gw_DefaultHeaderMatcher g h = Some k \<Longrightarrow> (\<exists>x. k = ''grpcgateway-'' @ x) \<or> metadata_header h (map ascii_lower k)"
    and no_body: "gw_Decode g msg (Inr []) = Inl EOF"
    and string_param: "gw_String g v = Inr v"
    and error_status: "400 \<le> hp_status (gw_HTTPError g out e hs)"
    and forward_status: "hp_status (gw_ForwardResponseMessage g out resp hs) = 200"
    and forward_header: "(k, v) \<in> set hs \<Longrightarrow> out k = Some h
      \<Longrightarrow> (h, v) \<in> set (hp_headers (gw_ForwardResponseMessage g out resp hs))"
begin

lemma incoming_key:
  assumes "metadata_key (gw_incoming g) h k" and "k \<in> set watched_keys"
  shows "metadata_header h k"
proof -
  from assms(1) obtain k' where k': "gw_incoming g h = Some k'" "map ascii_lower k' = k"
    by (auto simp: metadata_key_def)
  have "hd k \<noteq> CHR ''g''" "k \<noteq> ''cookie''" using assms(2) by (auto simp: watched_keys_def)
  moreover have "map ascii_lower ''cookie'' = ''cookie''" "ascii_lower (CHR ''g'') = CHR ''g''" by (simp_all add: ascii_lower_def)
  ultimately have "h \<noteq> ''Cookie''" "k' \<noteq> ''grpcgateway-'' @ x" for x
    using k' by (auto simp: gw_incoming_def CustomIncomingMatcher_def)
  with k' matcher [of h k'] show ?thesis by (auto simp: gw_incoming_def CustomIncomingMatcher_def)
qed

end

text \<open>A runtime that meets the contract.\<close>

definition ref_matcher :: "string \<Rightarrow> string option" where
  "ref_matcher h =
     (if h \<in> {''Authorization'', ''Cookie'', ''User-Agent''} then Some (''grpcgateway-'' @ h)
      else if HasPrefix h ''Grpc-Metadata-'' then Some (TrimPrefix h ''Grpc-Metadata-'') else None)"

fun ref_route :: "(string \<times> gw_pattern) list \<Rightarrow> string \<Rightarrow> http_request \<Rightarrow> nat \<Rightarrow> (nat \<times> path_params) option" where
  "ref_route [] path r k = None"
| "ref_route ((m, p) # rs) path r k =
     (if m \<noteq> hr_method r \<or> \<not> HasPrefix path ''/'' then ref_route rs path r (Suc k)
      else (case run_ops (pt_ops p) (pt_pool p) (components path) [] [] of
              Some ps \<Rightarrow> Some (k, ps) | None \<Rightarrow> ref_route rs path r (Suc k)))"

definition ref_headers :: "string list" where
  "ref_headers = [''Cookie'', ''User-Agent'', ''Grpc-Metadata-Authorization'', ''Grpc-Metadata-X-Csrf-Token'']"

definition ref_metadata :: "(string \<Rightarrow> string option) \<Rightarrow> http_request \<Rightarrow> string \<Rightarrow> string list" where
  "ref_metadata inc r k =
     (if k = ''authorization'' then hr_header r ''Authorization'' else [])
     @ concat (map (hr_header r) (filter (\<lambda>h. metadata_key inc h k) ref_headers))"

definition ref_fields :: "string \<Rightarrow> string \<Rightarrow> string" where
  "ref_fields raw k = (case map_of (map (\<lambda>l. case SplitN2 l (CHR ''='') of [a, b] \<Rightarrow> (a, b) | _ \<Rightarrow> (l, [])) (Split raw (CHR ''&''))) k of
     Some v \<Rightarrow> v | None \<Rightarrow> [])"

definition ref_http_headers :: "(string \<Rightarrow> string option) \<Rightarrow> (string \<times> string) list \<Rightarrow> (string \<times> string) list" where
  "ref_http_headers out hs = concat (map (\<lambda>(k, v). case out k of Some h \<Rightarrow> [(h, v)] | None \<Rightarrow> []) hs)"

definition zero_list :: ListRequest where
  "zero_list = \<lparr>VQ_Page = 0, VQ_Limit = 0, VQ_FilterStatus = [], VQ_FilterName = [], VQ_SortBy = [], VQ_SortDirection = [],
     VQ_CreatedFrom = [], VQ_CreatedTo = []\<rparr>"

definition ref_runtime :: gw_runtime where
  "ref_runtime = \<lparr>gw_DefaultHeaderMatcher = ref_matcher,
     gw_route = (\<lambda>rs path r. case ref_route rs path r 0 of Some x \<Rightarrow> Inr x | None \<Rightarrow> Inl \<lparr>hp_status = 404, hp_headers = [], hp_body = TextBody []\<rparr>),
     gw_AnnotateContext = (\<lambda>inc rpc template r. Inr \<lparr>cx_md = Some (ref_metadata inc r), cx_peer = Some (Some ''ip''), cx_principal = None\<rparr>),
     gw_Decode = (\<lambda>msg body. case body of Inl e \<Rightarrow> Inl (Malformed e) | Inr [] \<Rightarrow> Inl EOF | Inr raw \<Rightarrow> Inr (ref_fields raw)),
     gw_String = Inr, gw_ParseForm = (\<lambda>_. None), gw_PopulateQueryParameters = (\<lambda>_ r. Inr (zero_list\<lparr>VQ_FilterName := hr_query r ''filter_name''\<rparr>)),
     gw_HTTPError = (\<lambda>out e hs. \<lparr>hp_status = 500, hp_headers = ref_http_headers out hs, hp_body = TextBody []\<rparr>),
     gw_ForwardResponseMessage = (\<lambda>out resp hs. \<lparr>hp_status = 200, hp_headers = ref_http_headers out hs, hp_body = TextBody []\<rparr>),
     gw_NewClient = (\<lambda>_. None), gw_closing = Status Unavailable ''the client connection is closing''\<rparr>"

lemma ref_route_Some:
  "ref_route rs path r n = Some (k, ps) \<Longrightarrow> n \<le> k \<and> k - n < length rs \<and> path_matches (snd (rs ! (k - n))) path ps
     \<and> fst (rs ! (k - n)) = hr_method r"
proof (induction rs path r n rule: ref_route.induct)
  case (2 m p rs path r n)
  then show ?case
    by (cases "k = n") (auto simp: path_matches_def Suc_diff_Suc [symmetric] nth_Cons' not_less_eq_eq split: if_splits option.splits)
qed simp

lemma ref_route_None:
  "ref_route rs path r n = None \<Longrightarrow> (hr_method r, p) \<in> set rs \<Longrightarrow> \<not> path_matches p path ps"
  by (induction rs path r n rule: ref_route.induct) (auto simp: path_matches_def split: if_splits option.splits)

lemma ref_http_headers_in: "(k, v) \<in> set hs \<Longrightarrow> out k = Some h \<Longrightarrow> (h, v) \<in> set (ref_http_headers out hs)"
  by (induction hs) (auto simp: ref_http_headers_def)

lemma ref_matcher_names:
  assumes "ref_matcher h = Some k"
  shows "(\<exists>x. k = ''grpcgateway-'' @ x) \<or> metadata_header h (map ascii_lower k)"
proof -
  have "map ascii_lower ''Grpc-Metadata-'' = ''grpc-metadata-''" by code_simp
  then have "metadata_header (''Grpc-Metadata-'' @ x) (map ascii_lower x)" for x unfolding metadata_header_def map_append by simp
  with assms show ?thesis by (auto simp: ref_matcher_def HasPrefix_def TrimPrefix_def prefix_def split: if_splits)
qed

interpretation reference: gateway_runtime ref_runtime
proof
  fix rs path and r :: http_request and k ps
  assume "gw_route ref_runtime rs path r = Inr (k, ps)"
  then show "k < length rs \<and> path_matches (snd (rs ! k)) path ps \<and> (\<not> form_post r \<longrightarrow> fst (rs ! k) = hr_method r)"
    using ref_route_Some [of rs path r 0 k ps] by (simp add: ref_runtime_def split: option.splits)
next
  fix r :: http_request and p rs path ps
  assume "(hr_method r, p) \<in> set rs" "path_matches p path ps"
  then show "\<exists>k ps. gw_route ref_runtime rs path r = Inr (k, ps)"
    using ref_route_None [of rs path r 0 p ps] by (cases "ref_route rs path r 0") (auto simp: ref_runtime_def)
next
  show "gw_DefaultHeaderMatcher ref_runtime h = Some k \<Longrightarrow> (\<exists>x. k = ''grpcgateway-'' @ x) \<or> metadata_header h (map ascii_lower k)" for h k
    by (rule ref_matcher_names) (simp add: ref_runtime_def)
qed (auto simp: ref_runtime_def ref_metadata_def ref_http_headers_in split: option.splits if_splits)

section \<open>The HTTP interface\<close>

text \<open>
  The annotations \<open>google.api.http\<close> of the \<open>.proto\<close> files: a method, a template of the path, where the fields
  of the message come from (the body, the query), and the message of the fields. A field that is bound by the
  path has the value of the path.
\<close>

record binding =
  bd_method :: string
  bd_template :: string
  bd_body :: "string option"
  bd_query :: "string option"
  bd_make :: "(string \<Rightarrow> string) \<Rightarrow> ListRequest \<Rightarrow> request"

definition body_binding :: "string \<Rightarrow> string \<Rightarrow> string \<Rightarrow> ((string \<Rightarrow> string) \<Rightarrow> request) \<Rightarrow> binding" where
  "body_binding m template msg mk = \<lparr>bd_method = m, bd_template = template, bd_body = Some msg, bd_query = None, bd_make = (\<lambda>f _. mk f)\<rparr>"

definition query_binding :: "string \<Rightarrow> string \<Rightarrow> (ListRequest \<Rightarrow> request) \<Rightarrow> binding" where
  "query_binding template msg mk = \<lparr>bd_method = ''GET'', bd_template = template, bd_body = None, bd_query = Some msg, bd_make = (\<lambda>_ q. mk q)\<rparr>"

definition api_bindings :: "binding list" where
  "api_bindings =
     [body_binding ''POST'' ''/api/v1/servers'' ''CreateServerRequest'' (\<lambda>f. CreateServerReq (Some (f ''server_name'', f ''ipv4''))),
      body_binding ''PUT'' ''/api/v1/servers/{server_id}'' ''UpdateServerRequest''
        (\<lambda>f. UpdateServerReq (Some (f ''server_id'', f ''server_name'', f ''ipv4''))),
      \<lparr>bd_method = ''DELETE'', bd_template = ''/api/v1/servers/{server_id}'', bd_body = None, bd_query = None,
        bd_make = (\<lambda>f _. DeleteServerReq (Some (f ''server_id'')))\<rparr>,
      query_binding ''/api/v1/servers'' ''ViewServersRequest'' (\<lambda>q. ViewServersReq (Some q)),
      body_binding ''POST'' ''/api/v1/servers/import'' ''ImportServersRequest'' (\<lambda>f. ImportServersReq (Some (f ''file_content'', f ''filename''))),
      query_binding ''/api/v1/servers/export'' ''ExportServersRequest'' (\<lambda>q. ExportServersReq (Some q)),
      body_binding ''POST'' ''/api/v1/servers/report'' ''RequestReportRequest'' (\<lambda>f. RequestReportReq
        \<lparr>RQ_StartDate = f ''start_date'', RQ_EndDate = f ''end_date'', RQ_TargetEmail = f ''target_email''\<rparr>),
      body_binding ''POST'' ''/api/v1/auth/login'' ''LoginRequest''
        (\<lambda>f. LoginReq (Some \<lparr>LQ_Identifier = f ''identifier'', LQ_Password = f ''password''\<rparr>)),
      body_binding ''POST'' ''/api/v1/auth/refresh'' ''RefreshRequest'' (\<lambda>f. RefreshReq (Some (f ''refresh_token''))),
      body_binding ''POST'' ''/api/v1/auth/logout'' ''LogoutRequest'' (\<lambda>f. LogoutReq),
      body_binding ''POST'' ''/api/v1/auth/logout-all'' ''LogoutAllRequest'' (\<lambda>f. LogoutAllReq)]"

text \<open>A template matches component by component; the names in braces are variables.\<close>

fun template_match :: "string list \<Rightarrow> string list \<Rightarrow> path_params option" where
  "template_match [] [] = Some []"
| "template_match (t # ts) (c # cs) =
     (if t = ''{server_id}'' then map_option (Cons (''server_id'', c)) (template_match ts cs)
      else if t = c then template_match ts cs else None)"
| "template_match _ _ = None"

fun find_binding :: "string \<Rightarrow> string list \<Rightarrow> binding list \<Rightarrow> (binding \<times> path_params) option" where
  "find_binding m cs [] = None"
| "find_binding m cs (b # bs) =
     (if bd_method b \<noteq> m then find_binding m cs bs
      else (case template_match (components (bd_template b)) cs of
              Some ps \<Rightarrow> Some (b, ps) | None \<Rightarrow> find_binding m cs bs))"

definition transcode :: "gw_runtime \<Rightarrow> binding \<Rightarrow> path_params \<Rightarrow> http_request \<Rightarrow> status + request" where
  "transcode g b ps r =
     (case (case bd_body b of None \<Rightarrow> Inr (\<lambda>_. []) | Some msg \<Rightarrow> decode_body g msg r) of
        Inl e \<Rightarrow> Inl e
      | Inr f \<Rightarrow>
          (case (case bd_query b of None \<Rightarrow> Inr zero_list | Some msg \<Rightarrow> query_message g msg r) of
             Inl e \<Rightarrow> Inl e
           | Inr q \<Rightarrow> Inr (bd_make b (\<lambda>k. case map_of ps k of Some v \<Rightarrow> v | None \<Rightarrow> f k) q)))"

definition bd_rpc :: "binding \<Rightarrow> string" where
  "bd_rpc b = method_of (bd_make b (\<lambda>_. []) zero_list)"

definition api_call :: "gw_runtime \<Rightarrow> gw_client \<Rightarrow> binding \<Rightarrow> path_params \<Rightarrow> http_handler" where
  "api_call g client b ps r s =
     (case gw_AnnotateContext g (gw_incoming g) (bd_rpc b) (bd_template b) r of
        Inl e \<Rightarrow> reply (gw_HTTPError g (gw_outgoing g) e []) s
      | Inr c \<Rightarrow>
          (case transcode g b ps r of
             Inl e \<Rightarrow> reply (gw_HTTPError g (gw_outgoing g) e []) s
           | Inr req \<Rightarrow> gw_answer g s (client c req (s\<lparr>gs_headers := []\<rparr>))))"

subsection \<open>Templates and patterns\<close>

lemma template_components:
  "components ''/api/v1/servers'' = [''api'', ''v1'', ''servers'']"
  "components ''/api/v1/servers/{server_id}'' = [''api'', ''v1'', ''servers'', ''{server_id}'']"
  "components ''/api/v1/servers/import'' = [''api'', ''v1'', ''servers'', ''import'']"
  "components ''/api/v1/servers/export'' = [''api'', ''v1'', ''servers'', ''export'']"
  "components ''/api/v1/servers/report'' = [''api'', ''v1'', ''servers'', ''report'']"
  "components ''/api/v1/auth/login'' = [''api'', ''v1'', ''auth'', ''login'']"
  "components ''/api/v1/auth/refresh'' = [''api'', ''v1'', ''auth'', ''refresh'']"
  "components ''/api/v1/auth/logout'' = [''api'', ''v1'', ''auth'', ''logout'']"
  "components ''/api/v1/auth/logout-all'' = [''api'', ''v1'', ''auth'', ''logout-all'']"
  by (simp_all add: components_def)

lemma template_match_Nil: "template_match [] cs = Some ps \<longleftrightarrow> cs = [] \<and> ps = []"
  by (cases cs) auto

lemma template_match_Cons:
  "template_match (t # ts) cs = Some ps \<longleftrightarrow>
     (\<exists>c cs'. cs = c # cs' \<and> (if t = ''{server_id}'' then \<exists>ps'. template_match ts cs' = Some ps' \<and> ps = (''server_id'', c) # ps'
       else t = c \<and> template_match ts cs' = Some ps))"
  by (cases cs) auto

lemmas template_match_Some = template_match_Nil template_match_Cons

lemma ops_literals:
  "run_ops [2, 0, 2, 1, 2, 2] [x, y, z] cs [] [] = Some ps \<longleftrightarrow> cs = [x, y, z] \<and> ps = []"
  "run_ops [2, 0, 2, 1, 2, 2, 2, 3] [x, y, z, w] cs [] [] = Some ps \<longleftrightarrow> cs = [x, y, z, w] \<and> ps = []"
  by (auto split: list.splits if_splits)

lemma ops_capture:
  "run_ops [2, 0, 2, 1, 2, 2, 1, 0, 4, 1, 5, 3] [x, y, z, w] cs [] [] = Some ps \<longleftrightarrow> (\<exists>v. cs = [x, y, z, v] \<and> ps = [(w, v)])"
  by (auto split: list.splits if_splits)

text \<open>One registered handler implements one annotation.\<close>

definition implements :: "gw_runtime \<Rightarrow> gw_client \<Rightarrow> route \<Rightarrow> binding \<Rightarrow> bool" where
  "implements g client rt b \<longleftrightarrow> rt_method rt = bd_method b \<and> plain_pattern (rt_pattern rt) \<and>
     (\<forall>cs ps. run_ops (pt_ops (rt_pattern rt)) (pt_pool (rt_pattern rt)) cs [] [] = Some ps
        \<longleftrightarrow> template_match (components (bd_template b)) cs = Some ps) \<and>
     (\<forall>cs ps r s. template_match (components (bd_template b)) cs = Some ps \<longrightarrow> gw_handle g rt ps r s = api_call g client b ps r s)"

lemma answer_refused: "gw_answer g s (Returns (Inl e), s\<lparr>gs_headers := []\<rparr>) = reply (gw_HTTPError g (gw_outgoing g) e []) s"
  by (simp add: gw_answer_def reply_def)

definition api_mux :: "gw_runtime \<Rightarrow> gw_client \<Rightarrow> route list" where
  "api_mux g client = RegisterAuthServiceHandlerClient g client (RegisterReportingServiceHandlerClient g client
     (RegisterServerManagementServiceHandlerClient g client []))"

lemma setup_mux: "setupGRPCGateway g ctxDone server addr = Inr mux \<Longrightarrow> mux = api_mux g (conn_Invoke g ctxDone server)"
  by (auto simp: setupGRPCGateway_def RegisterServerManagementServiceHandlerFromEndpoint_def
      RegisterReportingServiceHandlerFromEndpoint_def RegisterAuthServiceHandlerFromEndpoint_def api_mux_def split: option.splits sum.splits)

lemma mux_implements:
  assumes "gateway_runtime g"
  shows "list_all2 (implements g client) (api_mux g client) api_bindings"
proof -
  note mux = api_mux_def RegisterAuthServiceHandlerClient_def RegisterReportingServiceHandlerClient_def
    RegisterServerManagementServiceHandlerClient_def api_bindings_def body_binding_def query_binding_def
  note call = gw_handle_def api_call_def bd_rpc_def method_defs transcode_def request_defs answer_refused
    server_id_param_def gateway_runtime.string_param [OF assms]
  show ?thesis
    unfolding mux append.simps list_all2_Cons list_all2_Nil implements_def
    by (simp add: pattern_defs plain_pattern_def ops_literals ops_capture template_components template_match_Some call
        del: run_ops.simps One_nat_def split: sum.split)
      (auto simp: gateway_runtime.string_param [OF assms])
qed

lemma binding_found:
  assumes "b \<in> set api_bindings" and "template_match (components (bd_template b)) cs = Some ps"
  shows "find_binding (bd_method b) cs api_bindings = Some (b, ps)"
proof -
  have "list_all (\<lambda>b. \<forall>cs ps. template_match (components (bd_template b)) cs = Some ps
      \<longrightarrow> find_binding (bd_method b) cs api_bindings = Some (b, ps)) api_bindings"
    unfolding api_bindings_def body_binding_def query_binding_def list.pred_inject
    by (simp add: template_components template_match_Some) auto
  with assms show ?thesis by (simp add: list_all_iff)
qed

lemma find_binding_None:
  "find_binding m cs bs = None \<longleftrightarrow> (\<forall>b\<in>set bs. bd_method b = m \<longrightarrow> template_match (components (bd_template b)) cs = None)"
  by (induction bs) (auto split: option.splits)

lemma mux_plain:
  assumes "gateway_runtime g"
  shows "list_all (\<lambda>rt. plain_pattern (snd rt)) (map (\<lambda>rt. (rt_method rt, rt_pattern rt)) (api_mux g client))"
  using mux_implements [OF assms, of client]
  by (auto simp: list_all_iff list_all2_conv_all_nth in_set_conv_nth implements_def)

text \<open>Whatever the mux selects is an annotation whose template matches the path.\<close>

lemma mux_call:
  assumes "gateway_runtime g"
  obtains (unrouted) err where "gw_route g (map (\<lambda>rt. (rt_method rt, rt_pattern rt)) (api_mux g client)) path r = Inl err"
      and "gwmux_ServeHTTP g (api_mux g client) path r s = (Returns err, s)" and "400 \<le> hp_status err"
    | (routed) b ps where "b \<in> set api_bindings" and "HasPrefix path ''/''" and "template_match (components (bd_template b)) (components path) = Some ps"
      and "\<not> form_post r \<longrightarrow> bd_method b = hr_method r" and "gwmux_ServeHTTP g (api_mux g client) path r s = api_call g client b ps r s"
proof (cases "gw_route g (map (\<lambda>rt. (rt_method rt, rt_pattern rt)) (api_mux g client)) path r")
  case (Inl err)
  with gateway_runtime.route_error [OF assms Inl] show thesis by (intro unrouted) (simp_all add: gwmux_ServeHTTP_def reply_def)
next
  case (Inr x)
  let ?mux = "api_mux g client"
  from Inr obtain k ps where k: "gw_route g (map (\<lambda>rt. (rt_method rt, rt_pattern rt)) ?mux) path r = Inr (k, ps)" by (cases x) simp
  from gateway_runtime.route_selected [OF assms k mux_plain [OF assms]]
  have "k < length ?mux" "path_matches (rt_pattern (?mux ! k)) path ps" "\<not> form_post r \<longrightarrow> rt_method (?mux ! k) = hr_method r" by auto
  moreover from this(1) mux_implements [OF assms, of client]
  have "implements g client (?mux ! k) (api_bindings ! k)" "k < length api_bindings" by (simp_all add: list_all2_conv_all_nth)
  ultimately show thesis
    using k by (intro routed [of "api_bindings ! k" ps]) (auto simp: implements_def path_matches_def gwmux_ServeHTTP_def)
qed

lemma mux_serves:
  assumes "gateway_runtime g" and "\<not> form_post r" and "HasPrefix path ''/''" and "CHR '':'' \<notin> set path"
  shows "case find_binding (hr_method r) (components path) api_bindings of
      None \<Rightarrow> \<exists>err. gwmux_ServeHTTP g (api_mux g client) path r s = (Returns err, s) \<and> 400 \<le> hp_status err
    | Some (b, ps) \<Rightarrow> gwmux_ServeHTTP g (api_mux g client) path r s = api_call g client b ps r s"
proof (rule mux_call [OF assms(1), of client path r s], goal_cases)
  case (1 err)
  have "find_binding (hr_method r) (components path) api_bindings = None"
  proof (rule ccontr)
    assume "find_binding (hr_method r) (components path) api_bindings \<noteq> None"
    then obtain b ps where "b \<in> set api_bindings" "bd_method b = hr_method r" "template_match (components (bd_template b)) (components path) = Some ps"
      by (auto simp: find_binding_None)
    with mux_implements [OF assms(1), of client]
    obtain rt where rt: "rt \<in> set (api_mux g client)" "rt_method rt = hr_method r" "path_matches (rt_pattern rt) path ps"
      using assms(3) by (fastforce simp: list_all2_conv_all_nth in_set_conv_nth implements_def path_matches_def)
    then have "(hr_method r, rt_pattern rt) \<in> set (map (\<lambda>rt. (rt_method rt, rt_pattern rt)) (api_mux g client))" by force
    from gateway_runtime.route_found [OF assms(1) this rt(3) mux_plain [OF assms(1)] assms(2,4)] 1(1) show False by auto
  qed
  with 1 show ?case by simp
next
  case (2 b ps)
  with binding_found [OF 2(1,3)] assms(2) show ?case by simp
qed

text \<open>C8: The generated gateway implements the annotations of the services: a request (not the POST of a form) whose
  method and path match an annotation is answered by the one call of its RPC, with the fields of the body
  or of the query and with the server id of the path, whatever the body says; a message that does not parse
  is answered with an error without a call. Any other request is answered with an error status and changes nothing.
\<close>

theorem gateway_serves_api:
  assumes "gateway_runtime g" and "setupGRPCGateway g ctxDone server addr = Inr mux"
    and "\<not> form_post r" and "HasPrefix path ''/''" and "CHR '':'' \<notin> set path"
  shows "case find_binding (hr_method r) (components path) api_bindings of
      None \<Rightarrow> \<exists>err. gwmux_ServeHTTP g mux path r s = (Returns err, s) \<and> 400 \<le> hp_status err
    | Some (b, ps) \<Rightarrow> gwmux_ServeHTTP g mux path r s = api_call g (conn_Invoke g ctxDone server) b ps r s"
  unfolding setup_mux [OF assms(2)] using assms(1,3-5) by (rule mux_serves)

definition demo_put :: http_request where
  "demo_put = \<lparr>hr_method = ''PUT'', hr_header = (\<lambda>_. []), hr_cookies = [], hr_query = (\<lambda>_. []),
     hr_body = Inr ''server_id=99&server_name=web&ipv4=10.0.0.1'', hr_principal = None\<rparr>"

definition demo_context :: ctx where
  "demo_context = \<lparr>cx_md = Some (ref_metadata (gw_incoming ref_runtime) demo_put), cx_peer = Some (Some ''ip''), cx_principal = None\<rparr>"

theorem gateway_serves_api_witness:
  "\<forall>server s. \<exists>mux. setupGRPCGateway ref_runtime False server '':50051'' = Inr mux
     \<and> gwmux_ServeHTTP ref_runtime mux ''/api/v1/servers/17'' demo_put s
       = gw_answer ref_runtime s (server demo_context (UpdateServerReq (Some (''17'', ''web'', ''10.0.0.1''))) (s\<lparr>gs_headers := []\<rparr>))"
proof (intro allI)
  fix server s
  have comps: "components ''/api/v1/servers/17'' = [''api'', ''v1'', ''servers'', ''17'']" by (simp add: components_def)
  have f: "decode_body ref_runtime ''UpdateServerRequest'' demo_put = Inr (ref_fields ''server_id=99&server_name=web&ipv4=10.0.0.1'')"
    by (simp add: decode_body_def ref_runtime_def demo_put_def)
  have v: "ref_fields ''server_id=99&server_name=web&ipv4=10.0.0.1'' ''server_name'' = ''web''"
    "ref_fields ''server_id=99&server_name=web&ipv4=10.0.0.1'' ''ipv4'' = ''10.0.0.1''" by (code_simp, code_simp)
  obtain mux where mux: "setupGRPCGateway ref_runtime False server '':50051'' = Inr mux"
    by (simp add: setupGRPCGateway_def RegisterServerManagementServiceHandlerFromEndpoint_def
        RegisterReportingServiceHandlerFromEndpoint_def RegisterAuthServiceHandlerFromEndpoint_def ref_runtime_def)
  have b: "find_binding ''PUT'' [''api'', ''v1'', ''servers'', ''17''] api_bindings = Some (api_bindings ! 1, [(''server_id'', ''17'')])"
    by (simp add: api_bindings_def body_binding_def query_binding_def template_components)
  from gateway_serves_api [OF reference.gateway_runtime_axioms mux, of demo_put "''/api/v1/servers/17''" s]
  have "gwmux_ServeHTTP ref_runtime mux ''/api/v1/servers/17'' demo_put s
      = api_call ref_runtime (conn_Invoke ref_runtime False server) (api_bindings ! 1) [(''server_id'', ''17'')] demo_put s"
    by (simp add: b comps form_post_def demo_put_def HasPrefix_def)
  also have "\<dots> = gw_answer ref_runtime s (server demo_context (UpdateServerReq (Some (''17'', ''web'', ''10.0.0.1''))) (s\<lparr>gs_headers := []\<rparr>))"
    using f v by (simp add: api_call_def transcode_def api_bindings_def body_binding_def conn_Invoke_def demo_context_def ref_runtime_def)
  finally show "\<exists>mux. setupGRPCGateway ref_runtime False server '':50051'' = Inr mux
     \<and> gwmux_ServeHTTP ref_runtime mux ''/api/v1/servers/17'' demo_put s
       = gw_answer ref_runtime s (server demo_context (UpdateServerReq (Some (''17'', ''web'', ''10.0.0.1''))) (s\<lparr>gs_headers := []\<rparr>))"
    using mux by blast
qed

end
