(* ===== verification/Http_Props.thy ===== *)
theory Http_Props
  imports Gateway_Props
begin

text \<open>
  A request on its way from the HTTP mux through the gateway and the chain of the gRPC server to the stores:
  what it needs in order to change them, the session that a login over HTTP starts, the check of the CSRF
  token, and the gateway after the signal to stop.
\<close>

section \<open>The gateway in the mux\<close>

definition gateway_path :: "string \<Rightarrow> bool" where
  "gateway_path path \<longleftrightarrow> path \<notin> {''/health'', ''/docs'', ''/api/v1/servers/import'', ''/api/v1/servers/export''}
     \<and> \<not> HasPrefix path ''/openapi/''"

lemma http_gateway:
  assumes "app_http wb a ctxDone i = Inr handler" and "gateway_path path"
  shows "handler path r s = gwmux_ServeHTTP (wb_runtime wb) (api_mux (wb_runtime wb) (conn_Invoke (wb_runtime wb) ctxDone (app_serve a i)))
    path (CookieMiddleware r) s"
  using assms by (auto simp: app_http_def setupHTTPRoutes_def gateway_path_def dest!: setup_mux split: sum.splits)

lemma answer_state: "gs_app (snd (gw_answer g s out)) = gs_app (snd out)"
  by (simp add: gw_answer_def split: prod.splits)

text \<open>A call of the gateway that changes the application state did so in the server.\<close>

lemma api_call_changes:
  assumes "api_call g client b ps r s = (out, s')" and "gs_app s' \<noteq> gs_app s"
  obtains c req where "gw_AnnotateContext g (gw_incoming g) (bd_rpc b) (bd_template b) r = Inr c" and "transcode g b ps r = Inr req"
    and "gs_app (snd (client c req (s\<lparr>gs_headers := []\<rparr>))) \<noteq> gs_app s"
proof (cases "gw_AnnotateContext g (gw_incoming g) (bd_rpc b) (bd_template b) r")
  case (Inr c)
  show thesis
  proof (cases "transcode g b ps r")
    case t: (Inr req)
    with Inr assms(1) have "gw_answer g s (client c req (s\<lparr>gs_headers := []\<rparr>)) = (out, s')" by (simp add: api_call_def)
    then have "gs_app s' = gs_app (snd (client c req (s\<lparr>gs_headers := []\<rparr>)))" by (metis answer_state snd_conv)
    with assms(2) show thesis by (intro that [OF Inr t]) simp
  qed (use assms Inr in \<open>simp add: api_call_def reply_def\<close>)
qed (use assms in \<open>simp add: api_call_def reply_def\<close>)

lemma transcode_method:
  assumes "b \<in> set api_bindings" and "transcode g b ps r = Inr req"
  shows "method_of req = bd_rpc b"
proof -
  from assms(2) obtain f q where "req = bd_make b f q" by (auto simp: transcode_def split: sum.splits)
  then show ?thesis using assms(1) by (auto simp: api_bindings_def body_binding_def query_binding_def bd_rpc_def)
qed

section \<open>The check of the CSRF token\<close>

lemma cookie_header: "h \<noteq> ''Authorization'' \<Longrightarrow> hr_header (CookieMiddleware r) h = hr_header r h"
  by (simp add: CookieMiddleware_def split: option.split)

lemma plain_names [simp]:
  "\<not> metadata_header ''Authorization'' k" "\<not> metadata_header ''X-Csrf-Token'' k" "\<not> metadata_header ''User-Agent'' k"
proof -
  have "map ascii_lower ''Authorization'' = ''authorization''" "map ascii_lower ''X-Csrf-Token'' = ''x-csrf-token''"
    "map ascii_lower ''User-Agent'' = ''user-agent''" by (code_simp, code_simp, code_simp)
  then show "\<not> metadata_header ''Authorization'' k" "\<not> metadata_header ''X-Csrf-Token'' k" "\<not> metadata_header ''User-Agent'' k"
    unfolding metadata_header_def by simp_all
qed

lemma cookie_metadata: "metadata_header h k \<Longrightarrow> hr_header (CookieMiddleware r) h = hr_header r h"
  by (rule cookie_header) (metis plain_names(1))

lemma cookie_no_metadata [simp]: "no_metadata_headers (CookieMiddleware r) \<longleftrightarrow> no_metadata_headers r"
  by (simp add: no_metadata_headers_def cookie_metadata)

context gateway_runtime begin

lemma error_not_ok: "hp_status (gw_HTTPError g out e hs) \<noteq> 200"
  using error_status [of out e hs] by linarith

lemma metadata_from_client:
  assumes "gw_AnnotateContext g (gw_incoming g) rpc template (CookieMiddleware r) = Inr c" and "k \<in> set watched_keys"
  obtains md where "cx_md c = Some md" and "\<And>v. v \<in> set (md k) \<Longrightarrow>
     (\<exists>h. metadata_header h k \<and> v \<in> set (hr_header r h))
     \<or> k = ''authorization'' \<and> v \<in> set (hr_header (CookieMiddleware r) ''Authorization'')"
proof -
  from annotated [OF assms] obtain md where md: "cx_md c = Some md" "\<And>v. v \<in> set (md k) \<Longrightarrow> \<exists>h. v \<in> set (hr_header (CookieMiddleware r) h)
      \<and> (metadata_key (gw_incoming g) h k \<or> k = ''authorization'' \<and> h = ''Authorization'')" by blast
  show thesis
  proof (rule that [OF md(1)])
    fix v assume "v \<in> set (md k)"
    from md(2) [OF this] obtain h where h: "v \<in> set (hr_header (CookieMiddleware r) h)"
      "metadata_key (gw_incoming g) h k \<or> k = ''authorization'' \<and> h = ''Authorization''" by blast
    then show "(\<exists>h. metadata_header h k \<and> v \<in> set (hr_header r h))
       \<or> k = ''authorization'' \<and> v \<in> set (hr_header (CookieMiddleware r) ''Authorization'')"
      using incoming_key [OF _ assms(2), of h] by (auto simp: cookie_metadata)
  qed
qed

lemma csrf_absent:
  assumes "no_metadata_headers r" and "gw_AnnotateContext g (gw_incoming g) rpc template (CookieMiddleware r) = Inr c"
  shows "no_csrf c"
proof -
  have "md k = []" if "cx_md c = Some md" "k \<in> set watched_keys" "k \<noteq> ''authorization''" for md k
  proof -
    note k = that(2)
    obtain md' where "cx_md c = Some md'" "\<And>v. v \<in> set (md' k) \<Longrightarrow>
        (\<exists>h. metadata_header h k \<and> v \<in> set (hr_header r h))
        \<or> k = ''authorization'' \<and> v \<in> set (hr_header (CookieMiddleware r) ''Authorization'')"
      using metadata_from_client [OF assms(2) k] by blast
    with that(1,3) assms(1) have "v \<notin> set (md k)" for v unfolding no_metadata_headers_def by fastforce
    then show ?thesis by (cases "md k") auto
  qed
  from this [of _ "''cookie-csrf-token''"] this [of _ "''x-csrf-token''"] show ?thesis
    by (simp add: no_csrf_def watched_keys_def)
qed

lemma cookie_authorization:
  assumes "no_metadata_headers r" and "gw_AnnotateContext g (gw_incoming g) rpc template (CookieMiddleware r) = Inr c"
  obtains md where "cx_md c = Some md" and "md ''authorization'' = hr_header (CookieMiddleware r) ''Authorization''"
proof -
  have "hr_header (CookieMiddleware r) h = []" if "metadata_key (gw_incoming g) h ''authorization''" for h
    using incoming_key [OF that] assms(1) by (auto simp: watched_keys_def no_metadata_headers_def cookie_metadata)
  from annotated_authorization [OF assms(2) this] that show thesis by blast
qed

end

text \<open>C10: The double-submit check of CSRF tokens does not apply to browsers: whatever cookies and headers an HTTP request
  carries (a request that names gRPC metadata itself apart), the context that the gateway makes for the server passes
  the CSRF interceptor for every method, with a wrong or missing \<open>X-CSRF-Token\<close> as well.\<close>

theorem gateway_skips_csrf:
  assumes "gateway_runtime g" and "no_metadata_headers r"
    and "gw_AnnotateContext g (gw_incoming g) rpc template (CookieMiddleware r) = Inr c"
  shows "CSRFInterceptor c req m h s = h c req s"
  by (rule csrf_off) (rule gateway_runtime.csrf_absent [OF assms])

definition forged_request :: http_request where
  "forged_request = \<lparr>hr_method = ''DELETE'', hr_header = (\<lambda>k. if k = ''X-Csrf-Token'' then [''wrong''] else []),
     hr_cookies = [(''access_token'', ''good''), (''csrf_token'', ''right'')], hr_query = (\<lambda>_. []), hr_body = Inr [], hr_principal = None\<rparr>"

theorem gateway_skips_csrf_witness:
  "\<forall>h s. \<exists>c. gw_AnnotateContext ref_runtime (gw_incoming ref_runtime) DeleteServer_method ''/api/v1/servers/{server_id}'' (CookieMiddleware forged_request) = Inr c
     \<and> extractBearerTokenFromMetadata c = Inr ''good''
     \<and> CSRFInterceptor c (DeleteServerReq (Some ''17'')) DeleteServer_method h (s :: app_state gstate) = (h c (DeleteServerReq (Some ''17'')) s :: (status + response) go \<times> app_state gstate)"
proof (intro allI)
  fix h :: "(app_state, response) handler" and s :: "app_state gstate"
  have no: "no_metadata_headers forged_request" by (simp add: no_metadata_headers_def forged_request_def)
  obtain c where c: "gw_AnnotateContext ref_runtime (gw_incoming ref_runtime) DeleteServer_method ''/api/v1/servers/{server_id}'' (CookieMiddleware forged_request) = Inr c"
    by (simp add: ref_runtime_def)
  obtain md where "cx_md c = Some md" "md ''authorization'' = hr_header (CookieMiddleware forged_request) ''Authorization''"
    by (rule reference.cookie_authorization [OF no c])
  then have "extractBearerTokenFromMetadata c = Inr ''good''"
    by (intro bearer_header [OF demo_safe, of c md "[]"]) (simp_all add: CookieMiddleware_def forged_request_def)
  with gateway_skips_csrf [OF reference.gateway_runtime_axioms no c, of "DeleteServerReq (Some ''17'')" DeleteServer_method h s] c
  show "\<exists>c. gw_AnnotateContext ref_runtime (gw_incoming ref_runtime) DeleteServer_method ''/api/v1/servers/{server_id}'' (CookieMiddleware forged_request) = Inr c
     \<and> extractBearerTokenFromMetadata c = Inr ''good'' \<and> CSRFInterceptor c (DeleteServerReq (Some ''17'')) DeleteServer_method h s = h c (DeleteServerReq (Some ''17'')) s" by blast
qed

section \<open>What a change needs\<close>

lemma join_Split: "slash_join (Split s (CHR ''/'')) = s"
proof (induction s)
  case (Cons c s)
  then show ?case by (cases "Split s (CHR ''/'')" rule: slash_join.cases) auto
qed simp

lemma path_components: "HasPrefix path ''/'' \<Longrightarrow> path = CHR ''/'' # slash_join (components path)"
  by (cases path) (auto simp: components_def join_Split HasPrefix_def)

lemma binding_paths:
  assumes "b \<in> set api_bindings" and "template_match (components (bd_template b)) (components path) = Some ps" and "HasPrefix path ''/''"
  shows "map_of buildGRPCPublicMethods (bd_rpc b) = Some True \<longrightarrow> path \<in> {''/api/v1/auth/login'', ''/api/v1/auth/refresh''}"
    and "map_of buildGRPCMethodPermissions (bd_rpc b) = None \<longrightarrow> path \<in> {''/api/v1/auth/login'', ''/api/v1/auth/refresh'',
      ''/api/v1/auth/logout'', ''/api/v1/auth/logout-all''}"
    and "map_of buildGRPCMethodPermissions (bd_rpc b) = Some PermServerRead \<longrightarrow> path = ''/api/v1/servers''"
proof -
  have "path = CHR ''/'' # slash_join (components path)" by (rule path_components [OF assms(3)])
  moreover have "list_all (\<lambda>b. \<forall>ps. template_match (components (bd_template b)) (components path) = Some ps \<longrightarrow>
      (map_of buildGRPCPublicMethods (bd_rpc b) = Some True \<longrightarrow> components path \<in> {[''api'', ''v1'', ''auth'', ''login''], [''api'', ''v1'', ''auth'', ''refresh'']})
      \<and> (map_of buildGRPCMethodPermissions (bd_rpc b) = None \<longrightarrow> components path \<in> {[''api'', ''v1'', ''auth'', ''login''], [''api'', ''v1'', ''auth'', ''refresh''],
          [''api'', ''v1'', ''auth'', ''logout''], [''api'', ''v1'', ''auth'', ''logout-all'']})
      \<and> (map_of buildGRPCMethodPermissions (bd_rpc b) = Some PermServerRead \<longrightarrow> components path = [''api'', ''v1'', ''servers''])) api_bindings"
    unfolding api_bindings_def body_binding_def query_binding_def list.pred_inject
    by (simp add: template_components template_match_Some bd_rpc_def method_defs buildGRPCPublicMethods_def buildGRPCMethodPermissions_def perm_defs)
  ultimately show "map_of buildGRPCPublicMethods (bd_rpc b) = Some True \<longrightarrow> path \<in> {''/api/v1/auth/login'', ''/api/v1/auth/refresh''}"
    "map_of buildGRPCMethodPermissions (bd_rpc b) = None \<longrightarrow> path \<in> {''/api/v1/auth/login'', ''/api/v1/auth/refresh'',
      ''/api/v1/auth/logout'', ''/api/v1/auth/logout-all''}"
    "map_of buildGRPCMethodPermissions (bd_rpc b) = Some PermServerRead \<longrightarrow> path = ''/api/v1/servers''"
    using assms(1,2) by (auto simp: list_all_iff)
qed

lemma serve_changes:
  fixes s :: "app_state gstate"
  assumes "gs_app (snd (serve d h i c req s)) \<noteq> gs_app s" and "gd_Authorizer d = Some NewAuthorizer"
    and "map_of buildGRPCPublicMethods (method_of req) \<noteq> Some True"
  obtains a tok p db db' where "gd_Authenticator d = Some a" and "extractBearerTokenFromMetadata c = Inr tok"
    and "Authenticate (gd_jwt d) a (in_now i) tok db = (Returns (Inr p), db')"
    and "\<forall>required. map_of buildGRPCMethodPermissions (method_of req) = Some required \<longrightarrow>
      P_RoleCode p = RoleCodeAdmin \<or> P_RoleCode p = RoleCodeUser \<and> required = PermServerRead"
proof -
  let ?out = "inner_chain d (in_now i) c req (method_of req) (dispatch h i) s"
  have "\<not> refused s ?out"
  proof
    assume "refused s ?out"
    then have "refused s (serve d h i c req s)" unfolding serve_def server_recovered by (rule refused_recovered)
    with assms(1) show False by (simp add: refused_def)
  qed
  with server_gate.reached [of d "in_now i" c req "method_of req" "dispatch h i" s, OF refl]
  obtain c' s' where P: "server_passage d (in_now i) c req (method_of req) s c' s'" by blast
  from passage_token [OF P assms(3,2)] that show thesis by metis
qed

text \<open>
  The credentials of a request: the token that the REST middleware extracts, or a value \<open>Bearer token\<close> of the
  header \<open>Authorization\<close>, of the cookie, or of the header that the runtime turns into the metadata
  \<open>authorization\<close>.
\<close>

definition bearer_value :: "string \<Rightarrow> string \<Rightarrow> bool" where
  "bearer_value v tok \<longleftrightarrow> (\<exists>rest. SplitN2 (TrimSpace v) (CHR '' '') = [''Bearer'', rest] \<and> TrimSpace rest = tok \<and> tok \<noteq> [])"

definition credential :: "http_request \<Rightarrow> string \<Rightarrow> bool" where
  "credential r tok \<longleftrightarrow> tok \<noteq> [] \<and> (tok = extractBearer r \<or>
     (\<exists>v. bearer_value v tok \<and> (v \<in> set (hr_header r ''Authorization'')
        \<or> (\<exists>cookie. map_of (hr_cookies r) ''access_token'' = Some cookie \<and> v = ''Bearer '' @ cookie)
        \<or> (\<exists>h. metadata_header h ''authorization'' \<and> v \<in> set (hr_header r h)))))"

lemma bearer_metadata:
  assumes "extractBearerTokenFromMetadata c = Inr tok" and "cx_md c = Some md"
  obtains v where "v \<in> set (md ''authorization'')" and "bearer_value v tok" and "tok \<noteq> []"
  using assms that by (auto simp: extractBearerTokenFromMetadata_def bearer_value_def split: list.splits if_splits)

lemma gateway_credential:
  assumes "gateway_runtime g" and "gw_AnnotateContext g (gw_incoming g) rpc template (CookieMiddleware r) = Inr c"
    and "extractBearerTokenFromMetadata c = Inr tok"
  shows "credential r tok"
proof -
  obtain md where md: "cx_md c = Some md" "\<And>v. v \<in> set (md ''authorization'') \<Longrightarrow>
      (\<exists>h. metadata_header h ''authorization'' \<and> v \<in> set (hr_header r h))
      \<or> v \<in> set (hr_header (CookieMiddleware r) ''Authorization'')"
    using gateway_runtime.metadata_from_client [OF assms(1,2), of "''authorization''"] by (simp add: watched_keys_def) blast
  obtain v where v: "v \<in> set (md ''authorization'')" "bearer_value v tok" "tok \<noteq> []" by (rule bearer_metadata [OF assms(3) md(1)])
  have iff: "v \<in> set (hr_header (CookieMiddleware r) ''Authorization'') \<longleftrightarrow> v \<in> set (hr_header r ''Authorization'')
      \<or> (\<exists>cookie. map_of (hr_cookies r) ''access_token'' = Some cookie \<and> v = ''Bearer '' @ cookie)"
    by (auto simp: CookieMiddleware_def split: option.split)
  from md(2) [OF v(1)] have w: "v \<in> set (hr_header r ''Authorization'')
      \<or> (\<exists>cookie. map_of (hr_cookies r) ''access_token'' = Some cookie \<and> v = ''Bearer '' @ cookie)
      \<or> (\<exists>h. metadata_header h ''authorization'' \<and> v \<in> set (hr_header r h))"
    unfolding iff by argo
  show ?thesis unfolding credential_def by (rule conjI [OF v(3)]) (rule disjI2, rule exI [of _ v], rule conjI [OF v(2) w])
qed

text \<open>The REST routes.\<close>

lemma rest_changes:
  assumes "AuthMiddleware j auth now (PermissionMiddleware NewAuthorizer required k) r s = (out, s')" and "gs_app s' \<noteq> gs_app s"
    and "required \<noteq> []" and "required \<noteq> PermServerRead"
  obtains tok p db db' where "credential r tok" and "Authenticate j auth now tok db = (Returns (Inr p), db')" and "P_RoleCode p = RoleCodeAdmin"
proof -
  let ?tok = "extractBearer r"
  from assms(1,2) have t: "?tok \<noteq> []" by (auto simp: AuthMiddleware_def reply_def Let_def)
  obtain res db where a: "Authenticate j auth now ?tok (gs_redis s) = (res, db)" by (cases "Authenticate j auth now ?tok (gs_redis s)")
  with t assms(1,2) obtain p where res: "res = Returns (Inr p)"
    and k: "PermissionMiddleware NewAuthorizer required k (principalWithContext r p) (s\<lparr>gs_redis := db\<rparr>) = (out, s')"
    by (auto simp: AuthMiddleware_def reply_def Let_def split: go.splits sum.splits)
  from k assms(2) have "HasPermission NewAuthorizer (Some p) required"
    by (auto simp: PermissionMiddleware_def PrincipalFromContext_def principalWithContext_def reply_def split: if_splits)
  with assms(3,4) have "P_RoleCode p = RoleCodeAdmin" using HasPermission_static by blast
  with a res t show thesis by (intro that [of ?tok "gs_redis s" p db]) (simp_all add: credential_def)
qed

lemma new_routes:
  assumes "New w ev st = (Inr a, ev', st')" and "app_http wb a ctxDone i = Inr handler"
  shows "gd_Authenticator (app_deps a) = Some (NewAuthenticator (CF_JWTSecret (app_config a)) (as_redis (hs_auth (app_services a))))"
    and "gd_Authorizer (app_deps a) = Some NewAuthorizer" and "gd_jwt (app_deps a) = ow_jwt w"
    and "path = ''/api/v1/servers/import'' \<Longrightarrow> handler path r s = AuthMiddleware (ow_jwt w)
      (NewAuthenticator (CF_JWTSecret (app_config a)) (as_redis (hs_auth (app_services a)))) (in_now i)
      (PermissionMiddleware NewAuthorizer PermServerImport (HandleImport (app_services a) (wb_multipart wb))) r s"
    and "path = ''/api/v1/servers/export'' \<Longrightarrow> handler path r s = AuthMiddleware (ow_jwt w)
      (NewAuthenticator (CF_JWTSecret (app_config a)) (as_redis (hs_auth (app_services a)))) (in_now i)
      (PermissionMiddleware NewAuthorizer PermServerExport (HandleExport (app_services a) (in_now i))) r s"
proof -
  obtain db client es rl where d: "app_deps a = app_deps_of w (app_config a) client rl"
    "app_services a = app_services_of w (app_config a) db client es" by (rule new_parts [OF assms(1)])
  then show "gd_Authenticator (app_deps a) = Some (NewAuthenticator (CF_JWTSecret (app_config a)) (as_redis (hs_auth (app_services a))))"
    "gd_Authorizer (app_deps a) = Some NewAuthorizer" "gd_jwt (app_deps a) = ow_jwt w"
    by (simp_all add: app_deps_of_def app_services_of_def)
  have "as_secret (hs_auth (app_services a)) = CF_JWTSecret (app_config a)" using d(2) by (simp add: app_services_of_def)
  with assms(2) \<open>gd_jwt (app_deps a) = ow_jwt w\<close>
  show "path = ''/api/v1/servers/import'' \<Longrightarrow> handler path r s = AuthMiddleware (ow_jwt w)
      (NewAuthenticator (CF_JWTSecret (app_config a)) (as_redis (hs_auth (app_services a)))) (in_now i)
      (PermissionMiddleware NewAuthorizer PermServerImport (HandleImport (app_services a) (wb_multipart wb))) r s"
    and "path = ''/api/v1/servers/export'' \<Longrightarrow> handler path r s = AuthMiddleware (ow_jwt w)
      (NewAuthenticator (CF_JWTSecret (app_config a)) (as_redis (hs_auth (app_services a)))) (in_now i)
      (PermissionMiddleware NewAuthorizer PermServerExport (HandleExport (app_services a) (in_now i))) r s"
    by (auto simp: app_http_def setupHTTPRoutes_def split: sum.splits)
qed

lemma gateway_changes:
  assumes "gateway_runtime g" and "gwmux_ServeHTTP g (api_mux g (conn_Invoke g ctxDone (app_serve a i))) path (CookieMiddleware r) s = (out, s')"
    and "gs_app s' \<noteq> gs_app s" and "gd_Authorizer (app_deps a) = Some NewAuthorizer" and "gd_Authenticator (app_deps a) = Some auth"
    and "path \<notin> {''/api/v1/auth/login'', ''/api/v1/auth/refresh''}"
  obtains tok p db db' where "credential r tok" and "Authenticate (gd_jwt (app_deps a)) auth (in_now i) tok db = (Returns (Inr p), db')"
    and "P_RoleCode p = RoleCodeAdmin \<or> path \<in> {''/api/v1/auth/logout'', ''/api/v1/auth/logout-all''}
      \<or> P_RoleCode p = RoleCodeUser \<and> path = ''/api/v1/servers''"
proof (rule mux_call [OF assms(1), of "conn_Invoke g ctxDone (app_serve a i)" path "CookieMiddleware r" s], goal_cases)
  case (1 err)
  with assms(2,3) show ?case by simp
next
  case (2 b ps)
  note paths = binding_paths [OF 2(2,4,3)]
  from 2(6) assms(2) have "api_call g (conn_Invoke g ctxDone (app_serve a i)) b ps (CookieMiddleware r) s = (out, s')" by simp
  then obtain c req where c: "gw_AnnotateContext g (gw_incoming g) (bd_rpc b) (bd_template b) (CookieMiddleware r) = Inr c"
    and req: "transcode g b ps (CookieMiddleware r) = Inr req"
    and ch: "gs_app (snd (conn_Invoke g ctxDone (app_serve a i) c req (s\<lparr>gs_headers := []\<rparr>))) \<noteq> gs_app s"
    using assms(3) by (rule api_call_changes)
  have rpc: "method_of req = bd_rpc b" by (rule transcode_method [OF 2(2) req])
  have "gs_app (snd (serve (app_deps a) (app_services a) i c req (s\<lparr>gs_headers := []\<rparr>))) \<noteq> gs_app (s\<lparr>gs_headers := []\<rparr>)"
    using ch by (simp add: conn_Invoke_def app_serve_def split: if_splits)
  moreover have "map_of buildGRPCPublicMethods (method_of req) \<noteq> Some True" using paths(1) assms(6) rpc by auto
  ultimately obtain z tok p db db' where z: "gd_Authenticator (app_deps a) = Some z" "extractBearerTokenFromMetadata c = Inr tok"
    "Authenticate (gd_jwt (app_deps a)) z (in_now i) tok db = (Returns (Inr p), db')"
    and role: "\<forall>required. map_of buildGRPCMethodPermissions (method_of req) = Some required \<longrightarrow>
      P_RoleCode p = RoleCodeAdmin \<or> P_RoleCode p = RoleCodeUser \<and> required = PermServerRead"
    by (rule serve_changes [OF _ assms(4)])
  have "P_RoleCode p = RoleCodeAdmin \<or> path \<in> {''/api/v1/auth/logout'', ''/api/v1/auth/logout-all''}
      \<or> P_RoleCode p = RoleCodeUser \<and> path = ''/api/v1/servers''"
    using role paths(2,3) assms(6) by (cases "map_of buildGRPCMethodPermissions (bd_rpc b)") (auto simp: rpc)
  with z assms(5) gateway_credential [OF assms(1) c z(2)] show ?case by (intro 2(1)) simp_all
qed


section \<open>The session of a login\<close>

definition carries_cookie :: "http_request \<Rightarrow> string \<Rightarrow> bool" where
  "carries_cookie r access \<longleftrightarrow> map_of (hr_cookies r) ''access_token'' = Some access \<and> hr_header r ''Authorization'' = []
     \<and> hr_header r ''Grpc-Timeout'' = [] \<and> no_metadata_headers r \<and> (\<forall>h. \<forall>v\<in>set (hr_header r h). printable v) \<and> \<not> form_post r"

text \<open>Until the given time, and while no session is marked as revoked, a request with the cookie to an annotated path
  runs as the user: the handler of its RPC gets the principal of the user, or the call is refused for the
  missing permission.\<close>

definition cookie_session :: "web \<Rightarrow> App \<Rightarrow> (request \<Rightarrow> string option) \<Rightarrow> string \<Rightarrow> User \<Rightarrow> time \<Rightarrow> bool" where
  "cookie_session wb a validate access u expires \<longleftrightarrow> (\<forall>i handler path r s b ps req.
     app_http wb a False i = Inr handler \<longrightarrow> in_now i < expires \<longrightarrow> (\<forall>k. \<not> str_live (in_now i) (revoked_key k) (rdata (gs_redis s))) \<longrightarrow>
     carries_cookie r access \<longrightarrow> gateway_path path \<longrightarrow> HasPrefix path ''/'' \<longrightarrow> CHR '':'' \<notin> set path \<longrightarrow>
     find_binding (hr_method r) (components path) api_bindings = Some (b, ps) \<longrightarrow> map_of buildGRPCPublicMethods (bd_rpc b) \<noteq> Some True \<longrightarrow>
     transcode (wb_runtime wb) b ps (CookieMiddleware r) = Inr req \<longrightarrow> validate req = None \<longrightarrow>
     (\<exists>c p db. P_UserID p = nat_string (U_ID u) \<and> P_RoleCode p = U_RoleCode u \<and>
        handler path r s = gw_answer (wb_runtime wb) s (recovered (if may_call p req
          then dispatch (app_services a) i (SetPrincipal c (Some p)) req (s\<lparr>gs_headers := [], gs_redis := db\<rparr>)
          else refuse PermissionDenied ''forbidden'' (s\<lparr>gs_headers := [], gs_redis := db\<rparr>)))))"

lemma cookie_middleware_simps [simp]:
  "hr_method (CookieMiddleware r) = hr_method r" "hr_body (CookieMiddleware r) = hr_body r" "form_post (CookieMiddleware r) = form_post r"
  by (simp_all add: CookieMiddleware_def form_post_def header_Get_def split: option.split)

lemma found_binding: "find_binding m cs bs = Some (b, ps) \<Longrightarrow> b \<in> set bs"
  by (induction bs) (auto split: if_splits option.splits)

lemma printable_bearer:
  assumes "cookie_safe tok"
  shows "printable (''Bearer '' @ tok)"
proof -
  have "32 \<le> (of_char b :: nat) \<and> of_char b \<le> (126 :: nat)" if "visible b" for b
    using that unfolding visible_def by linarith
  then have "printable tok" using assms unfolding printable_def cookie_safe_def by blast
  moreover have "printable ''Bearer ''" by (simp add: printable_def)
  ultimately show ?thesis unfolding printable_def set_append by blast
qed

lemma cookie_context:
  assumes "gateway_runtime g" and "carries_cookie r access" and "cookie_safe access"
  obtains c where "gw_AnnotateContext g (gw_incoming g) rpc template (CookieMiddleware r) = Inr c"
    and "extractBearerTokenFromMetadata c = Inr access" and "no_csrf c"
proof -
  have no: "no_metadata_headers r" and auth: "hr_header (CookieMiddleware r) ''Authorization'' = [''Bearer '' @ access]"
    using assms(2) by (simp_all add: carries_cookie_def CookieMiddleware_def)
  have "printable (''Bearer '' @ access)" by (rule printable_bearer [OF assms(3)])
  then have "printable v" if "v \<in> set (hr_header (CookieMiddleware r) h)" for h v
    using that assms(2) auth by (cases "h = ''Authorization''") (simp_all add: cookie_header carries_cookie_def)
  moreover have "hr_header (CookieMiddleware r) ''Grpc-Timeout'' = []" using assms(2) by (simp add: carries_cookie_def cookie_header)
  ultimately obtain c where c: "gw_AnnotateContext g (gw_incoming g) rpc template (CookieMiddleware r) = Inr c"
    using gateway_runtime.annotates [OF assms(1), of "CookieMiddleware r" "gw_incoming g" rpc template] no by auto
  obtain md where "cx_md c = Some md" "md ''authorization'' = hr_header (CookieMiddleware r) ''Authorization''"
    by (rule gateway_runtime.cookie_authorization [OF assms(1) no c])
  with auth bearer_header [OF assms(3), of c md "[]"] gateway_runtime.csrf_absent [OF assms(1) no c] that [OF c] show thesis by simp
qed

lemma cookie_call:
  assumes "gateway_runtime (wb_runtime wb)" and "app_http wb a False i = Inr handler" and "carries_cookie r access" and "cookie_safe access"
    and "gateway_path path" and "HasPrefix path ''/''" and "CHR '':'' \<notin> set path"
    and "find_binding (hr_method r) (components path) api_bindings = Some (b, ps)" and "transcode (wb_runtime wb) b ps (CookieMiddleware r) = Inr req"
  obtains c where "handler path r s = gw_answer (wb_runtime wb) s (serve (app_deps a) (app_services a) i c req (s\<lparr>gs_headers := []\<rparr>))"
    and "extractBearerTokenFromMetadata c = Inr access" and "no_csrf c"
proof -
  let ?g = "wb_runtime wb"
  have "handler path r s = api_call ?g (conn_Invoke ?g False (app_serve a i)) b ps (CookieMiddleware r) s"
    using mux_serves [OF assms(1), of "CookieMiddleware r" path "conn_Invoke ?g False (app_serve a i)" s] assms(3,6-8)
    by (simp add: http_gateway [OF assms(2,5)] carries_cookie_def)
  moreover obtain c where c: "gw_AnnotateContext ?g (gw_incoming ?g) (bd_rpc b) (bd_template b) (CookieMiddleware r) = Inr c"
    "extractBearerTokenFromMetadata c = Inr access" "no_csrf c" by (rule cookie_context [OF assms(1,3,4)])
  ultimately show thesis using assms(9) by (intro that [of c]) (simp_all add: api_call_def conn_Invoke_def app_serve_def)
qed

lemma answered_ok:
  assumes "gateway_runtime g" and "gw_answer g s out = (Returns resp, s')" and "hp_status resp = 200"
  obtains x s1 where "out = (Returns (Inr x), s1)" and "resp = gw_ForwardResponseMessage g (gw_outgoing g) x (gs_headers s1)"
proof (cases out)
  case (Pair res s1)
  with assms that gateway_runtime.error_not_ok [OF assms(1)] show thesis
    by (cases res) (auto simp: gw_answer_def no_response_def split: if_splits sum.splits)
qed

lemma login_sets_cookie:
  assumes "serve d h i c (LoginReq (Some q)) s = (Returns (Inr x), s1)" and "GenerateCSRFToken (in_rand i) = Inr csrf"
  obtains access refresh where "x = TokenResponse access refresh ''Bearer'' 900"
    and "(''set-cookie-access-token'', authCookie ''access_token'' access 900 True) \<in> set (gs_headers s1)"
proof -
  from serve_dispatched [OF assms(1)] obtain c1 s0 where l: "LoginHandler h i c1 (Some q) s0 = (Returns (Inr x), s1)"
    by (metis dispatch.simps(1))
  then obtain ip result s2
    where w: "with_identity (Login (hs_auth h) (in_now i) (in_token i) (LQ_Identifier q) (LQ_Password q) ip (getUserAgent c1)) s0 = (Inr result, s2)"
      and x: "x = TokenResponse (LR_AccessToken result) (LR_RefreshToken result) ''Bearer'' (LR_ExpiresIn result)"
      and s1: "s1 = with_cookies i (LR_AccessToken result) (LR_RefreshToken result) (LR_ExpiresIn result) s2"
    by (rule login_handler_success) auto
  from with_identity_res [OF w] have "LR_ExpiresIn result = 900" by (auto dest: login_expires)
  with x s1 assms(2) show thesis
    by (intro that [of "LR_AccessToken result" "LR_RefreshToken result"]) (simp_all add: with_cookies_def token_cookies_def set_header_def)
qed

lemma login_route:
  assumes "gateway_runtime (wb_runtime wb)" and "app_http wb a False i = Inr handler" and "hr_method r = ''POST''" and "\<not> form_post r"
  shows "handler ''/api/v1/auth/login'' r s
    = api_call (wb_runtime wb) (conn_Invoke (wb_runtime wb) False (app_serve a i)) (api_bindings ! 7) [] (CookieMiddleware r) s"
proof -
  let ?path = "''/api/v1/auth/login''" and ?cl = "conn_Invoke (wb_runtime wb) False (app_serve a i)"
  have "find_binding ''POST'' [''api'', ''v1'', ''auth'', ''login''] api_bindings = Some (api_bindings ! 7, [])"
    by (simp add: api_bindings_def body_binding_def query_binding_def template_components)
  moreover have path: "gateway_path ?path" "HasPrefix ?path ''/''" "CHR '':'' \<notin> set ?path" by (simp_all add: gateway_path_def HasPrefix_def)
  ultimately show ?thesis
    using mux_serves [OF assms(1), of "CookieMiddleware r" ?path ?cl s] assms(3,4)
    by (simp add: http_gateway [OF assms(2) path(1)] template_components)
qed

lemma login_call:
  assumes "gateway_runtime (wb_runtime wb)" and "app_http wb a False i = Inr handler" and "hr_method r = ''POST''" and "\<not> form_post r"
    and "handler ''/api/v1/auth/login'' r s = (Returns resp, s1)" and "hp_status resp = 200"
    and "gw_Decode (wb_runtime wb) ''LoginRequest'' (hr_body r) = Inr f"
  obtains c x s2 where "serve (app_deps a) (app_services a) i c (LoginReq (Some \<lparr>LQ_Identifier = f ''identifier'', LQ_Password = f ''password''\<rparr>))
      (s\<lparr>gs_headers := []\<rparr>) = (Returns (Inr x), s2)"
    and "resp = gw_ForwardResponseMessage (wb_runtime wb) (gw_outgoing (wb_runtime wb)) x (gs_headers s2)"
proof -
  let ?g = "wb_runtime wb" and ?r = "CookieMiddleware r"
  note h = login_route [OF assms(1-4), of s]
  have t: "transcode ?g (api_bindings ! 7) [] ?r = Inr (LoginReq (Some \<lparr>LQ_Identifier = f ''identifier'', LQ_Password = f ''password''\<rparr>))"
    using assms(7) by (simp add: transcode_def decode_body_def api_bindings_def body_binding_def)
  obtain c where "gw_AnnotateContext ?g (gw_incoming ?g) (bd_rpc (api_bindings ! 7)) (bd_template (api_bindings ! 7)) ?r = Inr c"
    using h assms(5,6) gateway_runtime.error_not_ok [OF assms(1)]
    by (cases "gw_AnnotateContext ?g (gw_incoming ?g) (bd_rpc (api_bindings ! 7)) (bd_template (api_bindings ! 7)) ?r")
      (auto simp: api_call_def reply_def)
  with h t assms(5) have "gw_answer ?g s (serve (app_deps a) (app_services a) i c
      (LoginReq (Some \<lparr>LQ_Identifier = f ''identifier'', LQ_Password = f ''password''\<rparr>)) (s\<lparr>gs_headers := []\<rparr>)) = (Returns resp, s1)"
    by (simp add: api_call_def conn_Invoke_def app_serve_def)
  from answered_ok [OF assms(1) this assms(6)] that show thesis by blast
qed

text \<open>C9: A login over HTTP that is answered with status 200 sets the cookie \<open>access_token\<close>, and with this cookie (a value
  that a cookie can carry) every later request to an annotated path runs, for fifteen minutes and while no session is
  marked as revoked, as the live user whose address and password were sent: the handler of the RPC gets the id
  and the role of that user, or the request is refused when the role lacks the permission.\<close>

theorem http_login_session:
  assumes "New w ev st = (Inr a, ev', st')" and "gateway_runtime (wb_runtime wb)"
    and "identity_store (hs_auth (app_services a)) rd" and "jwt_lib (ow_jwt w)" and "exists_succeed rd" and "\<And>i. uuid_String (ow_uuid w) i \<noteq> []"
    and "ow_validator w = Inr validate" and "no_limits (app_deps a)"
    and "app_http wb a False i = Inr handler" and "hr_method r = ''POST''" and "\<not> form_post r"
    and "handler ''/api/v1/auth/login'' r s = (Returns resp, s1)" and "hp_status resp = 200"
    and "gw_Decode (wb_runtime wb) ''LoginRequest'' (hr_body r) = Inr f" and "GenerateCSRFToken (in_rand i) = Inr csrf"
    and "\<forall>u\<in>set (rows (ap_users (gs_app s))). \<forall>sid tok.
      GenerateAccessToken (ow_jwt w) (ow_uuid w) (CF_JWTSecret (app_config a)) (in_now i) (U_ID u) (U_RoleCode u) sid = Inr tok \<longrightarrow> cookie_safe tok"
  shows "\<exists>access u. (''Set-Cookie'', authCookie ''access_token'' access 900 True) \<in> set (hp_headers resp)
    \<and> u \<in> set (rows (ap_users (gs_app s))) \<and> U_DeletedAt u = None \<and> U_Email u = f ''identifier'' \<and> ow_bcrypt w (U_Password u) (f ''password'')
    \<and> cookie_session wb a validate access u (unix_time (Unix (in_now i + 15 * minute)))"
proof -
  let ?g = "wb_runtime wb" and ?h = "hs_auth (app_services a)" and ?d = "app_deps a"
  let ?auth = "NewAuthenticator (as_secret ?h) (as_redis ?h)"
  obtain db client es rl where d: "?d = app_deps_of w (app_config a) client rl"
    "app_services a = app_services_of w (app_config a) db client es" by (rule new_parts [OF assms(1)])
  then have parts: "as_jwt ?h = ow_jwt w" "as_uuid ?h = ow_uuid w" "as_bcrypt ?h = ow_bcrypt w" and secret: "as_secret ?h = CF_JWTSecret (app_config a)"
    and checks:
    "gd_Authenticator ?d = Some ?auth" "gd_jwt ?d = as_jwt ?h" "gd_Authorizer ?d = Some NewAuthorizer" "gd_Validator ?d = Iface validate"
    using assms(7) by (simp_all add: app_deps_of_def app_services_of_def)
  obtain c x s2 where l: "serve ?d (app_services a) i c (LoginReq (Some \<lparr>LQ_Identifier = f ''identifier'', LQ_Password = f ''password''\<rparr>))
      (s\<lparr>gs_headers := []\<rparr>) = (Returns (Inr x), s2)" and resp: "resp = gw_ForwardResponseMessage ?g (gw_outgoing ?g) x (gs_headers s2)"
    by (rule login_call [OF assms(2,9-14)])
  obtain access refresh where x: "x = TokenResponse access refresh ''Bearer'' 900"
    and hdr: "(''set-cookie-access-token'', authCookie ''access_token'' access 900 True) \<in> set (gs_headers s2)"
    by (rule login_sets_cookie [OF l assms(15)])
  have "gw_outgoing ?g ''set-cookie-access-token'' = Some ''Set-Cookie''" by (simp add: gw_outgoing_def CustomOutgoingMatcher_def)
  from gateway_runtime.forward_header [where out = "gw_outgoing ?g", OF assms(2) hdr this]
  have cookie: "(''Set-Cookie'', authCookie ''access_token'' access 900 True) \<in> set (hp_headers resp)" by (simp add: resp)
  obtain u p where u: "u \<in> set (rows (ap_users (gs_app s)))" "U_DeletedAt u = None" "U_Email u = f ''identifier''"
    "ow_bcrypt w (U_Password u) (f ''password'')" and p: "P_UserID p = nat_string (U_ID u)" "P_RoleCode p = U_RoleCode u"
    and sid: "\<exists>sid. GenerateAccessToken (as_jwt ?h) (as_uuid ?h) (as_secret ?h) (in_now i) (U_ID u) (U_RoleCode u) sid = Inr access"
    and tok: "\<forall>now db. now < unix_time (Unix (in_now i + 15 * minute)) \<longrightarrow> (\<forall>k. \<not> str_live now (revoked_key k) (rdata db))
      \<longrightarrow> (\<exists>db'. Authenticate (gd_jwt ?d) ?auth now access db = (Returns (Inr p), db'))"
    by (rule login_principal [OF assms(3) _ assms(5) _ checks(2) l [unfolded x]]) (simp_all add: parts assms(4,6))
  from sid assms(16) u(1) have safe: "cookie_safe access" unfolding parts secret by blast
  have "cookie_session wb a validate access u (unix_time (Unix (in_now i + 15 * minute)))"
    unfolding cookie_session_def
  proof (intro allI impI, goal_cases)
    case (1 i' handler' path r' s' b ps req)
    from 1(2,3) tok obtain db where db: "Authenticate (gd_jwt ?d) ?auth (in_now i') access (gs_redis (s'\<lparr>gs_headers := []\<rparr>)) = (Returns (Inr p), db)"
      by fastforce
    obtain c where h: "handler' path r' s' = gw_answer ?g s' (serve ?d (app_services a) i' c req (s'\<lparr>gs_headers := []\<rparr>))"
      and c: "extractBearerTokenFromMetadata c = Inr access" "no_csrf c"
      by (rule cookie_call [OF assms(2) 1(1,4) safe 1(5-8,10)])
    have "method_of req = bd_rpc b" by (rule transcode_method [OF found_binding [OF 1(8)] 1(10)])
    with 1(9) have "map_of buildGRPCPublicMethods (method_of req) \<noteq> Some True" by simp
    from served_with_token [OF assms(8) c(2) checks(4) 1(11) checks(1,3) this c(1) db, of "app_services a"] h p show ?case by auto
  qed
  with cookie u show ?thesis by blast
qed

text \<open>An instance: the application of the previous theories behind the reference runtime.\<close>

definition demo_web :: web where
  "demo_web = \<lparr>wb_runtime = ref_runtime, wb_multipart = (\<lambda>_ _. []), wb_files = (\<lambda>_. no_response)\<rparr>"

lemma demo_web_runtime: "gateway_runtime (wb_runtime demo_web)"
  using reference.gateway_runtime_axioms by (simp add: demo_web_def)

lemma demo_web_serves: obtains handler where "app_http demo_web a ctxDone i = Inr handler"
proof -
  have "gw_NewClient ref_runtime addr = None" for addr by (simp add: ref_runtime_def)
  then have "\<exists>mux. setupGRPCGateway ref_runtime ctxDone server addr = Inr mux" for server addr
    by (simp add: setupGRPCGateway_def RegisterServerManagementServiceHandlerFromEndpoint_def
        RegisterReportingServiceHandlerFromEndpoint_def RegisterAuthServiceHandlerFromEndpoint_def)
  from this [of "app_serve a i" "'':'' @ CF_GRPCPort (app_config a)"] that show thesis by (auto simp: app_http_def demo_web_def)
qed

definition login_request :: http_request where
  "login_request = \<lparr>hr_method = ''POST'', hr_header = (\<lambda>k. if k = ''User-Agent'' then [''ua''] else []), hr_cookies = [],
     hr_query = (\<lambda>_. []), hr_body = Inr ''identifier=a@b&password=pw'', hr_principal = None\<rparr>"

definition web_inputs :: inputs where
  "web_inputs = (live_inputs 0)\<lparr>in_rand := Inr ''seed''\<rparr>"

lemma login_fields: "ref_fields ''identifier=a@b&password=pw'' ''identifier'' = ''a@b''" "ref_fields ''identifier=a@b&password=pw'' ''password'' = ''pw''"
  by (code_simp, code_simp)

lemma login_request_context:
  obtains c where "gw_AnnotateContext ref_runtime (gw_incoming ref_runtime) rpc template (CookieMiddleware login_request) = Inr c"
    and "getClientIP c = Returns ''ip''" and "getUserAgent c = ''ua''" and "no_csrf c"
proof -
  let ?r = "CookieMiddleware login_request" and ?md = "ref_metadata (gw_incoming ref_runtime) (CookieMiddleware login_request)"
  have r: "?r = login_request" by (simp add: CookieMiddleware_def login_request_def)
  have c: "gw_AnnotateContext ref_runtime (gw_incoming ref_runtime) rpc template ?r
      = Inr \<lparr>cx_md = Some ?md, cx_peer = Some (Some ''ip''), cx_principal = None\<rparr>" by (simp add: ref_runtime_def)
  have "map ascii_lower ''grpcgateway-User-Agent'' = ''grpcgateway-user-agent''" by code_simp
  then have "metadata_key (gw_incoming ref_runtime) ''User-Agent'' ''grpcgateway-user-agent''"
    by (simp add: metadata_key_def gw_incoming_def CustomIncomingMatcher_def ref_runtime_def ref_matcher_def)
  then have "?md ''grpcgateway-user-agent'' = [''ua'']"
    unfolding r by (simp add: ref_metadata_def ref_headers_def login_request_def)
  moreover have "no_metadata_headers login_request" by (simp add: no_metadata_headers_def login_request_def)
  ultimately show thesis using reference.csrf_absent [OF _ c] that [OF c] by (simp add: getClientIP_def getUserAgent_def)
qed

lemma demo_login_served:
  assumes "New live_outside live_env demo_tables = (Inr a, live_env, st')" and "hs_auth (app_services a) = demo_auth" and "no_limits (app_deps a)"
    and "app_http demo_web a False web_inputs = Inr handler"
  obtains resp s1 where "handler ''/api/v1/auth/login'' login_request live_state = (Returns resp, s1)" and "hp_status resp = 200"
proof -
  let ?g = "wb_runtime demo_web" and ?path = "''/api/v1/auth/login''" and ?cl = "conn_Invoke (wb_runtime demo_web) False (app_serve a web_inputs)"
  let ?req = "LoginReq (Some \<lparr>LQ_Identifier = ''a@b'', LQ_Password = ''pw''\<rparr>)"
  have g: "?g = ref_runtime" by (simp add: demo_web_def)
  have "hr_method login_request = ''POST''" "\<not> form_post login_request" by (simp_all add: form_post_def login_request_def header_Get_def)
  note h = login_route [OF demo_web_runtime assms(4) this, of live_state]
  have "transcode ?g (api_bindings ! 7) [] (CookieMiddleware login_request) = Inr ?req"
    using login_fields by (simp add: g transcode_def decode_body_def api_bindings_def body_binding_def) (simp add: ref_runtime_def login_request_def)
  moreover obtain c where c: "gw_AnnotateContext ?g (gw_incoming ?g) (bd_rpc (api_bindings ! 7)) (bd_template (api_bindings ! 7)) (CookieMiddleware login_request) = Inr c"
    and "getClientIP c = Returns ''ip''" "getUserAgent c = ''ua''" "no_csrf c" unfolding g by (rule login_request_context)
  moreover have "in_now web_inputs = 0" "in_token web_inputs = 5" by (simp_all add: web_inputs_def live_inputs_def)
  moreover from calculation(3-7) obtain access refresh s1 where "app_serve a web_inputs c ?req live_state = (Returns (Inr (TokenResponse access refresh ''Bearer'' 900)), s1)"
    by (rule live_login_serves [OF assms(1-3)])
  moreover have "live_state\<lparr>gs_headers := []\<rparr> = live_state" by (simp add: live_state_def)
  ultimately have "handler ?path login_request live_state = gw_answer ?g live_state (Returns (Inr (TokenResponse access refresh ''Bearer'' 900)), s1)"
    unfolding h by (simp add: api_call_def conn_Invoke_def)
  then show thesis using gateway_runtime.forward_status [OF demo_web_runtime] by (intro that) (simp_all add: gw_answer_def)
qed

theorem http_login_session_witness:
  "\<exists>a handler resp s1 access u. fst (New live_outside live_env demo_tables) = Inr a \<and> app_http demo_web a False web_inputs = Inr handler
     \<and> handler ''/api/v1/auth/login'' login_request live_state = (Returns resp, s1)
     \<and> (''Set-Cookie'', authCookie ''access_token'' access 900 True) \<in> set (hp_headers resp) \<and> U_RoleCode u = RoleCodeAdmin
     \<and> cookie_session demo_web a (\<lambda>_. None) access u (unix_time (Unix (15 * minute)))"
proof -
  obtain a st' where a: "New live_outside live_env demo_tables = (Inr a, live_env, st')" "hs_auth (app_services a) = demo_auth" "no_limits (app_deps a)"
    by (rule live_new)
  obtain handler where h: "app_http demo_web a False web_inputs = Inr handler" by (rule demo_web_serves)
  obtain resp s1 where r: "handler ''/api/v1/auth/login'' login_request live_state = (Returns resp, s1)" "hp_status resp = 200"
    by (rule demo_login_served [OF a h])
  have w: "jwt_lib (ow_jwt live_outside)" "\<And>i. uuid_String (ow_uuid live_outside) i \<noteq> []" "ow_validator live_outside = Inr (\<lambda>_. None)"
    using demo_succeeds(6) by (simp_all add: live_outside_def demo_outside_def demo_auth_def mem_auth_def mem_uuid_def)
  have q: "hr_method login_request = ''POST''" "\<not> form_post login_request" by (simp_all add: form_post_def login_request_def header_Get_def)
  have f: "gw_Decode (wb_runtime demo_web) ''LoginRequest'' (hr_body login_request) = Inr (ref_fields ''identifier=a@b&password=pw'')"
    by (simp add: demo_web_def ref_runtime_def login_request_def)
  obtain csrf where csrf: "GenerateCSRFToken (in_rand web_inputs) = Inr csrf" by (simp add: GenerateCSRFToken_def web_inputs_def)
  have users: "rows (ap_users (gs_app live_state)) = [demo_user]" by (simp add: live_state_def empty_state_def demo_state_def)
  obtain db client es rl where "app_services a = app_services_of live_outside (app_config a) db client es" by (rule new_parts [OF a(1)])
  then have "as_secret (hs_auth (app_services a)) = CF_JWTSecret (app_config a)" by (simp add: app_services_of_def)
  then have "CF_JWTSecret (app_config a) = ''secret''" unfolding a(2) by (simp add: demo_auth_def mem_auth_def)
  then have safe: "\<forall>u\<in>set (rows (ap_users (gs_app live_state))). \<forall>sid tok.
      GenerateAccessToken (ow_jwt live_outside) (ow_uuid live_outside) (CF_JWTSecret (app_config a)) (in_now web_inputs) (U_ID u) (U_RoleCode u) sid = Inr tok
      \<longrightarrow> cookie_safe tok"
    using demo_token_safe by (simp add: users demo_user_def live_outside_def)
  from http_login_session [OF a(1) demo_web_runtime demo_store [folded a(2)] w(1) mem_redis_succeeds(2) w(2,3) a(3) h q r f csrf safe]
  obtain access u where set: "(''Set-Cookie'', authCookie ''access_token'' access 900 True) \<in> set (hp_headers resp)"
    and u: "u \<in> set (rows (ap_users (gs_app live_state)))"
    and session: "cookie_session demo_web a (\<lambda>_. None) access u (unix_time (Unix (in_now web_inputs + 15 * minute)))" by blast
  have "U_RoleCode u = RoleCodeAdmin" using u by (simp add: users demo_user_def role_defs)
  moreover have "cookie_session demo_web a (\<lambda>_. None) access u (unix_time (Unix (15 * minute)))"
    using session by (simp add: web_inputs_def live_inputs_def)
  moreover have "fst (New live_outside live_env demo_tables) = Inr a" by (simp add: a(1))
  ultimately show ?thesis using h r(1) set by blast
qed

section \<open>After the signal\<close>

text \<open>C0: From the signal to stop on, the gateway answers every request with an error and changes nothing, although the HTTP
  server still waits for the requests it is serving: the connections of the gateway are closed by the context of the
  signal.\<close>

theorem gateway_closed_by_signal:
  assumes "gateway_runtime (wb_runtime wb)" and "app_http wb a True i = Inr handler" and "gateway_path path"
  shows "\<exists>resp. handler path r s = (Returns resp, s) \<and> 400 \<le> hp_status resp"
proof -
  let ?g = "wb_runtime wb"
  have "\<exists>resp. api_call ?g (conn_Invoke ?g True (app_serve a i)) b ps (CookieMiddleware r) s = (Returns resp, s) \<and> 400 \<le> hp_status resp" for b ps
    using gateway_runtime.error_status [OF assms(1)] by (auto simp: api_call_def conn_Invoke_def answer_refused reply_def split: sum.split)
  then show ?thesis unfolding http_gateway [OF assms(2,3)]
    by (cases rule: mux_call [OF assms(1), of "conn_Invoke ?g True (app_serve a i)" path "CookieMiddleware r" s]) auto
qed

theorem gateway_closed_by_signal_witness:
  "\<exists>a handler resp. fst (New live_outside live_env demo_tables) = Inr a \<and> app_http demo_web a True web_inputs = Inr handler
     \<and> handler ''/api/v1/servers'' demo_http live_state = (Returns resp, live_state) \<and> 400 \<le> hp_status resp"
proof -
  obtain a st' where a: "New live_outside live_env demo_tables = (Inr a, live_env, st')" by (rule live_new)
  obtain handler where h: "app_http demo_web a True web_inputs = Inr handler" by (rule demo_web_serves)
  have "gateway_path ''/api/v1/servers''" by (simp add: gateway_path_def HasPrefix_def)
  from gateway_closed_by_signal [OF demo_web_runtime h this, of demo_http live_state] a h show ?thesis by (metis fst_conv)
qed

section \<open>An instance of a change\<close>

text \<open>The forged request with the cookie of an administrator deletes a server.\<close>

definition admin_outside :: outside where
  "admin_outside = demo_outside\<lparr>ow_jwt := admin_jwt\<rparr>"

definition stored_state :: "app_state gstate" where
  "stored_state = live_state\<lparr>gs_app := demo_tables\<lparr>ap_servers := \<lparr>rows = [zero_server\<lparr>S_ServerID := ''17''\<rparr>], tenv = 0\<rparr>\<rparr>\<rparr>"

lemma admin_new:
  obtains a st' client where "New admin_outside live_env demo_tables = (Inr a, live_env, st')"
    and "no_limits (app_deps a)"
    and "gd_Validator (app_deps a) = Iface (\<lambda>_. None)" and "gd_Authenticator (app_deps a) = Some (NewAuthenticator (CF_JWTSecret (app_config a)) client)"
    and "gd_Authorizer (app_deps a) = Some NewAuthorizer" and "gd_jwt (app_deps a) = admin_jwt"
    and "sv_repo (hs_server (app_services a)) = mem_gorm (\<lambda>_. None) (\<lambda>n x. x) (\<lambda>_. True)" and "sv_cache (hs_server (app_services a)) = Some (Iface (mem_redis (\<lambda>_. None)))"
proof -
  obtain cfg where cfg: "Load (\<lambda>_ e. e) live_env = (Inr cfg, live_env)" using live_load by blast
  then obtain a st' where a: "New admin_outside live_env demo_tables = (Inr a, live_env, st')"
    by (simp add: New_def admin_outside_def demo_outside_def Let_def)
  obtain db client es rl where p: "app_deps a = app_deps_of admin_outside (app_config a) client rl"
    "app_services a = app_services_of admin_outside (app_config a) db client es" "ow_database admin_outside (CF_DBUrl (app_config a)) = Inr db"
    "client = iface_of_pointer (NewRedisClient (ow_redis admin_outside) (app_redis_config (ev_vars live_env)))"
    "rl = (case LoadRateLimitConfig (ev_vars live_env) of Inl _ \<Rightarrow> None | Inr c \<Rightarrow> Some c)" by (rule new_parts [OF a])
  obtain rcfg where "app_redis_config (ev_vars live_env) = Some rcfg" "RD_Enabled rcfg" using live_redis by blast
  then have client: "client = Iface (mem_redis (\<lambda>_. None))"
    by (simp add: p(4) NewRedisClient_def iface_of_pointer_def admin_outside_def demo_outside_def)
  have "\<forall>c. LoadRateLimitConfig (ev_vars live_env) = Inr c \<longrightarrow> \<not> RL_Enabled c"
    by (auto simp: LoadRateLimitConfig_def live_env_def Let_def split: if_splits option.splits)
  then have "no_limits (app_deps a)" by (auto simp: no_limits_def p(1,5) app_deps_of_def split: sum.splits)
  moreover have "db_servers db = mem_gorm (\<lambda>_. None) (\<lambda>n x. x) (\<lambda>_. True)"
    using p(3) by (auto simp: admin_outside_def demo_outside_def demo_databases_def)
  ultimately show thesis
    using client by (intro that [OF a, of client])
      (simp_all add: p(1,2) app_deps_of_def app_services_of_def admin_outside_def demo_outside_def demo_databases_def)
qed

lemma forged_carries: "carries_cookie forged_request ''good''"
  by (simp add: carries_cookie_def forged_request_def no_metadata_headers_def form_post_def printable_def)


end
