(* ===== verification/Platform.thy ===== *)
theory Platform
  imports Config Notification
begin

text \<open>
  Small parts that the processes share: the one database connection of a process
  (\<open>internal/shared/database/postgres.go\<close>), transactions of the server repository
  (\<open>repository/impl/tx_manager.go\<close> and \<open>getDB\<close>), the settings of the logger
  (\<open>internal/shared/logger/logger.go\<close>) and the check of the mail server (\<open>smtp/client.go\<close>, \<open>Ping\<close>).
  \<open>gorm\<close>, \<open>zap\<close>, \<open>lumberjack\<close> and \<open>net.Dialer\<close> are parameters.
\<close>

section \<open>The connection of a process\<close>

record pool_settings =
  MaxOpenConns :: int
  MaxIdleConns :: int
  ConnMaxLifetime :: int
  ConnMaxIdleTime :: int

definition connection_pool :: pool_settings where
  "connection_pool = \<lparr>MaxOpenConns = 25, MaxIdleConns = 25, ConnMaxLifetime = 5 * minute, ConnMaxIdleTime = 3 * minute\<rparr>"

text \<open>
  The package variables. \<open>gorm.Open\<close> returns a pointer and an error, of which the pointer may be nil;
  \<open>DB\<close> gives the pool of a connection or an error.
\<close>

record 'db database_vars =
  dbInstance :: "'db option"
  dbOnce :: bool
  dbError :: "string option"

record 'db gorm_open =
  go_Open :: "string \<Rightarrow> 'db option \<times> string option"
  go_DB :: "'db option \<Rightarrow> string option"
  go_set :: "pool_settings \<Rightarrow> 'db \<Rightarrow> 'db"

definition connect_once :: "'db gorm_open \<Rightarrow> string \<Rightarrow> 'db database_vars \<Rightarrow> 'db database_vars" where
  "connect_once g dsn v =
     (case go_Open g dsn of
        (db, Some e) \<Rightarrow> v\<lparr>dbInstance := db, dbError := Some e, dbOnce := True\<rparr>
      | (db, None) \<Rightarrow>
          (case go_DB g db of
             Some e \<Rightarrow> v\<lparr>dbInstance := db, dbError := Some e, dbOnce := True\<rparr>
           | None \<Rightarrow> v\<lparr>dbInstance := map_option (go_set g connection_pool) db, dbError := None, dbOnce := True\<rparr>))"

definition GetInstance :: "'db gorm_open \<Rightarrow> string \<Rightarrow> 'db database_vars \<Rightarrow> ('db option \<times> string option) \<times> 'db database_vars" where
  "GetInstance g dsn v =
     (let v1 = (if dbOnce v then v else connect_once g dsn v) in ((dbInstance v1, dbError v1), v1))"

text \<open>A process connects once: the first call decides, and every later call gets its result, whatever its address is;
  a failed connection is not tried again.\<close>

lemma connects_once:
  assumes "GetInstance g dsn v = (r, v1)"
  shows "GetInstance g' dsn' v1 = (r, v1)"
proof -
  have "dbOnce v1" using assms by (auto simp: GetInstance_def connect_once_def Let_def split: prod.splits option.splits)
  with assms show ?thesis by (auto simp: GetInstance_def Let_def)
qed

fun connect_all :: "('db gorm_open \<times> string) list \<Rightarrow> 'db database_vars \<Rightarrow> ('db option \<times> string option) list" where
  "connect_all [] v = []"
| "connect_all ((g, dsn) # calls) v = (case GetInstance g dsn v of (r, v1) \<Rightarrow> r # connect_all calls v1)"

lemma one_connection:
  assumes "dbOnce v = False"
  shows "connect_all ((g, dsn) # calls) v = replicate (Suc (length calls)) (fst (GetInstance g dsn v))"
proof -
  obtain r v1 where g: "GetInstance g dsn v = (r, v1)" by (cases "GetInstance g dsn v")
  then have "connect_all calls v1 = replicate (length calls) r"
  proof (induction calls)
    case (Cons call calls)
    with connects_once [OF g] show ?case by (cases call) simp
  qed simp
  with g show ?thesis by simp
qed

section \<open>Transactions\<close>

text \<open>
  The context of a call of the server repository: the connection of a transaction, if one is under way.
  \<open>gorm\<close>'s \<open>Transaction\<close> is a parameter: it runs a function on the state and commits or rolls back.
\<close>

record 'db tx_ctx =
  txKey :: "'db option"

type_synonym 's tx_result = "string option go \<times> 's"

definition getDB :: "'db \<Rightarrow> 'db tx_ctx \<Rightarrow> 'db" where
  "getDB db c = (case txKey c of Some tx \<Rightarrow> tx | None \<Rightarrow> db)"

definition WithTx ::
  "(('db \<Rightarrow> 's \<Rightarrow> 's tx_result) \<Rightarrow> 's \<Rightarrow> 's tx_result) \<Rightarrow> 'db tx_ctx \<Rightarrow> ('db tx_ctx \<Rightarrow> 's \<Rightarrow> 's tx_result) \<Rightarrow> 's \<Rightarrow> 's tx_result" where
  "WithTx Transaction c fn s = Transaction (\<lambda>tx. fn (c\<lparr>txKey := Some tx\<rparr>)) s"

locale gorm_transaction =
  fixes Transaction :: "('db \<Rightarrow> 's \<Rightarrow> 's tx_result) \<Rightarrow> 's \<Rightarrow> 's tx_result"
  assumes commit: "Transaction f s = (Returns None, s') \<Longrightarrow> \<exists>tx. f tx s = (Returns None, s')"
    and rollback: "Transaction f s = (r, s') \<Longrightarrow> r \<noteq> Returns None \<Longrightarrow> s' = s"
begin

text \<open>All or nothing: the repository calls of the function use the connection of the transaction, and what
  they did stays only if the function and the commit succeed.\<close>

lemma with_tx_atomic:
  assumes "WithTx Transaction c fn s = (r, s')"
  shows "r = Returns None \<and> (\<exists>c' tx. (\<forall>db. getDB db c' = tx) \<and> fn c' s = (Returns None, s')) \<or> r \<noteq> Returns None \<and> s' = s"
proof (cases "r = Returns None")
  case True
  with assms commit [of "\<lambda>tx. fn (c\<lparr>txKey := Some tx\<rparr>)"] obtain tx where "fn (c\<lparr>txKey := Some tx\<rparr>) s = (Returns None, s')"
    by (auto simp: WithTx_def)
  moreover have "\<forall>db. getDB db (c\<lparr>txKey := Some tx\<rparr>) = tx" by (simp add: getDB_def)
  ultimately show ?thesis using True by blast
next
  case False
  with assms rollback show ?thesis unfolding WithTx_def by blast
qed

end

text \<open>A reference: begin may fail, and so may the commit; a panic is raised again after the roll-back.\<close>

definition ref_transaction :: "'db \<Rightarrow> string option \<Rightarrow> string option \<Rightarrow> ('db \<Rightarrow> 's \<Rightarrow> 's tx_result) \<Rightarrow> 's \<Rightarrow> 's tx_result" where
  "ref_transaction tx begins commits f s =
     (case begins of
        Some e \<Rightarrow> (Returns (Some e), s)
      | None \<Rightarrow>
          (case f tx s of
             (Returns None, s') \<Rightarrow> (case commits of Some e \<Rightarrow> (Returns (Some e), s) | None \<Rightarrow> (Returns None, s'))
           | (r, _) \<Rightarrow> (r, s)))"

interpretation reference_tx: gorm_transaction "ref_transaction tx begins commits" for tx begins commits
  by unfold_locales (auto simp: ref_transaction_def split: option.splits prod.splits go.splits)

section \<open>The logger\<close>

text \<open>The settings of the rotating file: \<open>InitLogger\<close> replaces values that make no sense. An error on the left ends
  the process.\<close>

record rotation =
  LJ_Filename :: string
  LJ_MaxSize :: int
  LJ_MaxBackups :: int
  LJ_MaxAge :: int
  LJ_Compress :: bool

definition InitLogger :: "(string \<Rightarrow> string option) \<Rightarrow> LoggerConfig \<Rightarrow> string \<Rightarrow> string + rotation" where
  "InitLogger MkdirAll cfg appName =
     (case MkdirAll ''logs'' of
        Some e \<Rightarrow> Inl (''failed to create logs directory: '' @ e)
      | None \<Rightarrow> Inr \<lparr>
          LJ_Filename = (if appName \<noteq> [] then ''logs/'' @ appName @ ''.log'' else ''logs/app.log''),
          LJ_MaxSize = (if LC_LogMaxSize cfg \<le> 0 then 10 else LC_LogMaxSize cfg),
          LJ_MaxBackups = (if LC_LogMaxBackups cfg < 0 then 3 else LC_LogMaxBackups cfg),
          LJ_MaxAge = (if LC_LogMaxAge cfg \<le> 0 then 28 else LC_LogMaxAge cfg),
          LJ_Compress = LC_LogCompress cfg\<rparr>)"

text \<open>Every process has a file of its own and settings that rotate it, whatever the configuration says.\<close>

lemma logger_rotates:
  assumes "InitLogger mk cfg app = Inr r"
  shows "0 < LJ_MaxSize r" and "0 \<le> LJ_MaxBackups r" and "0 < LJ_MaxAge r"
  using assms by (auto simp: InitLogger_def split: option.splits)

lemma log_files_apart:
  assumes "InitLogger mk cfg a = Inr r" and "InitLogger mk' cfg' b = Inr r'" and "LJ_Filename r = LJ_Filename r'" and "a \<noteq> []" and "b \<noteq> []"
  shows "a = b"
  using assms by (auto simp: InitLogger_def split: option.splits)

section \<open>The mail server\<close>

definition PingSMTP :: "(string \<Rightarrow> string option) \<Rightarrow> string \<Rightarrow> string \<Rightarrow> string + unit" where
  "PingSMTP dial host port =
     (let addr = JoinHostPort host port in
      case dial addr of Some e \<Rightarrow> Inl (''dial smtp server '' @ addr @ '': '' @ e) | None \<Rightarrow> Inr ())"

text \<open>A mail can be sent only where the check succeeds.\<close>

lemma ping_before_send:
  assumes "Send cfg srv dt msg box = (Inr (), box')"
  shows "PingSMTP (sm_Dial srv) (SMTP_Host cfg) (SMTP_Port cfg) = Inr ()"
  using assms by (auto simp: Send_def PingSMTP_def mail_step_def Let_def split: option.splits if_splits)

end
