(* ===== verification/Simulator.thy ===== *)
theory Simulator
  imports Monitoring
begin

text \<open>
  The simulator of a network of servers: \<open>cmd/simulator/main.go\<close> (an HTTP service that makes addresses
  unreachable through an nftables set, and a flapper that does so at random), \<open>cmd/simulator/seed\<close>
  (fills Postgres and Redis with servers at these addresses) and \<open>cmd/simulator/run\<close> (toggles
  addresses and runs the monitoring pool in rounds). The program \<open>nft\<close>, the JSON codec and the HTTP
  client are parameters, and so is the permutation that \<open>rand.Perm\<close> draws.
\<close>

section \<open>Settings\<close>

definition envStr :: "env \<Rightarrow> string \<Rightarrow> string \<Rightarrow> string" where
  "envStr env key dflt = (if env key \<noteq> [] then env key else dflt)"

definition envBool :: "env \<Rightarrow> string \<Rightarrow> bool \<Rightarrow> bool" where
  "envBool env key dflt = (if env key \<noteq> [] then (case ParseBool (env key) of Inr b \<Rightarrow> b | Inl _ \<Rightarrow> dflt) else dflt)"

text \<open>\<open>strconv.ParseFloat\<close>, on finite values, is a parameter.\<close>

definition envFloat :: "(string \<Rightarrow> rat option) \<Rightarrow> env \<Rightarrow> string \<Rightarrow> rat \<Rightarrow> rat" where
  "envFloat parseFloat env key dflt =
     (if env key \<noteq> [] then (case parseFloat (env key) of Some f \<Rightarrow> f | None \<Rightarrow> dflt) else dflt)"

definition envDuration :: "env \<Rightarrow> string \<Rightarrow> duration \<Rightarrow> duration" where
  "envDuration env key dflt =
     (if env key \<noteq> [] then
        (case ParseDuration (env key) of
           Some d \<Rightarrow> d
         | None \<Rightarrow> (case Atoi (env key) of (seconds, None) \<Rightarrow> wrap64 (seconds * second) | _ \<Rightarrow> dflt))
      else dflt)"

text \<open>The reader of \<open>run\<close> ignores the error of \<open>Atoi\<close>.\<close>

definition run_envInt :: "env \<Rightarrow> string \<Rightarrow> int \<Rightarrow> int" where
  "run_envInt env key dflt = (if env key \<noteq> [] then fst (Atoi (env key)) else dflt)"

definition total_ips :: "env \<Rightarrow> int" where
  "total_ips env =
     (if env ''SIMULATOR_IP_COUNT'' \<noteq> []
      then (case Atoi (env ''SIMULATOR_IP_COUNT'') of (n, None) \<Rightarrow> n | _ \<Rightarrow> 10000) else 10000)"

section \<open>Addresses\<close>

definition octets_step :: "int \<times> int \<Rightarrow> int \<times> int" where
  "octets_step o34 = (let octet4 = snd o34 + 1 in if octet4 > 254 then (fst o34 + 1, 1) else (fst o34, octet4))"

definition sim_address :: "string \<Rightarrow> int \<times> int \<Rightarrow> string" where
  "sim_address subnet o34 = subnet @ ''.'' @ Itoa (fst o34) @ ''.'' @ Itoa (snd o34)"

fun ip_loop :: "nat \<Rightarrow> string \<Rightarrow> int \<times> int \<Rightarrow> string list" where
  "ip_loop 0 subnet o34 = []"
| "ip_loop (Suc k) subnet o34 = sim_address subnet o34 # ip_loop k subnet (octets_step o34)"

definition makeslice :: string where
  "makeslice = ''makeslice: cap out of range''"

definition generateIPs :: "int \<Rightarrow> string \<Rightarrow> string list go" where
  "generateIPs n subnet = (if n < 0 then Panics makeslice else Returns (ip_loop (nat n) subnet (0, 1)))"

definition pickRandom :: "string list \<Rightarrow> int \<Rightarrow> nat list \<Rightarrow> string list" where
  "pickRandom ips n perm =
     (let m = (if n > int (length ips) then int (length ips) else n) in
      if m \<le> 0 then [] else map (\<lambda>i. ips ! i) (take (nat m) perm))"

section \<open>The set of unreachable addresses\<close>

record sim =
  sim_down :: "string list"
  sim_env :: nat

record nft =
  nf_flush :: "sim \<Rightarrow> string option \<times> sim"
  nf_add :: "string \<Rightarrow> sim \<Rightarrow> string option \<times> sim"
  nf_delete :: "string \<Rightarrow> sim \<Rightarrow> string option \<times> sim"
  nf_list :: "sim \<Rightarrow> (string + string) \<times> sim"

definition flushDownIPs :: "nft \<Rightarrow> sim \<Rightarrow> string option \<times> sim" where
  "flushDownIPs n s = nf_flush n s"

definition addDownIP :: "nft \<Rightarrow> string \<Rightarrow> sim \<Rightarrow> string option \<times> sim" where
  "addDownIP n ip s = nf_add n ip s"

definition deleteDownIP :: "nft \<Rightarrow> string \<Rightarrow> sim \<Rightarrow> string option \<times> sim" where
  "deleteDownIP n ip s = nf_delete n ip s"

text \<open>\<open>strings.Index\<close>.\<close>

fun strings_Index :: "string \<Rightarrow> string \<Rightarrow> nat option" where
  "strings_Index [] sub = (if sub = [] then Some 0 else None)"
| "strings_Index (c # s) sub = (if prefix sub (c # s) then Some 0 else map_option Suc (strings_Index s sub))"

definition cleanIPs :: "string list \<Rightarrow> string list" where
  "cleanIPs ips = filter (\<lambda>ip. ip \<noteq> []) (map TrimSpace ips)"

text \<open>The keys of the map that \<open>listDownIPs\<close> fills.\<close>

definition parse_down :: "string \<Rightarrow> string list" where
  "parse_down output =
     (case strings_Index output ''elements = {'' of
        None \<Rightarrow> []
      | Some idx \<Rightarrow>
          (let rest = drop (idx + length ''elements = {'') output in
           case strings_Index rest ''}'' of
             None \<Rightarrow> []
           | Some endIdx \<Rightarrow>
               (let elements = TrimSpace (take endIdx rest) in
                if elements = [] then [] else remdups (cleanIPs (Split elements (CHR '',''))))))"

definition listDownIPs :: "nft \<Rightarrow> sim \<Rightarrow> (string + string list) \<times> sim" where
  "listDownIPs n s = (case nf_list n s of (Inl e, s') \<Rightarrow> (Inl e, s') | (Inr out, s') \<Rightarrow> (Inr (parse_down out), s'))"

section \<open>The service\<close>

datatype sim_response = SimError int string | SimOk | SimStatus int int

fun add_all :: "nft \<Rightarrow> string list \<Rightarrow> sim \<Rightarrow> string option \<times> sim" where
  "add_all n [] s = (None, s)"
| "add_all n (ip # ips) s = (case addDownIP n ip s of (Some e, s') \<Rightarrow> (Some e, s') | (None, s') \<Rightarrow> add_all n ips s')"

fun delete_all :: "nft \<Rightarrow> string list \<Rightarrow> sim \<Rightarrow> sim" where
  "delete_all n [] s = s"
| "delete_all n (ip # ips) s = delete_all n ips (snd (deleteDownIP n ip s))"

definition handleReset :: "nft \<Rightarrow> string \<Rightarrow> sim \<Rightarrow> sim_response \<times> sim" where
  "handleReset n verb s =
     (if verb \<noteq> ''POST'' then (SimError 405 ''method not allowed'', s)
      else (case flushDownIPs n s of
              (Some _, s') \<Rightarrow> (SimError 500 ''nft error'', s')
            | (None, s') \<Rightarrow> (SimOk, s')))"

text \<open>\<open>json.Decoder.Decode\<close> of a request is a parameter.\<close>

definition handleDown :: "nft \<Rightarrow> (string \<Rightarrow> string list option) \<Rightarrow> string \<Rightarrow> string \<Rightarrow> sim \<Rightarrow> sim_response \<times> sim" where
  "handleDown n decode verb body s =
     (if verb \<noteq> ''POST'' then (SimError 405 ''method not allowed'', s)
      else (case decode body of
              None \<Rightarrow> (SimError 400 ''invalid json'', s)
            | Some ips \<Rightarrow>
                (case add_all n (cleanIPs ips) s of
                   (Some _, s') \<Rightarrow> (SimError 500 ''nft error'', s')
                 | (None, s') \<Rightarrow> (SimOk, s'))))"

definition handleUp :: "nft \<Rightarrow> (string \<Rightarrow> string list option) \<Rightarrow> string \<Rightarrow> string \<Rightarrow> sim \<Rightarrow> sim_response \<times> sim" where
  "handleUp n decode verb body s =
     (if verb \<noteq> ''POST'' then (SimError 405 ''method not allowed'', s)
      else (case decode body of
              None \<Rightarrow> (SimError 400 ''invalid json'', s)
            | Some ips \<Rightarrow> (SimOk, delete_all n (cleanIPs ips) s)))"

definition handleStatus :: "nft \<Rightarrow> int \<Rightarrow> sim \<Rightarrow> sim_response \<times> sim" where
  "handleStatus n totalIPs s =
     (case listDownIPs n s of
        (Inl _, s') \<Rightarrow> (SimError 500 ''nft error'', s')
      | (Inr downSet, s') \<Rightarrow> (SimStatus totalIPs (int (length downSet)), s'))"

definition sim_main :: "nft \<Rightarrow> (string \<Rightarrow> string list option) \<Rightarrow> int \<Rightarrow> string \<Rightarrow> string \<Rightarrow> string \<Rightarrow> sim \<Rightarrow> sim_response \<times> sim" where
  "sim_main n decode totalIPs path verb body s =
     (if path = ''/up'' then handleUp n decode verb body s
      else if path = ''/down'' then handleDown n decode verb body s
      else if path = ''/status'' then handleStatus n totalIPs s
      else if path = ''/reset'' then handleReset n verb s
      else (SimError 404 ''404 page not found'', s))"

section \<open>The flapper\<close>

fun flap_loop :: "nft \<Rightarrow> string list \<Rightarrow> string list \<Rightarrow> sim \<Rightarrow> string option \<times> sim" where
  "flap_loop n [] downSet s = (None, s)"
| "flap_loop n (ip # selected) downSet s =
     (if ip \<in> set downSet
      then (case deleteDownIP n ip s of
              (Some e, s') \<Rightarrow> (Some e, s')
            | (None, s') \<Rightarrow> flap_loop n selected (removeAll ip downSet) s')
      else (case addDownIP n ip s of
              (Some e, s') \<Rightarrow> (Some e, s')
            | (None, s') \<Rightarrow> flap_loop n selected (ip # downSet) s'))"

definition flapOnce :: "nft \<Rightarrow> string list \<Rightarrow> int \<Rightarrow> nat list \<Rightarrow> sim \<Rightarrow> string option \<times> sim" where
  "flapOnce n ips flipCount perm s =
     (case listDownIPs n s of
        (Inl e, s') \<Rightarrow> (Some e, s')
      | (Inr downSet, s') \<Rightarrow> flap_loop n (pickRandom ips flipCount perm) downSet s')"

text \<open>
  The conversion of a \<open>float64\<close> to \<open>int\<close>: out of range it is what the amd64 instruction gives.
\<close>

definition int_of_float :: "rat \<Rightarrow> int" where
  "int_of_float q =
     (let i = (if q < 0 then - \<lfloor>- q\<rfloor> else \<lfloor>q\<rfloor>) in if min_int64 \<le> i \<and> i \<le> max_int64 then i else min_int64)"

definition flip_count :: "int \<Rightarrow> rat \<Rightarrow> int" where
  "flip_count totalIPs percent =
     (let n0 = int_of_float (fl (fl (fl (of_int totalIPs) * percent) / 100));
          n1 = (if n0 < 1 \<and> totalIPs > 0 then 1 else n0)
      in if n1 > totalIPs then totalIPs else n1)"

text \<open>What the ticker of the flapper works with, or none when it is disabled.\<close>

record flapper =
  fp_interval :: duration
  fp_ips :: "string list"
  fp_flipCount :: int
  fp_seed :: int

definition startAutoFlapper :: "(string \<Rightarrow> rat option) \<Rightarrow> env \<Rightarrow> int \<Rightarrow> flapper option go" where
  "startAutoFlapper parseFloat env unixNano =
     (let interval = envDuration env ''SIMULATOR_FLAP_INTERVAL'' (60 * second);
          percent = envFloat parseFloat env ''SIMULATOR_FLAP_PERCENT'' 5;
          totalIPs = total_ips env
      in if interval \<le> 0 \<or> percent \<le> 0 then Returns None
         else (case generateIPs totalIPs (envStr env ''SIMULATOR_SUBNET'' ''10.1'') of
                 Panics m \<Rightarrow> Panics m
               | Returns ips \<Rightarrow>
                   Returns (Some \<lparr>fp_interval = interval, fp_ips = ips, fp_flipCount = flip_count totalIPs percent,
                     fp_seed = (if env ''SIMULATOR_FLAP_SEED'' \<noteq> []
                                then (case Atoi (env ''SIMULATOR_FLAP_SEED'') of (k, None) \<Rightarrow> k | _ \<Rightarrow> unixNano) else unixNano)\<rparr>)))"

definition sim_flapper :: "(string \<Rightarrow> rat option) \<Rightarrow> env \<Rightarrow> int \<Rightarrow> flapper option go" where
  "sim_flapper parseFloat env unixNano =
     (if envBool env ''SIMULATOR_AUTO_FLAP_ENABLED'' False then startAutoFlapper parseFloat env unixNano else Returns None)"

section \<open>Seeding\<close>

text \<open>Fresh UUIDs and the removal of the keys \<open>server:*\<close> are parameters.\<close>

record seed_deps =
  sd_dotenv :: "string option \<Rightarrow> env \<Rightarrow> env"
  sd_database :: "string \<Rightarrow> string + Server gorm"
  sd_redis :: "RedisConfig \<Rightarrow> redis"
  sd_flush :: "redis \<Rightarrow> redis_db \<Rightarrow> redis_db"
  sd_uuid :: "nat \<Rightarrow> string"

datatype seed_error = SeedConfig config_error | SeedDatabase string | SeedCleanup gorm_error | SeedRedis config_error
  | SeedCreate nat gorm_error

definition seed_server :: "(nat \<Rightarrow> string) \<Rightarrow> nat \<Rightarrow> int \<times> int \<Rightarrow> Server" where
  "seed_server uuid j o34 = zero_server\<lparr>S_ServerID := uuid j, S_ServerName := ''sim-'' @ take 8 (uuid j),
     S_IPv4 := sim_address ''10.1'' o34, S_CurrentStatus := ServerStatusOnline\<rparr>"

definition seed_item :: "Server \<Rightarrow> CacheUpsertItem" where
  "seed_item x = \<lparr>CI_ID = S_ServerID x, CI_IPv4 = S_IPv4 x, CI_Status = ''ONLINE'', CI_RetryCount = 0\<rparr>"

fun seed_batch :: "(nat \<Rightarrow> string) \<Rightarrow> nat \<Rightarrow> nat \<Rightarrow> int \<times> int \<Rightarrow> Server list \<times> (int \<times> int)" where
  "seed_batch uuid j 0 o34 = ([], o34)"
| "seed_batch uuid j (Suc k) o34 =
     (case seed_batch uuid (Suc j) k (octets_step o34) of (xs, o34') \<Rightarrow> (seed_server uuid j o34 # xs, o34'))"

definition seed_batchSize :: nat where "seed_batchSize = 500"

text \<open>The loop: \<open>i\<close> servers are stored, \<open>k\<close> remain. A failure of Redis is logged only.\<close>

function seed_loop ::
  "Server gorm \<Rightarrow> redis iface \<Rightarrow> (nat \<Rightarrow> string) \<Rightarrow> nat \<Rightarrow> nat \<Rightarrow> int \<times> int \<Rightarrow> server_state \<Rightarrow> (seed_error + unit) go \<times> server_state" where
  "seed_loop g client uuid i k o34 s =
     (if k = 0 then (Returns (Inr ()), s)
      else
        (let m = min seed_batchSize k; (batch, o34') = seed_batch uuid i m o34 in
         case BatchCreate g batch (st_servers s) of
           (Inl e, t) \<Rightarrow> (Returns (Inl (SeedCreate i e)), s\<lparr>st_servers := t\<rparr>)
         | (Inr _, t) \<Rightarrow>
             (case BatchUpsert client (map seed_item batch) (st_cache s) of
                (Panics p, r) \<Rightarrow> (Panics p, s\<lparr>st_servers := t, st_cache := r\<rparr>)
              | (Returns _, r) \<Rightarrow> seed_loop g client uuid (i + m) (k - m) o34' (s\<lparr>st_servers := t, st_cache := r\<rparr>))))"
  by pat_completeness auto
termination
  by (relation "measure (\<lambda>(g, client, uuid, i, k, o34, s). k)") (auto simp: seed_batchSize_def)

declare seed_loop.simps [simp del]

definition seed_run :: "seed_deps \<Rightarrow> env_state \<Rightarrow> server_state \<Rightarrow> (seed_error + unit) go \<times> server_state" where
  "seed_run d ev s =
     (let n = (if ev_vars ev ''SIMULATOR_IP_COUNT'' \<noteq> [] then fst (Atoi (ev_vars ev ''SIMULATOR_IP_COUNT'')) else 10000) in
      case Load (sd_dotenv d) ev of
        (Inl e, _) \<Rightarrow> (Returns (Inl (SeedConfig e)), s)
      | (Inr cfg, ev') \<Rightarrow>
          (case sd_database d (CF_DBUrl cfg) of
             Inl e \<Rightarrow> (Returns (Inl (SeedDatabase e)), s)
           | Inr g \<Rightarrow>
               (case g_delete g (\<lambda>x. prefix ''sim-'' (S_ServerName x)) (st_servers s) of
                  (Inl e, t) \<Rightarrow> (Returns (Inl (SeedCleanup e)), s\<lparr>st_servers := t\<rparr>)
                | (Inr _, t) \<Rightarrow>
                    (let s1 = s\<lparr>st_servers := t\<rparr> in
                     case LoadRedisConfig (ev_vars ev') of
                       Inl e \<Rightarrow> (Returns (Inl (SeedRedis e)), s1)
                     | Inr rcfg \<Rightarrow>
                         (let redisClient = NewRedisClient (sd_redis d) (Some rcfg);
                              s2 = (case redisClient of None \<Rightarrow> s1 | Some c \<Rightarrow> s1\<lparr>st_cache := sd_flush d c (st_cache s1)\<rparr>)
                          in seed_loop g (iface_of_pointer redisClient) (sd_uuid d) 0 (nat n) (0, 1) s2)))))"

section \<open>Simulation runs\<close>

text \<open>
  The HTTP client is a parameter: a post of addresses to a path gives an error or a status. The
  permutation that \<open>rand.Perm\<close> draws is an argument.
\<close>

type_synonym 'w post = "string \<Rightarrow> string list \<Rightarrow> 'w \<Rightarrow> (string + int) \<times> 'w"

datatype post_error = PostFailed string | PostStatus int

definition resetAll :: "'w post \<Rightarrow> 'w \<Rightarrow> post_error option \<times> 'w" where
  "resetAll post w =
     (case post ''/reset'' [] w of
        (Inl e, w') \<Rightarrow> (Some (PostFailed e), w')
      | (Inr st, w') \<Rightarrow> (if st \<noteq> 200 then Some (PostStatus st) else None, w'))"

definition toggle_batchSize :: nat where "toggle_batchSize = 200"

function toggleIPs :: "'w post \<Rightarrow> string \<Rightarrow> string list \<Rightarrow> 'w \<Rightarrow> post_error option \<times> 'w" where
  "toggleIPs post action ips w =
     (if ips = [] then (None, w)
      else (case post (''/'' @ action) (take toggle_batchSize ips) w of
              (Inl e, w') \<Rightarrow> (Some (PostFailed e), w')
            | (Inr st, w') \<Rightarrow>
                if st \<noteq> 200 then (Some (PostStatus st), w')
                else toggleIPs post action (drop toggle_batchSize ips) w'))"
  by pat_completeness auto
termination
  by (relation "measure (\<lambda>(post, action, ips, w). length ips)") (auto simp: toggle_batchSize_def)

declare toggleIPs.simps [simp del]

definition run_pickRandom :: "string list \<Rightarrow> int \<Rightarrow> nat list \<Rightarrow> string list go" where
  "run_pickRandom ips n perm =
     (let m = (if n > int (length ips) then int (length ips) else n) in
      if m < 0 then Panics ''makeslice: len out of range'' else Returns (map (\<lambda>i. ips ! i) (take (nat m) perm)))"

text \<open>The numbers of addresses a round toggles: Go's division truncates.\<close>

definition go_quot :: "int \<Rightarrow> int \<Rightarrow> int" where
  "go_quot a b = (if (a < 0) \<noteq> (b < 0) then - (\<bar>a\<bar> div \<bar>b\<bar>) else \<bar>a\<bar> div \<bar>b\<bar>)"

definition toggleCount :: "int \<Rightarrow> int \<Rightarrow> int" where
  "toggleCount serverCount togglePercent = go_quot (wrap64 (serverCount * togglePercent)) 100"

definition run_toggles :: "'w post \<Rightarrow> int \<Rightarrow> string list \<Rightarrow> nat list \<Rightarrow> nat list \<Rightarrow> 'w \<Rightarrow> unit go \<times> 'w" where
  "run_toggles post n allIPs perm1 perm2 w =
     (case run_pickRandom allIPs n perm1 of
        Panics m \<Rightarrow> (Panics m, w)
      | Returns ipsToDown \<Rightarrow>
          (let w1 = snd (toggleIPs post ''down'' ipsToDown w) in
           case run_pickRandom allIPs (go_quot n 2) perm2 of
             Panics m \<Rightarrow> (Panics m, w1)
           | Returns ipsToUp \<Rightarrow> (Returns (), snd (toggleIPs post ''up'' ipsToUp w1))))"

text \<open>The average of the rounds: without a round, the division by their number panics.\<close>

definition average :: "duration list \<Rightarrow> duration go" where
  "average ds =
     (if ds = [] then Panics ''integer divide by zero'' else Returns (go_quot (wrap64 (sum_list ds)) (int (length ds))))"

definition run_generateIPs :: "int \<Rightarrow> string list go" where
  "run_generateIPs n = generateIPs n ''10.1''"

text \<open>A get of the status gives an error or the numbers that are decoded from the body.\<close>

definition getStatus :: "('w \<Rightarrow> (string + int \<times> int) \<times> 'w) \<Rightarrow> 'w \<Rightarrow> (int \<times> int) \<times> 'w" where
  "getStatus http_get w = (case http_get w of (Inl _, w') \<Rightarrow> ((0, 0), w') | (Inr st, w') \<Rightarrow> (st, w'))"

record simConfig =
  sg_serverCount :: int
  sg_rounds :: int
  sg_togglePercent :: int

definition sim_config :: "env \<Rightarrow> simConfig" where
  "sim_config env = \<lparr>sg_serverCount = run_envInt env ''SIMULATOR_IP_COUNT'' 10000, sg_rounds = run_envInt env ''SIMULATION_ROUNDS'' 10,
     sg_togglePercent = run_envInt env ''SIMULATION_TOGGLE_PCT'' 5\<rparr>"

record roundMetrics =
  rm_round :: int
  rm_duration :: duration
  rm_serversUp :: int
  rm_serversDown :: int

text \<open>
  The rounds from a given one on: the toggles, whose errors are logged only, a run of the monitoring
  pool, whose error is logged only, and the status of the simulator. \<open>rand.Perm\<close> draws any permutations,
  and the time a round takes is any.
\<close>

inductive sim_rounds ::
  "'w post \<Rightarrow> ('w \<Rightarrow> (string + int \<times> int) \<times> 'w) \<Rightarrow> workerPool \<Rightarrow> simConfig \<Rightarrow> string list \<Rightarrow>
   int \<Rightarrow> 'w \<times> mon_state \<Rightarrow> roundMetrics list go \<Rightarrow> 'w \<times> mon_state \<Rightarrow> bool" for post http_get wp cfg allIPs where
  rounds_end: "sg_rounds cfg < k \<Longrightarrow> sim_rounds post http_get wp cfg allIPs k s (Returns []) s"
| round_panics: "k \<le> sg_rounds cfg \<Longrightarrow> mset perm1 = mset [0..<length allIPs] \<Longrightarrow> mset perm2 = mset [0..<length allIPs] \<Longrightarrow>
     run_toggles post (toggleCount (sg_serverCount cfg) (sg_togglePercent cfg)) allIPs perm1 perm2 w = (Panics msg, w1) \<Longrightarrow>
     sim_rounds post http_get wp cfg allIPs k (w, m) (Panics msg) (w1, m)"
| round_next: "k \<le> sg_rounds cfg \<Longrightarrow> mset perm1 = mset [0..<length allIPs] \<Longrightarrow> mset perm2 = mset [0..<length allIPs] \<Longrightarrow>
     run_toggles post (toggleCount (sg_serverCount cfg) (sg_togglePercent cfg)) allIPs perm1 perm2 w = (Returns (), w1) \<Longrightarrow>
     pool_Run wp m res m1 \<Longrightarrow> getStatus http_get w1 = ((tot, dn), w2) \<Longrightarrow>
     sim_rounds post http_get wp cfg allIPs (k + 1) (w2, m1) r s' \<Longrightarrow>
     sim_rounds post http_get wp cfg allIPs k (w, m)
       (case r of Panics msg \<Rightarrow> Panics msg
        | Returns ms \<Rightarrow> Returns (\<lparr>rm_round = k, rm_duration = elapsed, rm_serversUp = wrap64 (tot - dn), rm_serversDown = dn\<rparr> # ms)) s'"

inductive_cases sim_roundsE: "sim_rounds post http_get wp cfg allIPs k s r s'"

text \<open>\<open>Shutdown\<close> of the monitoring application closes the logger and waits for its flusher.\<close>

definition mon_Shutdown :: "workerPool \<Rightarrow> mon_state \<Rightarrow> mon_state" where
  "mon_Shutdown wp m =
     (let l = mo_esLogger (wp_monService wp); lg = snd (close_channel (ms_log m)) in
      m\<lparr>ms_log := (flusher_receive l ^^ Suc (length (lg_ch lg))) lg\<rparr>)"

datatype run_error = WarmupReset post_error | InitMonitoring start_error

text \<open>
  \<open>run\<close> with what it logs at the end, the average duration of a round. \<open>Shutdown\<close> is deferred, so that it
  also runs when a round or the average panics.
\<close>

definition run_average :: "roundMetrics list go \<Rightarrow> (run_error + duration) go" where
  "run_average r =
     (case r of
        Panics msg \<Rightarrow> Panics msg
      | Returns ms \<Rightarrow> (case average (map rm_duration ms) of Panics msg \<Rightarrow> Panics msg | Returns avg \<Rightarrow> Returns (Inr avg)))"

inductive sim_run ::
  "'w post \<Rightarrow> ('w \<Rightarrow> (string + int \<times> int) \<times> 'w) \<Rightarrow> world \<Rightarrow> env_state \<Rightarrow> es_state \<Rightarrow> Server tbl \<Rightarrow> redis_db \<Rightarrow> 'w \<Rightarrow>
   (run_error + duration) go \<Rightarrow> 'w \<Rightarrow> mon_state option \<Rightarrow> bool" for post http_get wd ev es t rdb w where
  run_reset_fails: "resetAll post w = (Some e, w1) \<Longrightarrow> sim_run post http_get wd ev es t rdb w (Returns (Inl (WarmupReset e))) w1 None"
| run_count_panics: "resetAll post w = (None, w1) \<Longrightarrow> run_generateIPs (sg_serverCount (sim_config (ev_vars ev))) = Panics msg \<Longrightarrow>
     sim_run post http_get wd ev es t rdb w (Panics msg) w1 None"
| run_init_panics: "resetAll post w = (None, w1) \<Longrightarrow> run_generateIPs (sg_serverCount (sim_config (ev_vars ev))) = Returns allIPs \<Longrightarrow>
     fst (NewMonitoringApp wd ev es) = Panics msg \<Longrightarrow> sim_run post http_get wd ev es t rdb w (Panics msg) w1 None"
| run_init_fails: "resetAll post w = (None, w1) \<Longrightarrow> run_generateIPs (sg_serverCount (sim_config (ev_vars ev))) = Returns allIPs \<Longrightarrow>
     fst (NewMonitoringApp wd ev es) = Returns (Inl e) \<Longrightarrow> sim_run post http_get wd ev es t rdb w (Returns (Inl (InitMonitoring e))) w1 None"
| run_rounds: "resetAll post w = (None, w1) \<Longrightarrow> run_generateIPs (sg_serverCount (sim_config (ev_vars ev))) = Returns allIPs \<Longrightarrow>
     fst (NewMonitoringApp wd ev es) = Returns (Inr (wp, lg)) \<Longrightarrow>
     sim_rounds post http_get wp (sim_config (ev_vars ev)) allIPs 1 (w1, \<lparr>ms_servers = t, ms_redis = rdb, ms_log = lg, ms_net = 0\<rparr>) r (w2, m) \<Longrightarrow>
     sim_run post http_get wd ev es t rdb w (run_average r) w2 (Some (mon_Shutdown wp m))"

inductive_cases sim_runE: "sim_run post http_get wd ev es t rdb w out w' m"

end
