(* ===== verification/Simulator_Props.thy ===== *)
theory Simulator_Props
  imports Simulator Server_Props
begin

text \<open>
  What the simulator guarantees: its addresses, what a round of the flapper does to the set of
  unreachable addresses, and that a toggle of any number of addresses, in batches over HTTP, does what
  it says. \<open>nft_set\<close> is the contract of the program \<open>nft\<close> on one set: what it changes, and the text it
  prints, with any white space between the elements.
\<close>

section \<open>White space around a text\<close>

definition blank :: "string \<Rightarrow> bool" where
  "blank l \<longleftrightarrow> set l \<subseteq> {CHR 0x09, CHR 0x0A, CHR '' ''}"

lemma strip_one_char: "[c] \<in> set ws \<Longrightarrow> list_all (\<lambda>w. w \<noteq> [] \<and> (hd w = c \<longrightarrow> w = [c])) ws \<Longrightarrow> strip_one ws (c # s) = Some s"
  by (induction ws) (auto simp: prefix_Cons)

lemma blank_runes:
  "list_all (\<lambda>w. w \<noteq> [] \<and> (of_char (hd w) \<in> {9, 10, 32 :: nat} \<longrightarrow> tl w = []) \<and> (of_char (last w) \<in> {9, 10, 32 :: nat} \<longrightarrow> tl w = [])) space_runes"
  "{[char_of (9 :: nat)], [char_of (10 :: nat)], [char_of (32 :: nat)]} \<subseteq> set space_runes"
  by (simp_all add: space_runes_def)

lemma strip_blank:
  assumes "c \<in> {CHR 0x09, CHR 0x0A, CHR '' ''}"
  shows "strip_one space_runes (c # s) = Some s" and "strip_one (map rev space_runes) (c # s) = Some s"
proof -
  from assms have n: "of_char c \<in> {9, 10, 32 :: nat}" by auto
  moreover have "c = char_of (of_char c :: nat)" by simp
  ultimately have mem: "[c] \<in> set space_runes" using blank_runes(2) by (elim insertE) (simp_all only: insert_subset empty_iff)
  have w: "w \<noteq> [] \<and> (hd w = c \<longrightarrow> w = [c]) \<and> (last w = c \<longrightarrow> w = [c])" if "w \<in> set space_runes" for w
  proof -
    from blank_runes(1) that have 1: "w \<noteq> []" "of_char (hd w) \<in> {9, 10, 32 :: nat} \<longrightarrow> tl w = []" "of_char (last w) \<in> {9, 10, 32 :: nat} \<longrightarrow> tl w = []"
      unfolding list_all_iff by blast+
    have "w = [hd w] \<and> w = [last w]" if "tl w = []" using that 1(1) by (cases w) simp_all
    with 1 n show ?thesis by metis
  qed
  show "strip_one space_runes (c # s) = Some s"
    by (rule strip_one_char [OF mem]) (use w in \<open>simp add: list_all_iff\<close>)
  have "[c] \<in> set (map rev space_runes)" using mem by (force simp: image_iff)
  moreover have "rev w \<noteq> [] \<and> (hd (rev w) = c \<longrightarrow> rev w = [c])" if "w \<in> set space_runes" for w
    using w [OF that] by (cases "w = [c]") (simp_all add: hd_rev)
  ultimately show "strip_one (map rev space_runes) (c # s) = Some s"
    using strip_one_char [of c "map rev space_runes" s] unfolding list_all_iff set_map by blast
qed

lemma strip_all_blank:
  assumes "blank l"
  shows "strip_all space_runes (l @ s) = strip_all space_runes s" and "strip_all (map rev space_runes) (l @ s) = strip_all (map rev space_runes) s"
  using assms
  by (induction l) (simp_all add: blank_def strip_blank strip_all.simps [of space_runes "_ # _"] strip_all.simps [of "map rev space_runes" "_ # _"])

lemma TrimSpace_pad:
  assumes "blank l" and "blank r" and "s \<noteq> []" and "visible (hd s)" and "visible (last s)"
  shows "TrimSpace (l @ s @ r) = s"
proof -
  have "hd w = hd s" if "prefix w (s @ r)" "w \<noteq> []" for w using that assms(3) by (auto simp: prefix_def) (metis hd_append2)
  then have "strip_one space_runes (s @ r) = None"
    using space_runes_ends assms(4) by (auto simp: strip_one_None list_all_iff)
  then have "TrimSpace (l @ s @ r) = rev (strip_all (map rev space_runes) (rev r @ rev s))"
    by (simp add: TrimSpace_def strip_all_blank [OF assms(1)] strip_all_fix)
  moreover have "blank (rev r)" using assms(2) by (simp add: blank_def)
  moreover have "strip_all (map rev space_runes) (rev s) = rev s"
  proof (rule strip_all_fix)
    have "last w = last s" if "prefix (rev w) (rev s)" "w \<noteq> []" for w
      using that by (auto simp: prefix_def rev_eq_append_conv)
    then show "strip_one (map rev space_runes) (rev s) = None"
      using space_runes_ends assms(5) by (auto simp: strip_one_None list_all_iff)
  qed
  ultimately show ?thesis by (simp add: strip_all_blank)
qed

section \<open>The listing of the set\<close>

text \<open>An address as the simulator writes it: digits and dots.\<close>

definition plain :: "string \<Rightarrow> bool" where
  "plain ip \<longleftrightarrow> ip \<noteq> [] \<and> (\<forall>c\<in>set ip. is_digit c \<or> c = CHR ''.'')"

lemma plain_chars:
  assumes "plain ip"
  shows "\<forall>c\<in>set ip. visible c \<and> c \<noteq> CHR '','' \<and> c \<noteq> CHR ''}''"
  using assms by (auto simp: plain_def is_digit_def visible_def)

lemma plain_pad: "plain ip \<Longrightarrow> blank l \<Longrightarrow> blank r \<Longrightarrow> TrimSpace (l @ ip @ r) = ip"
  using plain_chars [of ip] by (intro TrimSpace_pad) (auto simp: plain_def)

text \<open>The elements after the first, each with the white space before and after its comma.\<close>

fun elements :: "string \<Rightarrow> (string \<times> string \<times> string) list \<Rightarrow> string" where
  "elements x [] = x"
| "elements x ((r, l, y) # ys) = x @ r @ '','' @ l @ elements y ys"

definition padded :: "(string \<times> string \<times> string) list \<Rightarrow> bool" where
  "padded ys \<longleftrightarrow> (\<forall>(r, l, y)\<in>set ys. blank r \<and> blank l \<and> plain y)"

lemma Split_cut: "sep \<notin> set s \<Longrightarrow> Split (s @ sep # t) sep = s # Split t sep"
  by (induction s) auto

lemma clean_elements:
  "blank l \<Longrightarrow> plain x \<Longrightarrow> padded ys \<Longrightarrow> cleanIPs (Split (l @ elements x ys) (CHR '','')) = x # map (snd \<circ> snd) ys"
proof (induction ys arbitrary: l x)
  case Nil
  then have "CHR '','' \<notin> set (l @ x)" using plain_chars [of x] by (auto simp: blank_def)
  then show ?case
    using Nil plain_pad [of x l "[]"] by (simp add: Split_single cleanIPs_def plain_def blank_def)
next
  case (Cons e ys)
  obtain r l' y where e: "e = (r, l', y)" by (metis prod_cases3)
  with Cons.prems have y: "blank r" "blank l'" "plain y" "padded ys" by (auto simp: padded_def)
  have "CHR '','' \<notin> set (l @ x @ r)" using Cons.prems y(1) plain_chars [of x] by (auto simp: blank_def)
  then have "Split (l @ elements x (e # ys)) (CHR '','') = (l @ x @ r) # Split (l' @ elements y ys) (CHR '','')"
    using Split_cut [of "CHR '',''" "l @ x @ r"] by (simp add: e)
  moreover have "TrimSpace (l @ x @ r) = x" "x \<noteq> []"
    using Cons.prems y(1) plain_pad by (auto simp: plain_def)
  ultimately show ?case using Cons.IH [OF y(2-4)] by (simp add: cleanIPs_def e)
qed

lemma elements_ends:
  "plain x \<Longrightarrow> padded ys \<Longrightarrow> elements x ys \<noteq> [] \<and> visible (hd (elements x ys)) \<and> visible (last (elements x ys)) \<and> CHR ''}'' \<notin> set (elements x ys)"
proof (induction ys arbitrary: x)
  case Nil
  then show ?case using plain_chars [of x] by (auto simp: plain_def)
next
  case (Cons e ys)
  obtain r l y where e: "e = (r, l, y)" by (metis prod_cases3)
  with Cons.prems have y: "blank r" "blank l" "plain y" "padded ys" by (auto simp: padded_def)
  from Cons.IH [OF y(3,4)] y(1,2) Cons.prems(1) plain_chars [of x] show ?case
    by (auto simp: e plain_def blank_def)
qed

definition listing_head :: string where
  "listing_head = ''table inet sim {'' @ [CHR 0x0A, CHR 0x09] @ ''set down_ips {'' @ [CHR 0x0A, CHR 0x09, CHR 0x09] @ ''type ipv4_addr'' @ [CHR 0x0A]"

definition listing_tail :: string where
  "listing_tail = [CHR 0x09, CHR ''}'', CHR 0x0A, CHR ''}'', CHR 0x0A]"

text \<open>What \<open>nft list set\<close> prints for a set with the given elements.\<close>

definition listing :: "string list \<Rightarrow> string \<Rightarrow> bool" where
  "listing xs out \<longleftrightarrow>
     (case xs of
        [] \<Rightarrow> out = listing_head @ listing_tail
      | x # xs' \<Rightarrow>
          (\<exists>l r ys. blank l \<and> blank r \<and> padded ys \<and> map (snd \<circ> snd) ys = xs' \<and>
             out = listing_head @ [CHR 0x09, CHR 0x09] @ ''elements = {'' @ l @ elements x ys @ r @ ''}'' @ [CHR 0x0A] @ listing_tail))"

lemma Index_brace: "CHR ''}'' \<notin> set body \<Longrightarrow> strings_Index (body @ CHR ''}'' # rest) ''}'' = Some (length body)"
  by (induction body) auto

lemma Index_head:
  "strings_Index (listing_head @ CHR 0x09 # CHR 0x09 # CHR ''e'' # CHR ''l'' # CHR ''e'' # CHR ''m'' # CHR ''e'' # CHR ''n'' # CHR ''t'' # CHR ''s'' # CHR '' '' # CHR ''='' # CHR '' '' # CHR ''{'' # rest) ''elements = {''
     = Some (length listing_head + 2)"
  by (simp add: listing_head_def)

lemma Index_empty: "strings_Index (listing_head @ listing_tail) ''elements = {'' = None"
  by (simp add: listing_head_def listing_tail_def)

theorem parse_listing:
  assumes "listing xs out" and "\<forall>x\<in>set xs. plain x"
  shows "set (parse_down out) = set xs"
proof (cases xs)
  case Nil
  with assms(1) show ?thesis by (simp add: listing_def parse_down_def Index_empty)
next
  case (Cons x xs')
  with assms obtain l r ys where *: "blank l" "blank r" "padded ys" "map (snd \<circ> snd) ys = xs'" "plain x"
    and out: "out = listing_head @ [CHR 0x09, CHR 0x09] @ ''elements = {'' @ l @ elements x ys @ r @ ''}'' @ [CHR 0x0A] @ listing_tail"
    by (auto simp: listing_def)
  note ends = elements_ends [OF *(5,3)]
  let ?body = "l @ elements x ys @ r"
  have idx: "strings_Index out ''elements = {'' = Some (length listing_head + 2)" by (simp add: out Index_head)
  have rest: "drop (length listing_head + 2 + length ''elements = {'') out = ?body @ CHR ''}'' # CHR 0x0A # listing_tail" by (simp add: out)
  have "CHR ''}'' \<notin> set ?body" using ends *(1,2) by (auto simp: blank_def)
  then have "strings_Index (?body @ CHR ''}'' # CHR 0x0A # listing_tail) ''}'' = Some (length ?body)" by (rule Index_brace)
  moreover have "TrimSpace ?body = elements x ys" using TrimSpace_pad [OF *(1,2)] ends by blast
  moreover have "cleanIPs (Split (elements x ys) (CHR '','')) = x # xs'"
    using clean_elements [of "[]", OF _ *(5,3)] *(4) by (simp add: blank_def)
  ultimately show ?thesis
    using ends unfolding parse_down_def idx option.case Let_def rest by (auto simp: Cons)
qed

section \<open>The contract of the set\<close>

abbreviation down :: "sim \<Rightarrow> string set" where
  "down s \<equiv> set (sim_down s)"

locale nft_set =
  fixes n :: nft
  assumes add_ok: "nf_add n ip s = (None, s') \<Longrightarrow> plain ip \<Longrightarrow> down s' = insert ip (down s)"
    and add_err: "nf_add n ip s = (Some e, s') \<Longrightarrow> down s' = down s"
    and delete_ok: "nf_delete n ip s = (None, s') \<Longrightarrow> plain ip \<Longrightarrow> down s' = down s - {ip}"
    and delete_err: "nf_delete n ip s = (Some e, s') \<Longrightarrow> down s' = down s"
    and flush_ok: "nf_flush n s = (None, s') \<Longrightarrow> down s' = {}"
    and flush_err: "nf_flush n s = (Some e, s') \<Longrightarrow> down s' = down s"
    and list_keeps: "nf_list n s = (r, s') \<Longrightarrow> down s' = down s"
    and list_ok: "nf_list n s = (Inr out, s') \<Longrightarrow> \<exists>xs. set xs = down s \<and> listing xs out"
begin

lemma listed:
  assumes "listDownIPs n s = (r, s')" and "\<forall>ip\<in>down s. plain ip"
  shows "down s' = down s" and "r = Inr ips \<Longrightarrow> set ips = down s"
proof -
  obtain o1 where o1: "nf_list n s = (o1, s')" and r: "r = (case o1 of Inl e \<Rightarrow> Inl e | Inr out \<Rightarrow> Inr (parse_down out))"
    using assms(1) by (auto simp: listDownIPs_def split: prod.splits sum.splits)
  show "down s' = down s" by (rule list_keeps [OF o1])
  assume "r = Inr ips"
  with r obtain out where out: "o1 = Inr out" "ips = parse_down out" by (auto split: sum.splits)
  from list_ok [OF o1 [unfolded out(1)]] obtain xs where "set xs = down s" "listing xs out" by blast
  with parse_listing [of xs out] assms(2) out(2) show "set ips = down s" by simp
qed

text \<open>The flapper up to its first error: some prefix of the selection is flipped, all of it without an error.\<close>

lemma flap_prefix:
  assumes "flap_loop n sel ds s = (e, s')" and "set ds = down s" and "\<forall>ip\<in>set sel. plain ip" and "distinct sel"
  shows "\<exists>j. down s' = sym_diff (down s) (set (take j sel)) \<and> (e = None \<longleftrightarrow> length sel \<le> j)"
  using assms
proof (induction sel arbitrary: ds s)
  case Nil
  then show ?case by auto
next
  case (Cons ip sel)
  define upd where "upd = (if ip \<in> set ds then deleteDownIP n ip s else addDownIP n ip s)"
  define ds1 where "ds1 = (if ip \<in> set ds then removeAll ip ds else ip # ds)"
  obtain r s1 where u: "upd = (r, s1)" by fastforce
  have step: "flap_loop n (ip # sel) ds s = (case r of Some x \<Rightarrow> (Some x, s1) | None \<Rightarrow> flap_loop n sel ds1 s1)"
    using u by (auto simp: upd_def ds1_def split: option.split)
  show ?case
  proof (cases r)
    case (Some x)
    then have "down s1 = down s" using u add_err delete_err by (auto simp: upd_def addDownIP_def deleteDownIP_def split: if_splits)
    with Some step Cons.prems(1) show ?thesis by (intro exI [of _ 0]) auto
  next
    case None
    have s1: "down s1 = sym_diff (down s) {ip}" "set ds1 = down s1"
      using u None Cons.prems(2,3) add_ok delete_ok by (auto simp: upd_def ds1_def addDownIP_def deleteDownIP_def split: if_splits)
    from Cons.IH [of ds1 s1] s1(2) None step Cons.prems obtain j
      where j: "down s' = sym_diff (down s1) (set (take j sel))" "e = None \<longleftrightarrow> length sel \<le> j" by auto
    have "ip \<notin> set (take j sel)" using Cons.prems(4) by (auto dest: in_set_takeD)
    with j s1(1) show ?thesis by (intro exI [of _ "Suc j"]) auto
  qed
qed

lemma add_all_down:
  assumes "add_all n ips s = (e, s')" and "\<forall>ip\<in>set ips. plain ip"
  shows "down s \<subseteq> down s' \<and> down s' \<subseteq> down s \<union> set ips \<and> (e = None \<longrightarrow> down s' = down s \<union> set ips)"
  using assms
proof (induction ips arbitrary: s)
  case (Cons ip ips)
  obtain r s1 where r: "nf_add n ip s = (r, s1)" by fastforce
  show ?case
  proof (cases r)
    case None
    with Cons.prems r have s1: "down s1 = insert ip (down s)" "add_all n ips s1 = (e, s')" using add_ok by (simp_all add: addDownIP_def)
    with Cons.IH [OF s1(2)] Cons.prems(2) show ?thesis by auto
  next
    case (Some x)
    with Cons.prems r add_err [of ip s x s1] show ?thesis by (auto simp: addDownIP_def)
  qed
qed simp

lemma delete_all_down:
  assumes "\<forall>ip\<in>set ips. plain ip"
  shows "down s - set ips \<subseteq> down (delete_all n ips s) \<and> down (delete_all n ips s) \<subseteq> down s
    \<and> ((\<forall>ip s e s'. nf_delete n ip s = (Some e, s') \<longrightarrow> ip \<notin> down s) \<longrightarrow> down (delete_all n ips s) = down s - set ips)"
  using assms
proof (induction ips arbitrary: s)
  case (Cons ip ips)
  obtain r s1 where r: "nf_delete n ip s = (r, s1)" by fastforce
  have "down s1 = down s - {ip} \<or> down s1 = down s \<and> (\<exists>e. r = Some e)"
    using r Cons.prems delete_ok [of ip s s1] delete_err [of ip s _ s1] by (cases r) auto
  moreover have "delete_all n (ip # ips) s = delete_all n ips s1" by (simp add: deleteDownIP_def r)
  moreover have "down s1 - set ips \<subseteq> down (delete_all n ips s1) \<and> down (delete_all n ips s1) \<subseteq> down s1
    \<and> ((\<forall>ip s e s'. nf_delete n ip s = (Some e, s') \<longrightarrow> ip \<notin> down s) \<longrightarrow> down (delete_all n ips s1) = down s1 - set ips)"
    using Cons.IH [of s1] Cons.prems by simp
  moreover have "set (ip # ips) = insert ip (set ips)" by simp
  ultimately show ?case using r by (elim disjE) (simp, blast)+
qed simp

end

section \<open>The addresses\<close>

definition nth_address :: "string \<Rightarrow> nat \<Rightarrow> string" where
  "nth_address subnet i = subnet @ CHR ''.'' # nat_string (i div 254) @ CHR ''.'' # nat_string (i mod 254 + 1)"

definition nth_octets :: "nat \<Rightarrow> int \<times> int" where
  "nth_octets i = (int (i div 254), int (i mod 254) + 1)"

lemma octets_start: "(0, 1) = nth_octets 0"
  by (simp add: nth_octets_def)

lemma octets_next: "octets_step (nth_octets i) = nth_octets (Suc i)"
  by (auto simp: octets_step_def nth_octets_def Let_def mod_Suc div_Suc)

lemma address_at: "sim_address subnet (nth_octets i) = nth_address subnet i"
  by (simp add: sim_address_def nth_octets_def nth_address_def Itoa_def nat_add_distrib)

lemma ip_loop_nth: "ip_loop k subnet (nth_octets i) = map (nth_address subnet) [i..<i + k]"
  by (induction k arbitrary: i) (simp_all add: octets_next address_at upt_conv_Cons del: upt_Suc)

lemma seed_batch_nth:
  "seed_batch uuid j k (nth_octets i) = (xs, o34) \<Longrightarrow> map S_IPv4 xs = map (nth_address ''10.1'') [i..<i + k] \<and> o34 = nth_octets (i + k)
     \<and> (\<forall>x\<in>set xs. prefix ''sim-'' (S_ServerName x) \<and> S_CurrentStatus x = ServerStatusOnline)"
proof (induction k arbitrary: i j xs o34)
  case (Suc k)
  then obtain ys where ys: "seed_batch uuid (Suc j) k (nth_octets (Suc i)) = (ys, o34)" "xs = seed_server uuid j (nth_octets i) # ys"
    by (auto simp: octets_next split: prod.splits)
  from Suc.IH [OF ys(1)] ys(2) show ?case
    by (simp add: seed_server_def address_at upt_conv_Cons del: upt_Suc)
qed simp

lemma nat_string_no_dot: "CHR ''.'' \<notin> set (nat_string m)"
  using nat_string_digits [of m] dot_not_digit by (auto simp: list_all_iff)

lemma address_inj: "nth_address subnet i = nth_address subnet j \<Longrightarrow> i = j"
proof -
  have cut: "takeWhile (\<lambda>c. c \<noteq> CHR ''.'') (nat_string m @ CHR ''.'' # t) = nat_string m" for m t
    using nat_string_no_dot [of m] by (subst takeWhile_append2) auto
  assume "nth_address subnet i = nth_address subnet j"
  then have eq: "nat_string (i div 254) @ CHR ''.'' # nat_string (i mod 254 + 1) = nat_string (j div 254) @ CHR ''.'' # nat_string (j mod 254 + 1)"
    by (simp add: nth_address_def)
  from arg_cong [OF this, of "takeWhile (\<lambda>c. c \<noteq> CHR ''.'')"] have "nat_string (i div 254) = nat_string (j div 254)" unfolding cut .
  with eq have "i div 254 = j div 254" "i mod 254 + 1 = j mod 254 + 1" by (auto dest: nat_string_inj)
  then show "i = j" by (metis add_right_cancel div_mult_mod_eq)
qed

lemma address_plain: "plain (nth_address ''10.1'' i)"
  using nat_string_digits by (auto simp: plain_def nth_address_def list_all_iff is_digit_def)

lemma v4_fields_big:
  "list_all is_digit ds \<Longrightarrow> val \<le> 255 \<Longrightarrow> 255 < foldl (\<lambda>a c. 10 * a + digit_val c) val ds \<Longrightarrow> v4_fields (ds @ s) val k fs = None"
  by (induction ds arbitrary: val k) (auto simp: Let_def mult.commute)

lemma address_parsed:
  "ParseIP (nth_address ''10.1'' i) = (if i < 65024 then Some (v4_mapped [10, 1, i div 254, i mod 254 + 1]) else None)"
proof (cases "i < 65024")
  case True
  have "nat_string 10 = ''10''" "nat_string 1 = ''1''" by code_simp+
  then have "nth_address ''10.1'' i = dotted [10, 1, i div 254, i mod 254 + 1]" by (simp add: nth_address_def dotted_def)
  moreover have "i div 254 < 256" using True by (simp add: div_less_iff_less_mult)
  moreover have "i mod 254 + 1 < 256" using mod_less_divisor [of 254 i] by linarith
  ultimately show ?thesis using True ParseIP_dotted by simp
next
  case False
  then have "255 < i div 254" by (simp add: less_eq_div_iff_mult_less_eq Suc_le_eq [symmetric])
  then have "v4_fields (nat_string (i div 254) @ CHR ''.'' # nat_string (i mod 254 + 1)) 0 0 [10, 1] = None"
    using digits_val_nat_string [of "i div 254"] by (intro v4_fields_big) (simp_all add: digits_val_def)
  then have "v4_fields (nth_address ''10.1'' i) 0 0 [] = None"
    by (simp add: nth_address_def is_digit_def digit_val_def)
  then show ?thesis using False by (simp add: ParseIP_def nth_address_def)
qed

text \<open>The simulator generates exactly as many addresses as it is asked for, no address twice, and the first 65024
  of them are the IPv4 addresses 10.1.0.1 to 10.1.255.254 without those that end in 0 and 255; from then on
  the third number exceeds 255 and the text is no address.\<close>

theorem simulated_addresses:
  assumes "0 \<le> k"
  shows "\<exists>ips. generateIPs k ''10.1'' = Returns ips \<and> length ips = nat k \<and> distinct ips
    \<and> (\<forall>i<nat k. ParseIP (ips ! i) = (if i < 65024 then Some (v4_mapped [10, 1, i div 254, i mod 254 + 1]) else None))"
proof -
  have "generateIPs k ''10.1'' = Returns (map (nth_address ''10.1'') [0..<nat k])"
    using assms ip_loop_nth [of "nat k" "''10.1''" 0] by (simp add: generateIPs_def octets_start [symmetric])
  moreover have "inj (nth_address ''10.1'')" by (rule injI) (rule address_inj)
  ultimately show ?thesis by (simp add: distinct_map address_parsed inj_on_subset [of _ UNIV])
qed

theorem simulated_addresses_witness:
  "\<exists>ips. generateIPs 65025 ''10.1'' = Returns ips \<and> ParseIP (ips ! 65023) = Some (v4_mapped [10, 1, 255, 254]) \<and> ParseIP (ips ! 65024) = None"
  using simulated_addresses [of 65025] by auto

section \<open>The flapper\<close>

lemma pick_random:
  assumes "distinct ips" and "mset perm = mset [0..<length ips]"
  shows "distinct (pickRandom ips k perm)" and "set (pickRandom ips k perm) \<subseteq> set ips"
    and "length (pickRandom ips k perm) = min (nat k) (length ips)"
proof -
  have perm: "length perm = length ips" "distinct perm" "set perm = {0..<length ips}"
    using assms(2) by (simp_all add: mset_eq_length [OF assms(2)] mset_eq_imp_distinct_iff [OF assms(2)] mset_eq_setD [OF assms(2)])
  have "distinct (map (\<lambda>i. ips ! i) (take j perm))" for j
    using perm assms(1) by (auto simp: distinct_map inj_on_def nth_eq_iff_index_eq dest!: in_set_takeD)
  then show "distinct (pickRandom ips k perm)" by (simp add: pickRandom_def Let_def)
  show "set (pickRandom ips k perm) \<subseteq> set ips"
    using perm(3) by (auto simp: pickRandom_def Let_def dest!: in_set_takeD)
  show "length (pickRandom ips k perm) = min (nat k) (length ips)"
    using perm(1) by (auto simp: pickRandom_def Let_def)
qed

text \<open>One round of the flapper draws as many different addresses as it is to flip, and makes those of them that
  were unreachable reachable and the others unreachable. When a call of \<open>nft\<close> fails, it has done so for
  the addresses drawn before, and nothing else has changed.\<close>

theorem flap_once_flips:
  assumes "nft_set n" and "\<forall>ip\<in>down s \<union> set ips. plain ip" and "distinct ips" and "mset perm = mset [0..<length ips]"
    and "flapOnce n ips k perm s = (e, s')"
  shows "\<exists>sel j. distinct sel \<and> set sel \<subseteq> set ips \<and> length sel = min (nat k) (length ips)
    \<and> down s' = sym_diff (down s) (set (take j sel)) \<and> (e = None \<longrightarrow> take j sel = sel)"
proof -
  let ?sel = "pickRandom ips k perm"
  note pick = pick_random [OF assms(3,4)]
  obtain r s1 where l: "listDownIPs n s = (r, s1)" by fastforce
  have "\<forall>ip\<in>down s. plain ip" using assms(2) by blast
  note listed = nft_set.listed [OF assms(1) l this]
  have "\<exists>j. down s' = sym_diff (down s) (set (take j ?sel)) \<and> (e = None \<longrightarrow> length ?sel \<le> j)"
  proof (cases r)
    case (Inl x)
    with assms(5) l have "e = Some x" "s' = s1" by (simp_all add: flapOnce_def)
    with listed(1) show ?thesis by (intro exI [of _ 0]) simp
  next
    case (Inr ds)
    then have f: "flap_loop n ?sel ds s1 = (e, s')" "set ds = down s1"
      using assms(5) l listed by (simp_all add: flapOnce_def)
    have "\<forall>ip\<in>set ?sel. plain ip" using pick(2) assms(2) by blast
    from nft_set.flap_prefix [OF assms(1) f this pick(1)] listed(1) show ?thesis by metis
  qed
  with pick show ?thesis by (metis take_all)
qed

text \<open>A set in memory, with any schedule of failures. It takes addresses of digits and dots only.\<close>

definition print_listing :: "string list \<Rightarrow> string" where
  "print_listing xs =
     (case xs of
        [] \<Rightarrow> listing_head @ listing_tail
      | x # xs' \<Rightarrow> listing_head @ [CHR 0x09, CHR 0x09] @ ''elements = {'' @ '' '' @ elements x (map (\<lambda>y. ([], '' '', y)) xs') @ '' ''
          @ ''}'' @ [CHR 0x0A] @ listing_tail)"

definition sim_attempt :: "(nat \<Rightarrow> string option) \<Rightarrow> sim \<Rightarrow> bool \<Rightarrow> string list \<Rightarrow> string option \<times> sim" where
  "sim_attempt fault s ok xs =
     (case fault (sim_env s) of
        Some e \<Rightarrow> (Some e, s\<lparr>sim_env := Suc (sim_env s)\<rparr>)
      | None \<Rightarrow> if ok then (None, \<lparr>sim_down = xs, sim_env = Suc (sim_env s)\<rparr>) else (Some ''invalid'', s\<lparr>sim_env := Suc (sim_env s)\<rparr>))"

definition mem_nft :: "(nat \<Rightarrow> string option) \<Rightarrow> nft" where
  "mem_nft fault = \<lparr>
     nf_flush = (\<lambda>s. sim_attempt fault s True []),
     nf_add = (\<lambda>ip s. sim_attempt fault s (plain ip) (ip # sim_down s)),
     nf_delete = (\<lambda>ip s. sim_attempt fault s (ip \<in> down s) (removeAll ip (sim_down s))),
     nf_list = (\<lambda>s. case sim_attempt fault s (list_all plain (sim_down s)) (sim_down s) of
        (Some e, s') \<Rightarrow> (Inl e, s') | (None, s') \<Rightarrow> (Inr (print_listing (sim_down s)), s'))\<rparr>"

lemma print_listing: "list_all plain xs \<Longrightarrow> listing xs (print_listing xs)"
proof (cases xs)
  case (Cons x xs')
  assume "list_all plain xs"
  with Cons have "padded (map (\<lambda>y. ([], '' '', y)) xs')" "map (snd \<circ> snd) (map (\<lambda>y. ([], '' '', y)) xs') = xs'"
    by (auto simp: padded_def list_all_iff blank_def comp_def)
  then show ?thesis
    unfolding Cons listing_def print_listing_def list.case
    by (intro exI [of _ "'' ''"] exI [of _ "map (\<lambda>y. ([], '' '', y)) xs'"]) (simp add: blank_def)
qed (simp add: listing_def print_listing_def)

interpretation mem_nft: nft_set "mem_nft fault" for fault
  by unfold_locales
    (auto simp: mem_nft_def sim_attempt_def print_listing split: option.splits if_splits)

definition demo_ip :: "nat \<Rightarrow> string" where
  "demo_ip = nth_address ''10.1''"

lemma demo_ips: "plain (demo_ip i)" "demo_ip i = demo_ip j \<longleftrightarrow> i = j"
  using address_inj by (auto simp: demo_ip_def address_plain)

lemma demo_flap: "fst (flapOnce (mem_nft (\<lambda>_. None)) [demo_ip 0, demo_ip 1] 1 [1, 0] \<lparr>sim_down = [demo_ip 1], sim_env = 0\<rparr>) = None"
proof -
  have "set (parse_down (print_listing [demo_ip 1])) = {demo_ip 1}"
    using parse_listing [OF print_listing, of "[demo_ip 1]"] demo_ips(1) by simp
  then show ?thesis
    by (simp add: flapOnce_def listDownIPs_def mem_nft_def sim_attempt_def demo_ips(1) pickRandom_def deleteDownIP_def)
qed

theorem flap_once_flips_witness:
  "card (sym_diff {demo_ip 1} (down (snd (flapOnce (mem_nft (\<lambda>_. None)) [demo_ip 0, demo_ip 1] 1 [1, 0] \<lparr>sim_down = [demo_ip 1], sim_env = 0\<rparr>)))) = 1"
proof -
  obtain s' where f: "flapOnce (mem_nft (\<lambda>_. None)) [demo_ip 0, demo_ip 1] 1 [1, 0] \<lparr>sim_down = [demo_ip 1], sim_env = 0\<rparr> = (None, s')"
    using demo_flap by (metis prod.collapse)
  have m: "mset [1, 0] = mset [0..<length [demo_ip 0, demo_ip 1]]" by (simp add: upt_rec)
  have p: "\<forall>ip\<in>down \<lparr>sim_down = [demo_ip 1], sim_env = 0\<rparr> \<union> set [demo_ip 0, demo_ip 1]. plain ip" "distinct [demo_ip 0, demo_ip 1]"
    by (auto simp: demo_ips)
  from flap_once_flips [OF mem_nft.nft_set_axioms p m f] obtain sel
    where s: "distinct sel" "length sel = 1" "down s' = sym_diff {demo_ip 1} (set sel)" by auto
  have "sym_diff A (sym_diff A B) = B" for A B :: "string set" by blast
  then show ?thesis unfolding f snd_conv s(3) using s(1,2) distinct_card [of sel] by simp
qed

section \<open>Seeding\<close>

definition simulated :: "Server \<Rightarrow> bool" where
  "simulated x \<longleftrightarrow> prefix ''sim-'' (S_ServerName x)"

lemma filled_seed:
  assumes "list_all2 filled_server xs ys" and "\<forall>x\<in>set xs. prefix ''sim-'' (S_ServerName x) \<and> S_CurrentStatus x = ServerStatusOnline"
  shows "map S_IPv4 ys = map S_IPv4 xs \<and> (\<forall>y\<in>set ys. simulated y \<and> S_CurrentStatus y = ServerStatusOnline)"
  using assms
proof (induction xs ys rule: list_all2_induct)
  case (Cons x xs y ys)
  then have "S_IPv4 y = S_IPv4 x \<and> S_ServerName y = S_ServerName x \<and> S_CurrentStatus y = ServerStatusOnline"
    by (cases y; cases x) (auto simp: filled_server_def ServerStatusOnline_def)
  with Cons show ?case by (simp add: simulated_def)
qed simp

lemma seed_loop_rows:
  assumes "gorm_table g filled_server uniq_servers" and "seed_loop g client uuid i k (nth_octets i) s = (Returns (Inr ()), s')"
  shows "\<exists>ys. rows (st_servers s') = rows (st_servers s) @ ys \<and> map S_IPv4 ys = map (nth_address ''10.1'') [i..<i + k]
    \<and> (\<forall>y\<in>set ys. simulated y \<and> S_CurrentStatus y = ServerStatusOnline)"
  using assms(2)
proof (induction k arbitrary: i s rule: less_induct)
  case (less k)
  show ?case
  proof (cases "k = 0")
    case True
    with less.prems show ?thesis by (simp add: seed_loop.simps)
  next
    case False
    define m where "m = min seed_batchSize k"
    have m: "0 < m" "m \<le> k" using False by (simp_all add: m_def seed_batchSize_def)
    obtain batch o34 where b: "seed_batch uuid i m (nth_octets i) = (batch, o34)" using prod.exhaust by blast
    note bn = seed_batch_nth [OF b]
    from less.prems False b obtain ys t r where c: "BatchCreate g batch (st_servers s) = (Inr ys, t)"
      and l: "seed_loop g client uuid (i + m) (k - m) (nth_octets (i + m)) (s\<lparr>st_servers := t, st_cache := r\<rparr>) = (Returns (Inr ()), s')"
      using bn by (subst (asm) seed_loop.simps) (auto simp: m_def [symmetric] Let_def split: prod.splits sum.splits go.splits)
    from bn m(1) have "batch \<noteq> []" by auto
    with c have ys: "rows t = rows (st_servers s) @ ys" "list_all2 filled_server batch ys"
      using gorm_table.create_all_ok [OF assms(1)] by (auto simp: BatchCreate_def)
    from less.IH [OF _ l] m obtain zs where zs: "rows (st_servers s') = rows t @ zs" "map S_IPv4 zs = map (nth_address ''10.1'') [i + m..<i + m + (k - m)]"
      "\<forall>y\<in>set zs. simulated y \<and> S_CurrentStatus y = ServerStatusOnline" by auto
    have "[i..<i + k] = [i..<i + m] @ [i + m..<i + m + (k - m)]" using m(2) by (metis le_add1 le_add_diff_inverse add.assoc upt_add_eq_append)
    with zs ys(1) filled_seed [OF ys(2)] bn show ?thesis by (intro exI [of _ "ys @ zs"]) auto
  qed
qed


subsection \<open>An instance: one simulated server is replaced, the other server stays\<close>

definition seed_demo_deps :: seed_deps where
  "seed_demo_deps = \<lparr>sd_dotenv = (\<lambda>_ e. e), sd_database = (\<lambda>_. Inr (mem_gorm (\<lambda>_. None) fill_server uniq_servers)),
     sd_redis = (\<lambda>_. mem_redis (\<lambda>_. None)), sd_flush = (\<lambda>_ db. db), sd_uuid = nat_string\<rparr>"

definition seed_demo_env :: env_state where
  "seed_demo_env = \<lparr>ev_vars = (\<lambda>k. if k = ''REDIS_ENABLED'' then ''true'' else if k = ''SIMULATOR_IP_COUNT'' then ''1'' else []), ev_loaded = True\<rparr>"

definition seed_demo_row :: "string \<Rightarrow> string \<Rightarrow> string \<Rightarrow> Server" where
  "seed_demo_row sid name ip = zero_server\<lparr>S_ServerID := sid, S_ServerName := name, S_IPv4 := ip, S_CurrentStatus := ServerStatusOffline\<rparr>"

definition seed_demo_state :: server_state where
  "seed_demo_state = \<lparr>st_servers = \<lparr>rows = [seed_demo_row ''a'' ''sim-0'' ''10.1.0.1'', seed_demo_row ''b'' ''web'' ''10.0.0.2''], tenv = 0\<rparr>,
     st_cache = \<lparr>rdata = \<lparr>hashes = (\<lambda>_. []), rsets = (\<lambda>_. []), rstrs = (\<lambda>_. None)\<rparr>, renv = 0\<rparr>\<rparr>"

lemma seed_demo_table: "gorm_table (mem_gorm (\<lambda>_. None) fill_server uniq_servers) filled_server uniq_servers"
  by (rule mem_gorm_table) (simp add: filled_server_def fill_server_def)

lemma seed_demo_config:
  obtains cfg rcfg where "Load (\<lambda>_ e. e) seed_demo_env = (Inr cfg, seed_demo_env)"
    and "LoadRedisConfig (ev_vars seed_demo_env) = Inr rcfg" and "RD_Enabled rcfg"
proof -
  have "ParseBool ''true'' = Inr True" by code_simp
  then have "\<exists>rcfg. LoadRedisConfig (ev_vars seed_demo_env) = Inr rcfg \<and> RD_Enabled rcfg"
    by (simp add: LoadRedisConfig_def seed_demo_env_def GetEnvBool_def)
  moreover have "\<exists>cfg. Load (\<lambda>_ e. e) seed_demo_env = (Inr cfg, seed_demo_env)"
    by (simp add: Load_def loadEnv_def seed_demo_env_def Let_def)
  ultimately show thesis using that by blast
qed

lemma seed_demo_count: "Atoi (ev_vars seed_demo_env ''SIMULATOR_IP_COUNT'') = (1, None)"
proof -
  have "Atoi ''1'' = (1, None)" by code_simp
  then show ?thesis by (simp add: seed_demo_env_def)
qed

lemma seed_upsert_returns: "\<exists>r s'. BatchUpsert (Iface c) items s = (Returns r, s')"
  unfolding BatchUpsert_def by (auto split: sum.split prod.split)

lemma seed_one:
  assumes "BatchCreate g [seed_server uuid 0 (0, 1)] (st_servers s) = (Inr ys, t)"
  shows "fst (seed_loop g (Iface c) uuid 0 1 (0, 1) s) = Returns (Inr ())"
proof -
  have m: "min seed_batchSize (Suc 0) = Suc 0" by (simp add: seed_batchSize_def)
  obtain r s' where "BatchUpsert (Iface c) (map seed_item [seed_server uuid 0 (0, 1)]) (st_cache s) = (Returns r, s')"
    using seed_upsert_returns by blast
  with assms show ?thesis
    by (subst seed_loop.simps) (simp add: m Let_def seed_loop.simps [of _ _ _ _ 0])
qed

lemma seed_demo_run: "fst (seed_run seed_demo_deps seed_demo_env seed_demo_state) = Returns (Inr ())"
proof -
  obtain cfg rcfg where cfg: "Load (\<lambda>_ e. e) seed_demo_env = (Inr cfg, seed_demo_env)" "LoadRedisConfig (ev_vars seed_demo_env) = Inr rcfg"
    "RD_Enabled rcfg" by (rule seed_demo_config)
  define g where "g = mem_gorm (\<lambda>_. None) fill_server uniq_servers"
  define t where "t = \<lparr>rows = [seed_demo_row ''b'' ''web'' ''10.0.0.2''], tenv = 1\<rparr>"
  have count: "fst (Atoi (ev_vars seed_demo_env ''SIMULATOR_IP_COUNT'')) = 1" "ev_vars seed_demo_env ''SIMULATOR_IP_COUNT'' \<noteq> []"
    using seed_demo_count by (simp_all add: seed_demo_env_def)
  have del: "g_delete g (\<lambda>x. prefix ''sim-'' (S_ServerName x)) (st_servers seed_demo_state) = (Inr 1, t)"
    by (simp add: g_def t_def mem_engine seed_demo_state_def seed_demo_row_def uniq_servers_def tick_def)
  have "nat_string 0 = ''0''" "nat_string 1 = ''1''" by code_simp+
  then obtain ys t' where add: "BatchCreate g [seed_server nat_string 0 (0, 1)] t = (Inr ys, t')"
    by (simp add: g_def t_def mem_engine BatchCreate_def seed_server_def seed_demo_row_def uniq_servers_def fill_server_def sim_address_def Itoa_def)
  have "fst (seed_loop g (Iface c) nat_string 0 1 (0, 1) s) = Returns (Inr ())" if "st_servers s = t" for c s
    by (rule seed_one) (use add that in simp)
  with cfg count del show ?thesis
    by (simp add: seed_run_def seed_demo_deps_def g_def [symmetric] NewRedisClient_def iface_of_pointer_def)
qed


section \<open>Toggles over HTTP\<close>

text \<open>
  The client of \<open>run\<close> with the service at the other end: a post reaches the handler of its path, the
  body is written by \<open>json.Marshal\<close> and read by the decoder.
\<close>

definition sim_post :: "nft \<Rightarrow> (string list \<Rightarrow> string) \<Rightarrow> (string \<Rightarrow> string list option) \<Rightarrow> int \<Rightarrow> sim post" where
  "sim_post n encode decode totalIPs path ips s =
     (case sim_main n decode totalIPs path ''POST'' (encode ips) s of
        (SimError st _, s') \<Rightarrow> (Inr st, s')
      | (_, s') \<Rightarrow> (Inr 200, s'))"

lemma clean_plain: "\<forall>ip\<in>set ips. plain ip \<Longrightarrow> cleanIPs ips = ips"
  using plain_pad [of _ "[]" "[]"] by (induction ips) (auto simp: cleanIPs_def plain_def blank_def)

lemma post_down:
  assumes "nft_set n" and "\<forall>xs. decode (encode xs) = Some xs" and "\<forall>ip\<in>set ips. plain ip"
    and "sim_post n encode decode totalIPs ''/down'' ips s = (r, s')"
  shows "down s \<subseteq> down s' \<and> down s' \<subseteq> down s \<union> set ips \<and> (r = Inr 200 \<longrightarrow> down s' = down s \<union> set ips) \<and> (\<exists>st. r = Inr st)"
proof -
  obtain e s1 where e: "add_all n ips s = (e, s1)" by fastforce
  then have "s' = s1" "r = (if e = None then Inr 200 else Inr 500)"
    using assms(2-4) by (auto simp: sim_post_def sim_main_def handleDown_def clean_plain split: option.splits)
  with nft_set.add_all_down [OF assms(1) e assms(3)] show ?thesis by auto
qed

lemma post_up:
  assumes "\<forall>xs. decode (encode xs) = Some xs" and "\<forall>ip\<in>set ips. plain ip"
  shows "sim_post n encode decode totalIPs ''/up'' ips s = (Inr 200, delete_all n ips s)"
  using assms by (simp add: sim_post_def sim_main_def handleUp_def clean_plain)

lemma batches: "set (take k ips) \<union> set (drop k ips) = set ips"
  by (metis append_take_drop_id set_append)

lemma toggle_down:
  assumes "nft_set n" and "\<forall>xs. decode (encode xs) = Some xs" and "\<forall>ip\<in>set ips. plain ip"
    and "toggleIPs (sim_post n encode decode totalIPs) ''down'' ips s = (e, s')"
  shows "down s \<subseteq> down s' \<and> down s' \<subseteq> down s \<union> set ips \<and> (e = None \<longrightarrow> down s' = down s \<union> set ips)"
  using assms(3,4)
proof (induction "length ips" arbitrary: ips s rule: less_induct)
  case less
  show ?case
  proof (cases "ips = []")
    case True
    with less.prems show ?thesis by (simp add: toggleIPs.simps)
  next
    case False
    let ?a = "take toggle_batchSize ips" and ?b = "drop toggle_batchSize ips"
    obtain r s1 where r: "sim_post n encode decode totalIPs ''/down'' ?a s = (r, s1)" by fastforce
    have "\<forall>ip\<in>set ?a. plain ip" "\<forall>ip\<in>set ?b. plain ip" using less.prems(1) by (auto dest: in_set_takeD in_set_dropD)
    note a = post_down [OF assms(1,2) this(1) r] and pb = this(2)
    from a obtain st where st: "r = Inr st" by blast
    show ?thesis
    proof (cases "st = 200")
      case True
      with less.prems(2) False r st have "toggleIPs (sim_post n encode decode totalIPs) ''down'' ?b s1 = (e, s')"
        by (subst (asm) toggleIPs.simps) simp
      from less.hyps [OF _ pb this] False have "down s1 \<subseteq> down s' \<and> down s' \<subseteq> down s1 \<union> set ?b \<and> (e = None \<longrightarrow> down s' = down s1 \<union> set ?b)"
        by (simp add: toggle_batchSize_def)
      with a st True batches [of toggle_batchSize ips] show ?thesis by blast
    next
      case bad: False
      with less.prems(2) False r st have "e = Some (PostStatus st) \<and> s' = s1" by (subst (asm) toggleIPs.simps) simp
      with a batches [of toggle_batchSize ips] show ?thesis by blast
    qed
  qed
qed

lemma toggle_up:
  assumes "nft_set n" and "\<forall>xs. decode (encode xs) = Some xs" and "\<forall>ip\<in>set ips. plain ip"
    and "toggleIPs (sim_post n encode decode totalIPs) ''up'' ips s = (e, s')"
  shows "e = None \<and> s' = delete_all n ips s"
  using assms(3,4)
proof (induction "length ips" arbitrary: ips s rule: less_induct)
  case less
  show ?case
  proof (cases "ips = []")
    case True
    with less.prems show ?thesis by (simp add: toggleIPs.simps)
  next
    case False
    let ?a = "take toggle_batchSize ips" and ?b = "drop toggle_batchSize ips"
    have p: "\<forall>ip\<in>set ?a. plain ip" "\<forall>ip\<in>set ?b. plain ip" using less.prems(1) by (auto dest: in_set_takeD in_set_dropD)
    have "toggleIPs (sim_post n encode decode totalIPs) ''up'' ?b (delete_all n ?a s) = (e, s')"
      using less.prems(2) False post_up [OF assms(2) p(1)] by (subst (asm) toggleIPs.simps) simp
    from less.hyps [OF _ p(2) this] False have "e = None \<and> s' = delete_all n ?b (delete_all n ?a s)" by (simp add: toggle_batchSize_def)
    moreover have "delete_all n (xs @ ys) s = delete_all n ys (delete_all n xs s)" for xs ys by (induction xs arbitrary: s) simp_all
    ultimately show ?thesis by (metis append_take_drop_id)
  qed
qed

lemma run_pick:
  assumes "distinct ips" and "mset perm = mset [0..<length ips]" and "0 \<le> k"
  obtains sel where "run_pickRandom ips k perm = Returns sel" and "distinct sel" and "set sel \<subseteq> set ips" and "length sel = min (nat k) (length ips)"
proof -
  have "run_pickRandom ips k perm = Returns (pickRandom ips k perm)" using assms(3) by (auto simp: run_pickRandom_def pickRandom_def Let_def)
  then show thesis using that pick_random [OF assms(1,2), of k] by blast
qed

definition adds_succeed :: "nft \<Rightarrow> bool" where
  "adds_succeed n \<longleftrightarrow> (\<forall>ip s. plain ip \<longrightarrow> fst (nf_add n ip s) = None)"

definition deletes_succeed :: "nft \<Rightarrow> bool" where
  "deletes_succeed n \<longleftrightarrow> (\<forall>ip s e s'. nf_delete n ip s = (Some e, s') \<longrightarrow> ip \<notin> down s)"

lemma add_all_succeeds: "adds_succeed n \<Longrightarrow> \<forall>ip\<in>set ips. plain ip \<Longrightarrow> fst (add_all n ips s) = None"
  by (induction ips arbitrary: s) (simp_all add: adds_succeed_def addDownIP_def case_prod_unfold)

lemma toggle_down_succeeds:
  assumes "adds_succeed n" and "\<forall>xs. decode (encode xs) = Some xs" and "\<forall>ip\<in>set ips. plain ip"
  shows "fst (toggleIPs (sim_post n encode decode totalIPs) ''down'' ips s) = None"
  using assms(3)
proof (induction "length ips" arbitrary: ips s rule: less_induct)
  case less
  let ?a = "take toggle_batchSize ips" and ?b = "drop toggle_batchSize ips"
  have p: "\<forall>ip\<in>set ?a. plain ip" "\<forall>ip\<in>set ?b. plain ip" using less.prems(1) by (auto dest: in_set_takeD in_set_dropD)
  obtain s1 where "add_all n ?a s = (None, s1)" using add_all_succeeds [OF assms(1) p(1), of s] by (metis prod.collapse)
  then have "sim_post n encode decode totalIPs ''/down'' ?a s = (Inr 200, s1)"
    using assms(2) p(1) by (simp add: sim_post_def sim_main_def handleDown_def clean_plain)
  then show ?case
    using less.hyps [OF _ p(2), of s1] by (subst toggleIPs.simps) (simp add: toggle_batchSize_def)
qed

lemma toggles_round:
  assumes "nft_set n" and "\<forall>xs. decode (encode xs) = Some xs" and "\<forall>ip\<in>set ips. plain ip" and "distinct ips"
    and "mset perm1 = mset [0..<length ips]" and "mset perm2 = mset [0..<length ips]"
    and "run_toggles (sim_post n encode decode totalIPs) k ips perm1 perm2 s = (r, s')"
  shows "if k < 0 then r = Panics ''makeslice: len out of range'' \<and> s' = s
    else r = Returns () \<and> (\<exists>dn up. distinct dn \<and> distinct up \<and> set dn \<subseteq> set ips \<and> set up \<subseteq> set ips
      \<and> length dn = min (nat k) (length ips) \<and> length up = min (nat k div 2) (length ips)
      \<and> down s - set up \<subseteq> down s' \<and> down s' \<subseteq> down s \<union> set dn
      \<and> (adds_succeed n \<and> deletes_succeed n \<longrightarrow> down s' = down s \<union> set dn - set up))"
proof (cases "k < 0")
  case True
  with assms(7) show ?thesis by (simp add: run_toggles_def run_pickRandom_def Let_def)
next
  case False
  let ?post = "sim_post n encode decode totalIPs"
  have half: "0 \<le> go_quot k 2" "nat (go_quot k 2) = nat k div 2" using False by (simp_all add: go_quot_def nat_div_distrib)
  obtain dn where dn: "run_pickRandom ips k perm1 = Returns dn" "distinct dn" "set dn \<subseteq> set ips" "length dn = min (nat k) (length ips)"
    using False by (metis run_pick [OF assms(4,5)] not_le)
  obtain up where up: "run_pickRandom ips (go_quot k 2) perm2 = Returns up" "distinct up" "set up \<subseteq> set ips" "length up = min (nat k div 2) (length ips)"
    by (metis run_pick [OF assms(4,6) half(1)] half(2))
  have p: "\<forall>ip\<in>set dn. plain ip" "\<forall>ip\<in>set up. plain ip" using dn(3) up(3) assms(3) by blast+
  obtain e1 s1 where t1: "toggleIPs ?post ''down'' dn s = (e1, s1)" by fastforce
  obtain e2 s2 where t2: "toggleIPs ?post ''up'' up s1 = (e2, s2)" by fastforce
  have "r = Returns ()" "s' = s2" using assms(7) dn(1) up(1) t1 t2 by (simp_all add: run_toggles_def)
  moreover have "adds_succeed n \<longrightarrow> e1 = None" using toggle_down_succeeds [OF _ assms(2) p(1), of n totalIPs s] t1 by auto
  moreover note toggle_down [OF assms(1,2) p(1) t1] nft_set.delete_all_down [OF assms(1) p(2), of s1] dn up toggle_up [OF assms(1,2) p(2) t2]
  ultimately show ?thesis
    using False unfolding deletes_succeed_def by (intro if_not_P [THEN iffD2] conjI exI [of _ dn] exI [of _ up]) blast+
qed

text \<open>The toggles of one simulation round, sent in batches to the service, draw as many different addresses as the
  share says and half as many. The round makes only the first unreachable and only the second reachable;
  when \<open>nft\<close> fails at most for addresses that are not in its set, afterwards exactly the first without
  the second have been added to the unreachable addresses. A negative share ends the process.\<close>

theorem round_of_toggles:
  assumes "nft_set n" and "\<forall>xs. decode (encode xs) = Some xs" and "\<forall>ip\<in>set ips. plain ip" and "distinct ips"
    and "mset perm1 = mset [0..<length ips]" and "mset perm2 = mset [0..<length ips]"
    and "run_toggles (sim_post n encode decode totalIPs) k ips perm1 perm2 s = (r, s')"
  shows "if k < 0 then r = Panics ''makeslice: len out of range'' \<and> s' = s
    else r = Returns () \<and> (\<exists>dn up. distinct dn \<and> distinct up \<and> set dn \<subseteq> set ips \<and> set up \<subseteq> set ips
      \<and> length dn = min (nat k) (length ips) \<and> length up = min (nat k div 2) (length ips)
      \<and> down s - set up \<subseteq> down s' \<and> down s' \<subseteq> down s \<union> set dn
      \<and> (adds_succeed n \<and> deletes_succeed n \<longrightarrow> down s' = down s \<union> set dn - set up))"
  by (rule toggles_round [OF assms])

text \<open>A codec of bodies: each character is marked, and each address ends with an \<open>e\<close>.\<close>

definition demo_encode :: "string list \<Rightarrow> string" where
  "demo_encode xs = concat (map (\<lambda>x. concat (map (\<lambda>c. [CHR ''c'', c]) x) @ ''e'') xs)"

fun demo_decode :: "string \<Rightarrow> string list option" where
  "demo_decode [] = Some []"
| "demo_decode [t] = (if t = CHR ''e'' then Some [[]] else None)"
| "demo_decode (t # c # s) =
     (if t = CHR ''e'' then map_option (Cons []) (demo_decode (c # s))
      else (case demo_decode s of Some (x # xs) \<Rightarrow> Some ((c # x) # xs) | _ \<Rightarrow> None))"

lemma demo_codec: "demo_decode (demo_encode xs) = Some xs"
proof (induction xs)
  case (Cons x xs)
  have e: "demo_decode (CHR ''e'' # s) = map_option (Cons []) (demo_decode s)" for s by (cases s) simp_all
  have "demo_decode (concat (map (\<lambda>c. [CHR ''c'', c]) x) @ CHR ''e'' # s) = map_option (Cons x) (demo_decode s)" for s
    by (induction x) (auto simp: e split: option.split)
  with Cons show ?case by (simp add: demo_encode_def)
qed (simp add: demo_encode_def)

lemma mem_nft_succeeds: "adds_succeed (mem_nft (\<lambda>_. None))" "deletes_succeed (mem_nft (\<lambda>_. None))"
  by (auto simp: adds_succeed_def deletes_succeed_def mem_nft_def sim_attempt_def split: if_splits)

theorem round_of_toggles_witness:
  "card (down (snd (run_toggles (sim_post (mem_nft (\<lambda>_. None)) demo_encode demo_decode 2) 1 [demo_ip 0, demo_ip 1] [1, 0] [0, 1] \<lparr>sim_down = [], sim_env = 0\<rparr>))) = 1"
proof -
  let ?s = "\<lparr>sim_down = [], sim_env = 0\<rparr>" and ?post = "sim_post (mem_nft (\<lambda>_. None)) demo_encode demo_decode 2"
  obtain r s' where run: "run_toggles ?post 1 [demo_ip 0, demo_ip 1] [1, 0] [0, 1] ?s = (r, s')" by fastforce
  have m: "mset [1, 0] = mset [0..<length [demo_ip 0, demo_ip 1]]" "mset [0, 1] = mset [0..<length [demo_ip 0, demo_ip 1]]" by (simp_all add: upt_rec)
  have p: "\<forall>ip\<in>set [demo_ip 0, demo_ip 1]. plain ip" "distinct [demo_ip 0, demo_ip 1]" by (auto simp: demo_ips)
  have c: "\<forall>xs. demo_decode (demo_encode xs) = Some xs" by (simp add: demo_codec)
  from round_of_toggles [OF mem_nft.nft_set_axioms c p m run] mem_nft_succeeds obtain dn up
    where "distinct dn" "length dn = 1" "up = []" "down s' = set dn - set up" by auto
  then show ?thesis unfolding run snd_conv using distinct_card [of dn] by simp
qed

section \<open>Whole runs\<close>

definition sim_get :: "nft \<Rightarrow> (string \<Rightarrow> string list option) \<Rightarrow> int \<Rightarrow> sim \<Rightarrow> (string + int \<times> int) \<times> sim" where
  "sim_get n decode totalIPs s =
     (case sim_main n decode totalIPs ''/status'' ''GET'' [] s of
        (SimStatus tot dn, s') \<Rightarrow> (Inr (tot, dn), s')
      | (_, s') \<Rightarrow> (Inr (0, 0), s'))"

lemma get_keeps:
  assumes "nft_set n" and "getStatus (sim_get n decode totalIPs) s = (st, s')"
  shows "down s' = down s"
proof -
  obtain r s1 where r: "nf_list n s = (r, s1)" by fastforce
  with assms(2) have "s' = s1"
    by (auto simp: getStatus_def sim_get_def sim_main_def handleStatus_def listDownIPs_def split: sum.splits)
  with nft_set.list_keeps [OF assms(1) r] show ?thesis by simp
qed

lemma reset_clears:
  assumes "nft_set n" and "resetAll (sim_post n encode decode totalIPs) s = (None, s')"
  shows "down s' = {}"
proof -
  obtain r s1 where r: "nf_flush n s = (r, s1)" by fastforce
  with assms(2) have "r = None" "s' = s1"
    by (auto simp: resetAll_def sim_post_def sim_main_def handleReset_def flushDownIPs_def split: option.splits)
  with nft_set.flush_ok [OF assms(1)] r show ?thesis by simp
qed

lemma toggles_within:
  assumes "nft_set n" and "\<forall>xs. decode (encode xs) = Some xs" and "\<forall>ip\<in>set ips. plain ip" and "distinct ips"
    and "mset perm1 = mset [0..<length ips]" and "mset perm2 = mset [0..<length ips]"
    and "run_toggles (sim_post n encode decode totalIPs) k ips perm1 perm2 s = (r, s')" and "down s \<subseteq> set ips"
  shows "down s' \<subseteq> set ips"
proof (cases "k < 0")
  case True
  with toggles_round [OF assms(1-7)] assms(8) show ?thesis by simp
next
  case False
  with toggles_round [OF assms(1-7)] obtain dn where "set dn \<subseteq> set ips" "down s' \<subseteq> down s \<union> set dn" by auto
  with assms(8) show ?thesis by blast
qed

lemma rounds_stay:
  assumes "nft_set n" and "\<forall>xs. decode (encode xs) = Some xs" and "\<forall>ip\<in>set ips. plain ip" and "distinct ips"
    and "sim_rounds (sim_post n encode decode totalIPs) (sim_get n decode totalIPs) wp cfg ips k s r s'"
    and "down (fst s) \<subseteq> set ips"
  shows "down (fst s') \<subseteq> set ips \<and> (\<forall>ms. r = Returns ms \<longrightarrow> length ms = nat (sg_rounds cfg - k + 1))"
  using assms(5,6)
proof (induction rule: sim_rounds.induct)
  case (round_panics k perm1 perm2 w msg w1 m)
  from toggles_within [OF assms(1-4) round_panics(2-4)] round_panics(5) show ?case by simp
next
  case (round_next k perm1 perm2 w w1 m res m1 tot dn w2 r s' elapsed)
  from toggles_within [OF assms(1-4) round_next(2-4)] round_next.prems have "down w1 \<subseteq> set ips" by simp
  with get_keeps [OF assms(1) round_next(6)] round_next.IH round_next(1) show ?case by (auto split: go.splits)
qed simp

text \<open>A simulation run against the service starts from a state in which every address is reachable, and all that it
  leaves unreachable are addresses the simulator generates. It ends with an average only if at least
  one round is configured: without rounds, a run that could start ends with a division by zero.\<close>

theorem simulation_runs:
  assumes "nft_set n" and "\<forall>xs. decode (encode xs) = Some xs"
    and "sim_run (sim_post n encode decode totalIPs) (sim_get n decode totalIPs) wd ev es t rdb s out s' m"
    and "rounds = sg_rounds (sim_config (ev_vars ev))"
  shows "(m \<noteq> None \<longrightarrow> (\<exists>ips. generateIPs (sg_serverCount (sim_config (ev_vars ev))) ''10.1'' = Returns ips \<and> down s' \<subseteq> set ips)
      \<and> (rounds \<le> 0 \<longrightarrow> out = Panics ''integer divide by zero''))
    \<and> (\<forall>avg. out = Returns (Inr avg) \<longrightarrow> m \<noteq> None \<and> 0 < rounds)"
  using assms(3)
proof cases
  case (run_rounds w1 ips wp lg r m1)
  from run_rounds(4) have ips: "ips = map (nth_address ''10.1'') [0..<nat (sg_serverCount (sim_config (ev_vars ev)))]"
    using ip_loop_nth [of _ "''10.1''" 0] by (auto simp: run_generateIPs_def generateIPs_def octets_start [symmetric] split: if_splits)
  have plain_ips: "\<forall>ip\<in>set ips. plain ip" unfolding ips using address_plain by auto
  have "inj (nth_address ''10.1'')" by (rule injI) (rule address_inj)
  then have "distinct ips" by (simp add: ips distinct_map inj_on_subset [of _ UNIV])
  note stay = rounds_stay [OF assms(1,2) plain_ips this run_rounds(6)]
  have "down w1 = {}" by (rule reset_clears [OF assms(1) run_rounds(3)])
  with stay have "down s' \<subseteq> set ips" "\<And>ms. r = Returns ms \<Longrightarrow> length ms = nat rounds" by (simp_all add: assms(4))
  moreover have "r = Returns []" if "rounds \<le> 0"
    using run_rounds(6) that assms(4) by (cases rule: sim_rounds.cases) simp_all
  moreover have "\<exists>ms. r = Returns ms \<and> ms \<noteq> []" if "out = Returns (Inr avg)" for avg
    using that run_rounds(1) by (auto simp: run_average_def average_def split: go.splits if_splits)
  ultimately show ?thesis
    using run_rounds(1,2,4) by (fastforce simp: run_average_def average_def run_generateIPs_def)
qed auto

text \<open>An instance: no server is configured in Redis and no round, so that the run resets the set and divides by zero.\<close>

definition demo_world :: world where
  "demo_world = \<lparr>wd_dotenv = (\<lambda>_ e. e), wd_database = (\<lambda>_. Inr (mem_gorm (\<lambda>_. None) fill_server uniq_servers)),
     wd_redis = (\<lambda>_. mem_redis (\<lambda>_. None)), wd_redis_ping = (\<lambda>_. None), wd_elastic = (\<lambda>_. Inr (mem_es (\<lambda>_. None))),
     wd_probing = \<lparr>pb_NewPinger = Inr, pb_Run = (\<lambda>_ _ _ _ _. Inr 1)\<rparr>\<rparr>"

definition run_demo_env :: env_state where
  "run_demo_env = \<lparr>ev_vars = (\<lambda>k. if k = ''REDIS_ENABLED'' then ''true'' else if k = ''SIMULATION_ROUNDS'' then ''none'' else []), ev_loaded = True\<rparr>"

lemma run_demo_app: "\<exists>wp lg. fst (NewMonitoringApp demo_world run_demo_env es) = Returns (Inr (wp, lg))"
proof -
  have "ParseBool ''true'' = Inr True" by code_simp
  then have "\<exists>rcfg. LoadRedisConfig (ev_vars run_demo_env) = Inr rcfg \<and> RD_Enabled rcfg"
    by (simp add: LoadRedisConfig_def run_demo_env_def GetEnvBool_def)
  then obtain rcfg where "app_redis_config (ev_vars run_demo_env) = Some rcfg" "RD_Enabled rcfg" by (auto simp: app_redis_config_def)
  moreover have "snd (Load (\<lambda>_ e. e) run_demo_env) = run_demo_env" by (simp add: Load_def loadEnv_def run_demo_env_def Let_def)
  moreover have "0 \<le> OL_ChannelSize (LoadObservationLoggerConfig (ev_vars run_demo_env))" "0 < wrap64 (OL_FlushMs (LoadObservationLoggerConfig (ev_vars run_demo_env)) * millisecond)"
    by (simp_all add: LoadObservationLoggerConfig_def run_demo_env_def)
  ultimately show ?thesis
    by (simp add: NewMonitoringApp_def demo_world_def Let_def NewRedisClient_def PingRedis_def iface_of_pointer_def NewObservationLogger_def observation_logger_def)
qed

lemma run_demo_config: "sim_config (ev_vars run_demo_env) = \<lparr>sg_serverCount = 10000, sg_rounds = 0, sg_togglePercent = 5\<rparr>"
proof -
  have "fst (Atoi ''none'') = 0" by (simp add: Atoi_def Let_def is_digit_def)
  then show ?thesis by (simp add: sim_config_def run_envInt_def run_demo_env_def)
qed

theorem simulation_runs_witness:
  "\<exists>s' m. sim_run (sim_post (mem_nft (\<lambda>_. None)) demo_encode demo_decode 2) (sim_get (mem_nft (\<lambda>_. None)) demo_decode 2)
     demo_world run_demo_env \<lparr>es_docs = [], es_env = 0\<rparr> \<lparr>rows = [], tenv = 0\<rparr> (st_cache seed_demo_state) \<lparr>sim_down = [demo_ip 0], sim_env = 0\<rparr>
     (Panics ''integer divide by zero'') s' (Some m)"
proof -
  let ?n = "mem_nft (\<lambda>_. None)" and ?s = "\<lparr>sim_down = [demo_ip 0], sim_env = 0\<rparr>"
  let ?post = "sim_post ?n demo_encode demo_decode 2" and ?get = "sim_get ?n demo_decode 2"
  obtain wp lg where app: "fst (NewMonitoringApp demo_world run_demo_env \<lparr>es_docs = [], es_env = 0\<rparr>) = Returns (Inr (wp, lg))"
    using run_demo_app by blast
  have reset: "resetAll ?post ?s = (None, \<lparr>sim_down = [], sim_env = 1\<rparr>)"
    by (simp add: resetAll_def sim_post_def sim_main_def handleReset_def flushDownIPs_def mem_nft_def sim_attempt_def)
  obtain ips where ips: "run_generateIPs (sg_serverCount (sim_config (ev_vars run_demo_env))) = Returns ips"
    by (simp add: run_generateIPs_def generateIPs_def run_demo_config)
  have c: "\<forall>xs. demo_decode (demo_encode xs) = Some xs" by (simp add: demo_codec)
  let ?m = "\<lparr>ms_servers = \<lparr>rows = [], tenv = 0\<rparr>, ms_redis = st_cache seed_demo_state, ms_log = lg, ms_net = 0\<rparr>"
  have "sim_rounds ?post ?get wp (sim_config (ev_vars run_demo_env)) ips 1 (\<lparr>sim_down = [], sim_env = 1\<rparr>, ?m) (Returns []) (\<lparr>sim_down = [], sim_env = 1\<rparr>, ?m)"
    by (rule rounds_end) (simp add: run_demo_config)
  from sim_run.run_rounds [OF reset ips app this]
  have run: "sim_run ?post ?get demo_world run_demo_env \<lparr>es_docs = [], es_env = 0\<rparr> \<lparr>rows = [], tenv = 0\<rparr> (st_cache seed_demo_state) ?s
      (run_average (Returns [])) \<lparr>sim_down = [], sim_env = 1\<rparr> (Some (mon_Shutdown wp ?m))" .
  with simulation_runs [OF mem_nft.nft_set_axioms c run refl] show ?thesis by (simp add: run_demo_config) blast
qed

end
