(* ===== verification/Lifecycle.thy ===== *)
theory Lifecycle
  imports App
begin

text \<open>
  The life of the processes: \<open>internal/app/run.go\<close> (the API process and its shutdown), \<open>Start\<close> and \<open>Stop\<close> of
  \<open>internal/app/scheduler/app.go\<close> (the daily scheduler) and the method \<open>Run\<close> of
  \<open>internal/app/monitoring/app.go\<close> (the scheduler of the monitoring worker). Signals, listeners
  and timers are steps that may happen at any time; what the goroutines do in between is interleaved.
\<close>

section \<open>The API process\<close>

text \<open>
  A context that is cancelled: \<open>database/sql\<close> answers every statement with the error of the context and
  does not send it.
\<close>

definition context_canceled :: gorm_error where
  "context_canceled = DBError ''context canceled''"

definition canceled :: "'row gorm \<Rightarrow> 'row gorm" where
  "canceled g = \<lparr>
     g_first = (\<lambda>p t. (Inl context_canceled, t)), g_find = (\<lambda>p t. (Inl context_canceled, t)),
     g_count = (\<lambda>p t. (Inl context_canceled, t)), g_page = (\<lambda>p ord off lim t. (Inl context_canceled, t)),
     g_create = (\<lambda>x t. (Inl context_canceled, t)), g_create_all = (\<lambda>xs t. (Inl context_canceled, t)),
     g_update = (\<lambda>p f t. (Inl context_canceled, t)), g_delete = (\<lambda>p t. (Inl context_canceled, t))\<rparr>"

text \<open>
  \<open>Run\<close> starts the report workers with the context of \<open>signal.NotifyContext\<close>, so that the signal
  cancels it for them; the callers have the contexts of their requests.
\<close>

definition after_signal :: "reportingWorkerImpl \<Rightarrow> reportingWorkerImpl" where
  "after_signal w = w\<lparr>rw_reports := canceled (rw_reports w), rw_servers := canceled (rw_servers w)\<rparr>"

datatype api_stage = Serving | Stopping | Draining | Returned "string option"

record api_run =
  ar_stage :: api_stage
  ar_reports :: report_state

text \<open>The gateway is set up after the workers are started; when that fails, \<open>Run\<close> returns.\<close>

definition api_start :: "string option \<Rightarrow> report_state \<Rightarrow> api_run" where
  "api_start gateway s = \<lparr>ar_stage = (case gateway of None \<Rightarrow> Serving | Some e \<Rightarrow> Returned (Some e)), ar_reports = s\<rparr>"

definition ErrServerClosed :: string where "ErrServerClosed = ''http: Server closed''"

text \<open>
  \<open>Run\<close> returns the error of a server that ended by itself, except \<open>http.ErrServerClosed\<close>, and
  otherwise calls \<open>Shutdown\<close> after the signal: the gRPC server is stopped, for at most ten seconds
  gracefully, then the HTTP server; when that fails, \<open>Shutdown\<close> returns and does not stop the report
  workers. While the servers are stopped, requests that are under way go on.
\<close>

inductive api_step :: "reportingWorkerImpl \<Rightarrow> api_run \<Rightarrow> api_run \<Rightarrow> bool" for w where
  api_serves: "ar_stage a = Serving \<Longrightarrow> worker_step w (ar_reports a) s' \<Longrightarrow> api_step w a (a\<lparr>ar_reports := s'\<rparr>)"
| api_refuses: "ar_stage a \<in> {Serving, Stopping} \<Longrightarrow>
     storeRequest w requestID correlationID email startDate endDate (ar_reports a) = (Inl e, s') \<Longrightarrow> api_step w a (a\<lparr>ar_reports := s'\<rparr>)"
| api_stores: "ar_stage a \<in> {Serving, Stopping} \<Longrightarrow>
     storeRequest w requestID correlationID email startDate endDate (ar_reports a) = (Inr req, s') \<Longrightarrow>
     api_step w a (a\<lparr>ar_reports := s'\<lparr>rp_sending := req # rp_sending s'\<rparr>\<rparr>)"
| api_server_ends: "ar_stage a = Serving \<Longrightarrow> api_step w a (a\<lparr>ar_stage := Returned (if e = Some ErrServerClosed then None else e)\<rparr>)"
| api_signal: "ar_stage a = Serving \<Longrightarrow> api_step w a (a\<lparr>ar_stage := Stopping\<rparr>)"
| api_works_on: "ar_stage a \<in> {Stopping, Draining} \<Longrightarrow> worker_step (after_signal w) (ar_reports a) s' \<Longrightarrow> api_step w a (a\<lparr>ar_reports := s'\<rparr>)"
| api_http_fails: "ar_stage a = Stopping \<Longrightarrow> api_step w a (a\<lparr>ar_stage := Returned (Some e)\<rparr>)"
| api_stops: "ar_stage a = Stopping \<Longrightarrow> StopWorker (ar_reports a) = (Returns (), s') \<Longrightarrow>
     api_step w a \<lparr>ar_stage = Draining, ar_reports = s'\<rparr>"
| api_drained: "ar_stage a = Draining \<Longrightarrow> rp_queue (ar_reports a) = [] \<Longrightarrow> rp_running (ar_reports a) = [] \<Longrightarrow>
     api_step w a (a\<lparr>ar_stage := Returned None\<rparr>)"

inductive_cases api_stepE: "api_step w a a'"

section \<open>The daily scheduler\<close>

text \<open>
  \<open>Start\<close> runs the report workers with a context that is never cancelled, and cron. \<open>Stop\<close> stops cron, which
  does not wait for a job that is running, and then closes the channel of the report jobs and waits
  for the workers. A job runs in a goroutine of cron: when it sends on the closed channel, the panic ends
  the process.
\<close>

datatype sched_stage = Scheduling | WorkersStopping | SchedulerStopped

record sched_run =
  sr_stage :: sched_stage
  sr_crashed :: bool
  sr_reports :: report_state

definition sched_Start :: "report_state \<Rightarrow> sched_run" where
  "sched_Start s = \<lparr>sr_stage = Scheduling, sr_crashed = False, sr_reports = s\<rparr>"

abbreviation sr_live :: "sched_run \<Rightarrow> bool" where
  "sr_live a \<equiv> \<not> sr_crashed a \<and> sr_stage a \<noteq> SchedulerStopped"

inductive sched_step :: "SchedulerApp \<Rightarrow> (time \<Rightarrow> int) \<Rightarrow> sched_run \<Rightarrow> sched_run \<Rightarrow> bool" for app loc where
  sched_refused: "sr_live a \<Longrightarrow>
     storeRequest (sc_worker app) requestID correlationID (sc_adminEmail app) (yesterday loc now) (yesterday loc now) (sr_reports a) = (Inl e, s') \<Longrightarrow>
     sched_step app loc a (a\<lparr>sr_reports := s'\<rparr>)"
| sched_stored: "sr_live a \<Longrightarrow>
     storeRequest (sc_worker app) requestID correlationID (sc_adminEmail app) (yesterday loc now) (yesterday loc now) (sr_reports a) = (Inr req, s') \<Longrightarrow>
     sched_step app loc a (a\<lparr>sr_reports := s'\<lparr>rp_sending := req # rp_sending s'\<rparr>\<rparr>)"
| sched_work: "sr_live a \<Longrightarrow> worker_step (sc_worker app) (sr_reports a) s' \<Longrightarrow>
     rp_closed (sr_reports a) \<Longrightarrow> rp_sending s' = rp_sending (sr_reports a) \<Longrightarrow> sched_step app loc a (a\<lparr>sr_reports := s'\<rparr>)"
| sched_open: "sr_live a \<Longrightarrow> worker_step (sc_worker app) (sr_reports a) s' \<Longrightarrow> \<not> rp_closed (sr_reports a) \<Longrightarrow>
     sched_step app loc a (a\<lparr>sr_reports := s'\<rparr>)"
| sched_panic: "sr_live a \<Longrightarrow> job \<in> set (rp_sending (sr_reports a)) \<Longrightarrow> EnqueueReport (sc_worker app) job (sr_reports a) = Some (Panics msg, s') \<Longrightarrow>
     sched_step app loc a (a\<lparr>sr_crashed := True\<rparr>)"
| sched_Stop: "sr_live a \<Longrightarrow> sr_stage a = Scheduling \<Longrightarrow> StopWorker (sr_reports a) = (Returns (), s') \<Longrightarrow>
     sched_step app loc a (a\<lparr>sr_stage := WorkersStopping, sr_reports := s'\<rparr>)"
| sched_stopped: "sr_live a \<Longrightarrow> sr_stage a = WorkersStopping \<Longrightarrow> rp_queue (sr_reports a) = [] \<Longrightarrow> rp_running (sr_reports a) = [] \<Longrightarrow>
     sched_step app loc a (a\<lparr>sr_stage := SchedulerStopped\<rparr>)"

inductive_cases sched_stepE: "sched_step app loc a a'"

section \<open>The monitoring worker\<close>

datatype mon_stage = Ticking | Grace | Closing | Exited

text \<open>The process: its stage, whether the scheduler is in a cycle that runs the pool, and the pool.\<close>

record mon_run =
  mr_stage :: mon_stage
  mr_busy :: bool
  mr_pool :: pool_state

definition tick_interval :: "env \<Rightarrow> duration" where
  "tick_interval env = fst (GetEnvDuration env ''MONITORING_WORKER_TICK_INTERVAL'' (30 * second))"

definition mon_start :: "env \<Rightarrow> mon_state \<Rightarrow> mon_run go" where
  "mon_start env s =
     (if tick_interval env \<le> 0 then Panics ''non-positive interval for NewTicker''
      else Returns \<lparr>mr_stage = Ticking, mr_busy = False, mr_pool = pool_init [] s\<rparr>)"

text \<open>
  \<open>Run\<close>: the scheduler runs a cycle at once and at every tick; after \<open>cancel\<close> it may still take a tick
  that is pending. The signal starts two seconds of grace, whether a cycle is running or not; then the
  observation logger is closed and its flusher awaited. A panic of a worker ends the process. The model
  lets Redis and Postgres answer after \<open>cancel\<close> as they do before.
\<close>

definition mon_with :: "mon_run \<Rightarrow> mon_state \<Rightarrow> mon_run" where
  "mon_with a s = a\<lparr>mr_pool := (mr_pool a)\<lparr>pc_state := s\<rparr>\<rparr>"

abbreviation mr_state :: "mon_run \<Rightarrow> mon_state" where
  "mr_state a \<equiv> pc_state (mr_pool a)"

abbreviation mr_live :: "mon_run \<Rightarrow> bool" where
  "mr_live a \<equiv> mr_stage a \<noteq> Exited \<and> \<not> pc_crashed (mr_pool a)"

inductive mon_step :: "env \<Rightarrow> workerPool \<Rightarrow> mon_run \<Rightarrow> mon_run \<Rightarrow> bool" for env w where
  mon_no_lock: "mr_live a \<Longrightarrow> \<not> mr_busy a \<Longrightarrow>
     AcquireLock (Iface (wp_rdb w)) now (lock_key env) (lock_expiration env) (ms_redis (mr_state a)) = (Returns res, r) \<Longrightarrow> res \<noteq> Inr True \<Longrightarrow>
     mon_step env w a (mon_with a ((mr_state a)\<lparr>ms_redis := r\<rparr>))"
| mon_no_ids: "mr_live a \<Longrightarrow> \<not> mr_busy a \<Longrightarrow>
     AcquireLock (Iface (wp_rdb w)) now (lock_key env) (lock_expiration env) (ms_redis (mr_state a)) = (Returns (Inr True), r) \<Longrightarrow>
     r_smembers (wp_rdb w) ServerAllIDsKey r = (Inl e, r') \<Longrightarrow>
     mon_step env w a (mon_with a ((mr_state a)\<lparr>ms_redis := r'\<rparr>))"
| mon_cycle: "mr_live a \<Longrightarrow> \<not> mr_busy a \<Longrightarrow>
     AcquireLock (Iface (wp_rdb w)) now (lock_key env) (lock_expiration env) (ms_redis (mr_state a)) = (Returns (Inr True), r) \<Longrightarrow>
     r_smembers (wp_rdb w) ServerAllIDsKey r = (Inr serverIDs, r') \<Longrightarrow>
     mon_step env w a (a\<lparr>mr_busy := True, mr_pool := pool_init serverIDs ((mr_state a)\<lparr>ms_redis := r'\<rparr>)\<rparr>)"
| mon_work: "mr_live a \<Longrightarrow> mr_busy a \<Longrightarrow> pool_step w (mr_pool a) p \<Longrightarrow> mon_step env w a (a\<lparr>mr_pool := p\<rparr>)"
| mon_cycle_end: "mr_live a \<Longrightarrow> mr_busy a \<Longrightarrow> pool_done w (mr_pool a) \<Longrightarrow> mon_step env w a (a\<lparr>mr_busy := False\<rparr>)"
| mon_flusher: "mr_live a \<Longrightarrow> \<not> lg_stopped (ms_log (mr_state a)) \<Longrightarrow>
     lg' = flusher_receive (mo_esLogger (wp_monService w)) (ms_log (mr_state a)) \<or>
     lg' = flusher_tick (mo_esLogger (wp_monService w)) (ms_log (mr_state a)) \<Longrightarrow>
     mon_step env w a (mon_with a ((mr_state a)\<lparr>ms_log := lg'\<rparr>))"
| mon_signal: "mr_live a \<Longrightarrow> mr_stage a = Ticking \<Longrightarrow> mon_step env w a (a\<lparr>mr_stage := Grace\<rparr>)"
| mon_close: "mr_live a \<Longrightarrow> mr_stage a = Grace \<Longrightarrow> close_channel (ms_log (mr_state a)) = (Returns (), lg') \<Longrightarrow>
     mon_step env w a (mon_with (a\<lparr>mr_stage := Closing\<rparr>) ((mr_state a)\<lparr>ms_log := lg'\<rparr>))"
| mon_exit: "mr_live a \<Longrightarrow> mr_stage a = Closing \<Longrightarrow> lg_stopped (ms_log (mr_state a)) \<Longrightarrow> mon_step env w a (a\<lparr>mr_stage := Exited\<rparr>)"

inductive_cases mon_stepE: "mon_step env w a a'"

end
