(* ===== verification/Lifecycle_Props.thy ===== *)
theory Lifecycle_Props
  imports Lifecycle App_Props Monitoring_Pool
begin

text \<open>
  What the shutdown of the processes does: reports that are under way when the API process is signalled
  keep the status they have, and the monitoring worker flushes what it has observed or, when a ping
  outlasts the grace, crashes.
\<close>

section \<open>The API process\<close>

lemma canceled_table: "gorm_table (canceled g) filled uniq"
  by unfold_locales (simp_all add: canceled_def context_canceled_def)

lemma after_signal_stores:
  assumes "report_stores w"
  shows "report_stores (after_signal w)"
  using assms canceled_table unfolding report_stores_def report_stores_axioms_def by (simp add: after_signal_def)

lemma after_signal_keeps:
  assumes "worker_step (after_signal w) s s'"
  shows "rp_reports s' = rp_reports s \<and> rp_outbox s' = rp_outbox s"
proof -
  have u: "UpdateReportStatus (canceled g) uu now sid st t = (Inl context_canceled, t)" for g uu now sid st t
    by (simp add: UpdateReportStatus_def canceled_def)
  have c: "GetServerCountByStatus (canceled g) st t = (Inl context_canceled, t)" for g st t
    by (simp add: GetServerCountByStatus_def canceled_def)
  from assms show ?thesis
    by (cases rule: worker_step.cases)
      (auto simp: after_signal_def EnqueueReport_def markReport_def finishReport_def doWork_def u c split: if_splits)
qed

text \<open>What a step after the signal may still do to the rows and the mail.\<close>

definition only_pending :: "report_state \<Rightarrow> report_state \<Rightarrow> bool" where
  "only_pending s s' \<longleftrightarrow> rp_outbox s' = rp_outbox s
     \<and> (\<exists>ys. rows (rp_reports s') = rows (rp_reports s) @ ys \<and> (\<forall>y\<in>set ys. RP_Status y = ReportStatusPending))"

lemma only_pending_trans [trans]: "only_pending s s' \<Longrightarrow> only_pending s' s'' \<Longrightarrow> only_pending s s''"
  by (fastforce simp: only_pending_def)

lemma only_pending_eq: "rp_reports s' = rp_reports s \<Longrightarrow> rp_outbox s' = rp_outbox s \<Longrightarrow> only_pending s s'"
  by (simp add: only_pending_def)

lemma api_step_pending:
  assumes "report_stores w" and "ar_stage a \<noteq> Serving" and "api_step w a a'"
  shows "ar_stage a' \<noteq> Serving \<and> only_pending (ar_reports a) (ar_reports a')"
  using assms(3)
proof cases
  case (api_refuses requestID correlationID email startDate endDate e s')
  then show ?thesis
    using report_stores.store_request(1,2) [OF assms(1) api_refuses(3)] assms(2) by (auto simp: only_pending_def)
next
  case (api_stores requestID correlationID email startDate endDate req s')
  then show ?thesis
    using report_stores.store_request(1,3) [OF assms(1) api_stores(3)] assms(2) by (auto simp: only_pending_def)
next
  case (api_works_on s')
  then show ?thesis using after_signal_keeps [OF api_works_on(3)] only_pending_eq by auto
next
  case (api_stops s')
  then show ?thesis by (auto simp: StopWorker_def intro!: only_pending_eq split: if_splits)
qed (use assms(2) in \<open>auto intro: only_pending_eq\<close>)

lemma drain_ends:
  assumes "report_stores w" and "0 < rw_workerCount w" and "0 < rw_queueSize w" and "ar_stage a = Draining"
  shows "\<exists>a'. (api_step w)\<^sup>*\<^sup>* a a' \<and> ar_stage a' = Returned None"
  using assms(4)
proof (induction "load (ar_reports a)" arbitrary: a rule: less_induct)
  case less
  show ?case
  proof (cases "load (ar_reports a) = 0")
    case True
    then have "api_step w a (a\<lparr>ar_stage := Returned None\<rparr>)" using less.prems by (intro api_drained) (simp_all add: load_zero)
    then show ?thesis by (intro exI [of _ "a\<lparr>ar_stage := Returned None\<rparr>"]) auto
  next
    case False
    note stores = after_signal_stores [OF assms(1)]
    obtain s' where s': "worker_step (after_signal w) (ar_reports a) s'"
      by (rule report_stores.worker_progress [OF stores, of "ar_reports a"]) (use False assms(2,3) in \<open>simp_all add: after_signal_def\<close>)
    have "api_step w a (a\<lparr>ar_reports := s'\<rparr>)" using less.prems s' by (intro api_works_on) simp_all
    moreover have "load s' < load (ar_reports a)" by (rule report_stores.worker_step_load(1) [OF stores s'])
    ultimately show ?thesis using less.hyps [of "a\<lparr>ar_reports := s'\<rparr>"] less.prems by (auto intro: converse_rtranclp_into_rtranclp)
  qed
qed


definition demo_stopping :: api_run where
  "demo_stopping = \<lparr>ar_stage = Stopping, ar_reports = (demo_reports [demo_job])\<lparr>rp_queue := [demo_job]\<rparr>\<rparr>"


section \<open>The daily scheduler\<close>

definition sched_inv :: "sched_run \<Rightarrow> bool" where
  "sched_inv a \<longleftrightarrow> book (rows (rp_reports (sr_reports a))) (held (sr_reports a))
     \<and> closed_book (rows (rp_reports (sr_reports a))) (held (sr_reports a))
     \<and> (sr_crashed a \<longrightarrow> rp_closed (sr_reports a) \<and> rp_sending (sr_reports a) \<noteq> [])
     \<and> (sr_stage a = SchedulerStopped \<longrightarrow> rp_queue (sr_reports a) = [] \<and> rp_running (sr_reports a) = [])
     \<and> (rp_closed (sr_reports a) \<longleftrightarrow> sr_stage a \<noteq> Scheduling)"

lemma sched_inv_ledger:
  assumes "sched_inv a" and "sr_live a" and "ledger False (rows (rp_reports (sr_reports a))) (held (sr_reports a)) (rows (rp_reports s')) (held s')"
    and "rp_closed s' = rp_closed (sr_reports a)"
  shows "sched_inv (a\<lparr>sr_reports := s'\<rparr>)"
  using assms ledger_book [OF assms(3)] ledger_closed_book [OF assms(3)] by (auto simp: sched_inv_def)

lemma sched_step_inv:
  assumes "report_stores (sc_worker app)" and "updates_succeed (rw_reports (sc_worker app)) uniq_reports"
  shows "sched_step app loc a a' \<Longrightarrow> sched_inv a \<Longrightarrow> sched_inv a'"
proof (induction rule: sched_step.induct)
  case (sched_refused a i c now e s')
  note f = report_stores.store_request [OF assms(1) sched_refused(2)]
  from f(1) have "held s' = held (sr_reports a)" "rp_closed s' = rp_closed (sr_reports a)" by (auto simp: held_def)
  with f(2) show ?case using sched_inv_ledger [OF sched_refused(3,1)] by (simp add: l_same)
next
  case (sched_stored a i c now req s')
  note f = report_stores.store_request [OF assms(1) sched_stored(2)]
  from f(1) have h: "held (s'\<lparr>rp_sending := req # rp_sending s'\<rparr>) = (RP_ID req, ReportStatusPending) # held (sr_reports a)" "rp_closed s' = rp_closed (sr_reports a)"
    by (auto simp: held_defs)
  have "uniq_reports (rows (rp_reports (sr_reports a)))" using sched_stored(3) by (simp add: sched_inv_def book_def)
  with f(3) h show ?case using sched_inv_ledger [OF sched_stored(3,1)] by (simp add: l_enter)
next
  case (sched_work a s')
  then have "uniq_reports (rows (rp_reports (sr_reports a)))" by (simp add: sched_inv_def book_def)
  from report_stores.worker_step_losses [OF assms(1) sched_work(2) this] sched_work(4) assms(2)
  show ?case using sched_inv_ledger [OF sched_work(5,1)] report_stores.worker_step_load(2) [OF assms(1) sched_work(2)] by simp
next
  case (sched_open a s')
  then have "uniq_reports (rows (rp_reports (sr_reports a)))" by (simp add: sched_inv_def book_def)
  from report_stores.worker_step_losses [OF assms(1) sched_open(2) this] sched_open(3) assms(2)
  show ?case using sched_inv_ledger [OF sched_open(4,1)] report_stores.worker_step_load(2) [OF assms(1) sched_open(2)] by simp
next
  case (sched_panic a job msg s')
  then show ?case by (auto simp: sched_inv_def EnqueueReport_def split: if_splits)
next
  case (sched_Stop a s')
  then show ?case by (auto simp: sched_inv_def StopWorker_def held_def split: if_splits)
qed (auto simp: sched_inv_def)

lemma sched_can_stop:
  assumes "report_stores (sc_worker app)" and "sc_worker app = NewReportingWorker w" and "sr_live a" and "sr_stage a = Scheduling" and "\<not> rp_closed (sr_reports a)"
  shows "\<exists>s. (sched_step app loc)\<^sup>*\<^sup>* a \<lparr>sr_stage = SchedulerStopped, sr_crashed = False, sr_reports = s\<rparr> \<and> rp_sending s = []"
  using assms(3-5)
proof (induction "load (sr_reports a)" arbitrary: a rule: less_induct)
  case less
  show ?case
  proof (cases "load (sr_reports a) = 0")
    case True
    let ?s = "(sr_reports a)\<lparr>rp_closed := True\<rparr>"
    from less.prems(1,2) have "sched_step app loc a (a\<lparr>sr_stage := WorkersStopping, sr_reports := ?s\<rparr>)"
      by (rule sched_Stop) (simp add: StopWorker_def less.prems(3))
    moreover have "sched_step app loc (a\<lparr>sr_stage := WorkersStopping, sr_reports := ?s\<rparr>) (a\<lparr>sr_stage := WorkersStopping, sr_reports := ?s\<rparr>\<lparr>sr_stage := SchedulerStopped\<rparr>)"
      by (rule sched_stopped) (use True less.prems(1) in \<open>simp_all add: load_zero\<close>)
    moreover have "a\<lparr>sr_stage := WorkersStopping, sr_reports := ?s\<rparr>\<lparr>sr_stage := SchedulerStopped\<rparr> = \<lparr>sr_stage = SchedulerStopped, sr_crashed = False, sr_reports = ?s\<rparr>"
      using less.prems(1) by (cases a) simp
    ultimately have "(sched_step app loc)\<^sup>*\<^sup>* a \<lparr>sr_stage = SchedulerStopped, sr_crashed = False, sr_reports = ?s\<rparr>"
      by (metis converse_rtranclp_into_rtranclp rtranclp.rtrancl_refl)
    moreover have "rp_sending ?s = []" using True by (simp add: load_zero)
    ultimately show ?thesis by blast
  next
    case False
    obtain s' where s': "worker_step (sc_worker app) (sr_reports a) s'"
      by (rule report_stores.worker_progress [OF assms(1), of "sr_reports a"]) (use False new_worker_sizes [of w] in \<open>simp_all add: assms(2)\<close>)
    note less_load = report_stores.worker_step_load(1,2) [OF assms(1) s']
    have "sched_step app loc a (a\<lparr>sr_reports := s'\<rparr>)" using less.prems s' by (intro sched_open) simp_all
    moreover have "\<exists>s. (sched_step app loc)\<^sup>*\<^sup>* (a\<lparr>sr_reports := s'\<rparr>) \<lparr>sr_stage = SchedulerStopped, sr_crashed = False, sr_reports = s\<rparr> \<and> rp_sending s = []"
      by (rule less.hyps) (use less_load less.prems in simp_all)
    ultimately show ?thesis by (meson converse_rtranclp_into_rtranclp)
  qed
qed

text \<open>C39: While the database takes the updates, a stop of the daily scheduler finishes the reports that wait: in the end
  every row is COMPLETED or FAILED, except that of a job of cron that had stored its row and not sent it
  when the channel was closed. Such a job is the only way in which the process can crash, and from every
  state before the stop the scheduler can stop with no row left over.\<close>

theorem scheduler_finishes_reports:
  assumes "report_stores (sc_worker app)" and "updates_succeed (rw_reports (sc_worker app)) uniq_reports" and "sc_worker app = NewReportingWorker w"
    and "report_start s0" and "\<not> rp_closed s0" and "(sched_step app loc)\<^sup>*\<^sup>* (sched_Start s0) a"
  shows "(sr_stage a = SchedulerStopped \<longrightarrow> (\<forall>x\<in>set (rows (rp_reports (sr_reports a))).
        RP_Status x = ReportStatusCompleted \<or> RP_Status x = ReportStatusFailed \<or> RP_ID x \<in> RP_ID ` set (rp_sending (sr_reports a))))
    \<and> (sr_crashed a \<longrightarrow> rp_closed (sr_reports a) \<and> rp_sending (sr_reports a) \<noteq> [])
    \<and> (sr_stage a = Scheduling \<longrightarrow>
        (\<exists>s. (sched_step app loc)\<^sup>*\<^sup>* a \<lparr>sr_stage = SchedulerStopped, sr_crashed = False, sr_reports = s\<rparr> \<and> rp_sending s = []))"
proof -
  have "sched_inv (sched_Start s0)" using report_start_book [OF assms(4)] assms(5) by (simp add: sched_inv_def sched_Start_def)
  with assms(6) have inv: "sched_inv a" by induction (blast intro: sched_step_inv [OF assms(1,2)])+
  then have "sr_live a \<and> \<not> rp_closed (sr_reports a)" if "sr_stage a = Scheduling" using that by (auto simp: sched_inv_def)
  with inv show ?thesis using sched_can_stop [OF assms(1,3)] by (auto simp: sched_inv_def closed_book_def held_defs)
qed

text \<open>An instance: the daily job has stored its report, and the scheduler stops.\<close>

lemma demo_daily:
  "\<exists>a. sched_step demo_scheduler (\<lambda>_. 0) (sched_Start (demo_reports [])) a \<and> sr_stage a = Scheduling \<and> length (rp_sending (sr_reports a)) = 1"
proof -
  let ?now = "739000 * day - 7 * hour"
  have "day_before (\<lambda>_. 0) ?now = 738998" "0 \<le> year_of 738998" "year_of 738998 \<le> 9999" by (simp_all add: day_before_def year_of_def)
  then have "parse_date (yesterday (\<lambda>_. 0) ?now) = Some (738998 * day)" using yesterday_parsed [of "\<lambda>_. 0" ?now] by simp
  then obtain req s' where st: "storeRequest (sc_worker demo_scheduler) 1 ''c'' (sc_adminEmail demo_scheduler)
      (yesterday (\<lambda>_. 0) ?now) (yesterday (\<lambda>_. 0) ?now) (demo_reports []) = (Inr req, s')" and s': "rp_sending s' = []"
    using demo_dates(2)
    by (auto simp: demo_scheduler_def storeRequest_def NewReportRequest_def CreateReportRequest_def NewReportingWorker_def demo_reporting_def
        demo_reports_def mem_engine uniq_reports_def)
  then have "sched_step demo_scheduler (\<lambda>_. 0) (sched_Start (demo_reports []))
      ((sched_Start (demo_reports []))\<lparr>sr_reports := s'\<lparr>rp_sending := req # rp_sending s'\<rparr>\<rparr>)"
    by (intro sched_stored) (simp_all add: sched_Start_def)
  then show ?thesis using s' by (auto simp: sched_Start_def)
qed

theorem scheduler_finishes_reports_witness:
  "\<exists>a s. (sched_step demo_scheduler (\<lambda>_. 0))\<^sup>*\<^sup>* (sched_Start (demo_reports [])) a \<and> length (rp_sending (sr_reports a)) = 1
     \<and> (sched_step demo_scheduler (\<lambda>_. 0))\<^sup>*\<^sup>* a \<lparr>sr_stage = SchedulerStopped, sr_crashed = False, sr_reports = s\<rparr>
     \<and> (\<forall>x\<in>set (rows (rp_reports s)). RP_Status x = ReportStatusCompleted \<or> RP_Status x = ReportStatusFailed)"
proof -
  have w: "sc_worker demo_scheduler = NewReportingWorker (demo_reporting (\<lambda>_. None) None)" by (simp add: demo_scheduler_def)
  have st: "report_stores (sc_worker demo_scheduler)" "updates_succeed (rw_reports (sc_worker demo_scheduler)) uniq_reports" "\<not> rp_closed (demo_reports [])"
    unfolding w by (simp_all add: mem_reports_sized.report_stores_axioms demo_updates demo_reports_def)
  note finishes = scheduler_finishes_reports [OF st(1,2) w demo_start st(3)]
  obtain a where "sched_step demo_scheduler (\<lambda>_. 0) (sched_Start (demo_reports [])) a" and a: "sr_stage a = Scheduling" "length (rp_sending (sr_reports a)) = 1"
    using demo_daily by blast
  then have run: "(sched_step demo_scheduler (\<lambda>_. 0))\<^sup>*\<^sup>* (sched_Start (demo_reports [])) a" by blast
  from finishes [OF run] a(1) obtain s where more: "(sched_step demo_scheduler (\<lambda>_. 0))\<^sup>*\<^sup>* a \<lparr>sr_stage = SchedulerStopped, sr_crashed = False, sr_reports = s\<rparr>"
    and "rp_sending s = []" by blast
  with finishes [OF rtranclp_trans [OF run more]] run a(2) show ?thesis by auto
qed

section \<open>The monitoring worker\<close>

definition mon_inv :: "workerPool \<Rightarrow> mon_run \<Rightarrow> bool" where
  "mon_inv w a \<longleftrightarrow> log_inv (mo_esLogger (wp_monService w)) (ms_log (mr_state a))
     \<and> (lg_closed (ms_log (mr_state a)) \<longleftrightarrow> mr_stage a \<in> {Closing, Exited})
     \<and> (mr_stage a = Exited \<longrightarrow> lg_stopped (ms_log (mr_state a)))
     \<and> (pc_crashed (mr_pool a) \<longrightarrow> mr_stage a = Closing \<and> mr_busy a)"

lemma log_observation_panics:
  assumes "LogObservation l ready now sid ok st = (r, st')"
  shows "lg_closed st' = lg_closed st" and "lg_stopped st' = lg_stopped st" and "r = Panics m \<Longrightarrow> lg_closed st"
    and "lg_closed st \<Longrightarrow> st' = st"
  using assms by (auto simp: LogObservation_def Let_def split: if_splits)

lemma task_step_log:
  assumes "task_step w ready now sid ph s = (r, s')" and "log_inv (mo_esLogger (wp_monService w)) (ms_log s)"
  shows "log_inv (mo_esLogger (wp_monService w)) (ms_log s') \<and> lg_closed (ms_log s') = lg_closed (ms_log s)
    \<and> lg_stopped (ms_log s') = lg_stopped (ms_log s) \<and> (\<forall>m. r = Panics m \<longrightarrow> lg_closed (ms_log s))"
proof (cases ph)
  case (LogPhase ok)
  obtain r1 lg where l: "LogObservation (mo_esLogger (wp_monService w)) ready now sid ok (ms_log s) = (r1, lg)" by fastforce
  then have "ms_log s' = lg" "r = Panics m \<Longrightarrow> r1 = Panics m" for m using assms(1) LogPhase by (auto split: go.splits)
  moreover have "log_inv (mo_esLogger (wp_monService w)) lg"
  proof (cases "lg_closed (ms_log s)")
    case True
    with assms(2) log_observation_panics(4) [OF l] show ?thesis by simp
  next
    case False
    with assms(2) have "\<not> lg_stopped (ms_log s)" by (auto simp: log_inv_def)
    with assms(2) log_observation_inv [OF _ _ l] show ?thesis by blast
  qed
  ultimately show ?thesis using log_observation_panics(1,2) [OF l] log_observation_panics(3) [OF l] by blast
qed (use assms in \<open>auto split: prod.splits sum.splits\<close>)

lemma pool_step_log:
  assumes "pool_step w p p'" and "log_inv (mo_esLogger (wp_monService w)) (ms_log (pc_state p))"
  shows "log_inv (mo_esLogger (wp_monService w)) (ms_log (pc_state p')) \<and> lg_closed (ms_log (pc_state p')) = lg_closed (ms_log (pc_state p))
    \<and> lg_stopped (ms_log (pc_state p')) = lg_stopped (ms_log (pc_state p)) \<and> (pc_crashed p' \<longrightarrow> lg_closed (ms_log (pc_state p)))"
  using assms(1)
proof cases
  case (take_task sid q ph s')
  then have "ms_log s' = ms_log (pc_state p)" by (auto simp: task_start_def split: prod.splits sum.splits)
  with take_task assms(2) show ?thesis by simp
next
  case (task_call xs sid ph ys ready now ph' s')
  with task_step_log [OF task_call(4) assms(2)] show ?thesis by simp
next
  case (task_panic xs sid ph ys ready now msg s')
  with task_step_log [OF task_panic(4) assms(2)] show ?thesis by simp
qed

lemma flusher_flags:
  "lg_closed (flusher_receive l st) = lg_closed st" "lg_closed (flusher_tick l st) = lg_closed st"
  by (auto simp: flusher_receive_def flusher_tick_def flush_batch_def split: list.split)

lemma mon_inv_log:
  assumes "mon_inv w a" and "mr_live a" and "log_inv (mo_esLogger (wp_monService w)) lg" and "lg_closed lg \<longleftrightarrow> st = Closing" and "st \<noteq> Exited"
  shows "mon_inv w (mon_with (a\<lparr>mr_stage := st\<rparr>) ((mr_state a)\<lparr>ms_log := lg\<rparr>))"
  using assms by (simp add: mon_inv_def mon_with_def)

lemma mon_step_inv: "mon_step env w a a' \<Longrightarrow> mon_inv w a \<Longrightarrow> mon_inv w a'"
proof (induction rule: mon_step.induct)
  case (mon_work a p)
  then have "log_inv (mo_esLogger (wp_monService w)) (ms_log (mr_state a))" by (simp add: mon_inv_def)
  from pool_step_log [OF mon_work(3) this] mon_work show ?case by (simp add: mon_inv_def)
next
  case (mon_flusher a lg')
  then have l: "log_inv (mo_esLogger (wp_monService w)) (ms_log (mr_state a))" by (simp add: mon_inv_def)
  have "log_inv (mo_esLogger (wp_monService w)) lg'"
    using mon_flusher(3) flusher_receive_inv [OF l mon_flusher(2)] log_step_inv [OF step_tick [OF mon_flusher(2)] l] by blast
  moreover have "lg_closed lg' = lg_closed (ms_log (mr_state a))" using mon_flusher(3) flusher_flags by metis
  then have "lg_closed lg' \<longleftrightarrow> mr_stage a = Closing" using mon_flusher(1,4) by (simp add: mon_inv_def)
  ultimately show ?case using mon_inv_log [OF mon_flusher(4,1), of lg' "mr_stage a"] mon_flusher(1) by simp
next
  case (mon_close a lg')
  then have "log_inv (mo_esLogger (wp_monService w)) (ms_log (mr_state a))" "\<not> lg_closed (ms_log (mr_state a))" by (simp_all add: mon_inv_def)
  moreover from this mon_close(3) have "lg' = (ms_log (mr_state a))\<lparr>lg_closed := True\<rparr>" by (simp add: close_channel_def)
  ultimately have "log_inv (mo_esLogger (wp_monService w)) lg' \<and> lg_closed lg'" by (simp add: log_inv_def)
  then show ?case using mon_inv_log [OF mon_close(4,1), of lg' Closing] by simp
next
  case (mon_cycle a now r serverIDs r')
  then show ?case by (simp add: mon_inv_def pool_init_def)
qed (simp_all add: mon_inv_def mon_with_def)

lemma late_ping:
  assumes "mon_inv w a" and "mr_stage a = Grace" and "mr_busy a" and "pc_running (mr_pool a) = xs @ (sid, PingPhase ip) # ys"
  shows "\<exists>a'. (mon_step env w)\<^sup>*\<^sup>* a a' \<and> pc_crashed (mr_pool a')"
proof -
  from assms(1,2) have live: "mr_live a" and open_log: "\<not> lg_closed (ms_log (mr_state a))" by (auto simp: mon_inv_def)
  let ?b = "mon_with (a\<lparr>mr_stage := Closing\<rparr>) ((mr_state a)\<lparr>ms_log := (ms_log (mr_state a))\<lparr>lg_closed := True\<rparr>\<rparr>)"
  have b: "mon_step env w a ?b"
    by (rule mon_close) (use live assms(2) open_log in \<open>simp_all add: close_channel_def\<close>)
  define ok where "ok = Ping (wp_probing w) (wp_privileged w) ip (wp_timeout w) (ms_net (mr_state ?b))"
  let ?p = "(mr_pool ?b)\<lparr>pc_running := xs @ keep_task sid (Some (LogPhase ok)) @ ys, pc_state := (mr_state ?b)\<lparr>ms_net := Suc (ms_net (mr_state ?b))\<rparr>\<rparr>"
  have "pool_step w (mr_pool ?b) ?p"
  proof (rule task_call)
    show "\<not> pc_crashed (mr_pool ?b)" "pc_running (mr_pool ?b) = xs @ (sid, PingPhase ip) # ys" using live assms(4) by (simp_all add: mon_with_def)
    show "task_step w False 0 sid (PingPhase ip) (mr_state ?b) = (Returns (Some (LogPhase ok)), (mr_state ?b)\<lparr>ms_net := Suc (ms_net (mr_state ?b))\<rparr>)"
      by (simp only: task_step.simps ok_def)
  qed
  then have c: "mon_step env w ?b (?b\<lparr>mr_pool := ?p\<rparr>)"
    using live assms(3) by (intro mon_work) (simp_all add: mon_with_def)
  have "pool_step w ?p (?p\<lparr>pc_crashed := True, pc_state := pc_state ?p\<rparr>)"
    by (rule task_panic [where ready = False and now = 0 and xs = xs and ys = ys and sid = sid and ph = "LogPhase ok"])
      (use live in \<open>simp_all add: mon_with_def keep_task_def LogObservation_def\<close>)
  then have d: "mon_step env w (?b\<lparr>mr_pool := ?p\<rparr>) (?b\<lparr>mr_pool := ?p\<rparr>\<lparr>mr_pool := ?p\<lparr>pc_crashed := True, pc_state := pc_state ?p\<rparr>\<rparr>)"
    using live assms(3) by (intro mon_work) (simp_all add: mon_with_def)
  from b c d have "(mon_step env w)\<^sup>*\<^sup>* a (?b\<lparr>mr_pool := ?p\<rparr>\<lparr>mr_pool := ?p\<lparr>pc_crashed := True, pc_state := pc_state ?p\<rparr>\<rparr>)"
    by (blast intro: converse_rtranclp_into_rtranclp)
  then show ?thesis by fastforce
qed

text \<open>C37: Whatever the scheduler, the workers of the pool and the flusher do around the shutdown of the monitoring worker: when
  the process has exited, every observation that the logger accepted has been flushed. A worker panics
  only after the logger was closed while its cycle was still running, and a ping that is under way
  when the grace ends can do so.\<close>

theorem monitoring_shutdown:
  assumes "mon_start env s0 = Returns a0" and "log_inv (mo_esLogger (wp_monService w)) (ms_log s0)" and "\<not> lg_closed (ms_log s0)"
    and "(mon_step env w)\<^sup>*\<^sup>* a0 a"
  shows "(mr_stage a = Exited \<longrightarrow> concat (lg_flushed (ms_log (mr_state a))) = lg_accepted (ms_log (mr_state a)))
    \<and> (pc_crashed (mr_pool a) \<longrightarrow> lg_closed (ms_log (mr_state a)) \<and> mr_stage a = Closing \<and> mr_busy a)
    \<and> (mr_stage a = Grace \<and> mr_busy a \<and> (sid, PingPhase ip) \<in> set (pc_running (mr_pool a)) \<longrightarrow>
         (\<exists>a'. (mon_step env w)\<^sup>*\<^sup>* a a' \<and> pc_crashed (mr_pool a')))"
proof -
  have "mon_inv w a0" using assms(1-3) by (auto simp: mon_start_def mon_inv_def pool_init_def split: if_splits)
  with assms(4) have inv: "mon_inv w a" by induction (blast intro: mon_step_inv)+
  then show ?thesis using late_ping [OF inv] by (auto simp: mon_inv_def log_inv_def in_set_conv_decomp)
qed

text \<open>An instance: the process is signalled with one observation in the channel and exits.\<close>

definition demo_exit_pool :: workerPool where
  "demo_exit_pool = demo_pool\<lparr>wp_monService := demo_monitor\<lparr>mo_esLogger := demo_logger\<rparr>\<rparr>"

definition demo_exit_log :: log_state where
  "demo_exit_log = demo_log\<lparr>lg_ch := [demo_obs], lg_accepted := [demo_obs]\<rparr>"

lemma demo_exit_inv: "log_inv (mo_esLogger (wp_monService demo_exit_pool)) demo_exit_log" "\<not> lg_closed demo_exit_log"
  by (simp_all add: demo_exit_pool_def demo_exit_log_def log_inv_def demo_logger_def demo_log_def)

lemma demo_interval: "0 < tick_interval (\<lambda>_. [])"
  by (simp add: tick_interval_def GetEnvDuration_def)

text \<open>The stages of the shutdown, with the logger that each of them leaves.\<close>

definition demo_at :: "mon_stage \<Rightarrow> log_state \<Rightarrow> mon_run" where
  "demo_at st lg = \<lparr>mr_stage = st, mr_busy = False, mr_pool = pool_init [] (demo_mon_state\<lparr>ms_log := lg\<rparr>)\<rparr>"

lemma demo_at_simps [simp]:
  "mr_stage (demo_at st lg) = st" "mr_busy (demo_at st lg) = False" "pc_crashed (mr_pool (demo_at st lg)) = False"
  "ms_log (mr_state (demo_at st lg)) = lg" "(demo_at st lg)\<lparr>mr_stage := st'\<rparr> = demo_at st' lg"
  "mon_with (demo_at st lg) ((mr_state (demo_at st lg))\<lparr>ms_log := lg'\<rparr>) = demo_at st lg'"
  by (simp_all add: demo_at_def pool_init_def mon_with_def)

lemma demo_flush: "\<not> lg_stopped lg \<Longrightarrow> mon_step env w (demo_at Closing lg) (demo_at Closing (flusher_receive (mo_esLogger (wp_monService w)) lg))"
  using mon_flusher [of "demo_at Closing lg" "flusher_receive (mo_esLogger (wp_monService w)) lg" w env] by simp

lemma demo_exit:
  fixes w defines "l \<equiv> mo_esLogger (wp_monService w)"
  assumes "\<not> lg_closed lg" and "lg1 = flusher_receive l (lg\<lparr>lg_closed := True\<rparr>)" and "\<not> lg_stopped lg" and "\<not> lg_stopped lg1"
    and "lg2 = flusher_receive l lg1" and "lg_stopped lg2"
  shows "(mon_step env w)\<^sup>*\<^sup>* (demo_at Ticking lg) (demo_at Exited lg2)"
proof -
  have "mon_step env w (demo_at Ticking lg) (demo_at Grace lg)" using mon_signal [of "demo_at Ticking lg"] by simp
  moreover have "mon_step env w (demo_at Grace lg) (demo_at Closing (lg\<lparr>lg_closed := True\<rparr>))"
    using mon_close [of "demo_at Grace lg" "lg\<lparr>lg_closed := True\<rparr>" env w] assms(2)
    by (simp add: close_channel_def) (simp add: demo_at_def mon_with_def pool_init_def)
  moreover have "mon_step env w (demo_at Closing (lg\<lparr>lg_closed := True\<rparr>)) (demo_at Closing lg1)"
    using demo_flush [of "lg\<lparr>lg_closed := True\<rparr>" env w] assms by simp
  moreover have "mon_step env w (demo_at Closing lg1) (demo_at Closing lg2)" using demo_flush [of lg1 env w] assms by simp
  moreover have "mon_step env w (demo_at Closing lg2) (demo_at Exited lg2)" using mon_exit [of "demo_at Closing lg2"] assms by simp
  ultimately show ?thesis by (meson converse_rtranclp_into_rtranclp rtranclp.rtrancl_refl)
qed

theorem monitoring_shutdown_witness:
  "\<exists>lg. (mon_step (\<lambda>_. []) demo_exit_pool)\<^sup>*\<^sup>* (demo_at Ticking demo_exit_log) (demo_at Exited lg)
     \<and> concat (lg_flushed lg) = [demo_obs]"
proof -
  let ?l = "mo_esLogger (wp_monService demo_exit_pool)"
  define lg1 where "lg1 = flusher_receive ?l (demo_exit_log\<lparr>lg_closed := True\<rparr>)"
  define lg2 where "lg2 = flusher_receive ?l lg1"
  have lg1: "lg_ch lg1 = []" "lg_closed lg1" "\<not> lg_stopped lg1" "\<not> lg_stopped demo_exit_log" "lg_accepted lg1 = [demo_obs]"
    by (simp_all add: lg1_def demo_exit_log_def flusher_receive_def demo_log_def)
  then have lg2: "lg_stopped lg2" "lg_accepted lg2 = [demo_obs]" by (simp_all add: lg2_def flusher_receive_def flush_batch_def)
  have run: "(mon_step (\<lambda>_. []) demo_exit_pool)\<^sup>*\<^sup>* (demo_at Ticking demo_exit_log) (demo_at Exited lg2)"
    by (rule demo_exit [OF demo_exit_inv(2) lg1_def lg1(4,3) lg2_def lg2(1)])
  have start: "mon_start (\<lambda>_. []) (demo_mon_state\<lparr>ms_log := demo_exit_log\<rparr>) = Returns (demo_at Ticking demo_exit_log)"
    using demo_interval by (simp add: mon_start_def demo_at_def)
  have "concat (lg_flushed lg2) = lg_accepted lg2"
    using monitoring_shutdown [OF start _ _ run] demo_exit_inv by simp
  with run lg2(2) show ?thesis by auto
qed

end
