(* ===== verification/Spec2Isabelle.thy ===== *)
theory Spec2Isabelle
  imports Cycles Report_Figures Http_Props Platform Simulator_Props Lifecycle_Props
begin

text \<open>
  A verification library for the server management service, a Go program of three processes that
  share a Postgres database, a Redis server and an Elasticsearch index:

  \<^item> the API (\<open>cmd/api\<close>, \<open>internal/app\<close>): a gRPC server with an HTTP gateway and two REST routes, for
    logins, the list of servers, its import and export, and report requests;
  \<^item> the monitoring worker (\<open>cmd/monitoring-worker\<close>, \<open>internal/app/monitoring\<close>): pings every server in
    cycles, keeps the state of each in Redis and Postgres, and logs every observation;
  \<^item> the daily scheduler (\<open>cmd/daily-scheduler\<close>, \<open>internal/app/scheduler\<close>): requests a report on the day
    before.

  Beside them there is a simulator of a network of servers (\<open>cmd/simulator\<close>): a service that makes
  addresses unreachable, a program that fills the stores with servers at these addresses, and one that
  toggles addresses and runs the monitoring pool in rounds.

  All names below are relative to \<open>src/\<close>. Definitions keep the names of the functions they translate.

  \<^bold>\<open>How the code is modelled.\<close>
  A struct is a record, a sentinel error a constructor of an error type, a fallible function returns a
  sum with the error on the left. A function that can panic returns \<^typ>\<open>'a go\<close>, so that a panic and an
  error are different results. State is passed explicitly; a goroutine, a channel or a process that runs
  beside another is a step relation whose steps are the single calls of the code on shared state.
  Strings are byte lists, \<open>int\<close> is an integer with the wrap-around of 64 bits written out where a value
  is computed, \<open>time.Time\<close> counts nanoseconds since the first of January of the year 1, \<open>float64\<close> is an
  exact rational that is rounded after every operation. A nil pointer in a non-nil interface is the
  value \<open>TypedNil\<close>. Time, random bytes and fresh UUIDs are arguments.

  \<^bold>\<open>What is a parameter.\<close>
  Third-party code is a record of functions: \<open>gorm\<close>, \<open>go-redis\<close>, the Elasticsearch client, \<open>jwt\<close>,
  \<open>uuid\<close>, \<open>bcrypt\<close>, \<open>redis_rate\<close>, \<open>protovalidate\<close>, \<open>excelize\<close>, \<open>pro-bing\<close>, the runtime of \<open>grpc-gateway\<close>,
  \<open>net/smtp\<close> servers. What the code
  relies on is a locale: \<open>gorm_table\<close> (a statement that reports success did what it says, one that
  reports an error changed nothing, unique indexes hold), \<open>redis_client\<close>, \<open>jwt_lib\<close>, \<open>es_bulk\<close>,
  \<open>nft_set\<close> (what the program \<open>nft\<close> does to a set and what it prints), \<open>gateway_runtime\<close> (which handler the mux
  selects, which headers become metadata, what the writers of responses forward), \<open>gorm_transaction\<close>. Each is
  interpreted on a reference engine with an arbitrary schedule of failures, so that the laws are
  consistent and the witnesses run on it.

  \<^bold>\<open>The theories.\<close>
  Go and its library:
  \<^item> \<open>Go_Base\<close> (sums, panics, integers, durations, \<open>strings\<close>, \<open>strconv\<close>), \<open>Go_Net\<close> (\<open>net.ParseIP\<close>,
    \<open>SplitHostPort\<close>), \<open>Go_Time\<close> (calendar, parsing and printing of dates, and that they are inverse),
    \<open>Go_Float\<close> (rounding, \<open>time.ParseDuration\<close>), \<open>Go_Crypto\<close> (SHA-256, hexadecimal), all executable;
  \<^item> \<open>Stores\<close>: tables and Redis, their contracts and reference engines.

  Identity (\<open>internal/infrastructure/security\<close>, \<open>internal/modules/identity\<close>):
  \<^item> \<open>Security\<close> (roles, permissions, tokens, authenticator, CSRF) and \<open>Identity\<close> (users, sessions,
    refresh tokens, \<open>Login\<close>, \<open>Refresh\<close>, \<open>Logout\<close>, \<open>LogoutAll\<close>);
  \<^item> \<open>Identity_Props\<close>: a rotated refresh token is never accepted again, reuse of a revoked one closes
    every session, how long a logout is enforced, what a login stores and when it is refused, that its
    token authenticates, and that a refresh hides a failed insertion.

  Servers (\<open>internal/modules/server_management\<close>, \<open>internal/infrastructure/redis\<close>):
  \<^item> \<open>Server_Cache\<close> (the hashes and the set in Redis, also as the state store of monitoring, locale
    \<open>server_state_store\<close>), \<open>Server_Mgmt\<close> (domain, repository, service), \<open>Import_Export\<close>;
  \<^item> \<open>Server_Props\<close>, \<open>Server_Spec\<close>: the outcome of every operation on every branch, that a table stays well
    formed and the cache in step with it over any sequence of requests, what an import does with every
    row, what a search returns.

  Monitoring (\<open>internal/modules/monitoring\<close>, \<open>internal/app/monitoring\<close>, \<open>observation_logger.go\<close>):
  \<^item> \<open>Observation\<close>: the buffered logger as a step relation; no accepted observation is lost or
    reordered, a shutdown flushes everything, what a flush delivers;
  \<^item> \<open>Monitoring\<close>: the state machine of a server, the pinger, the pool of workers as interleaved calls,
    the lock, the cycle, the start;
  \<^item> \<open>Monitoring_Props\<close>: the state machine refines a function of the observations of a server;
    \<open>Monitoring_Pool\<close>: a pool ends, and its result does not depend on the interleaving; \<open>Cycles\<close>: two cycles
    are at least the expiration of the lock apart, and two defects of the configuration and the counters;
  \<^item> \<open>System\<close>: requests of the API and calls of the workers interleaved keep table and cache consistent.

  Reports (\<open>internal/modules/reporting\<close>, \<open>internal/modules/notification\<close>, \<open>uptime_calculator.go\<close>):
  \<^item> \<open>Notification\<close> (messages, the SMTP dialogue), \<open>Reporting\<close> (requests, figures, the channel and the
    workers as a step relation);
  \<^item> \<open>Reporting_Props\<close>: rows follow jobs under any interleaving and any failures, the workers drain what
    was requested, what one run leaves; \<open>Report_Figures\<close>: bounds of the figures and the days of a period.

  The API (\<open>internal/shared\<close>, \<open>internal/infrastructure/gateway\<close>, \<open>internal/app\<close>, the handlers):
  \<^item> \<open>Config\<close> (every loader), \<open>Rate_Limit\<close> (keys, policies, limiter), \<open>Middlewares\<close> (the interceptors
    and their chain, the gateway's matchers and cookie middleware), \<open>Handlers\<close> (the gRPC handlers on
    the state of the whole application), \<open>Rest\<close> (import and export over REST, their middlewares, the
    routes), \<open>App\<close> (seeding, the construction of the API and of the scheduler, the daily job);
  \<^item> \<open>Middlewares_Props\<close>: the contract \<open>gate\<close> of an interceptor, closed under chaining, and from it that
    no call of a protected method reaches its handler without an accepted token and the permission;
    \<open>Handlers_Props\<close>: the kinds of answers, the cookie of a token, the outcomes of the REST import;
    \<open>App_Props\<close>: from a login to a later call, the API without Redis, the period of the daily report;
  \<^item> \<open>Gateway\<close> (\<open>gen/go/*/v1/*.pb.gw.go\<close>, \<open>grpc_gateway.go\<close>): the requests, patterns and registered handlers of
    the generated gateway and the HTTP server that \<open>Run\<close> builds from them; \<open>Gateway_Props\<close>: the gateway
    implements the HTTP annotations of the \<open>.proto\<close> files; \<open>Http_Props\<close>: a request followed from the HTTP mux to
    the tables: what it needs to change them, the session that the cookie of a login carries, that the check of
    CSRF tokens never applies, and that the signal closes the gateway;
  \<^item> \<open>Platform\<close>: the single connection of a process, transactions, the settings of the logger, the check of
    the mail server;
  \<^item> \<open>Lifecycle\<close> (\<open>run.go\<close>, start and stop of the daily scheduler, the method \<open>Run\<close> of the monitoring worker:
    signals, the shutdown and what runs beside it, as step relations) and \<open>Lifecycle_Props\<close>: what the
    shutdown of the API and of the scheduler leaves of the reports, and that the monitoring worker exits
    with everything flushed or crashes in the pool.

  The simulator (\<open>cmd/simulator\<close>):
  \<^item> \<open>Simulator\<close>: the service with its flapper, the seeding, the simulation runs;
  \<^item> \<open>Simulator_Props\<close>: the addresses, that the listing of \<open>nft\<close> is read back, what a round of the flapper
    and a round of toggles over HTTP do to the set, that the seeding agrees with the service, and what
    a whole run leaves.

  \<^bold>\<open>Bounds.\<close>
  No definition uses fuel: loops are structural recursions or have a termination proof, and the loops
  that wait for events are step relations. \<open>scan_space\<close>, \<open>strip_all\<close> and \<open>duration_terms\<close> recurse on
  shorter strings.

  \<^bold>\<open>Not modelled.\<close>
  The messages and stubs that \<open>protoc\<close> generates (\<open>gen/\<close>): they are the types \<open>request\<close> and \<open>response\<close> and the
  functions \<open>method_of\<close> and \<open>dispatch\<close>; of the gateway, the variant that calls a server in the same process,
  which the program does not register. The mocks (\<open>mock/\<close>), written for tests, and the script
  \<open>scripts/calc_cov.go\<close>, which adds up a coverage profile. The migration of the schema, the encoders of the
  logger, the listeners and the \<open>main\<close> functions: calls of the operating system and of libraries. The context of
  a request is not cancelled within a call; that of the report workers and of the connections of the gateway is,
  by the signal.
\<close>

end
